(* ===== verification/Prelude.thy ===== *)
theory Prelude
  imports Main "HOL-Library.Word" "HOL-Library.Char_ord" "HOL-Library.List_Lexorder"
    "HOL-Library.Product_Lexorder" "HOL-Library.Multiset"
begin

text \<open>
  Shared vocabulary of the development.

  A Go function that reads or writes the chain state is an operation: a function from a state to
  an outcome.  The outcome is \<open>Ok\<close> (the function returned with a nil error), \<open>Err\<close> (it returned a
  non-nil error; the writes made before stay in the state, as they do in Go until a caller drops
  the cached context) or \<open>Panic\<close>.  Format arguments of error and panic messages are left out; the
  constant text is kept.  Logging, event emission and gas are not part of the state.
\<close>

named_theorems run "equations that execute operations and invert their outcomes"
named_theorems keeps_rules "preservation of a state predicate by an operation"

type_synonym uint64 = "64 word"
type_synonym byte = "8 word"
type_synonym bytes = "8 word list"

section \<open>Errors and outcomes\<close>

datatype error =
    ErrInternal | ErrDuplicate | ErrInvalid | ErrTimeout | ErrUnknown | ErrEmpty | ErrOutdated
  | ErrUnsupported | ErrNonContiguousEventNonce | ErrResetDelegateKeys | ErrMismatched
  | ErrNoValidators | ErrInvalidValAddress | ErrInvalidEthAddress | ErrInvalidValset
  | ErrDuplicateEthereumKey | ErrDuplicateOrchestratorKey | ErrInvalidAttestation
  | ErrInvalidClaim | ErrInvalidLogicCall | ErrParamsNotFound | ErrInvalidDenom
  | SdkErr string     \<comment> \<open>an error registered by another module, by its name\<close>
  | ErrorMsg string   \<comment> \<open>\<open>fmt.Errorf\<close> and \<open>errors.New\<close>\<close>
  | Wrapped error string

datatype ('a, 's) outcome = Ok 'a 's | Err error 's | Panic string

type_synonym ('s, 'a) op = "'s \<Rightarrow> ('a, 's) outcome"

definition Wrap :: "error option \<Rightarrow> string \<Rightarrow> error option" where
  "Wrap e msg = map_option (\<lambda>x. Wrapped x msg) e"

definition return :: "'a \<Rightarrow> ('s, 'a) op" where
  "return a = (\<lambda>s. Ok a s)"

definition fail :: "error \<Rightarrow> ('s, 'a) op" where
  "fail e = (\<lambda>s. Err e s)"

definition panic :: "string \<Rightarrow> ('s, 'a) op" where
  "panic msg = (\<lambda>s. Panic msg)"

definition bind :: "('s, 'a) op \<Rightarrow> ('a \<Rightarrow> ('s, 'b) op) \<Rightarrow> ('s, 'b) op" where
  "bind m f = (\<lambda>s. case m s of Ok a t \<Rightarrow> f a t | Err e t \<Rightarrow> Err e t | Panic msg \<Rightarrow> Panic msg)"

definition reads :: "('s \<Rightarrow> 'a) \<Rightarrow> ('s, 'a) op" where
  "reads f = (\<lambda>s. Ok (f s) s)"

definition modify :: "('s \<Rightarrow> 's) \<Rightarrow> ('s, unit) op" where
  "modify f = (\<lambda>s. Ok () (f s))"

text \<open>A returned error that the caller wraps, replaces, or turns into a panic.\<close>

definition mapErr :: "(error \<Rightarrow> error) \<Rightarrow> ('s, 'a) op \<Rightarrow> ('s, 'a) op" where
  "mapErr h m = (\<lambda>s. case m s of Ok a t \<Rightarrow> Ok a t | Err e t \<Rightarrow> Err (h e) t | Panic p \<Rightarrow> Panic p)"

definition wrapErr :: "string \<Rightarrow> ('s, 'a) op \<Rightarrow> ('s, 'a) op" where
  "wrapErr msg = mapErr (\<lambda>e. Wrapped e msg)"

definition orPanic :: "string \<Rightarrow> ('s, 'a) op \<Rightarrow> ('s, 'a) op" where
  "orPanic msg m = (\<lambda>s. case m s of Ok a t \<Rightarrow> Ok a t | Err e t \<Rightarrow> Panic msg | Panic p \<Rightarrow> Panic p)"

text \<open>A returned error that the caller inspects: \<open>attempt m\<close> always returns, with the error as a value.\<close>

definition attempt :: "('s, 'a) op \<Rightarrow> ('s, error + 'a) op" where
  "attempt m = (\<lambda>s. case m s of Ok a t \<Rightarrow> Ok (Inr a) t | Err e t \<Rightarrow> Ok (Inl e) t | Panic p \<Rightarrow> Panic p)"

text \<open>Fallible functions that do not touch the state.\<close>

definition lift :: "error + 'a \<Rightarrow> ('s, 'a) op" where
  "lift r = (case r of Inl e \<Rightarrow> fail e | Inr a \<Rightarrow> return a)"

definition check :: "error option \<Rightarrow> ('s, unit) op" where
  "check r = (case r of Some e \<Rightarrow> fail e | None \<Rightarrow> return ())"

definition panicIf :: "bool \<Rightarrow> string \<Rightarrow> ('s, unit) op" where
  "panicIf b msg = (if b then panic msg else return ())"

definition failIf :: "bool \<Rightarrow> error \<Rightarrow> ('s, unit) op" where
  "failIf b e = (if b then fail e else return ())"

text \<open>Fallible pure functions compose in the sum type.\<close>

definition bindE :: "error + 'a \<Rightarrow> ('a \<Rightarrow> error + 'b) \<Rightarrow> error + 'b" where
  "bindE r f = (case r of Inl e \<Rightarrow> Inl e | Inr a \<Rightarrow> f a)"

definition wrapE :: "string \<Rightarrow> error + 'a \<Rightarrow> error + 'a" where
  "wrapE msg r = (case r of Inl e \<Rightarrow> Inl (Wrapped e msg) | Inr a \<Rightarrow> Inr a)"

fun mapE :: "('a \<Rightarrow> error + 'b) \<Rightarrow> 'a list \<Rightarrow> error + 'b list" where
  "mapE f [] = Inr []"
| "mapE f (x # xs) = bindE (f x) (\<lambda>y. bindE (mapE f xs) (\<lambda>ys. Inr (y # ys)))"

text \<open>
  Loops.  \<open>iterM\<close> is a store iteration whose callback returns true to stop early and whose
  captured variables are the accumulator; \<open>foldM\<close> and \<open>forM\<close> are \<open>range\<close> loops.
\<close>

fun iterM :: "('a \<Rightarrow> 'b \<Rightarrow> ('s, bool \<times> 'b) op) \<Rightarrow> 'a list \<Rightarrow> 'b \<Rightarrow> ('s, 'b) op" where
  "iterM cb [] acc = return acc"
| "iterM cb (x # xs) acc =
     bind (cb x acc) (\<lambda>(stop, acc'). if stop then return acc' else iterM cb xs acc')"

fun foldM :: "('a \<Rightarrow> 'b \<Rightarrow> ('s, 'b) op) \<Rightarrow> 'a list \<Rightarrow> 'b \<Rightarrow> ('s, 'b) op" where
  "foldM f [] acc = return acc"
| "foldM f (x # xs) acc = bind (f x acc) (\<lambda>acc'. foldM f xs acc')"

fun forM :: "'a list \<Rightarrow> ('a \<Rightarrow> ('s, unit) op) \<Rightarrow> ('s, unit) op" where
  "forM [] f = return ()"
| "forM (x # xs) f = bind (f x) (\<lambda>_. forM xs f)"

section \<open>Executing operations\<close>

lemma return_run [run, simp]: "return a s = Ok a s"
  by (simp add: return_def)

lemma fail_run [run, simp]: "fail e s = Err e s"
  by (simp add: fail_def)

lemma panic_run [run, simp]: "panic p s = Panic p"
  by (simp add: panic_def)

lemma reads_run [run, simp]: "reads f s = Ok (f s) s"
  by (simp add: reads_def)

lemma modify_run [run, simp]: "modify f s = Ok () (f s)"
  by (simp add: modify_def)

lemma bind_run: "bind m f s = (case m s of Ok a t \<Rightarrow> f a t | Err e t \<Rightarrow> Err e t | Panic p \<Rightarrow> Panic p)"
  by (simp add: bind_def)

lemma bind_return [simp]: "bind (return a) f = f a"
  by (simp add: bind_def fun_eq_iff)

lemma bind_fail [simp]: "bind (fail e) f = fail e"
  by (simp add: bind_def fun_eq_iff)

lemma bind_panic [simp]: "bind (panic p) f = panic p"
  by (simp add: bind_def fun_eq_iff)

lemma bind_assoc: "bind (bind m f) g = bind m (\<lambda>a. bind (f a) g)"
  by (simp add: bind_def fun_eq_iff split: outcome.splits)

lemma bind_reads [run, simp]: "bind (reads g) f s = f (g s) s"
  by (simp add: bind_def)

lemma bind_modify [run, simp]: "bind (modify g) f s = f () (g s)"
  by (simp add: bind_def)

lemma bind_Ok [run]: "bind m f s = Ok b u \<longleftrightarrow> (\<exists>a t. m s = Ok a t \<and> f a t = Ok b u)"
  by (simp add: bind_def split: outcome.splits)

lemma bind_Err [run]:
  "bind m f s = Err e u \<longleftrightarrow> m s = Err e u \<or> (\<exists>a t. m s = Ok a t \<and> f a t = Err e u)"
  by (auto simp: bind_def split: outcome.splits)

lemma bind_Panic [run]:
  "bind m f s = Panic p \<longleftrightarrow> m s = Panic p \<or> (\<exists>a t. m s = Ok a t \<and> f a t = Panic p)"
  by (auto simp: bind_def split: outcome.splits)

lemma bind_step: "m s = Ok a t \<Longrightarrow> bind m f s = f a t"
  by (simp add: bind_def)

lemma mapErr_Ok [run]: "mapErr h m s = Ok a t \<longleftrightarrow> m s = Ok a t"
  by (auto simp: mapErr_def split: outcome.splits)

lemma mapErr_Err [run]: "mapErr h m s = Err e t \<longleftrightarrow> (\<exists>e'. m s = Err e' t \<and> e = h e')"
  by (auto simp: mapErr_def split: outcome.splits)

lemma mapErr_Panic [run]: "mapErr h m s = Panic p \<longleftrightarrow> m s = Panic p"
  by (auto simp: mapErr_def split: outcome.splits)

lemma wrapErr_Ok [run]: "wrapErr msg m s = Ok a t \<longleftrightarrow> m s = Ok a t"
  by (simp add: wrapErr_def run)

lemma wrapErr_Err [run]: "wrapErr msg m s = Err e t \<longleftrightarrow> (\<exists>e'. m s = Err e' t \<and> e = Wrapped e' msg)"
  by (simp add: wrapErr_def run)

lemma wrapErr_Panic [run]: "wrapErr msg m s = Panic p \<longleftrightarrow> m s = Panic p"
  by (simp add: wrapErr_def run)

lemma orPanic_Ok [run]: "orPanic msg m s = Ok a t \<longleftrightarrow> m s = Ok a t"
  by (auto simp: orPanic_def split: outcome.splits)

lemma orPanic_Err [run, simp]: "orPanic msg m s \<noteq> Err e t"
  by (auto simp: orPanic_def split: outcome.splits)

lemma attempt_Ok [run]:
  "attempt m s = Ok r t \<longleftrightarrow> (\<exists>a. m s = Ok a t \<and> r = Inr a) \<or> (\<exists>e. m s = Err e t \<and> r = Inl e)"
  by (auto simp: attempt_def split: outcome.splits)

lemma bind_attempt:
  "bind (attempt m) f s = (case m s of Ok a t \<Rightarrow> f (Inr a) t | Err e t \<Rightarrow> f (Inl e) t | Panic p \<Rightarrow> Panic p)"
  by (simp add: bind_def attempt_def split: outcome.splits)

lemma attempt_Err [run, simp]: "attempt m s \<noteq> Err e t"
  by (auto simp: attempt_def split: outcome.splits)

lemma lift_Ok [run]: "lift r s = Ok a t \<longleftrightarrow> r = Inr a \<and> t = s"
  by (auto simp: lift_def split: sum.splits)

lemma lift_Err [run]: "lift r s = Err e t \<longleftrightarrow> r = Inl e \<and> t = s"
  by (auto simp: lift_def split: sum.splits)

lemma lift_Inr [simp]: "lift (Inr a) = return a"
  by (simp add: lift_def)

lemma lift_Inl [simp]: "lift (Inl e) = fail e"
  by (simp add: lift_def)

lemma check_Ok [run]: "check r s = Ok a t \<longleftrightarrow> r = None \<and> t = s"
  by (auto simp: check_def split: option.splits)

lemma check_Err [run]: "check r s = Err e t \<longleftrightarrow> r = Some e \<and> t = s"
  by (auto simp: check_def split: option.splits)

lemma check_None [simp]: "check None = return ()"
  by (simp add: check_def)

lemma check_Some [simp]: "check (Some e) = fail e"
  by (simp add: check_def)

lemma panicIf_Ok [run]: "panicIf b p s = Ok a t \<longleftrightarrow> \<not> b \<and> t = s"
  by (auto simp: panicIf_def)

lemma panicIf_Err [run, simp]: "panicIf b p s \<noteq> Err e t"
  by (auto simp: panicIf_def)

lemma failIf_Ok [run]: "failIf b e s = Ok a t \<longleftrightarrow> \<not> b \<and> t = s"
  by (auto simp: failIf_def)

lemma failIf_Err [run]: "failIf b e s = Err e' t \<longleftrightarrow> b \<and> e' = e \<and> t = s"
  by (auto simp: failIf_def)

lemma panicIf_simps [simp]: "panicIf True p = panic p" "panicIf False p = return ()"
  by (simp_all add: panicIf_def)

lemma failIf_simps [simp]: "failIf True e = fail e" "failIf False e = return ()"
  by (simp_all add: failIf_def)

lemma wrap_laws [simp]:
  "mapErr h (return a) = return a" "wrapErr msg (return a) = return a"
  "orPanic msg (return a) = return a" "attempt (return a) = return (Inr a)"
  "mapErr h (fail e) = fail (h e)" "wrapErr msg (fail e) = fail (Wrapped e msg)"
  "orPanic msg (fail e) = panic msg" "attempt (fail e) = return (Inl e)"
  by (simp_all add: mapErr_def wrapErr_def orPanic_def attempt_def fun_eq_iff)

text \<open>
  The simplifier contracts \<open>return a\<close> to the constructor \<open>Ok a\<close> (and \<open>fail e\<close> to \<open>Err e\<close>), so the laws
  are also stated for the constructors.
\<close>

lemma constructor_laws [simp]:
  "bind (Ok a) f = f a" "bind (Err e) f = Err e"
  "mapErr h (Ok a) = Ok a" "wrapErr msg (Ok a) = Ok a" "orPanic msg (Ok a) = Ok a"
  "attempt (Ok a) = Ok (Inr a)"
  "mapErr h (Err e) = Err (h e)" "wrapErr msg (Err e) = Err (Wrapped e msg)"
  "attempt (Err e) = Ok (Inl e)"
  by (simp_all add: bind_def mapErr_def wrapErr_def orPanic_def attempt_def fun_eq_iff)

lemma bindE_Inr [simp]: "bindE (Inr a) f = f a" and bindE_Inl [simp]: "bindE (Inl e) f = Inl e"
  by (simp_all add: bindE_def)

lemma bindE_eq_Inr: "bindE r f = Inr b \<longleftrightarrow> (\<exists>a. r = Inr a \<and> f a = Inr b)"
  by (auto simp: bindE_def split: sum.splits)

lemma wrapE_Inr [simp]: "wrapE m (Inr a) = Inr a" and wrapE_Inl [simp]: "wrapE m (Inl e) = Inl (Wrapped e m)"
  by (simp_all add: wrapE_def)

lemma wrapE_eq_Inr: "wrapE m r = Inr a \<longleftrightarrow> r = Inr a"
  by (auto simp: wrapE_def split: sum.splits)

lemma mapE_Inr_all: "(\<And>x. x \<in> set xs \<Longrightarrow> f x = Inr (g x)) \<Longrightarrow> mapE f xs = Inr (map g xs)"
  by (induction xs) simp_all

lemma mapE_round_trip: "(\<And>x. x \<in> set xs \<Longrightarrow> f (g x) = Inr x) \<Longrightarrow> mapE f (map g xs) = Inr xs"
  by (induction xs) simp_all

lemma mapE_Inr_set: "mapE f xs = Inr ys \<Longrightarrow> y \<in> set ys \<Longrightarrow> \<exists>x \<in> set xs. f x = Inr y"
  by (induction xs arbitrary: ys) (auto simp: bindE_eq_Inr)

section \<open>Preservation\<close>

text \<open>
  \<open>keeps I m\<close>: the operation carries the state predicate \<open>I\<close> to every state it leaves behind,
  on success and on error.  A panic leaves no state: the transaction or the block is dropped.
\<close>

definition keeps :: "('s \<Rightarrow> bool) \<Rightarrow> ('s, 'a) op \<Rightarrow> bool" where
  "keeps I m \<longleftrightarrow> (\<forall>s. I s \<longrightarrow> (\<forall>a t. m s = Ok a t \<longrightarrow> I t) \<and> (\<forall>e t. m s = Err e t \<longrightarrow> I t))"

lemma keepsI:
  assumes "\<And>s a t. I s \<Longrightarrow> m s = Ok a t \<Longrightarrow> I t"
    and "\<And>s e t. I s \<Longrightarrow> m s = Err e t \<Longrightarrow> I t"
  shows "keeps I m"
  unfolding keeps_def using assms by blast

lemma keeps_Ok: "keeps I m \<Longrightarrow> I s \<Longrightarrow> m s = Ok a t \<Longrightarrow> I t"
  and keeps_Err: "keeps I m \<Longrightarrow> I s \<Longrightarrow> m s = Err e t \<Longrightarrow> I t"
  unfolding keeps_def by blast+

lemma keeps_return [keeps_rules]: "keeps I (return a)"
  and keeps_fail [keeps_rules]: "keeps I (fail e)"
  and keeps_panic [keeps_rules]: "keeps I (panic p)"
  and keeps_reads [keeps_rules]: "keeps I (reads f)"
  and keeps_lift [keeps_rules]: "keeps I (lift r)"
  and keeps_check [keeps_rules]: "keeps I (check c)"
  and keeps_panicIf [keeps_rules]: "keeps I (panicIf b p)"
  and keeps_failIf [keeps_rules]: "keeps I (failIf b e)"
  by (simp_all add: keeps_def lift_Ok lift_Err check_Ok check_Err panicIf_Ok failIf_Ok failIf_Err)

lemma keeps_constructors [keeps_rules]: "keeps I (Ok a)" "keeps I (Err e)"
  by (simp_all add: keeps_def)

lemma keeps_modify: "(\<And>s. I s \<Longrightarrow> I (g s)) \<Longrightarrow> keeps I (modify g)"
  by (simp add: keeps_def)

lemma keeps_bind [keeps_rules]: "keeps I m \<Longrightarrow> (\<And>a. keeps I (f a)) \<Longrightarrow> keeps I (bind m f)"
  unfolding keeps_def bind_Ok bind_Err by metis

lemma keeps_mapErr [keeps_rules]: "keeps I m \<Longrightarrow> keeps I (mapErr h m)"
  by (rule keepsI) (auto simp only: mapErr_Ok mapErr_Err elim: keeps_Ok keeps_Err)

lemma keeps_wrapErr [keeps_rules]: "keeps I m \<Longrightarrow> keeps I (wrapErr msg m)"
  by (simp add: wrapErr_def keeps_mapErr)

lemma keeps_orPanic [keeps_rules]: "keeps I m \<Longrightarrow> keeps I (orPanic msg m)"
  by (rule keepsI) (auto simp only: orPanic_Ok orPanic_Err elim: keeps_Ok keeps_Err)

lemma keeps_attempt [keeps_rules]: "keeps I m \<Longrightarrow> keeps I (attempt m)"
  by (rule keepsI) (auto simp only: attempt_Ok attempt_Err elim: keeps_Ok keeps_Err)

lemma keeps_if [keeps_rules]: "keeps I m \<Longrightarrow> keeps I n \<Longrightarrow> keeps I (if b then m else n)"
  by simp

lemma keeps_case_option [keeps_rules]:
  "keeps I n \<Longrightarrow> (\<And>a. keeps I (f a)) \<Longrightarrow> keeps I (case x of None \<Rightarrow> n | Some a \<Rightarrow> f a)"
  by (simp split: option.split)

lemma keeps_case_sum [keeps_rules]:
  "(\<And>e. keeps I (f e)) \<Longrightarrow> (\<And>a. keeps I (g a)) \<Longrightarrow> keeps I (case x of Inl e \<Rightarrow> f e | Inr a \<Rightarrow> g a)"
  by (simp split: sum.split)

lemma keeps_case_prod [keeps_rules]:
  "(\<And>a b. keeps I (f a b)) \<Longrightarrow> keeps I (case x of (a, b) \<Rightarrow> f a b)"
  by (simp split: prod.split)

lemma keeps_case_prod2 [keeps_rules]:
  "(\<And>a b. keeps I (f a b y)) \<Longrightarrow> keeps I ((case x of (a, b) \<Rightarrow> f a b) y)"
  by (simp split: prod.split)

lemma keeps_Let [keeps_rules]: "(\<And>a. keeps I (f a)) \<Longrightarrow> keeps I (Let x f)"
  by simp

lemma keeps_iterM [keeps_rules]: "(\<And>x acc. keeps I (cb x acc)) \<Longrightarrow> keeps I (iterM cb xs acc)"
  by (induction xs arbitrary: acc)
    (simp_all add: keeps_return keeps_bind keeps_case_prod keeps_if)

lemma keeps_foldM [keeps_rules]: "(\<And>x acc. keeps I (f x acc)) \<Longrightarrow> keeps I (foldM f xs acc)"
  by (induction xs arbitrary: acc) (simp_all add: keeps_return keeps_bind)

lemma keeps_forM [keeps_rules]: "(\<And>x. keeps I (f x)) \<Longrightarrow> keeps I (forM xs f)"
  by (induction xs) (simp_all add: keeps_return keeps_bind)

text \<open>Loops: an invariant of the steps actually taken, sequences, nesting, and callbacks without effects.\<close>

lemma forM_inv:
  assumes "forM xs f c = Ok u c'" "P c" "\<And>x d d'. x \<in> set xs \<Longrightarrow> P d \<Longrightarrow> f x d = Ok () d' \<Longrightarrow> P d'"
  shows "P c'"
  using assms
proof (induction xs arbitrary: c)
  case (Cons x xs)
  then obtain d where "f x c = Ok () d" "forM xs f d = Ok u c'"
    by (auto simp: bind_Ok)
  then show ?case
    using Cons.prems(2,3) Cons.IH [of d] by auto
qed simp

lemma forM_append: "forM (xs @ ys) f = bind (forM xs f) (\<lambda>_. forM ys f)"
  by (induction xs) (simp_all add: bind_assoc)

lemma forM_nested:
  "forM es (\<lambda>(n, xs). forM xs (g n)) = forM (concat (map (\<lambda>(n, xs). map (Pair n) xs) es)) (\<lambda>(n, x). g n x)"
proof (induction es)
  case (Cons e es)
  have "forM (map (Pair n) xs) (\<lambda>(n, x). g n x) = forM xs (g n)" for n xs
    by (induction xs) simp_all
  with Cons show ?case
    by (simp add: forM_append split: prod.split)
qed simp

lemma forM_err: "(\<And>x d e d'. f x d \<noteq> Err e d') \<Longrightarrow> forM xs f c \<noteq> Err e c'"
  by (induction xs arbitrary: c) (simp_all add: bind_Err)

lemma iterM_pure: "(\<And>x acc s. cb x acc s = Ok (False, g x acc) s) \<Longrightarrow> iterM cb xs acc s = Ok (fold g xs acc) s"
  by (induction xs arbitrary: acc) (simp_all add: bind_step)

text \<open>A loop whose accumulator is pure runs its effects first.\<close>

lemma foldM_forM:
  assumes "\<And>x acc. f x acc = bind (g x) (\<lambda>_. return (h x acc))"
  shows "foldM f xs acc = bind (forM xs g) (\<lambda>_. return (fold h xs acc))"
  by (induction xs arbitrary: acc) (simp_all add: assms bind_assoc return_def)

text \<open>An operation that keeps every predicate leaves the state as it is.\<close>

lemma readonly_Ok: "(\<And>I. keeps I m) \<Longrightarrow> m s = Ok a t \<Longrightarrow> t = s"
  using keeps_Ok [of "\<lambda>t. t = s" m s a t] by simp

lemma readonly_Err: "(\<And>I. keeps I m) \<Longrightarrow> m s = Err e t \<Longrightarrow> t = s"
  using keeps_Err [of "\<lambda>t. t = s" m s e t] by simp

lemma bind_readonly:
  assumes "\<And>I. keeps I m"
  shows "bind m f s = Ok b u \<longleftrightarrow> (\<exists>a. m s = Ok a s \<and> f a s = Ok b u)"
proof -
  have "t = s" if "m s = Ok a t" for a t
    using assms that by (rule readonly_Ok)
  then show ?thesis
    unfolding bind_Ok by blast
qed

lemma bind_readonly_Err:
  assumes "\<And>I. keeps I m"
  shows "bind m f s = Err e u \<longleftrightarrow> (m s = Err e s \<and> u = s) \<or> (\<exists>a. m s = Ok a s \<and> f a s = Err e u)"
proof -
  have "t = s" if "m s = Ok a t" for a t
    using assms that by (rule readonly_Ok)
  moreover have "t = s" if "m s = Err e t" for e t
    using assms that by (rule readonly_Err)
  ultimately show ?thesis
    unfolding bind_Err by blast
qed

section \<open>Words\<close>

lemma unat_inc: "unat a < unat b \<Longrightarrow> unat (a + 1) = unat a + 1" for a b :: "'a::len word"
proof -
  assume "unat a < unat b"
  then have "unat a + 1 < 2 ^ LENGTH('a)"
    using unsigned_less [of b, where 'a = nat] by linarith
  then show ?thesis
    by (simp add: unat_word_ariths)
qed

lemma word_of_nat_eq_iff: "n \<le> unat w \<Longrightarrow> word_of_nat n = w \<longleftrightarrow> n = unat w" for w :: "'a::len word"
proof -
  assume "n \<le> unat w"
  then have "n < 2 ^ LENGTH('a)"
    using unsigned_less [of w, where 'a = nat] by (rule order_le_less_trans)
  then have "unat (word_of_nat n :: 'a word) = n"
    by (simp add: unat_of_nat)
  then show ?thesis
    by (simp add: word_unat_eq_iff)
qed

lemma word_less_inc: "n \<noteq> - 1 \<Longrightarrow> n < n + 1" for n :: "'a::len word"
proof -
  assume "n \<noteq> - 1"
  then have "n + 1 \<noteq> 0"
    by (simp add: eq_neg_iff_add_eq_0)
  then have "unat (n + 1) = unat n + 1"
    by (simp add: unatSuc add.commute)
  then show ?thesis
    by (simp add: word_less_nat_alt)
qed

lemma word_inc_less: "n + 1 \<noteq> 0 \<Longrightarrow> n < n + 1" for n :: "'a::len word"
  using word_less_inc [of n] by (cases "n = - 1") simp_all

lemma word_less_inc_le: "n < n + 1 \<Longrightarrow> m < n + 1 \<longleftrightarrow> m \<le> n" for n m :: "'a::len word"
proof -
  assume "n < n + 1"
  then have "unat (n + 1) = unat n + 1"
    using unat_inc [of n "n + 1"] by (simp add: word_less_nat_alt)
  then show ?thesis
    by (auto simp: word_less_nat_alt word_le_nat_alt)
qed

section \<open>Lists and sums\<close>

lemma sum_list_filter_split:
  "sum_list (map f xs) =
     sum_list (map f (filter P xs)) + sum_list (map f (filter (\<lambda>x. \<not> P x) xs))"
  for f :: "'a \<Rightarrow> int"
  by (induction xs) simp_all

lemma sum_list_nonneg_int: "(\<And>x. x \<in> set xs \<Longrightarrow> 0 \<le> f x) \<Longrightarrow> 0 \<le> sum_list (map f xs)"
  for f :: "'a \<Rightarrow> int"
  by (induction xs) simp_all

text \<open>The first entries of a descending list have the largest total among all choices of that size.\<close>

lemma take_sorted_maximal:
  fixes f :: "'a \<Rightarrow> int"
  assumes "sorted_wrt (\<lambda>x y. f y \<le> f x) xs" "\<And>x. x \<in> set xs \<Longrightarrow> 0 \<le> f x"
    and "mset ys \<subseteq># mset xs" "length ys \<le> n"
  shows "sum_list (map f ys) \<le> sum_list (map f (take n xs))"
  using assms
proof (induction xs arbitrary: ys n)
  case (Cons x xs)
  show ?case
  proof (cases "ys = [] \<or> n = 0")
    case True
    then show ?thesis
      using Cons.prems(2,4) by (auto intro!: sum_list_nonneg_int dest!: in_set_takeD)
  next
    case False
    then obtain m where n: "n = Suc m"
      by (cases n) auto
    define y where "y = (if x \<in> set ys then x else hd ys)"
    have y: "y \<in> set ys" "f y \<le> f x"
      using False Cons.prems(1,3) mset_subset_eqD [OF Cons.prems(3), of "hd ys"]
      by (auto simp: y_def)
    have "mset (remove1 y ys) \<subseteq># mset xs"
    proof (cases "x \<in> set ys")
      case True
      then show ?thesis
        using Cons.prems(3) by (simp add: y_def subset_eq_diff_conv)
    next
      case False
      then have "mset ys \<subseteq># mset xs"
        using Cons.prems(3) subset_eq_diff_conv [of "mset ys" "{#x#}" "mset xs"] by (simp add: diff_single_trivial)
      then show ?thesis
        using diff_subset_eq_self subset_mset.order_trans by (metis mset_remove1)
    qed
    then have "sum_list (map f (remove1 y ys)) \<le> sum_list (map f (take m xs))"
      using Cons.prems y(1) n by (intro Cons.IH) (auto simp: length_remove1)
    moreover have "sum_list (map f ys) = f y + sum_list (map f (remove1 y ys))"
      using y(1) by (simp add: sum_list_map_remove1)
    ultimately show ?thesis
      using y(2) n by simp
  qed
qed simp

end
