(* ===== verification/KVStore.thy ===== *)
theory KVStore
  imports Prelude
begin

text \<open>
  The ordered key-value store of a module, one typed store per key prefix.

  \<open>ctx.KVStore(storeKey)\<close> is a map from byte strings to byte strings that iterates in key order.
  The model keeps each prefix in its own association list, sorted strictly by key.  The interface
  the keepers rely on is the locale \<open>ordered_store\<close>; the association lists are its interpretation.
  The lemmas in the locale are the facts the keepers use: what an iteration sees after a write or
  a delete, and how the multiset of all entries moves.
\<close>

type_synonym ('k, 'v) kv = "('k \<times> 'v) list"

definition kv_get :: "('k::linorder, 'v) kv \<Rightarrow> 'k \<Rightarrow> 'v option" where
  "kv_get s k = map_of s k"

definition kv_has :: "('k::linorder, 'v) kv \<Rightarrow> 'k \<Rightarrow> bool" where
  "kv_has s k \<longleftrightarrow> kv_get s k \<noteq> None"

fun kv_set :: "'k::linorder \<Rightarrow> 'v \<Rightarrow> ('k, 'v) kv \<Rightarrow> ('k, 'v) kv" where
  "kv_set k v [] = [(k, v)]"
| "kv_set k v ((k', v') # s) =
     (if k < k' then (k, v) # (k', v') # s
      else if k = k' then (k, v) # s
      else (k', v') # kv_set k v s)"

definition kv_del :: "'k::linorder \<Rightarrow> ('k, 'v) kv \<Rightarrow> ('k, 'v) kv" where
  "kv_del k s = filter (\<lambda>p. fst p \<noteq> k) s"

definition kv_ok :: "('k::linorder, 'v) kv \<Rightarrow> bool" where
  "kv_ok s \<longleftrightarrow> sorted_wrt (<) (map fst s)"

text \<open>Iteration in ascending and in descending key order, over the entries present when it opens.\<close>

definition kv_asc :: "('k::linorder, 'v) kv \<Rightarrow> ('k \<times> 'v) list" where
  "kv_asc s = s"

definition kv_desc :: "('k::linorder, 'v) kv \<Rightarrow> ('k \<times> 'v) list" where
  "kv_desc s = rev s"

locale ordered_store =
  fixes get :: "'s \<Rightarrow> 'k::linorder \<Rightarrow> 'v option"
    and put :: "'k \<Rightarrow> 'v \<Rightarrow> 's \<Rightarrow> 's"
    and del :: "'k \<Rightarrow> 's \<Rightarrow> 's"
    and ok :: "'s \<Rightarrow> bool"
    and asc :: "'s \<Rightarrow> ('k \<times> 'v) list"
  assumes get_put: "get (put k v s) k' = (if k' = k then Some v else get s k')"
    and get_del: "get (del k s) k' = (if k' = k then None else get s k')"
    and ok_put: "ok s \<Longrightarrow> ok (put k v s)"
    and ok_del: "ok s \<Longrightarrow> ok (del k s)"
    and asc_sorted: "ok s \<Longrightarrow> sorted_wrt (<) (map fst (asc s))"
    and asc_get: "ok s \<Longrightarrow> (k, v) \<in> set (asc s) \<longleftrightarrow> get s k = Some v"
begin

lemma asc_distinct: "ok s \<Longrightarrow> distinct (asc s)"
  using asc_sorted by (simp add: strict_sorted_iff distinct_map)

lemma set_asc_put_fresh:
  "ok s \<Longrightarrow> get s k = None \<Longrightarrow> set (asc (put k v s)) = insert (k, v) (set (asc s))"
  by (auto simp: asc_get ok_put get_put split: if_splits)

lemma set_asc_del:
  "ok s \<Longrightarrow> get s k = Some v \<Longrightarrow> set (asc s) = insert (k, v) (set (asc (del k s)))"
  by (auto simp: asc_get ok_del get_del split: if_splits)

lemma mset_asc: "ok s \<Longrightarrow> mset (asc s) = mset_set (set (asc s))"
  by (simp add: asc_distinct mset_set_set)

text \<open>Adding a fresh entry and removing a present one move the multiset of entries by that entry.\<close>

lemma mset_put_fresh:
  assumes "ok s" "get s k = None"
  shows "mset (asc (put k v s)) = add_mset (k, v) (mset (asc s))"
proof -
  have "(k, v) \<notin> set (asc s)"
    using assms by (simp add: asc_get)
  then show ?thesis
    using assms by (simp add: mset_asc ok_put set_asc_put_fresh)
qed

lemma mset_del:
  assumes "ok s" "get s k = Some v"
  shows "mset (asc s) = add_mset (k, v) (mset (asc (del k s)))"
proof -
  have "(k, v) \<notin> set (asc (del k s))"
    using assms by (simp add: asc_get ok_del get_del)
  then show ?thesis
    using assms by (simp add: mset_asc ok_del set_asc_del)
qed

lemma mset_put_present:
  assumes "ok s" "get s k = Some old"
  shows "add_mset (k, old) (mset (asc (put k v s))) = add_mset (k, v) (mset (asc s))"
proof -
  have "set (asc (put k v s)) = insert (k, v) (set (asc (del k s)))"
    using assms by (auto simp: asc_get ok_put ok_del get_put get_del split: if_splits)
  moreover have "(k, v) \<notin> set (asc (del k s))"
    using assms by (simp add: asc_get ok_del get_del)
  ultimately show ?thesis
    using assms by (simp add: mset_asc ok_put ok_del mset_del [OF assms])
qed

lemma del_absent:
  assumes "ok s" "get s k = None"
  shows "asc (del k s) = asc s"
proof -
  have "set (asc (del k s)) = set (asc s)"
    using assms by (auto simp: asc_get ok_del get_del split: if_splits)
  moreover have "inj_on fst (set (asc s))"
    using assms(1) asc_get by (auto intro!: inj_onI)
  ultimately have "set (map fst (asc (del k s))) = set (map fst (asc s))"
      and inj: "inj_on fst (set (asc (del k s)) \<union> set (asc s))"
    by simp_all
  then have "map fst (asc (del k s)) = map fst (asc s)"
    using assms(1) ok_del asc_sorted by (metis strict_sorted_equal)
  then show ?thesis
    using inj by (rule map_inj_on)
qed

end

lemma set_map_fst_kv_set: "fst ` set (kv_set k v s) = insert k (fst ` set s)"
proof (induction s)
  case (Cons p s)
  then show ?case
    by (cases p) (simp add: insert_commute)
qed simp

lemma kv_get_set [simp]: "kv_get (kv_set k v s) k' = (if k' = k then Some v else kv_get s k')"
  by (induction s) (auto simp: kv_get_def)

lemma kv_get_del [simp]: "kv_get (kv_del k s) k' = (if k' = k then None else kv_get s k')"
  by (induction s) (auto simp: kv_get_def kv_del_def)

lemma kv_ok_Cons: "kv_ok (p # s) \<longleftrightarrow> (\<forall>k \<in> fst ` set s. fst p < k) \<and> kv_ok s"
  by (auto simp: kv_ok_def)

lemma kv_ok_set [simp]: "kv_ok s \<Longrightarrow> kv_ok (kv_set k v s)"
proof (induction s)
  case (Cons p s)
  then show ?case
    by (cases p) (auto simp: kv_ok_Cons set_map_fst_kv_set)
qed (simp add: kv_ok_def)

lemma kv_ok_del [simp]: "kv_ok s \<Longrightarrow> kv_ok (kv_del k s)"
  by (induction s) (auto simp: kv_ok_def kv_del_def)

lemma kv_ok_Nil [simp]: "kv_ok []"
  by (simp add: kv_ok_def)

lemma kv_get_entries: "kv_ok s \<Longrightarrow> (k, v) \<in> set s \<longleftrightarrow> kv_get s k = Some v"
  by (simp add: kv_ok_def kv_get_def strict_sorted_iff)

interpretation kv: ordered_store kv_get kv_set kv_del kv_ok kv_asc
  by unfold_locales (auto simp: kv_asc_def kv_get_entries, simp add: kv_ok_def)

lemmas kv_simps = kv_asc_def kv_desc_def kv_has_def

lemma kv_has_set [simp]: "kv_has (kv_set k v s) k' \<longleftrightarrow> k' = k \<or> kv_has s k'"
  and kv_has_del [simp]: "kv_has (kv_del k s) k' \<longleftrightarrow> k' \<noteq> k \<and> kv_has s k'"
  by (simp_all add: kv_has_def)

lemma kv_desc_set [simp]: "set (kv_desc s) = set (kv_asc s)"
  by (simp add: kv_simps)

lemma kv_desc_sorted: "kv_ok s \<Longrightarrow> sorted_wrt (\<lambda>a b. b < a) (map fst (kv_desc s))"
  by (simp add: kv_simps kv_ok_def sorted_wrt_rev flip: rev_map)

end
