(* ===== verification/GoLib.thy ===== *)
theory GoLib
  imports Prelude "HOL-Library.Sublist"
begin

text \<open>
  The functions of the Go standard library that the modelled sources call: byte and string
  conversions, \<open>strings\<close>, \<open>encoding/hex\<close>, \<open>encoding/binary\<close> (big endian), the UTF-8 encoding of a
  byte read as a rune, \<open>math/big\<close>'s \<open>FillBytes\<close> and \<open>crypto/md5\<close>.  A Go string is its list of
  bytes, here a \<^typ>\<open>char list\<close>.
\<close>

unbundle bit_operations_syntax

section \<open>Strings and bytes\<close>

definition bytes_of_string :: "string \<Rightarrow> bytes" where
  "bytes_of_string s = map (\<lambda>c. word_of_nat (of_char c)) s"

definition string_of_bytes :: "bytes \<Rightarrow> string" where
  "string_of_bytes bs = map (\<lambda>b. char_of (unat b)) bs"

definition HasPrefix :: "string \<Rightarrow> string \<Rightarrow> bool" where
  "HasPrefix s p \<longleftrightarrow> take (length p) s = p"

definition TrimPrefix :: "string \<Rightarrow> string \<Rightarrow> string" where
  "TrimPrefix s p = (if HasPrefix s p then drop (length p) s else s)"

fun Contains :: "string \<Rightarrow> string \<Rightarrow> bool" where
  "Contains [] sub \<longleftrightarrow> sub = []"
| "Contains (c # s) sub \<longleftrightarrow> HasPrefix (c # s) sub \<or> Contains s sub"

text \<open>\<open>strings.LastIndexByte\<close>: the index of the last occurrence, or None (-1).\<close>

fun LastIndexByte :: "string \<Rightarrow> char \<Rightarrow> nat option" where
  "LastIndexByte [] c = None"
| "LastIndexByte (d # s) c =
     (case LastIndexByte s c of
        Some i \<Rightarrow> Some (Suc i)
      | None \<Rightarrow> if d = c then Some 0 else None)"

text \<open>\<open>strings.TrimSpace\<close> on the ASCII white space of Go; the sources compare the result with the input.\<close>

definition asciiSpace :: "char \<Rightarrow> bool" where
  "asciiSpace c \<longleftrightarrow> of_char c \<in> {9, 10, 11, 12, 13, 32 :: nat}"

definition TrimSpace :: "string \<Rightarrow> string" where
  "TrimSpace s = rev (dropWhile asciiSpace (rev (dropWhile asciiSpace s)))"

lemma HasPrefix_iff: "HasPrefix s p \<longleftrightarrow> (\<exists>t. s = p @ t)"
  unfolding HasPrefix_def by (metis append_take_drop_id append_eq_conv_conj)

lemma HasPrefix_append [simp]: "HasPrefix (p @ s) p"
  by (simp add: HasPrefix_def)

lemma TrimPrefix_append [simp]: "TrimPrefix (p @ s) p = s"
  by (simp add: TrimPrefix_def)

lemma Contains_iff: "Contains s sub \<longleftrightarrow> sublist sub s"
proof (induction s)
  case (Cons c s)
  then show ?case
    by (simp add: sublist_Cons_right prefix_def HasPrefix_iff)
qed simp

lemma string_of_bytes_of_string [simp]: "string_of_bytes (bytes_of_string s) = s"
proof -
  have "char_of (unat (word_of_nat (of_char c) :: byte)) = c" for c
    using nat_of_char_less_256 [of c] by (simp add: unat_of_nat)
  then show ?thesis
    by (simp add: string_of_bytes_def bytes_of_string_def comp_def)
qed

section \<open>Hexadecimal\<close>

definition isHexDigit :: "char \<Rightarrow> bool" where
  "isHexDigit c \<longleftrightarrow> (CHR ''0'' \<le> c \<and> c \<le> CHR ''9'') \<or> (CHR ''a'' \<le> c \<and> c \<le> CHR ''f'')
     \<or> (CHR ''A'' \<le> c \<and> c \<le> CHR ''F'')"

definition hexDigit :: "byte \<Rightarrow> char" where
  "hexDigit n = ''0123456789abcdef'' ! unat n"

definition fromHexChar :: "char \<Rightarrow> byte option" where
  "fromHexChar c =
     (if CHR ''0'' \<le> c \<and> c \<le> CHR ''9'' then Some (of_char c - 48)
      else if CHR ''a'' \<le> c \<and> c \<le> CHR ''f'' then Some (of_char c - 87)
      else if CHR ''A'' \<le> c \<and> c \<le> CHR ''F'' then Some (of_char c - 55)
      else None)"

fun EncodeToString :: "bytes \<Rightarrow> string" where
  "EncodeToString [] = []"
| "EncodeToString (b # bs) = hexDigit (drop_bit 4 b) # hexDigit (b AND 15) # EncodeToString bs"

text \<open>\<open>hex.DecodeString\<close>: None on an odd length or a character that is not a hex digit.\<close>

fun DecodeString :: "string \<Rightarrow> bytes option" where
  "DecodeString [] = Some []"
| "DecodeString [c] = None"
| "DecodeString (c # d # s) =
     (case (fromHexChar c, fromHexChar d, DecodeString s) of
        (Some h, Some l, Some bs) \<Rightarrow> Some ((push_bit 4 h OR l) # bs)
      | _ \<Rightarrow> None)"

lemma fromHexChar_None [simp]: "fromHexChar c = None \<longleftrightarrow> \<not> isHexDigit c"
  by (auto simp: fromHexChar_def isHexDigit_def)

lemma DecodeString_None_iff:
  "DecodeString s = None \<longleftrightarrow> odd (length s) \<or> (\<exists>c \<in> set s. \<not> isHexDigit c)"
proof (induction s rule: DecodeString.induct)
  case (3 c d s)
  then show ?case
    by (auto split: option.split simp flip: fromHexChar_None)
qed simp_all

section \<open>Big endian integers\<close>

fun be_bytes :: "nat \<Rightarrow> 'a::len word \<Rightarrow> bytes" where
  "be_bytes 0 w = []"
| "be_bytes (Suc n) w = ucast (drop_bit (8 * n) w) # be_bytes n w"

definition be_val :: "bytes \<Rightarrow> nat" where
  "be_val bs = foldl (\<lambda>a b. a * 256 + unat b) 0 bs"

text \<open>\<open>binary.BigEndian.Uint64\<close> panics on fewer than eight bytes and ignores the rest.\<close>

definition BigEndian_Uint64 :: "bytes \<Rightarrow> uint64 option" where
  "BigEndian_Uint64 bs = (if length bs < 8 then None else Some (of_nat (be_val (take 8 bs))))"

text \<open>\<open>big.Int.FillBytes\<close> on a 32-byte buffer: the absolute value, None (panic) when it does not fit.\<close>

definition FillBytes32 :: "int \<Rightarrow> 256 word option" where
  "FillBytes32 a = (if \<bar>a\<bar> < 2 ^ 256 then Some (word_of_int \<bar>a\<bar>) else None)"

lemma FillBytes32_Some:
  "FillBytes32 x = Some w \<Longrightarrow> uint w = \<bar>x\<bar>"
  by (auto simp: FillBytes32_def uint_word_of_int split: if_splits)

lemma length_be_bytes [simp]: "length (be_bytes n w) = n"
  by (induction n) simp_all

lemma be_val_Nil [simp]: "be_val [] = 0"
  by (simp add: be_val_def)

lemma be_val_foldl: "foldl (\<lambda>a b. a * 256 + unat b) a bs = a * 256 ^ length bs + be_val bs"
proof (induction bs arbitrary: a)
  case (Cons b bs)
  from Cons [of "a * 256 + unat b"] Cons [of "unat b"] show ?case
    by (simp add: be_val_def algebra_simps)
qed simp

lemma be_val_Cons [simp]: "be_val (b # bs) = unat b * 256 ^ length bs + be_val bs"
  using be_val_foldl [of "unat b" bs] by (simp add: be_val_def)

lemma unat_byte_less: "unat (b :: byte) < 256"
  using unsigned_less [of b, where 'a = nat] by simp

lemma be_val_less: "be_val bs < 256 ^ length bs"
proof (induction bs)
  case (Cons b bs)
  have "unat b + 1 \<le> 256"
    using unat_byte_less [of b] by simp
  then have "(unat b + 1) * 256 ^ length bs \<le> 256 * 256 ^ length bs"
    by (rule mult_right_mono) simp
  then have "unat b * 256 ^ length bs + 256 ^ length bs \<le> 256 ^ length (b # bs)"
    by (simp only: add_mult_distrib mult_1 length_Cons power_Suc)
  then show ?case
    using Cons unfolding be_val_Cons by linarith
qed simp

lemma be_val_be_bytes: "be_val (be_bytes n w) = unat w mod 256 ^ n"
proof (induction n)
  case (Suc n)
  have "unat (ucast (drop_bit (8 * n) w) :: byte) = unat w div 256 ^ n mod 256"
    by (simp only: unsigned_ucast_eq unat_drop_bit_eq drop_bit_nat_def take_bit_eq_mod power_mult) simp
  moreover have "unat w mod 256 ^ Suc n = 256 ^ n * (unat w div 256 ^ n mod 256) + unat w mod 256 ^ n"
    by (metis mod_mult2_eq power_Suc2)
  ultimately show ?case
    using Suc by simp
qed simp

lemma be_val_lex:
  "length xs = length ys \<Longrightarrow> xs < ys \<longleftrightarrow> be_val xs < be_val ys"
proof (induction xs ys rule: list_induct2)
  case (Cons x xs y ys)
  let ?p = "256 ^ length ys :: nat"
  have xs: "be_val xs < ?p" and ys: "be_val ys < ?p"
    using Cons be_val_less [of xs] be_val_less [of ys] by simp_all
  consider "unat x < unat y" | "unat x = unat y" | "unat y < unat x"
    by linarith
  then show ?case
  proof cases
    case 1
    then have "(unat x + 1) * ?p \<le> unat y * ?p"
      by (intro mult_right_mono) simp_all
    then have "be_val (x # xs) < be_val (y # ys)"
      using xs Cons(1) by (simp add: algebra_simps)
    then show ?thesis
      using 1 by (simp add: word_less_nat_alt)
  next
    case 2
    then show ?thesis
      using Cons by (simp add: word_less_nat_alt word_unat_eq_iff)
  next
    case 3
    then have "(unat y + 1) * ?p \<le> unat x * ?p"
      by (intro mult_right_mono) simp_all
    then have "be_val (y # ys) < be_val (x # xs)"
      using ys Cons(1) by (simp add: algebra_simps)
    then show ?thesis
      using 3 by (auto simp: word_less_nat_alt)
  qed
qed simp

lemma be_bytes_less:
  fixes v w :: "'a::len word"
  assumes "LENGTH('a) = 8 * n"
  shows "be_bytes n v < be_bytes n w \<longleftrightarrow> v < w"
proof -
  have "unat u mod 256 ^ n = unat u" for u :: "'a word"
    using unsigned_less [of u, where 'a = nat] assms by (simp add: power_mult)
  then show ?thesis
    by (simp add: be_val_lex be_val_be_bytes word_less_nat_alt)
qed

lemma be_bytes_inj:
  fixes v w :: "'a::len word"
  assumes "LENGTH('a) = 8 * n"
  shows "be_bytes n v = be_bytes n w \<longleftrightarrow> v = w"
  using be_bytes_less [OF assms, of v w] be_bytes_less [OF assms, of w v]
  by (metis less_irrefl linorder_neqE)

lemma BigEndian_Uint64_be_bytes [simp]: "BigEndian_Uint64 (be_bytes 8 w) = Some w"
proof -
  have "unat w mod 256 ^ 8 = unat w"
    using unsigned_less [of w, where 'a = nat] by simp
  then show ?thesis
    by (simp add: BigEndian_Uint64_def be_val_be_bytes)
qed

section \<open>UTF-8 of a single byte\<close>

text \<open>Go's \<open>string(b)\<close> for a byte \<open>b\<close> encodes the code point \<open>b\<close>, so it has one or two bytes.\<close>

definition utf8_byte :: "byte \<Rightarrow> bytes" where
  "utf8_byte b = (if b < 128 then [b] else [192 OR drop_bit 6 b, 128 OR (b AND 63)])"

lemma byte_less_128: "b < 128 \<longleftrightarrow> \<not> bit b 7" for b :: byte
proof -
  have "bit b 7 \<longleftrightarrow> odd (unat b div 128)"
    using bit_unsigned_iff [of b 7, where 'a = nat] by (simp add: bit_iff_odd)
  moreover have "unat b < 256" by (rule unat_byte_less)
  moreover have "b < 128 \<longleftrightarrow> unat b < 128"
    by (simp add: word_less_nat_alt)
  moreover have "odd (n div 128) \<longleftrightarrow> \<not> n < 128" if "n < 256" for n :: nat
  proof (cases "n < 128")
    case False
    then have "n div 128 = 1" using that by simp
    then show ?thesis using False by simp
  qed simp
  ultimately show ?thesis by blast
qed

lemma utf8_byte_prefix:
  assumes "utf8_byte a @ x = utf8_byte b @ y"
  shows "a = b \<and> x = y"
proof -
  have high: "bit (192 OR drop_bit 6 c :: byte) 7" for c
    by (simp add: bit_simps)
  have eq: "a = b" if "192 OR drop_bit 6 a = 192 OR drop_bit 6 b" "128 OR (a AND 63) = 128 OR (b AND 63)"
      "bit a 7" "bit b 7"
  proof (rule bit_word_eqI)
    fix n
    assume "n < LENGTH(8)"
    then consider "n < 6" | "n = 6" | "n = 7" by fastforce
    then show "bit a n = bit b n"
    proof cases
      case 1
      then have "bit (128 OR (c AND 63)) n = bit c n" for c :: byte
        by (auto simp: less_Suc_eq numeral_eq_Suc bit_simps)
      then show ?thesis using that(2) by metis
    next
      case 2
      have "bit (192 OR drop_bit 6 c) 0 = bit c 6" for c :: byte
        by (simp add: bit_simps)
      then show ?thesis using that(1) 2 by metis
    qed (use that in simp)
  qed
  show ?thesis
    using assms high [of a] high [of b] eq
    by (auto simp: utf8_byte_def byte_less_128 split: if_splits)
qed

section \<open>MD5\<close>

text \<open>
  \<open>crypto/md5\<close> (RFC 1321).  A message is padded with one bit, zeros and its length in bits as a
  little-endian 64-bit number; each 64-byte block is digested in 64 rounds over four 32-bit words.
\<close>

definition md5_K :: "32 word list" where
  "md5_K = [
    0xd76aa478, 0xe8c7b756, 0x242070db, 0xc1bdceee, 0xf57c0faf, 0x4787c62a, 0xa8304613, 0xfd469501,
    0x698098d8, 0x8b44f7af, 0xffff5bb1, 0x895cd7be, 0x6b901122, 0xfd987193, 0xa679438e, 0x49b40821,
    0xf61e2562, 0xc040b340, 0x265e5a51, 0xe9b6c7aa, 0xd62f105d, 0x02441453, 0xd8a1e681, 0xe7d3fbc8,
    0x21e1cde6, 0xc33707d6, 0xf4d50d87, 0x455a14ed, 0xa9e3e905, 0xfcefa3f8, 0x676f02d9, 0x8d2a4c8a,
    0xfffa3942, 0x8771f681, 0x6d9d6122, 0xfde5380c, 0xa4beea44, 0x4bdecfa9, 0xf6bb4b60, 0xbebfbc70,
    0x289b7ec6, 0xeaa127fa, 0xd4ef3085, 0x04881d05, 0xd9d4d039, 0xe6db99e5, 0x1fa27cf8, 0xc4ac5665,
    0xf4292244, 0x432aff97, 0xab9423a7, 0xfc93a039, 0x655b59c3, 0x8f0ccc92, 0xffeff47d, 0x85845dd1,
    0x6fa87e4f, 0xfe2ce6e0, 0xa3014314, 0x4e0811a1, 0xf7537e82, 0xbd3af235, 0x2ad7d2bb, 0xeb86d391]"

definition md5_shift :: "nat list" where
  "md5_shift =
     concat (replicate 4 [7, 12, 17, 22]) @ concat (replicate 4 [5, 9, 14, 20]) @
     concat (replicate 4 [4, 11, 16, 23]) @ concat (replicate 4 [6, 10, 15, 21])"

definition le_word32 :: "bytes \<Rightarrow> 32 word" where
  "le_word32 bs = foldr (\<lambda>b w. push_bit 8 w OR ucast b) bs 0"

fun le_bytes :: "nat \<Rightarrow> 'a::len word \<Rightarrow> bytes" where
  "le_bytes 0 w = []"
| "le_bytes (Suc n) w = ucast w # le_bytes n (drop_bit 8 w)"

fun chunks :: "nat \<Rightarrow> nat \<Rightarrow> 'a list \<Rightarrow> 'a list list" where
  "chunks 0 n xs = []"
| "chunks (Suc m) n xs = take n xs # chunks m n (drop n xs)"

definition md5_pad :: "bytes \<Rightarrow> bytes" where
  "md5_pad m = m @ 128 # replicate ((119 - length m mod 64) mod 64) 0
     @ le_bytes 8 (word_of_nat (8 * length m) :: 64 word)"

definition md5_F :: "nat \<Rightarrow> 32 word \<Rightarrow> 32 word \<Rightarrow> 32 word \<Rightarrow> 32 word" where
  "md5_F i b c d =
     (if i < 16 then (b AND c) OR (NOT b AND d)
      else if i < 32 then (d AND b) OR (NOT d AND c)
      else if i < 48 then b XOR c XOR d
      else c XOR (b OR NOT d))"

definition md5_index :: "nat \<Rightarrow> nat" where
  "md5_index i =
     (if i < 16 then i else if i < 32 then (5 * i + 1) mod 16
      else if i < 48 then (3 * i + 5) mod 16 else (7 * i) mod 16)"

definition rotl32 :: "nat \<Rightarrow> 32 word \<Rightarrow> 32 word" where
  "rotl32 n w = push_bit n w OR drop_bit (32 - n) w"

type_synonym md5_state = "32 word \<times> 32 word \<times> 32 word \<times> 32 word"

definition md5_round :: "32 word list \<Rightarrow> nat \<times> 32 word \<times> nat \<Rightarrow> md5_state \<Rightarrow> md5_state" where
  "md5_round M = (\<lambda>(i, ki, si) (a, b, c, d).
     (d, b + rotl32 si (a + md5_F i b c d + ki + M ! md5_index i), b, c))"

definition md5_block :: "md5_state \<Rightarrow> bytes \<Rightarrow> md5_state" where
  "md5_block st blk =
     (let M = map le_word32 (chunks 16 4 blk);
          (a, b, c, d) = fold (md5_round M) (zip [0..<64] (zip md5_K md5_shift)) st;
          (a0, b0, c0, d0) = st
      in (a0 + a, b0 + b, c0 + c, d0 + d))"

definition md5_Sum :: "bytes \<Rightarrow> bytes" where
  "md5_Sum m =
     (let p = md5_pad m;
          (a, b, c, d) = foldl md5_block (0x67452301, 0xefcdab89, 0x98badcfe, 0x10325476)
            (chunks (length p div 64) 64 p)
      in le_bytes 4 a @ le_bytes 4 b @ le_bytes 4 c @ le_bytes 4 d)"

lemma length_le_bytes [simp]: "length (le_bytes n w) = n"
  by (induction n arbitrary: w) simp_all

lemma length_md5_Sum [simp]: "length (md5_Sum m) = 16"
  by (simp add: md5_Sum_def Let_def case_prod_unfold)

section \<open>\<open>fmt\<close> verbs for numbers\<close>

definition digitChar :: "nat \<Rightarrow> char" where
  "digitChar d = ''0123456789abcdef'' ! d"

fun natString :: "nat \<Rightarrow> nat \<Rightarrow> string" where
  "natString b n = (if b < 2 \<or> n < b then [digitChar n] else natString b (n div b) @ [digitChar (n mod b)])"

declare natString.simps [simp del]

text \<open>\<open>%d\<close> and \<open>%x\<close> of a \<open>uint64\<close>, \<open>big.Int.String\<close>, and \<open>%x\<close> of a string.\<close>

definition decUint :: "uint64 \<Rightarrow> string" where
  "decUint w = natString 10 (unat w)"

definition hexUint :: "uint64 \<Rightarrow> string" where
  "hexUint w = natString 16 (unat w)"

definition decInt :: "int \<Rightarrow> string" where
  "decInt i = (if i < 0 then ''-'' @ natString 10 (nat (- i)) else natString 10 (nat i))"

definition digitVal :: "char \<Rightarrow> nat" where
  "digitVal c = of_char c - 48"

definition isDigit :: "char \<Rightarrow> bool" where
  "isDigit c \<longleftrightarrow> CHR ''0'' \<le> c \<and> c \<le> CHR ''9''"

definition decVal :: "string \<Rightarrow> nat" where
  "decVal s = foldl (\<lambda>n c. 10 * n + digitVal c) 0 s"

lemma digitChar_digit: "d < 10 \<Longrightarrow> isDigit (digitChar d) \<and> digitVal (digitChar d) = d"
proof -
  assume "d < 10"
  moreover have "list_all (\<lambda>d. isDigit (digitChar d) \<and> digitVal (digitChar d) = d) [0..<10]"
    by code_simp
  ultimately show ?thesis
    by (simp add: list_all_iff)
qed

lemma natString_digits: "list_all isDigit (natString 10 n)"
proof (induction "10 :: nat" n rule: natString.induct)
  case (1 n)
  then show ?case
    by (subst natString.simps) (simp add: digitChar_digit)
qed

lemma natString_nonempty [simp]: "natString b n \<noteq> []"
  by (subst natString.simps) simp

lemma decVal_natString [simp]: "decVal (natString 10 n) = n"
proof (induction "10 :: nat" n rule: natString.induct)
  case (1 n)
  then show ?case
    by (subst natString.simps) (simp add: decVal_def digitChar_digit)
qed

lemma natString_inj [simp]: "natString 10 m = natString 10 n \<longleftrightarrow> m = n"
  by (metis decVal_natString)

lemma decUint_inj [simp]: "decUint v = decUint w \<longleftrightarrow> v = w"
  by (simp add: decUint_def word_unat_eq_iff)

lemma isDigit_not_minus: "isDigit c \<Longrightarrow> c \<noteq> CHR ''-''"
  by (auto simp: isDigit_def less_eq_char_def)

lemma decInt_inj [simp]: "decInt i = decInt j \<longleftrightarrow> i = j"
proof -
  have "natString 10 n \<noteq> CHR ''-'' # s" for n s
    using natString_digits [of n] isDigit_not_minus [of "CHR ''-''"] by auto
  then show ?thesis
    by (auto simp: decInt_def) (metis)+
qed

section \<open>\<open>sort.Slice\<close>\<close>

text \<open>
  \<open>sort.Slice\<close> returns some arrangement that is sorted for the comparison; elements the comparison does
  not separate may come in any order.  The model keeps their order.
\<close>

fun insertBy :: "('a \<Rightarrow> 'a \<Rightarrow> bool) \<Rightarrow> 'a \<Rightarrow> 'a list \<Rightarrow> 'a list" where
  "insertBy lt x [] = [x]"
| "insertBy lt x (y # ys) = (if lt y x then y # insertBy lt x ys else x # y # ys)"

definition sortSlice :: "('a \<Rightarrow> 'a \<Rightarrow> bool) \<Rightarrow> 'a list \<Rightarrow> 'a list" where
  "sortSlice lt xs = foldr (insertBy lt) xs []"

lemma mset_insertBy [simp]: "mset (insertBy lt x ys) = add_mset x (mset ys)"
  by (induction ys) simp_all

lemma set_insertBy [simp]: "set (insertBy lt x ys) = insert x (set ys)"
  by (induction ys) auto

lemma mset_sortSlice [simp]: "mset (sortSlice lt xs) = mset xs"
  by (induction xs) (simp_all add: sortSlice_def)

lemma set_sortSlice [simp]: "set (sortSlice lt xs) = set xs"
  by (induction xs) (simp_all add: sortSlice_def)

lemma length_sortSlice [simp]: "length (sortSlice lt xs) = length xs"
  by (rule mset_eq_length) simp

lemma sortSlice_sorted:
  assumes "\<And>a b. lt a b \<Longrightarrow> \<not> lt b a" "\<And>a b c. \<not> lt b a \<Longrightarrow> \<not> lt c b \<Longrightarrow> \<not> lt c a"
  shows "sorted_wrt (\<lambda>a b. \<not> lt b a) (sortSlice lt xs)"
proof -
  have "sorted_wrt (\<lambda>a b. \<not> lt b a) (insertBy lt x ys)" if "sorted_wrt (\<lambda>a b. \<not> lt b a) ys" for x ys
    using that
  proof (induction ys)
    case (Cons y ys)
    show ?case
    proof (cases "lt y x")
      case True
      then show ?thesis
        using Cons assms(1) by simp
    next
      case False
      then have "\<not> lt z x" if "z \<in> set ys" for z
        using assms(2) [of y x z] Cons.prems that by simp
      then show ?thesis
        using Cons False by simp
    qed
  qed simp
  then show ?thesis
    by (induction xs) (simp_all add: sortSlice_def)
qed

section \<open>Parsing numbers and booleans\<close>

text \<open>\<open>strconv.ParseUint\<close> in base 10 with 64 bits: one or more digits and no overflow.\<close>

definition ParseUint64 :: "string \<Rightarrow> error + uint64" where
  "ParseUint64 s =
     (if s = [] \<or> \<not> list_all isDigit s then Inl (ErrorMsg ''invalid syntax'')
      else if 2 ^ 64 \<le> decVal s then Inl (ErrorMsg ''value out of range'')
      else Inr (word_of_nat (decVal s)))"

definition ParseBool :: "string \<Rightarrow> error + bool" where
  "ParseBool s =
     (if s \<in> set [''1'', ''t'', ''T'', ''true'', ''TRUE'', ''True''] then Inr True
      else if s \<in> set [''0'', ''f'', ''F'', ''false'', ''FALSE'', ''False''] then Inr False
      else Inl (ErrorMsg ''invalid syntax''))"

end
