(* ===== verification/EthTypes.thy ===== *)
theory EthTypes
  imports GoLib
begin

text \<open>
  Ethereum addresses, ERC20 amounts and bridge denoms: \<open>x/gravity/types/ethereum.go\<close>,
  \<open>asset_origin.go\<close> and \<open>denom_validation.go\<close>.

  The record \<open>libs\<close> holds the stateless functions of third-party packages that the gravity module
  calls (go-ethereum, the SDK's bech32 and coin helpers, the ABI encoder and hash functions).
  Every definition that uses them takes the record as an argument; what the code relies on is
  stated by \<open>geth_laws\<close> and \<open>bech32_laws\<close>.
\<close>

type_synonym EthAddress = "160 word"
type_synonym AccAddress = bytes
type_synonym ValAddress = bytes

record Coin =
  Coin_Denom :: string
  Coin_Amount :: int

datatype AbiValue =
    AbiBytes32 bytes
  | AbiUint int
  | AbiUints "int list"
  | AbiAddress EthAddress
  | AbiAddresses "EthAddress list"
  | AbiBytes bytes

record libs =
  HexToAddress :: "string \<Rightarrow> EthAddress"
  Hex :: "EthAddress \<Rightarrow> string"
  BytesToAddress :: "bytes \<Rightarrow> EthAddress"
  IsHexAddress :: "string \<Rightarrow> bool"
  AccAddressFromBech32 :: "string \<Rightarrow> error + AccAddress"
  AccAddress_String :: "AccAddress \<Rightarrow> string"
  ValAddressFromBech32 :: "string \<Rightarrow> error + ValAddress"
  ValAddress_String :: "ValAddress \<Rightarrow> string"
  DecodeAndConvert :: "string \<Rightarrow> error + string \<times> bytes"
  VerifyAddressFormat :: "bytes \<Rightarrow> error option"
  ValidateDenom :: "string \<Rightarrow> error option"
  Coin_IsValid :: "Coin \<Rightarrow> bool"
  Coins_AmountOf :: "Coin list \<Rightarrow> string \<Rightarrow> int"
  Coins_Equal :: "Coin list \<Rightarrow> Coin list \<Rightarrow> bool"
  Coins_Add :: "Coin list \<Rightarrow> Coin list \<Rightarrow> Coin list option"  \<comment> \<open>None: panics\<close>
  Coins_Sub :: "Coin list \<Rightarrow> Coin list \<Rightarrow> Coin list option"  \<comment> \<open>None: panics\<close>
  NewCoins :: "Coin list \<Rightarrow> Coin list option"  \<comment> \<open>None: panics\<close>
  IntFits :: "int \<Rightarrow> bool"                     \<comment> \<open>representable as an \<open>sdkmath.Int\<close>\<close>
  DecFits :: "int \<Rightarrow> bool"                     \<comment> \<open>representable as a \<open>LegacyDec\<close>, scaled by \<open>10 ^ 18\<close>\<close>
  NewIntFromString :: "string \<Rightarrow> int option"
  LegacyNewDecFromStr :: "string \<Rightarrow> error + int"
  ParseCoinNormalized :: "string \<Rightarrow> error + Coin"
  AbiPack :: "string \<Rightarrow> string \<Rightarrow> AbiValue list \<Rightarrow> error + bytes"
  Keccak256Hash :: "bytes \<Rightarrow> bytes"
  tmhash_Sum :: "bytes \<Rightarrow> bytes"
  ValidateSignatureValues :: "byte \<Rightarrow> nat \<Rightarrow> nat \<Rightarrow> bool"
  SigToPub :: "bytes \<Rightarrow> bytes \<Rightarrow> error + bytes"
  PubkeyToAddress :: "bytes \<Rightarrow> EthAddress"

text \<open>\<open>sdkmath.Int\<close> arithmetic panics when the result does not fit.\<close>

definition Int_Add :: "'a libs_scheme \<Rightarrow> int \<Rightarrow> int \<Rightarrow> ('s, int) op" where
  "Int_Add k a b = (if IntFits k (a + b) then return (a + b) else panic ''Int overflow'')"

definition Int_Mul :: "'a libs_scheme \<Rightarrow> int \<Rightarrow> int \<Rightarrow> ('s, int) op" where
  "Int_Mul k a b = (if IntFits k (a * b) then return (a * b) else panic ''Int overflow'')"

definition Int_Sub :: "'a libs_scheme \<Rightarrow> int \<Rightarrow> int \<Rightarrow> ('s, int) op" where
  "Int_Sub k a b = (if IntFits k (a - b) then return (a - b) else panic ''Int overflow'')"

text \<open>\<open>Int.Quo\<close> truncates towards zero and panics on a zero divisor.\<close>

definition Int_Quo :: "int \<Rightarrow> int \<Rightarrow> ('s, int) op" where
  "Int_Quo a b = (if b = 0 then panic ''division by zero'' else return (sgn a * sgn b * (\<bar>a\<bar> div \<bar>b\<bar>)))"

text \<open>
  A \<open>LegacyDec\<close> has 18 decimals and is kept as the integer scaled by \<open>10 ^ 18\<close>; division and truncation
  go towards zero, a product is rounded to the nearest and to even on a tie.
\<close>

definition Dec_one :: int where
  "Dec_one = 10 ^ 18"

definition Dec_FromInt :: "int \<Rightarrow> int" where
  "Dec_FromInt i = i * Dec_one"

definition quoTrunc :: "int \<Rightarrow> int \<Rightarrow> int" where
  "quoTrunc a b = sgn a * sgn b * (\<bar>a\<bar> div \<bar>b\<bar>)"

definition Dec_TruncateInt :: "int \<Rightarrow> int" where
  "Dec_TruncateInt d = quoTrunc d Dec_one"

definition Dec_QuoInt64 :: "int \<Rightarrow> int \<Rightarrow> int" where
  "Dec_QuoInt64 d i = quoTrunc d i"

definition Dec_MulInt64 :: "'a libs_scheme \<Rightarrow> int \<Rightarrow> int \<Rightarrow> ('s, int) op" where
  "Dec_MulInt64 k d i = (if DecFits k (d * i) then return (d * i) else panic ''Int overflow'')"

definition roundHalfEven :: "int \<Rightarrow> int" where
  "roundHalfEven d =
     (let q = \<bar>d\<bar> div Dec_one; r = \<bar>d\<bar> mod Dec_one
      in sgn d * (if 2 * r < Dec_one then q else if Dec_one < 2 * r then q + 1 else if even q then q else q + 1))"

definition Dec_Mul :: "'a libs_scheme \<Rightarrow> int \<Rightarrow> int \<Rightarrow> ('s, int) op" where
  "Dec_Mul k d e =
     (let r = roundHalfEven (d * e) in if DecFits k r then return r else panic ''Int overflow'')"

text \<open>\<open>Coin.IsLT\<close> and \<open>Coin.Sub\<close> panic on different denoms, \<open>Coin.Sub\<close> also on a negative result.\<close>

definition Coin_IsLT :: "Coin \<Rightarrow> Coin \<Rightarrow> ('s, bool) op" where
  "Coin_IsLT a b = (if Coin_Denom a \<noteq> Coin_Denom b then panic ''invalid coin denominations''
     else return (Coin_Amount a < Coin_Amount b))"

definition Coin_Sub :: "Coin \<Rightarrow> Coin \<Rightarrow> ('s, Coin) op" where
  "Coin_Sub a b =
     (if Coin_Denom a \<noteq> Coin_Denom b then panic ''invalid coin denominations''
      else if Coin_Amount a - Coin_Amount b < 0 then panic ''negative coin amount''
      else return (a\<lparr>Coin_Amount := Coin_Amount a - Coin_Amount b\<rparr>))"

definition Coin_Add :: "'a libs_scheme \<Rightarrow> Coin \<Rightarrow> Coin \<Rightarrow> ('s, Coin) op" where
  "Coin_Add k a b =
     (if Coin_Denom a \<noteq> Coin_Denom b then panic ''invalid coin denominations''
      else bind (Int_Add k (Coin_Amount a) (Coin_Amount b)) (\<lambda>n. return (a\<lparr>Coin_Amount := n\<rparr>)))"

text \<open>\<open>sdk.NewCoin\<close> panics on an invalid denom or a negative amount.\<close>

definition NewCoin :: "'a libs_scheme \<Rightarrow> string \<Rightarrow> int \<Rightarrow> ('s, Coin) op" where
  "NewCoin k d a =
     (let c = \<lparr>Coin_Denom = d, Coin_Amount = a\<rparr>
      in if Coin_IsValid k c then return c else panic ''invalid coin'')"

definition sdk_NewCoins :: "'a libs_scheme \<Rightarrow> Coin list \<Rightarrow> ('s, Coin list) op" where
  "sdk_NewCoins k cs = (case NewCoins k cs of None \<Rightarrow> panic ''invalid coins'' | Some ds \<Rightarrow> return ds)"

lemma keeps_coins [keeps_rules]: "keeps I (Int_Add k a b)" "keeps I (NewCoin k d a)" "keeps I (sdk_NewCoins k cs)"
  "keeps I (Int_Mul k a b)" "keeps I (Int_Sub k a b)" "keeps I (Int_Quo a b)"
  unfolding Int_Add_def NewCoin_def sdk_NewCoins_def Int_Mul_def Int_Sub_def Int_Quo_def by (intro keeps_rules)+

lemma Int_Mul_Ok: "Int_Mul k a b s = Ok r t \<longleftrightarrow> t = s \<and> r = a * b \<and> IntFits k (a * b)"
  and Int_Sub_Ok: "Int_Sub k a b s = Ok r t \<longleftrightarrow> t = s \<and> r = a - b \<and> IntFits k (a - b)"
  and Int_Quo_Ok: "Int_Quo a b s = Ok r t \<longleftrightarrow> t = s \<and> b \<noteq> 0 \<and> r = sgn a * sgn b * (\<bar>a\<bar> div \<bar>b\<bar>)"
  by (auto simp: Int_Mul_def Int_Sub_def Int_Quo_def)

lemma Int_Add_Ok: "Int_Add k a b s = Ok r t \<longleftrightarrow> t = s \<and> r = a + b \<and> IntFits k (a + b)"
  and NewCoin_Ok: "NewCoin k d a s = Ok coin t \<longleftrightarrow>
      t = s \<and> coin = \<lparr>Coin_Denom = d, Coin_Amount = a\<rparr> \<and> Coin_IsValid k coin"
  and sdk_NewCoins_Ok: "sdk_NewCoins k cs s = Ok ds t \<longleftrightarrow> t = s \<and> NewCoins k cs = Some ds"
  by (auto simp: Int_Add_def NewCoin_def sdk_NewCoins_def Let_def split: option.splits)

section \<open>Ethereum addresses\<close>

definition GravityDenomPrefix :: string where
  "GravityDenomPrefix = ''gravity''"

definition GravityDenomSeparator :: string where
  "GravityDenomSeparator = []"

definition ETHContractAddressLen :: nat where
  "ETHContractAddressLen = 42"

definition GravityDenomLen :: nat where
  "GravityDenomLen = length GravityDenomPrefix + length GravityDenomSeparator + ETHContractAddressLen"

definition Gravity2DenomPrefix :: string where
  "Gravity2DenomPrefix = ''gravity2''"

definition Gravity2DenomLen :: nat where
  "Gravity2DenomLen = length Gravity2DenomPrefix + ETHContractAddressLen"

definition ZeroAddressString :: string where
  "ZeroAddressString = ''0x'' @ replicate 40 (CHR ''0'')"

definition has0xPrefix :: "string \<Rightarrow> bool" where
  "has0xPrefix str \<longleftrightarrow>
     length str \<ge> 2 \<and> str ! 0 = CHR ''0'' \<and> (str ! 1 = CHR ''x'' \<or> str ! 1 = CHR ''X'')"

definition ValidateEthAddress :: "'a libs_scheme \<Rightarrow> string \<Rightarrow> error option" where
  "ValidateEthAddress k address =
     (if address = [] then Some (ErrorMsg ''empty'')
      else let a = (if has0xPrefix address then drop 2 address else address)
      in if DecodeString a = None then Some (ErrorMsg ''invalid hex'')
         else if \<not> IsHexAddress k a then Some (ErrorMsg ''format validation'')
         else None)"

definition EthAddress_Bytes :: "EthAddress \<Rightarrow> bytes" where
  "EthAddress_Bytes a = be_bytes 20 a"

definition SetAddress :: "'a libs_scheme \<Rightarrow> EthAddress \<Rightarrow> string \<Rightarrow> EthAddress \<times> error option" where
  "SetAddress k ea address =
     (case ValidateEthAddress k address of
        Some e \<Rightarrow> (ea, Some e)
      | None \<Rightarrow> (HexToAddress k address, None))"

definition NewEthAddressFromBytes :: "'a libs_scheme \<Rightarrow> bytes \<Rightarrow> error + EthAddress" where
  "NewEthAddressFromBytes k address =
     (case ValidateEthAddress k (EncodeToString address) of
        Some e \<Rightarrow> Inl (Wrapped e ''invalid input address'')
      | None \<Rightarrow> Inr (BytesToAddress k address))"

definition NewEthAddress :: "'a libs_scheme \<Rightarrow> string \<Rightarrow> error + EthAddress" where
  "NewEthAddress k address =
     (case ValidateEthAddress k address of
        Some e \<Rightarrow> Inl (Wrapped e ''invalid input address'')
      | None \<Rightarrow> Inr (HexToAddress k address))"

definition ZeroAddress :: "'a libs_scheme \<Rightarrow> EthAddress" where
  "ZeroAddress k = HexToAddress k ZeroAddressString"

definition EthAddress_ValidateBasic :: "'a libs_scheme \<Rightarrow> EthAddress \<Rightarrow> error option" where
  "EthAddress_ValidateBasic k ea = ValidateEthAddress k (Hex k ea)"

definition EthAddrLessThan :: "'a libs_scheme \<Rightarrow> EthAddress \<Rightarrow> EthAddress \<Rightarrow> bool" where
  "EthAddrLessThan k e q \<longleftrightarrow> bytes_of_string (Hex k e) < bytes_of_string (Hex k q)"

section \<open>ERC20 tokens\<close>

record ERC20Token =
  ERC20_Amount :: int
  ERC20_Contract :: string

record InternalERC20Token =
  Amount :: int
  Contract :: EthAddress

definition NewERC20Token :: "uint64 \<Rightarrow> string \<Rightarrow> ERC20Token" where
  "NewERC20Token amount contract = \<lparr>ERC20_Amount = uint amount, ERC20_Contract = contract\<rparr>"

definition NewSDKIntERC20Token :: "int \<Rightarrow> string \<Rightarrow> ERC20Token" where
  "NewSDKIntERC20Token amount contract = \<lparr>ERC20_Amount = amount, ERC20_Contract = contract\<rparr>"

definition InternalERC20Token_ValidateBasic :: "'a libs_scheme \<Rightarrow> InternalERC20Token \<Rightarrow> error option" where
  "InternalERC20Token_ValidateBasic k i =
     (if Amount i < 0 then Some (Wrapped (SdkErr ''ErrInvalidCoins'') ''coins must not be negative'')
      else case EthAddress_ValidateBasic k (Contract i) of
        Some e \<Rightarrow> Some (Wrapped e ''invalid contract'')
      | None \<Rightarrow> None)"

definition NewInternalERC20Token :: "'a libs_scheme \<Rightarrow> int \<Rightarrow> string \<Rightarrow> error + InternalERC20Token" where
  "NewInternalERC20Token k amount contract =
     bindE (wrapE ''invalid contract'' (NewEthAddress k contract)) (\<lambda>ethAddress.
       let ret = \<lparr>Amount = amount, Contract = ethAddress\<rparr>
       in case InternalERC20Token_ValidateBasic k ret of Some e \<Rightarrow> Inl e | None \<Rightarrow> Inr ret)"

definition ERC20Token_ToInternal :: "'a libs_scheme \<Rightarrow> ERC20Token \<Rightarrow> error + InternalERC20Token" where
  "ERC20Token_ToInternal k e = NewInternalERC20Token k (ERC20_Amount e) (ERC20_Contract e)"

definition InternalERC20Token_ToExternal :: "'a libs_scheme \<Rightarrow> InternalERC20Token \<Rightarrow> ERC20Token" where
  "InternalERC20Token_ToExternal k i =
     \<lparr>ERC20_Amount = Amount i, ERC20_Contract = Hex k (Contract i)\<rparr>"

definition ERC20Token_ValidateBasic :: "'a libs_scheme \<Rightarrow> ERC20Token \<Rightarrow> error option" where
  "ERC20Token_ValidateBasic k e = Wrap (ValidateEthAddress k (ERC20_Contract e)) ''ethereum address''"

definition InternalERC20Token_Add ::
  "'a libs_scheme \<Rightarrow> InternalERC20Token \<Rightarrow> InternalERC20Token \<Rightarrow> ('s, InternalERC20Token) op" where
  "InternalERC20Token_Add k i q =
     (if Contract i \<noteq> Contract q then fail (Wrapped ErrMismatched ''cannot add two different tokens'')
      else bind (Int_Add k (Amount i) (Amount q)) (\<lambda>total.
        lift (NewInternalERC20Token k total (Hex k (Contract i)))))"

section \<open>Bridge denoms\<close>

definition GravityDenom :: "'a libs_scheme \<Rightarrow> EthAddress \<Rightarrow> string" where
  "GravityDenom k tokenContract = GravityDenomPrefix @ GravityDenomSeparator @ Hex k tokenContract"

definition GravityDenomToERC20 :: "'a libs_scheme \<Rightarrow> string \<Rightarrow> error + EthAddress" where
  "GravityDenomToERC20 k denom =
     (if HasPrefix denom Gravity2DenomPrefix then Inl (ErrorMsg ''gravity2 prefix'')
      else let fullPrefix = GravityDenomPrefix @ GravityDenomSeparator
      in if \<not> HasPrefix denom fullPrefix then Inl (ErrorMsg ''denom prefix'')
      else case NewEthAddress k (TrimPrefix denom fullPrefix) of
        Inl e \<Rightarrow> Inl (ErrorMsg ''validating ethereum contract address'')
      | Inr ethAddr \<Rightarrow>
          if length denom \<noteq> GravityDenomLen then Inl (ErrorMsg ''len(denom)'') else Inr ethAddr)"

definition Gravity2Denom :: "'a libs_scheme \<Rightarrow> EthAddress \<Rightarrow> string" where
  "Gravity2Denom k tokenContract = Gravity2DenomPrefix @ Hex k tokenContract"

definition Gravity2DenomToERC20 :: "'a libs_scheme \<Rightarrow> string \<Rightarrow> error + EthAddress" where
  "Gravity2DenomToERC20 k denom =
     (if \<not> HasPrefix denom Gravity2DenomPrefix then Inl (ErrorMsg ''no gravity2 prefix'')
      else if length denom \<noteq> Gravity2DenomLen then Inl (ErrorMsg ''len(denom)'')
      else case NewEthAddress k (TrimPrefix denom Gravity2DenomPrefix) of
        Inl e \<Rightarrow> Inl (ErrorMsg ''validating ethereum contract address in gravity2 denom'')
      | Inr ethAddr \<Rightarrow> Inr ethAddr)"

section \<open>Strict denom validation\<close>

definition ibcDenomLen :: nat where
  "ibcDenomLen = length ''ibc/'' + 64"

definition MaxDenomLength :: nat where
  "MaxDenomLength = 256"

text \<open>The separator is the letter G followed by combining marks; these are its UTF-8 bytes.\<close>

definition AttestationSeparator :: string where
  "AttestationSeparator = [
     CHR 0x47, CHR 0xCC, CHR 0x84, CHR 0xCC, CHR 0x90, CHR 0xCC, CHR 0x8F, CHR 0xCC, CHR 0x8D, CHR 0xCC,
     CHR 0x84, CHR 0xCC, CHR 0x93, CHR 0xCC, CHR 0x83, CHR 0xCC, CHR 0x88, CHR 0xCC, CHR 0x8E, CHR 0xCC,
     CHR 0xA2, CHR 0xCC, CHR 0x88, CHR 0xCC, CHR 0x8E, CHR 0xCC, CHR 0xA2, CHR 0xCC, CHR 0x80, CHR 0xCC,
     CHR 0x88, CHR 0xCC, CHR 0x8E, CHR 0xCC, CHR 0xA2, CHR 0xCC, CHR 0x81, CHR 0xCD, CHR 0x92, CHR 0xCD,
     CHR 0x97, CHR 0xCC, CHR 0xA0, CHR 0xCC, CHR 0x80, CHR 0xCD, CHR 0x97, CHR 0xCD, CHR 0x80, CHR 0xCC,
     CHR 0x89, CHR 0xCC, CHR 0xA1, CHR 0xCD, CHR 0x97, CHR 0xCC, CHR 0xB0, CHR 0xCD, CHR 0x90, CHR 0xCC,
     CHR 0x88, CHR 0xCC, CHR 0x81]"

definition isASCII :: "string \<Rightarrow> bool" where
  "isASCII s \<longleftrightarrow> list_all (\<lambda>c. of_char c \<le> (127 :: nat)) s"

definition isUpperHex :: "string \<Rightarrow> bool" where
  "isUpperHex s \<longleftrightarrow>
     list_all (\<lambda>c. (CHR ''0'' \<le> c \<and> c \<le> CHR ''9'') \<or> (CHR ''A'' \<le> c \<and> c \<le> CHR ''F'')) s"

definition ValidateStrictDenom :: "'a libs_scheme \<Rightarrow> string \<Rightarrow> error option" where
  "ValidateStrictDenom k denom =
     (if denom = [] then Some (Wrapped ErrInvalidDenom ''denom is empty'')
      else if length denom > MaxDenomLength then Some (Wrapped ErrInvalidDenom ''denom exceeds maximum length'')
      else if \<not> isASCII denom then Some (Wrapped ErrInvalidDenom ''denom contains non-ASCII characters'')
      else if Contains denom AttestationSeparator then
        Some (Wrapped ErrInvalidDenom ''denom contains forbidden separator'')
      else if Contains denom [CHR 0x5C] then
        Some (Wrapped ErrInvalidDenom ''denom contains forbidden backslash'')
      else if HasPrefix denom ''ibc/'' then
        (if length denom \<noteq> ibcDenomLen then Some (Wrapped ErrInvalidDenom ''IBC denom length'')
         else if \<not> isUpperHex (drop 4 denom) then
           Some (Wrapped ErrInvalidDenom ''IBC denom hash must be uppercase hex'')
         else if Contains denom ''gravity'' \<or> Contains denom ''graviton'' \<or> Contains denom ''0x'' then
           Some (Wrapped ErrInvalidDenom ''IBC denom contains forbidden substring'')
         else None)
      else if HasPrefix denom Gravity2DenomPrefix then
        (case Gravity2DenomToERC20 k denom of
           Inl e \<Rightarrow> Some (Wrapped ErrInvalidDenom ''invalid gravity2 denom'') | Inr _ \<Rightarrow> None)
      else if HasPrefix denom (GravityDenomPrefix @ ''0x'') then
        (case GravityDenomToERC20 k denom of
           Inl e \<Rightarrow> Some (Wrapped ErrInvalidDenom ''invalid gravity denom'') | Inr _ \<Rightarrow> None)
      else if HasPrefix denom GravityDenomPrefix then
        Some (Wrapped ErrInvalidDenom ''denom has gravity prefix but is not a valid bridge denom'')
      else if Contains denom ''/'' then Some (Wrapped ErrInvalidDenom ''non-IBC denom contains slash'')
      else None)"

record ERC20ToDenom =
  ERC20ToDenom_Erc20 :: string
  ERC20ToDenom_Denom :: string

definition ERC20ToDenom_ValidateBasic :: "'a libs_scheme \<Rightarrow> ERC20ToDenom \<Rightarrow> error option" where
  "ERC20ToDenom_ValidateBasic k m =
     (let trimDenom = TrimSpace (ERC20ToDenom_Denom m);
          trimErc20 = TrimSpace (ERC20ToDenom_Erc20 m)
      in if trimDenom = [] \<or> trimDenom \<noteq> ERC20ToDenom_Denom m then
        Some (Wrapped ErrInvalid ''denom must be properly formatted'')
      else if trimErc20 = [] \<or> trimErc20 \<noteq> ERC20ToDenom_Erc20 m then
        Some (Wrapped ErrInvalid ''erc20 must be properly formatted'')
      else case NewEthAddress k (ERC20ToDenom_Erc20 m) of
        Inl e \<Rightarrow> Some (Wrapped ErrInvalid ''erc20 must be a valid ethereum address'')
      | Inr addr \<Rightarrow>
          if EthAddress_ValidateBasic k addr \<noteq> None then
            Some (Wrapped ErrInvalid ''erc20 address failed validate basic'')
          else if ValidateDenom k (ERC20ToDenom_Denom m) \<noteq> None then
            Some (Wrapped ErrInvalid ''denom is invalid'')
          else if ValidateStrictDenom k (ERC20ToDenom_Denom m) \<noteq> None then
            Some (Wrapped ErrInvalid ''denom is invalid'')
          else None)"

section \<open>Asset origins\<close>

datatype AssetOriginChain = AssetOriginUnspecified | AssetOriginCosmos | AssetOriginEthereum

record AssetOrigin =
  Origin :: AssetOriginChain
  IsRemapped :: bool
  Denom :: string
  ERC20 :: "EthAddress option"

definition AssertValid :: "AssetOrigin \<Rightarrow> ('s, unit) op" where
  "AssertValid a =
     (if Origin a \<noteq> AssetOriginCosmos \<and> Origin a \<noteq> AssetOriginEthereum then
        panic ''AssetOrigin: Origin must be AssetOriginCosmos or AssetOriginEthereum''
      else if IsRemapped a \<and> Origin a \<noteq> AssetOriginEthereum then
        panic ''AssetOrigin: IsRemapped is true but Origin is not AssetOriginEthereum''
      else if ERC20 a = None then panic ''AssetOrigin: ERC20 is nil''
      else if Denom a = [] then panic ''AssetOrigin: Denom is empty''
      else return ())"

text \<open>The loop index \<open>i\<close> runs over the suffixes of the denom that have at least two characters.\<close>

fun ContainsEthAddress :: "'a libs_scheme \<Rightarrow> string \<Rightarrow> bool" where
  "ContainsEthAddress k (c # d # s) \<longleftrightarrow>
     (c = CHR ''0'' \<and> (d = CHR ''x'' \<or> d = CHR ''X'') \<and> 42 \<le> length (c # d # s)
        \<and> ValidateEthAddress k (take 42 (c # d # s)) = None)
     \<or> ContainsEthAddress k (d # s)"
| "ContainsEthAddress k s \<longleftrightarrow> False"

section \<open>Laws of the packages\<close>

text \<open>
  go-ethereum: an address prints as 0x and forty hex digits and parses back to itself;
  \<open>IsHexAddress\<close> accepts exactly forty hex digits with an optional 0x; \<open>BytesToAddress\<close> inverts
  \<open>Bytes\<close>.  The SDK: a well-formed account or validator address survives its bech32 string.
\<close>

definition hexBody :: "string \<Rightarrow> string" where
  "hexBody s = (if has0xPrefix s then drop 2 s else s)"

definition geth_laws :: "'a libs_scheme \<Rightarrow> bool" where
  "geth_laws k \<longleftrightarrow>
     (\<forall>a. HexToAddress k (Hex k a) = a)
   \<and> (\<forall>a. \<exists>ds. Hex k a = ''0x'' @ ds \<and> length ds = 40 \<and> list_all isHexDigit ds)
   \<and> (\<forall>s. IsHexAddress k s \<longleftrightarrow> length (hexBody s) = 40 \<and> list_all isHexDigit (hexBody s))
   \<and> (\<forall>a. BytesToAddress k (be_bytes 20 a) = a)"

definition bech32_laws :: "'a libs_scheme \<Rightarrow> bool" where
  "bech32_laws k \<longleftrightarrow>
     (\<forall>a. VerifyAddressFormat k a = None \<longrightarrow> AccAddressFromBech32 k (AccAddress_String k a) = Inr a)
   \<and> (\<forall>s a. AccAddressFromBech32 k s = Inr a \<longrightarrow> VerifyAddressFormat k a = None)
   \<and> (\<forall>a. VerifyAddressFormat k a = None \<longrightarrow> ValAddressFromBech32 k (ValAddress_String k a) = Inr a)
   \<and> (\<forall>s a. ValAddressFromBech32 k s = Inr a \<longrightarrow> VerifyAddressFormat k a = None)"

definition coin_laws :: "'a libs_scheme \<Rightarrow> bool" where
  "coin_laws k \<longleftrightarrow>
     (\<forall>c. Coin_IsValid k c \<longleftrightarrow> ValidateDenom k (Coin_Denom c) = None \<and> 0 \<le> Coin_Amount c)
   \<and> (\<forall>c. Coin_IsValid k c \<longrightarrow>
        NewCoins k [c] = Some (if Coin_Amount c = 0 then [] else [c]))
   \<and> (\<forall>i. IntFits k i \<longleftrightarrow> \<bar>i\<bar> < 2 ^ 256)"

text \<open>\<open>sdkmath.NewIntFromString\<close> reads back what \<open>Int.String\<close> prints.\<close>

definition math_laws :: "'a libs_scheme \<Rightarrow> bool" where
  "math_laws k \<longleftrightarrow> (\<forall>i. IntFits k i \<longrightarrow> NewIntFromString k (decInt i) = Some i)"

section \<open>Address lemmas\<close>

lemma hexDigit_not_x: "isHexDigit c \<Longrightarrow> c \<noteq> CHR ''x'' \<and> c \<noteq> CHR ''X''"
  by (auto simp: isHexDigit_def)

lemma hex_body_not_0x: "list_all isHexDigit s \<Longrightarrow> \<not> has0xPrefix s"
  by (cases s; cases "tl s") (auto simp: has0xPrefix_def dest: hexDigit_not_x)

lemma hexBody_Nil [simp]: "hexBody [] = []"
  by (simp add: hexBody_def)

lemma ValidateEthAddress_iff:
  assumes "geth_laws k"
  shows "ValidateEthAddress k s = None \<longleftrightarrow> length (hexBody s) = 40 \<and> list_all isHexDigit (hexBody s)"
proof (cases "list_all isHexDigit (hexBody s)")
  case True
  then have "hexBody (hexBody s) = hexBody s"
    by (simp add: hexBody_def hex_body_not_0x)
  moreover have "DecodeString (hexBody s) = None \<longleftrightarrow> odd (length (hexBody s))"
    using True by (auto simp: DecodeString_None_iff list_all_iff)
  ultimately show ?thesis
    using assms by (auto simp: ValidateEthAddress_def geth_laws_def Let_def hexBody_def [symmetric])
next
  case False
  then have "DecodeString (hexBody s) = None"
    by (auto simp: DecodeString_None_iff list_all_iff)
  then show ?thesis
    using False by (simp add: ValidateEthAddress_def Let_def hexBody_def [symmetric])
qed

lemma Hex_shape:
  assumes "geth_laws k"
  obtains ds where "Hex k a = ''0x'' @ ds" "length ds = 40" "list_all isHexDigit ds"
  using assms unfolding geth_laws_def by blast

lemma hexBody_0x [simp]: "hexBody (CHR ''0'' # CHR ''x'' # ds) = ds"
  by (simp add: hexBody_def has0xPrefix_def)

lemma ValidateEthAddress_Hex [simp]: "geth_laws k \<Longrightarrow> ValidateEthAddress k (Hex k a) = None"
  by (rule Hex_shape [of k a]) (simp_all add: ValidateEthAddress_iff)

lemma EthAddress_ValidateBasic_ok [simp]: "geth_laws k \<Longrightarrow> EthAddress_ValidateBasic k a = None"
  by (simp add: EthAddress_ValidateBasic_def)

lemma NewEthAddress_Hex [simp]: "geth_laws k \<Longrightarrow> NewEthAddress k (Hex k a) = Inr a"
  by (simp add: NewEthAddress_def) (simp add: geth_laws_def)

lemma Hex_inject: "geth_laws k \<Longrightarrow> Hex k a = Hex k b \<longleftrightarrow> a = b"
  by (metis geth_laws_def)

lemma isHexDigit_hexDigit: "unat n < 16 \<Longrightarrow> isHexDigit (hexDigit n)"
proof -
  assume "unat n < 16"
  moreover have "list_all (\<lambda>i. isHexDigit (''0123456789abcdef'' ! i)) [0..<16]"
    by code_simp
  ultimately show ?thesis
    by (simp add: hexDigit_def list_all_iff)
qed

lemma nibble_less: "unat (drop_bit 4 (b :: byte)) < 16" "unat (b AND 15) < 16"
proof -
  show "unat (drop_bit 4 b) < 16"
    using unat_byte_less [of b] by (simp add: unat_drop_bit_eq drop_bit_nat_def)
  have "unat (b AND 15) = unat b mod 16"
    using take_bit_eq_mask [of 4 b] unat_mod [of b 16]
    by (simp add: mask_eq_exp_minus_1 take_bit_eq_mod)
  then show "unat (b AND 15) < 16"
    by simp
qed

lemma EncodeToString_hex: "list_all isHexDigit (EncodeToString bs)"
  by (induction bs) (simp_all add: isHexDigit_hexDigit nibble_less)

lemma length_EncodeToString: "length (EncodeToString bs) = 2 * length bs"
  by (induction bs) simp_all

lemma NewEthAddressFromBytes_Bytes [simp]:
  assumes "geth_laws k"
  shows "NewEthAddressFromBytes k (EthAddress_Bytes a) = Inr a"
proof -
  have "ValidateEthAddress k (EncodeToString (EthAddress_Bytes a)) = None"
    using EncodeToString_hex [of "EthAddress_Bytes a"] length_EncodeToString [of "EthAddress_Bytes a"]
    by (simp add: ValidateEthAddress_iff assms hexBody_def hex_body_not_0x EthAddress_Bytes_def)
  then show ?thesis
    using assms by (simp add: NewEthAddressFromBytes_def EthAddress_Bytes_def geth_laws_def)
qed

lemma EthAddress_Bytes_inj [simp]: "EthAddress_Bytes a = EthAddress_Bytes b \<longleftrightarrow> a = b"
  by (simp add: EthAddress_Bytes_def be_bytes_inj)

lemma NewInternalERC20Token_Hex [simp]:
  "geth_laws k \<Longrightarrow> 0 \<le> n \<Longrightarrow> NewInternalERC20Token k n (Hex k c) = Inr \<lparr>Amount = n, Contract = c\<rparr>"
  by (simp add: NewInternalERC20Token_def InternalERC20Token_ValidateBasic_def)

lemma ERC20Token_round_trip [simp]:
  "geth_laws k \<Longrightarrow> 0 \<le> Amount i \<Longrightarrow>
     ERC20Token_ToInternal k (InternalERC20Token_ToExternal k i) = Inr i"
  by (simp add: ERC20Token_ToInternal_def InternalERC20Token_ToExternal_def)

section \<open>Denom lemmas\<close>

lemma GravityDenom_not_gravity2: "geth_laws k \<Longrightarrow> \<not> HasPrefix (GravityDenom k a) Gravity2DenomPrefix"
  by (rule Hex_shape [of k a])
    (simp_all add: GravityDenom_def GravityDenomPrefix_def GravityDenomSeparator_def
      Gravity2DenomPrefix_def HasPrefix_def)

lemma length_Hex: "geth_laws k \<Longrightarrow> length (Hex k a) = 42"
  by (rule Hex_shape [of k a]) simp_all

lemma GravityDenom_round_trip [simp]:
  "geth_laws k \<Longrightarrow> GravityDenomToERC20 k (GravityDenom k a) = Inr a"
  using GravityDenom_not_gravity2 [of k a]
  by (simp add: GravityDenomToERC20_def GravityDenom_def Let_def GravityDenomLen_def
      ETHContractAddressLen_def length_Hex TrimPrefix_append [where p = "GravityDenomPrefix @ GravityDenomSeparator", simplified])
     (metis HasPrefix_append append_assoc)

lemma Gravity2Denom_round_trip [simp]:
  "geth_laws k \<Longrightarrow> Gravity2DenomToERC20 k (Gravity2Denom k a) = Inr a"
  by (simp add: Gravity2DenomToERC20_def Gravity2Denom_def Gravity2DenomLen_def
      ETHContractAddressLen_def length_Hex)

lemma denom_namespaces_disjoint:
  "GravityDenomToERC20 k d = Inr a \<Longrightarrow> Gravity2DenomToERC20 k d = Inr b \<Longrightarrow> False"
  by (simp add: GravityDenomToERC20_def Gravity2DenomToERC20_def Let_def split: if_splits)

lemma isHexDigit_code: "isHexDigit c \<Longrightarrow> of_char c \<in> {48..57} \<union> {65..70} \<union> {97..102 :: nat}"
  by (auto simp: isHexDigit_def less_eq_char_def)

lemma Contains_mem: "Contains s sub \<Longrightarrow> c \<in> set sub \<Longrightarrow> c \<in> set s"
  unfolding Contains_iff using set_mono_sublist by blast

lemma isASCII_no_separator: "isASCII s \<Longrightarrow> \<not> Contains s AttestationSeparator"
proof
  assume "isASCII s" and "Contains s AttestationSeparator"
  moreover have "CHR 0xCC \<in> set AttestationSeparator"
    by (simp add: AttestationSeparator_def)
  ultimately have "of_char (CHR 0xCC) \<le> (127 :: nat)"
    using Contains_mem unfolding isASCII_def list_all_iff by blast
  then show False
    by simp
qed

lemma hex_ASCII: "list_all isHexDigit ds \<Longrightarrow> isASCII ds"
  unfolding isASCII_def list_all_iff using isHexDigit_code by fastforce

lemma hex_no_backslash: "list_all isHexDigit ds \<Longrightarrow> CHR 0x5C \<notin> set ds"
  unfolding list_all_iff using isHexDigit_code by fastforce

lemma bridge_denom_strict:
  assumes k: "geth_laws k"
    and d: "d = p @ Hex k a" "p = GravityDenomPrefix \<or> p = Gravity2DenomPrefix"
  shows "d \<noteq> []" "length d \<le> MaxDenomLength" "isASCII d" "\<not> Contains d [CHR 0x5C]"
    "\<not> HasPrefix d ''ibc/''"
proof -
  obtain ds where ds: "Hex k a = ''0x'' @ ds" "length ds = 40" "list_all isHexDigit ds"
    using k by (rule Hex_shape)
  note prefixes = GravityDenomPrefix_def Gravity2DenomPrefix_def
  show "d \<noteq> []" "length d \<le> MaxDenomLength" "\<not> HasPrefix d ''ibc/''"
    using d ds by (auto simp: prefixes MaxDenomLength_def HasPrefix_def)
  show "isASCII d"
    using d ds hex_ASCII [OF ds(3)] by (auto simp: prefixes isASCII_def)
  have "CHR 0x5C \<notin> set d"
    using d ds hex_no_backslash [OF ds(3)] by (auto simp: prefixes)
  then show "\<not> Contains d [CHR 0x5C]"
    using Contains_mem [of d "[CHR 0x5C]" "CHR 0x5C"] by auto
qed

lemma ValidateStrictDenom_Gravity2Denom [simp]:
  assumes "geth_laws k"
  shows "ValidateStrictDenom k (Gravity2Denom k a) = None"
proof -
  have d: "Gravity2Denom k a = Gravity2DenomPrefix @ Hex k a"
    by (simp add: Gravity2Denom_def)
  have "HasPrefix (Gravity2Denom k a) Gravity2DenomPrefix"
    by (simp add: d)
  then show ?thesis
    using bridge_denom_strict [OF assms d] assms
    by (simp add: ValidateStrictDenom_def isASCII_no_separator)
qed

lemma ValidateStrictDenom_GravityDenom [simp]:
  assumes "geth_laws k"
  shows "ValidateStrictDenom k (GravityDenom k a) = None"
proof -
  have d: "GravityDenom k a = GravityDenomPrefix @ Hex k a"
    by (simp add: GravityDenom_def GravityDenomSeparator_def)
  have "HasPrefix (GravityDenom k a) (GravityDenomPrefix @ ''0x'')"
    by (rule Hex_shape [OF assms, of a]) (simp add: d HasPrefix_def)
  then show ?thesis
    using bridge_denom_strict [OF assms d] assms
    by (simp add: ValidateStrictDenom_def isASCII_no_separator GravityDenom_not_gravity2)
qed

lemma strict_denom_gravity_parses:
  assumes "ValidateStrictDenom k d = None" "HasPrefix d GravityDenomPrefix"
  shows "(\<exists>a. GravityDenomToERC20 k d = Inr a) \<noteq> (\<exists>a. Gravity2DenomToERC20 k d = Inr a)"
proof -
  have "\<not> HasPrefix d ''ibc/''"
    using assms(2) by (auto simp: HasPrefix_iff GravityDenomPrefix_def)
  then have "(\<exists>a. GravityDenomToERC20 k d = Inr a) \<or> (\<exists>a. Gravity2DenomToERC20 k d = Inr a)"
    using assms by (auto simp: ValidateStrictDenom_def split: if_splits sum.splits)
  then show ?thesis
    using denom_namespaces_disjoint by metis
qed

end
