(* ===== verification/Keys.thy ===== *)
theory Keys
  imports EthTypes
begin

text \<open>
  The byte keys of the gravity store (\<open>x/gravity/types/key.go\<close>, the helpers of
  \<open>x/gravity/types/types.go\<close> they use, and \<open>prefixRange\<close> of \<open>x/gravity/keeper/keeper.go\<close>).

  The other theories keep each key prefix in a typed store.  The lemmas here are what makes that
  representation the code's: the byte encoding of a typed key is injective and keeps its order, so
  lookups and iterations agree, and a prefix range holds exactly the keys with that prefix.
\<close>

section \<open>Helpers\<close>

definition UInt64Bytes :: "uint64 \<Rightarrow> bytes" where
  "UInt64Bytes n = be_bytes 8 n"

definition UInt64FromBytesUnsafe :: "bytes \<Rightarrow> ('s, uint64) op" where
  "UInt64FromBytesUnsafe s =
     (if length s > 8 then panic ''Invalid uint64 bytes passed to UInt64FromBytes!''
      else case BigEndian_Uint64 s of None \<Rightarrow> panic ''index out of range'' | Some n \<Rightarrow> return n)"

definition HashString :: "string \<Rightarrow> bytes" where
  "HashString input = md5_Sum (bytes_of_string input)"

definition AppendBytes :: "bytes list \<Rightarrow> bytes" where
  "AppendBytes args = concat args"

section \<open>Prefixes\<close>

definition EthAddressByValidatorKey :: bytes where
  "EthAddressByValidatorKey = HashString ''EthAddressValidatorKey''"

definition ValidatorByEthAddressKey :: bytes where
  "ValidatorByEthAddressKey = HashString ''ValidatorByEthAddressKey''"

definition ValsetRequestKey :: bytes where
  "ValsetRequestKey = HashString ''ValsetRequestKey''"

definition ValsetConfirmKey :: bytes where
  "ValsetConfirmKey = HashString ''ValsetConfirmKey''"

definition OracleAttestationKey :: bytes where
  "OracleAttestationKey = HashString ''OracleAttestationKey''"

definition OutgoingTXPoolKey :: bytes where
  "OutgoingTXPoolKey = HashString ''OutgoingTXPoolKey''"

definition OutgoingTXBatchKey :: bytes where
  "OutgoingTXBatchKey = HashString ''OutgoingTXBatchKey''"

definition BatchConfirmKey :: bytes where
  "BatchConfirmKey = HashString ''BatchConfirmKey''"

definition LastEventNonceByValidatorKey :: bytes where
  "LastEventNonceByValidatorKey = HashString ''LastEventNonceByValidatorKey''"

definition KeyOrchestratorAddress :: bytes where
  "KeyOrchestratorAddress = HashString ''KeyOrchestratorAddress''"

definition KeyOutgoingLogicCall :: bytes where
  "KeyOutgoingLogicCall = HashString ''KeyOutgoingLogicCall''"

definition KeyOutgoingLogicConfirm :: bytes where
  "KeyOutgoingLogicConfirm = HashString ''KeyOutgoingLogicConfirm''"

definition DenomToERC20Key :: bytes where
  "DenomToERC20Key = HashString ''DenomToERC20Key''"

definition ERC20ToDenomKey :: bytes where
  "ERC20ToDenomKey = HashString ''ERC20ToDenomKey''"

definition RemappedERC20Key :: bytes where
  "RemappedERC20Key = HashString ''RemappedERC20Key''"

definition PastEthSignatureCheckpointKey :: bytes where
  "PastEthSignatureCheckpointKey = HashString ''PastEthSignatureCheckpointKey''"

definition PendingIbcAutoForwards :: bytes where
  "PendingIbcAutoForwards = HashString ''IbcAutoForwardQueue''"

definition CosmosBridgeableTokensKey :: bytes where
  "CosmosBridgeableTokensKey = HashString ''CosmosBridgeableTokens''"

section \<open>Keys\<close>

definition GetOrchestratorAddressKey :: "'a libs_scheme \<Rightarrow> AccAddress \<Rightarrow> ('s, bytes) op" where
  "GetOrchestratorAddressKey k orc =
     bind (panicIf (VerifyAddressFormat k orc \<noteq> None) ''invalid orchestrator address'') (\<lambda>_.
       return (AppendBytes [KeyOrchestratorAddress, orc]))"

definition GetEthAddressByValidatorKey :: "'a libs_scheme \<Rightarrow> ValAddress \<Rightarrow> ('s, bytes) op" where
  "GetEthAddressByValidatorKey k validator =
     bind (panicIf (VerifyAddressFormat k validator \<noteq> None) ''invalid validator address'') (\<lambda>_.
       return (AppendBytes [EthAddressByValidatorKey, validator]))"

definition GetValidatorByEthAddressKey :: "EthAddress \<Rightarrow> bytes" where
  "GetValidatorByEthAddressKey ethAddress =
     AppendBytes [ValidatorByEthAddressKey, EthAddress_Bytes ethAddress]"

definition GetValsetKey :: "uint64 \<Rightarrow> bytes" where
  "GetValsetKey nonce = AppendBytes [ValsetRequestKey, UInt64Bytes nonce]"

definition GetValsetConfirmNoncePrefix :: "uint64 \<Rightarrow> bytes" where
  "GetValsetConfirmNoncePrefix nonce = AppendBytes [ValsetConfirmKey, UInt64Bytes nonce]"

definition GetValsetConfirmKey :: "'a libs_scheme \<Rightarrow> uint64 \<Rightarrow> AccAddress \<Rightarrow> ('s, bytes) op" where
  "GetValsetConfirmKey k nonce validator =
     bind (panicIf (VerifyAddressFormat k validator \<noteq> None) ''invalid validator address'') (\<lambda>_.
       return (AppendBytes [GetValsetConfirmNoncePrefix nonce, validator]))"

definition GetAttestationKey :: "uint64 \<Rightarrow> bytes \<Rightarrow> bytes" where
  "GetAttestationKey eventNonce claimHash =
     AppendBytes [OracleAttestationKey, UInt64Bytes eventNonce, claimHash]"

definition GetOutgoingTxPoolContractPrefix :: "EthAddress \<Rightarrow> bytes" where
  "GetOutgoingTxPoolContractPrefix contractAddress =
     AppendBytes [OutgoingTXPoolKey, EthAddress_Bytes contractAddress]"

definition GetOutgoingTxPoolKey :: "InternalERC20Token \<Rightarrow> uint64 \<Rightarrow> ('s, bytes) op" where
  "GetOutgoingTxPoolKey fee txId =
     (case FillBytes32 (Amount fee) of
        None \<Rightarrow> panic ''math/big: buffer too small to fit value''
      | Some amount \<Rightarrow>
          return (AppendBytes [OutgoingTXPoolKey, EthAddress_Bytes (Contract fee),
            be_bytes 32 amount, UInt64Bytes txId]))"

definition GetOutgoingTxBatchContractPrefix :: "EthAddress \<Rightarrow> bytes" where
  "GetOutgoingTxBatchContractPrefix tokenContract =
     AppendBytes [OutgoingTXBatchKey, EthAddress_Bytes tokenContract]"

definition GetOutgoingTxBatchKey :: "EthAddress \<Rightarrow> uint64 \<Rightarrow> bytes" where
  "GetOutgoingTxBatchKey tokenContract nonce =
     AppendBytes [GetOutgoingTxBatchContractPrefix tokenContract, UInt64Bytes nonce]"

definition GetBatchConfirmNonceContractPrefix :: "EthAddress \<Rightarrow> uint64 \<Rightarrow> bytes" where
  "GetBatchConfirmNonceContractPrefix tokenContract batchNonce =
     AppendBytes [BatchConfirmKey, EthAddress_Bytes tokenContract, UInt64Bytes batchNonce]"

definition GetBatchConfirmKey ::
  "'a libs_scheme \<Rightarrow> EthAddress \<Rightarrow> uint64 \<Rightarrow> AccAddress \<Rightarrow> ('s, bytes) op" where
  "GetBatchConfirmKey k tokenContract batchNonce validator =
     bind (panicIf (VerifyAddressFormat k validator \<noteq> None) ''invalid validator address'') (\<lambda>_.
       return (AppendBytes [GetBatchConfirmNonceContractPrefix tokenContract batchNonce, validator]))"

definition GetLastEventNonceByValidatorKey :: "'a libs_scheme \<Rightarrow> ValAddress \<Rightarrow> ('s, bytes) op" where
  "GetLastEventNonceByValidatorKey k validator =
     bind (panicIf (VerifyAddressFormat k validator \<noteq> None) ''invalid validator address'') (\<lambda>_.
       return (AppendBytes [LastEventNonceByValidatorKey, validator]))"

definition GetDenomToERC20Key :: "string \<Rightarrow> bytes" where
  "GetDenomToERC20Key denom = AppendBytes [DenomToERC20Key, bytes_of_string denom]"

definition GetERC20ToDenomKey :: "EthAddress \<Rightarrow> bytes" where
  "GetERC20ToDenomKey erc20 = AppendBytes [ERC20ToDenomKey, EthAddress_Bytes erc20]"

definition GetRemappedERC20Key :: "EthAddress \<Rightarrow> bytes" where
  "GetRemappedERC20Key erc20 = AppendBytes [RemappedERC20Key, EthAddress_Bytes erc20]"

definition GetOutgoingLogicCallKey :: "bytes \<Rightarrow> uint64 \<Rightarrow> bytes" where
  "GetOutgoingLogicCallKey invalidationId invalidationNonce =
     AppendBytes [KeyOutgoingLogicCall, invalidationId, UInt64Bytes invalidationNonce]"

definition GetLogicConfirmNonceInvalidationIdPrefix :: "bytes \<Rightarrow> uint64 \<Rightarrow> bytes" where
  "GetLogicConfirmNonceInvalidationIdPrefix invalidationId invalidationNonce =
     AppendBytes [KeyOutgoingLogicConfirm, invalidationId, UInt64Bytes invalidationNonce]"

definition GetLogicConfirmKey ::
  "'a libs_scheme \<Rightarrow> bytes \<Rightarrow> uint64 \<Rightarrow> AccAddress \<Rightarrow> ('s, bytes) op" where
  "GetLogicConfirmKey k invalidationId invalidationNonce validator =
     bind (panicIf (VerifyAddressFormat k validator \<noteq> None) ''invalid validator address'') (\<lambda>_.
       return (AppendBytes
         [GetLogicConfirmNonceInvalidationIdPrefix invalidationId invalidationNonce, validator]))"

definition convertByteArrToString :: "bytes \<Rightarrow> bytes" where
  "convertByteArrToString v = concat (map utf8_byte v)"

definition GetPastEthSignatureCheckpointKey :: "bytes \<Rightarrow> bytes" where
  "GetPastEthSignatureCheckpointKey checkpoint =
     AppendBytes [PastEthSignatureCheckpointKey, convertByteArrToString checkpoint]"

definition GetPendingIbcAutoForwardKey :: "uint64 \<Rightarrow> bytes" where
  "GetPendingIbcAutoForwardKey eventNonce = AppendBytes [PendingIbcAutoForwards, UInt64Bytes eventNonce]"

definition GetCosmosBridgeableTokenKey :: "string \<Rightarrow> bytes" where
  "GetCosmosBridgeableTokenKey denom = AppendBytes [CosmosBridgeableTokensKey, bytes_of_string denom]"

section \<open>Prefix ranges\<close>

text \<open>\<open>prefixRange\<close>: the carry loop walks left while the incremented byte wrapped to zero.\<close>

fun prefixRange_carry :: "nat \<Rightarrow> bytes \<Rightarrow> nat \<times> bytes" where
  "prefixRange_carry 0 e = (0, e)"
| "prefixRange_carry (Suc l) e =
     (if e ! Suc l = 0 then prefixRange_carry l (e[l := e ! l + 1]) else (Suc l, e))"

definition prefixRange :: "bytes option \<Rightarrow> ('s, bytes option \<times> bytes option) op" where
  "prefixRange pfx =
     (case pfx of
        None \<Rightarrow> panic ''nil key not allowed''
      | Some p \<Rightarrow>
          if length p = 0 then return (None, None)
          else let l = length p - 1;
                   (l', e) = prefixRange_carry l (p[l := p ! l + 1])
               in return (Some p, if l' = 0 \<and> e ! 0 = 0 then None else Some e))"

definition inRange :: "bytes option \<times> bytes option \<Rightarrow> bytes \<Rightarrow> bool" where
  "inRange r key \<longleftrightarrow>
     (case fst r of None \<Rightarrow> True | Some s \<Rightarrow> s \<le> key) \<and> (case snd r of None \<Rightarrow> True | Some e \<Rightarrow> key < e)"

section \<open>Order and injectivity of the encodings\<close>

lemma append_less_iff:
  fixes xs xs' :: "'a::linorder list"
  shows "length xs = length xs' \<Longrightarrow> xs @ ys < xs' @ ys' \<longleftrightarrow> xs < xs' \<or> xs = xs' \<and> ys < ys'"
  by (induction xs xs' rule: list_induct2) auto

lemma append_cancel_less [simp]: "xs @ ys < xs @ ys' \<longleftrightarrow> ys < ys'"
  for xs :: "'a::linorder list"
  by (simp add: append_less_iff)

lemma bytes_of_string_inj [simp]: "bytes_of_string s = bytes_of_string t \<longleftrightarrow> s = t"
  by (metis string_of_bytes_of_string)

lemma byte_of_char_less: "(word_of_nat (of_char c) :: byte) < word_of_nat (of_char d) \<longleftrightarrow> c < d"
  using nat_of_char_less_256 [of c] nat_of_char_less_256 [of d]
  by (simp add: word_less_nat_alt unat_of_nat less_char_def)

lemma bytes_of_string_less [simp]: "bytes_of_string s < bytes_of_string t \<longleftrightarrow> s < t"
proof (induction s arbitrary: t)
  case Nil
  then show ?case
    by (cases t) (simp_all add: bytes_of_string_def)
next
  case (Cons c s)
  have "(word_of_nat (of_char c) :: byte) = word_of_nat (of_char d) \<longleftrightarrow> c = d" for d
    using byte_of_char_less [of c d] byte_of_char_less [of d c] by (metis less_irrefl linorder_neqE)
  then show ?case
    using Cons by (cases t) (simp_all add: bytes_of_string_def byte_of_char_less)
qed

lemma EthAddress_Bytes_less [simp]: "EthAddress_Bytes a < EthAddress_Bytes b \<longleftrightarrow> a < b"
  by (simp add: EthAddress_Bytes_def be_bytes_less)

lemma length_EthAddress_Bytes [simp]: "length (EthAddress_Bytes a) = 20"
  by (simp add: EthAddress_Bytes_def)

lemma UInt64Bytes_less [simp]: "UInt64Bytes m < UInt64Bytes n \<longleftrightarrow> m < n"
  by (simp add: UInt64Bytes_def be_bytes_less)

lemma UInt64Bytes_inj [simp]: "UInt64Bytes m = UInt64Bytes n \<longleftrightarrow> m = n"
  by (simp add: UInt64Bytes_def be_bytes_inj)

lemma length_UInt64Bytes [simp]: "length (UInt64Bytes n) = 8"
  by (simp add: UInt64Bytes_def)

lemma UInt64_round_trip: "UInt64FromBytesUnsafe (UInt64Bytes n) s = Ok n s"
  by (simp add: UInt64FromBytesUnsafe_def UInt64Bytes_def)

lemma length_HashString [simp]: "length (HashString s) = 16"
  by (simp add: HashString_def)

text \<open>The typed keys and their encodings.\<close>

type_synonym pool_key = "EthAddress \<times> 256 word \<times> uint64"

definition enc_pool_key :: "pool_key \<Rightarrow> bytes" where
  "enc_pool_key = (\<lambda>(c, a, i). AppendBytes [OutgoingTXPoolKey, EthAddress_Bytes c, be_bytes 32 a, UInt64Bytes i])"

definition enc_batch_key :: "EthAddress \<times> uint64 \<Rightarrow> bytes" where
  "enc_batch_key = (\<lambda>(c, n). GetOutgoingTxBatchKey c n)"

definition enc_att_key :: "uint64 \<times> bytes \<Rightarrow> bytes" where
  "enc_att_key = (\<lambda>(n, h). GetAttestationKey n h)"

definition enc_batch_confirm_key :: "EthAddress \<times> uint64 \<times> AccAddress \<Rightarrow> bytes" where
  "enc_batch_confirm_key =
     (\<lambda>(c, n, v). AppendBytes [GetBatchConfirmNonceContractPrefix c n, v])"

lemma enc_pool_key_less: "enc_pool_key x < enc_pool_key y \<longleftrightarrow> x < y"
  by (cases x; cases y)
    (auto simp add: le_less enc_pool_key_def AppendBytes_def append_less_iff be_bytes_less be_bytes_inj)

lemma enc_batch_key_less: "enc_batch_key x < enc_batch_key y \<longleftrightarrow> x < y"
  by (cases x; cases y)
    (auto simp add: le_less enc_batch_key_def GetOutgoingTxBatchKey_def GetOutgoingTxBatchContractPrefix_def
      AppendBytes_def append_less_iff)

lemma enc_att_key_less: "enc_att_key x < enc_att_key y \<longleftrightarrow> x < y"
  by (cases x; cases y)
    (auto simp add: le_less enc_att_key_def GetAttestationKey_def AppendBytes_def append_less_iff)

lemma enc_batch_confirm_key_less: "enc_batch_confirm_key x < enc_batch_confirm_key y \<longleftrightarrow> x < y"
  by (cases x; cases y)
    (auto simp add: le_less enc_batch_confirm_key_def GetBatchConfirmNonceContractPrefix_def AppendBytes_def
      append_less_iff)

text \<open>An order embedding is injective.\<close>

lemma order_embedding_inj:
  assumes "\<And>x y :: 'a::linorder. f x < f y \<longleftrightarrow> x < y"
  shows "f x = (f y :: 'b::order) \<longleftrightarrow> x = y"
  using assms [of x y] assms [of y x] by (cases x y rule: linorder_cases) auto

section \<open>Prefix ranges are exact\<close>

lemma be_val_append: "be_val (xs @ ys) = be_val xs * 256 ^ length ys + be_val ys"
  by (induction xs) (simp_all add: power_add algebra_simps)

lemma be_val_zeros [simp]: "be_val (replicate n 0) = 0"
  by (induction n) simp_all

lemma unat_succ_byte: "(b :: byte) + 1 \<noteq> 0 \<Longrightarrow> unat (b + 1) = unat b + 1"
  by (simp add: unatSuc add.commute)

lemma byte_wrap: "(b :: byte) + 1 = 0 \<Longrightarrow> unat b = 255"
proof -
  assume "b + 1 = 0"
  then have "Suc (unat b) mod 256 = 0"
    using unat_word_ariths(1) [of b 1] by simp
  then show ?thesis
    using unat_byte_less [of b] by (cases "Suc (unat b) < 256") auto
qed

text \<open>The carry loop adds one to the big-endian number, or reports that it overflowed.\<close>

lemma prefixRange_carry_val:
  assumes "prefixRange_carry (length xs) (xs @ (b + 1) # replicate m 0) = (l, e)"
  shows "length e = length xs + Suc m \<and>
    (if be_val (xs @ [b]) + 1 = 256 ^ Suc (length xs) then l = 0 \<and> e ! 0 = 0
     else \<not> (l = 0 \<and> e ! 0 = 0) \<and> be_val e = (be_val (xs @ [b]) + 1) * 256 ^ m)"
  using assms
proof (induction xs arbitrary: b m rule: rev_induct)
  case Nil
  show ?case
  proof (cases "b + 1 = 0")
    case True
    then show ?thesis
      using Nil byte_wrap [OF True] by auto
  next
    case False
    then have "unat b + 1 \<noteq> 256"
      using unat_succ_byte [OF False] unat_byte_less [of "b + 1"] by simp
    then show ?thesis
      using Nil False unat_succ_byte [OF False] by auto
  qed
next
  case (snoc c ys)
  show ?case
  proof (cases "b + 1 = 0")
    case True
    then have "prefixRange_carry (length ys) (ys @ (c + 1) # replicate (Suc m) 0) = (l, e)"
      using snoc.prems by (simp add: nth_append list_update_append)
    then show ?thesis
      using snoc.IH [of c "Suc m"] byte_wrap [OF True] by (simp add: be_val_append algebra_simps)
  next
    case False
    then have "e = ys @ c # (b + 1) # replicate m 0" "l = Suc (length ys)"
      using snoc.prems by (auto simp: nth_append)
    moreover have "be_val (ys @ [c, b]) + 1 \<noteq> 256 ^ Suc (Suc (length ys))"
      using unat_succ_byte [OF False] be_val_less [of "ys @ [c, b + 1]"]
      by (simp add: be_val_append)
    ultimately show ?thesis
      using unat_succ_byte [OF False] by (simp add: be_val_append algebra_simps)
  qed
qed

lemma less_take:
  fixes e key :: "'a::linorder list"
  assumes "length e \<le> length key"
  shows "key < e \<longleftrightarrow> take (length e) key < e"
proof -
  have "take (length e) key @ drop (length e) key < e @ [] \<longleftrightarrow> take (length e) key < e"
    using assms by (subst append_less_iff) simp_all
  then show ?thesis
    by simp
qed

lemma prefixRange_result:
  assumes "p \<noteq> []"
  obtains e where "prefixRange (Some p) s = Ok (Some p, e) s"
    and "e = None \<Longrightarrow> be_val p + 1 = 256 ^ length p"
    and "\<And>q. e = Some q \<Longrightarrow> length q = length p \<and> be_val q = be_val p + 1"
proof -
  obtain xs b where p: "p = xs @ [b]"
    using assms by (cases p rule: rev_cases) simp_all
  obtain l q where c: "prefixRange_carry (length xs) (xs @ [b + 1]) = (l, q)"
    by (rule prod.exhaust)
  let ?e = "if l = 0 \<and> q ! 0 = 0 then None else Some q"
  have "prefixRange (Some p) s = Ok (Some p, ?e) s"
    using c by (simp add: prefixRange_def p Let_def)
  moreover have "?e = None \<Longrightarrow> be_val p + 1 = 256 ^ length p"
    and "\<And>r. ?e = Some r \<Longrightarrow> length r = length p \<and> be_val r = be_val p + 1"
    using prefixRange_carry_val [of xs b 0 l q] c by (simp_all add: p split: if_splits)
  ultimately show ?thesis
    by (rule that)
qed

lemma prefixRange_exact:
  assumes "p \<noteq> []" "length p \<le> length key" "prefixRange (Some p) s = Ok r t"
  shows "inRange r key \<longleftrightarrow> take (length p) key = p"
proof -
  obtain e where run: "prefixRange (Some p) s = Ok (Some p, e) s"
    and none: "e = None \<Longrightarrow> be_val p + 1 = 256 ^ length p"
    and some: "\<And>q. e = Some q \<Longrightarrow> length q = length p \<and> be_val q = be_val p + 1"
    using prefixRange_result [OF assms(1), of s] by blast
  let ?t = "take (length p) key"
  have len: "length ?t = length p"
    using assms(2) by simp
  have low: "p \<le> key \<longleftrightarrow> be_val p \<le> be_val ?t"
    using less_take [OF assms(2)] be_val_lex [OF len] by (meson linorder_not_less)
  have high: "(case e of None \<Rightarrow> True | Some q \<Rightarrow> key < q) \<longleftrightarrow> be_val ?t \<le> be_val p"
  proof (cases e)
    case None
    then show ?thesis
      using none be_val_less [of ?t] len by simp
  next
    case (Some q)
    then show ?thesis
      using some [OF Some] less_take [of q key] be_val_lex [of ?t q] len assms(2) by auto
  qed
  have "be_val p = be_val ?t \<longleftrightarrow> p = ?t"
    using be_val_lex [OF len] be_val_lex [OF len [symmetric]] by (cases p ?t rule: linorder_cases) auto
  then show ?thesis
    using low high run assms(3) by (auto simp: inRange_def)
qed

end
