(* ===== verification/GravityState.thy ===== *)
theory GravityState
  imports KVStore Keys
begin

text \<open>
  The data of the gravity module and its chain state: the protobuf messages and internal structs of
  \<open>x/gravity/types\<close> that the keeper stores, the keeper's dependencies (\<open>keeper.go\<close>, the
  \<open>Keeper\<close> struct) and the parameters (\<open>keeper_params.go\<close>).

  The context record \<open>ctx\<close> has the block height and time, one typed store per key prefix of
  \<open>key.go\<close>, the bech32ibc store, the auction store, and \<open>others\<close>: the state of all modules outside the repository,
  which only the functions in the \<open>Keeper\<close> record read or change.  Stored protobuf values are kept
  as values; marshalling and unmarshalling are inverse to each other and are not modelled.
\<close>

section \<open>Stored data\<close>

record OutgoingTransferTx =
  ext_Id :: uint64
  ext_Sender :: string
  ext_DestAddress :: string
  ext_Erc20Token :: ERC20Token
  ext_Erc20Fee :: ERC20Token

record InternalOutgoingTransferTx =
  TxId :: uint64
  Sender :: AccAddress
  DestAddress :: EthAddress
  Erc20Token :: InternalERC20Token
  Erc20Fee :: InternalERC20Token

record OutgoingTxBatch =
  ext_BatchNonce :: uint64
  ext_BatchTimeout :: uint64
  ext_Transactions :: "OutgoingTransferTx list"
  ext_TokenContract :: string
  ext_CosmosBlockCreated :: uint64

record InternalOutgoingTxBatch =
  BatchNonce :: uint64
  BatchTimeout :: uint64
  Transactions :: "InternalOutgoingTransferTx list"
  TokenContract :: EthAddress
  CosmosBlockCreated :: uint64

record BridgeValidator =
  Power :: uint64
  EthereumAddress :: string

record InternalBridgeValidator =
  IPower :: uint64
  IEthereumAddress :: EthAddress

record Valset =
  Valset_Nonce :: uint64
  Valset_Members :: "BridgeValidator list"
  Valset_Height :: uint64
  Valset_RewardAmount :: int
  Valset_RewardToken :: string

record OutgoingLogicCall =
  Transfers :: "ERC20Token list"
  Fees :: "ERC20Token list"
  LogicContractAddress :: string
  Payload :: bytes
  LogicTimeout :: uint64
  InvalidationId :: bytes
  InvalidationNonce :: uint64
  LogicCosmosBlockCreated :: uint64

record LastObservedEthereumBlockHeight =
  CosmosBlockHeight :: uint64
  EthereumBlockHeight :: uint64

record PendingIbcAutoForward =
  ForeignReceiver :: string
  Forward_Token :: Coin
  IbcChannel :: string
  Forward_EventNonce :: uint64

record MsgConfirmBatch =
  ConfirmBatch_Nonce :: uint64
  ConfirmBatch_TokenContract :: string
  ConfirmBatch_EthSigner :: string
  ConfirmBatch_Orchestrator :: string
  ConfirmBatch_Signature :: string

record MsgValsetConfirm =
  ValsetConfirm_Nonce :: uint64
  ValsetConfirm_Orchestrator :: string
  ValsetConfirm_EthAddress :: string
  ValsetConfirm_Signature :: string

record MsgConfirmLogicCall =
  ConfirmLogic_InvalidationId :: string
  ConfirmLogic_InvalidationNonce :: uint64
  ConfirmLogic_EthSigner :: string
  ConfirmLogic_Orchestrator :: string
  ConfirmLogic_Signature :: string

subsection \<open>Claims and attestations\<close>

record MsgSendToCosmosClaim =
  STC_EventNonce :: uint64
  STC_EthBlockHeight :: uint64
  STC_TokenContract :: string
  STC_Amount :: int
  STC_EthereumSender :: string
  STC_CosmosReceiver :: string
  STC_Orchestrator :: string

record MsgBatchSendToEthClaim =
  BSE_EventNonce :: uint64
  BSE_EthBlockHeight :: uint64
  BSE_BatchNonce :: uint64
  BSE_TokenContract :: string
  BSE_Orchestrator :: string

record MsgERC20DeployedClaim =
  ED_EventNonce :: uint64
  ED_EthBlockHeight :: uint64
  ED_CosmosDenom :: string
  ED_TokenContract :: string
  ED_Name :: string
  ED_Symbol :: string
  ED_Decimals :: uint64
  ED_Orchestrator :: string

record MsgLogicCallExecutedClaim =
  LCE_EventNonce :: uint64
  LCE_EthBlockHeight :: uint64
  LCE_InvalidationId :: bytes
  LCE_InvalidationNonce :: uint64
  LCE_Orchestrator :: string

record MsgValsetUpdatedClaim =
  VU_EventNonce :: uint64
  VU_ValsetNonce :: uint64
  VU_EthBlockHeight :: uint64
  VU_Members :: "BridgeValidator list"
  VU_RewardAmount :: int
  VU_RewardToken :: string
  VU_Orchestrator :: string

datatype EthereumClaim =
    SendToCosmosClaim MsgSendToCosmosClaim
  | BatchSendToEthClaim MsgBatchSendToEthClaim
  | ERC20DeployedClaim MsgERC20DeployedClaim
  | LogicCallExecutedClaim MsgLogicCallExecutedClaim
  | ValsetUpdatedClaim MsgValsetUpdatedClaim

datatype ClaimType =
    CLAIM_TYPE_UNSPECIFIED | CLAIM_TYPE_SEND_TO_COSMOS | CLAIM_TYPE_BATCH_SEND_TO_ETH
  | CLAIM_TYPE_ERC20_DEPLOYED | CLAIM_TYPE_LOGIC_CALL_EXECUTED | CLAIM_TYPE_VALSET_UPDATED

text \<open>The components repeat the hashed fields of each claim; amounts are decimal strings.\<close>

datatype ClaimHashComponents =
    Comp_SendToCosmos uint64 uint64 string string string string
  | Comp_BatchSendToEth uint64 uint64 uint64 string
  | Comp_Erc20Deployed uint64 uint64 string string string string uint64
  | Comp_LogicCallExecuted uint64 uint64 bytes uint64
  | Comp_ValsetUpdated uint64 uint64 uint64 "BridgeValidator list" string string

record Attestation =
  Observed :: bool
  Votes :: "string list"
  Att_Height :: uint64
  Claim :: EthereumClaim
  Att_ClaimType :: ClaimType
  ClaimComponents :: "ClaimHashComponents option"

subsection \<open>Parameters and other modules' data\<close>

record Params =
  GravityId :: string
  ContractSourceHash :: string
  BridgeEthereumAddress :: string
  BridgeChainId :: uint64
  SignedValsetsWindow :: uint64
  SignedBatchesWindow :: uint64
  SignedLogicCallsWindow :: uint64
  TargetBatchTimeout :: uint64
  AverageBlockTime :: uint64
  AverageEthereumBlockTime :: uint64
  SlashFractionValset :: int
  SlashFractionBatch :: int
  SlashFractionLogicCall :: int
  UnbondSlashingValsetsWindow :: uint64
  SlashFractionBadEthSignature :: int
  ValsetReward :: Coin
  BridgeActive :: bool
  EthereumBlacklist :: "string list"
  MinChainFeeBasisPoints :: uint64
  ChainFeeAuctionPoolFraction :: int

record DenomUnit =
  Unit_Denom :: string
  Exponent :: "32 word"
  Aliases :: "string list"

record Metadata =
  Description :: string
  DenomUnits :: "DenomUnit list"
  Base :: string
  Display :: string
  Meta_Name :: string
  Meta_Symbol :: string
  Meta_URI :: string
  Meta_URIHash :: string

record Validator =
  Operator :: string
  IsJailed :: bool
  IsBonded :: bool
  IsUnbonding :: bool
  UnbondingHeight :: "64 word"
  GetConsAddr :: "error + bytes"
  ConsensusPower :: int

record HrpIbcRecord =
  Hrp :: string
  SourceChannel :: string
  IcsToHeightOffset :: uint64
  IcsToTimeOffset :: int

text \<open>The message of the IBC transfer module.\<close>

record MsgTransfer =
  Transfer_SourcePort :: string
  Transfer_SourceChannel :: string
  Transfer_Token :: Coin
  Transfer_Sender :: string
  Transfer_Receiver :: string
  TimeoutHeight :: "uint64 \<times> uint64"
  TimeoutTimestamp :: uint64
  Memo :: string

text \<open>The auction module.\<close>

record AuctionParams =
  AuctionLength :: uint64
  MinBidFee :: uint64
  NonAuctionableTokens :: "string list"
  BurnWinningBids :: bool
  Enabled :: bool

record AuctionPeriod =
  StartBlockHeight :: uint64
  EndBlockHeight :: uint64

record Bid =
  BidAmount :: uint64
  BidderAddress :: string

record Auction =
  Auction_Id :: uint64
  Auction_Amount :: Coin
  HighestBid :: "Bid option"

type_synonym DecCoins = "(string \<times> int) list"

section \<open>Chain state\<close>

record 'x ctx =
  BlockHeight :: "64 word"
  BlockTime :: int
  ethAddressByValidator :: "(ValAddress, bytes) kv"
  validatorByEthAddress :: "(EthAddress, ValAddress) kv"
  valsetRequest :: "(uint64, Valset) kv"
  valsetConfirm :: "(uint64 \<times> AccAddress, MsgValsetConfirm) kv"
  oracleAttestation :: "(uint64 \<times> bytes, Attestation) kv"
  outgoingTXPool :: "(pool_key, OutgoingTransferTx) kv"
  outgoingTXBatch :: "(EthAddress \<times> uint64, OutgoingTxBatch) kv"
  batchConfirm :: "(EthAddress \<times> uint64 \<times> AccAddress, MsgConfirmBatch) kv"
  lastEventNonceByValidator :: "(ValAddress, uint64) kv"
  lastObservedEventNonce :: "uint64 option"
  lastTXPoolID :: "uint64 option"
  lastOutgoingBatchID :: "uint64 option"
  orchestratorAddress :: "(AccAddress, ValAddress) kv"
  outgoingLogicCall :: "(bytes, OutgoingLogicCall) kv"
  outgoingLogicConfirm :: "(bytes, MsgConfirmLogicCall) kv"
  lastObservedEthereumBlockHeight :: "LastObservedEthereumBlockHeight option"
  denomToERC20 :: "(string, bytes) kv"
  erc20ToDenom :: "(EthAddress, string) kv"
  remappedERC20 :: "(EthAddress, bytes) kv"
  lastSlashedValsetNonce :: "uint64 option"
  latestValsetNonce :: "uint64 option"
  lastSlashedBatchBlock :: "uint64 option"
  lastSlashedLogicCallBlock :: "uint64 option"
  lastUnBondingBlockHeight :: "uint64 option"
  pastEthSignatureCheckpoint :: "(bytes, bytes) kv"
  lastObservedValset :: "Valset option"
  pendingIbcAutoForwards :: "(uint64, PendingIbcAutoForward) kv"
  paramsStore :: "Params option"
  cosmosBridgeableTokens :: "(string, Metadata) kv"
  nativeHrp :: "string option"
  hrpIbcRecords :: "(string, HrpIbcRecord) kv"
  auctionParams :: "AuctionParams option"
  auctionPeriod :: "AuctionPeriod option"
  auctionStore :: "(uint64, Auction) kv"
  auctionNonce :: "uint64 option"
  others :: 'x

section \<open>Dependencies\<close>

record 'x Keeper = libs +
  GetBalance :: "'x \<Rightarrow> AccAddress \<Rightarrow> string \<Rightarrow> Coin"
  GetSupply :: "'x \<Rightarrow> string \<Rightarrow> Coin"
  GetDenomMetaData :: "'x \<Rightarrow> string \<Rightarrow> Metadata option"
  SetDenomMetaData :: "Metadata \<Rightarrow> ('x, unit) op"
  Metadata_Validate :: "Metadata \<Rightarrow> error option"
  GetAllBalances :: "'x \<Rightarrow> AccAddress \<Rightarrow> Coin list"
  TotalSupply :: "'x \<Rightarrow> Coin list"
  MintDenom :: "'x \<Rightarrow> error + string"
  DeductFees :: "AccAddress \<Rightarrow> Coin list \<Rightarrow> ('x, unit) op"
  MintCoins :: "string \<Rightarrow> Coin list \<Rightarrow> ('x, unit) op"
  BurnCoins :: "string \<Rightarrow> Coin list \<Rightarrow> ('x, unit) op"
  SendCoinsFromModuleToAccount :: "string \<Rightarrow> AccAddress \<Rightarrow> Coin list \<Rightarrow> ('x, unit) op"
  SendCoinsFromAccountToModule :: "AccAddress \<Rightarrow> string \<Rightarrow> Coin list \<Rightarrow> ('x, unit) op"
  SendCoinsFromModuleToModule :: "string \<Rightarrow> string \<Rightarrow> Coin list \<Rightarrow> ('x, unit) op"
  GetModuleAccount :: "string \<Rightarrow> ('x, AccAddress) op"
  GetModuleAddress :: "string \<Rightarrow> AccAddress"
  FeePool_Get :: "'x \<Rightarrow> error + DecCoins"
  FeePool_Set :: "DecCoins \<Rightarrow> ('x, unit) op"
  DecCoins_Add :: "DecCoins \<Rightarrow> DecCoins \<Rightarrow> DecCoins"
  DecCoins_AmountOf :: "DecCoins \<Rightarrow> string \<Rightarrow> int"
  DecCoins_SafeSub :: "DecCoins \<Rightarrow> DecCoins \<Rightarrow> DecCoins \<times> bool"
  NewDecCoinsFromCoins :: "Coin list \<Rightarrow> DecCoins"
  GetLastTotalPower :: "'x \<Rightarrow> error + int"
  GetLastValidatorPower :: "'x \<Rightarrow> ValAddress \<Rightarrow> error + 64 word"
  GetBondedValidatorsByPower :: "'x \<Rightarrow> error + Validator list"
  GetValidator :: "'x \<Rightarrow> ValAddress \<Rightarrow> error + Validator"
  StakingValidator :: "'x \<Rightarrow> ValAddress \<Rightarrow> error + Validator option"
  StakingSlash :: "bytes \<Rightarrow> 64 word \<Rightarrow> int \<Rightarrow> int \<Rightarrow> ('x, unit) op"
  StakingJail :: "bytes \<Rightarrow> ('x, unit) op"
  UnbondingTime :: "'x \<Rightarrow> error + int"
  ValidatorQueueIterator :: "'x \<Rightarrow> int \<Rightarrow> 64 word \<Rightarrow> error + string list list"
  SigningInfo_StartHeight :: "'x \<Rightarrow> bytes \<Rightarrow> error + 64 word"
  NativeBech32Prefix :: string
  proposalAuthority :: string
  auctionAuthority :: string
  json_Strings :: "string \<Rightarrow> error + string list"  \<comment> \<open>\<open>json.Unmarshal\<close> into a slice of strings\<close>
  ibc_GetPort :: "'x \<Rightarrow> string"
  ibc_GetChannel :: "'x \<Rightarrow> string \<Rightarrow> string \<Rightarrow> bool"  \<comment> \<open>is the channel found\<close>
  ibc_Transfer :: "MsgTransfer \<Rightarrow> ('x, unit) op"

type_synonym ('x, 'a) gop = "('x ctx, 'a) op"

definition liftX :: "('x, 'a) op \<Rightarrow> ('x, 'a) gop" where
  "liftX m = (\<lambda>ctx. case m (others ctx) of
       Ok a x \<Rightarrow> Ok a (ctx\<lparr>others := x\<rparr>)
     | Err e x \<Rightarrow> Err e (ctx\<lparr>others := x\<rparr>)
     | Panic p \<Rightarrow> Panic p)"

definition ModuleName :: string where
  "ModuleName = ''gravity''"

lemma liftX_Ok [run]:
  "liftX m ctx = Ok a c \<longleftrightarrow> (\<exists>x. m (others ctx) = Ok a x \<and> c = ctx\<lparr>others := x\<rparr>)"
  by (auto simp: liftX_def split: outcome.splits)

lemma liftX_Err [run]:
  "liftX m ctx = Err e c \<longleftrightarrow> (\<exists>x. m (others ctx) = Err e x \<and> c = ctx\<lparr>others := x\<rparr>)"
  by (auto simp: liftX_def split: outcome.splits)

lemma keeps_liftX: "(\<And>c x. I c \<Longrightarrow> I (c\<lparr>others := x\<rparr>)) \<Longrightarrow> keeps I (liftX m)"
  by (rule keepsI) (auto simp: run)

text \<open>Everything but the state of the other modules is untouched.\<close>

abbreviation same_gravity :: "'x ctx \<Rightarrow> 'x ctx \<Rightarrow> bool" where
  "same_gravity c c' \<equiv> \<exists>x. c' = c\<lparr>others := x\<rparr>"

lemma same_gravity_refl: "same_gravity c c"
  by (rule exI [of _ "others c"]) simp

lemma keeps_liftX_same: "keeps (same_gravity c) (liftX m)"
  by (rule keeps_liftX) auto

section \<open>Parameters\<close>

definition GetParams :: "'x Keeper \<Rightarrow> ('x, Params) gop" where
  "GetParams k = bind (reads paramsStore) (\<lambda>bz.
     case bz of None \<Rightarrow> fail ErrParamsNotFound | Some params \<Rightarrow> return params)"

definition GetParamsIfSet :: "'x Keeper \<Rightarrow> ('x, Params) gop" where
  "GetParamsIfSet k = bind (reads (\<lambda>ctx. paramsStore ctx = None)) (\<lambda>missing.
     if missing then fail (Wrapped ErrParamsNotFound ''params not found in store'') else GetParams k)"

definition RequireBridgeActive :: "'x Keeper \<Rightarrow> ('x, unit) gop" where
  "RequireBridgeActive k =
     bind (wrapErr ''failed to get params'' (GetParams k)) (\<lambda>params.
       if \<not> BridgeActive params then fail (Wrapped ErrInvalid ''bridge paused'') else return ())"

text \<open>\<open>MustGetParams\<close> is the pattern \<open>GetParams\<close> followed by a panic on error.\<close>

definition MustGetParams :: "'x Keeper \<Rightarrow> ('x, Params) gop" where
  "MustGetParams k = orPanic ''failed to get params'' (GetParams k)"

definition GetBridgeContractAddress :: "'x Keeper \<Rightarrow> ('x, EthAddress) gop" where
  "GetBridgeContractAddress k = bind (MustGetParams k) (\<lambda>params.
     orPanic ''failed to parse bridge ethereum address'' (lift (NewEthAddress k (BridgeEthereumAddress params))))"

definition GetBridgeChainID :: "'x Keeper \<Rightarrow> ('x, uint64) gop" where
  "GetBridgeChainID k = bind (MustGetParams k) (\<lambda>params. return (BridgeChainId params))"

definition GetGravityID :: "'x Keeper \<Rightarrow> ('x, string) gop" where
  "GetGravityID k = bind (MustGetParams k) (\<lambda>params. return (GravityId params))"

text \<open>Events name the bridge contract and chain, so emitting one reads both parameters.\<close>

definition emitBridgeEvent :: "'x Keeper \<Rightarrow> ('x, unit) gop" where
  "emitBridgeEvent k =
     bind (GetBridgeContractAddress k) (\<lambda>_. bind (GetBridgeChainID k) (\<lambda>_. return ()))"

lemma GetParams_Ok [run]: "GetParams k c = Ok p c' \<longleftrightarrow> paramsStore c = Some p \<and> c' = c"
  and GetParams_Err [run]:
    "GetParams k c = Err e c' \<longleftrightarrow> paramsStore c = None \<and> c' = c \<and> e = ErrParamsNotFound"
  by (auto simp: GetParams_def split: option.splits)

lemma MustGetParams_Ok [run]: "MustGetParams k c = Ok p c' \<longleftrightarrow> paramsStore c = Some p \<and> c' = c"
  and MustGetParams_Err [run, simp]: "MustGetParams k c \<noteq> Err e c'"
  by (auto simp: MustGetParams_def run)

lemma RequireBridgeActive_Ok [run]:
  "RequireBridgeActive k c = Ok u c' \<longleftrightarrow> c' = c \<and> (\<exists>p. paramsStore c = Some p \<and> BridgeActive p)"
  by (auto simp: RequireBridgeActive_def run split: if_splits)

lemma RequireBridgeActive_Err [run]:
  "RequireBridgeActive k c = Err e c' \<Longrightarrow> c' = c"
  by (auto simp: RequireBridgeActive_def run split: if_splits)

lemma emitBridgeEvent_Ok [run]:
  "emitBridgeEvent k c = Ok u c' \<longleftrightarrow> c' = c \<and>
     (\<exists>p a. paramsStore c = Some p \<and> NewEthAddress k (BridgeEthereumAddress p) = Inr a)"
  by (auto simp: emitBridgeEvent_def GetBridgeContractAddress_def GetBridgeChainID_def run)

lemma emitBridgeEvent_Err [run, simp]: "emitBridgeEvent k c \<noteq> Err e c'"
  by (auto simp: emitBridgeEvent_def GetBridgeContractAddress_def GetBridgeChainID_def run)

lemma GetGravityID_Ok [run]:
  "GetGravityID k c = Ok g c' \<longleftrightarrow> c' = c \<and> (\<exists>p. paramsStore c = Some p \<and> g = GravityId p)"
  and GetGravityID_Err [run, simp]: "GetGravityID k c \<noteq> Err e c'"
  by (auto simp: GetGravityID_def run)

lemma keeps_params [keeps_rules]:
  "keeps I (GetParams k)" "keeps I (MustGetParams k)" "keeps I (RequireBridgeActive k)"
  "keeps I (emitBridgeEvent k)" "keeps I (GetGravityID k)"
  by (auto intro!: keepsI simp: run dest: RequireBridgeActive_Err)

end
