(* ===== verification/OutgoingTypes.thy ===== *)
theory OutgoingTypes
  imports GravityState
begin

text \<open>
  Outgoing transfers and batches (\<open>x/gravity/types/batch.go\<close>, \<open>GetFees\<close> of \<open>validation.go\<close>):
  the conversions between the stored messages and the validated internal structs, and the
  checkpoint that validators sign.

  The main fact is the round trip: an internal transfer or batch with a well-formed sender and
  non-negative amounts is read back from the store unchanged.
\<close>

definition strToFixByteArray :: "string \<Rightarrow> error + bytes" where
  "strToFixByteArray s =
     (if length s > 32 then Inl (ErrorMsg ''string too long'')
      else Inr (bytes_of_string s @ replicate (32 - length s) 0))"

text \<open>\<open>copy(out[:], b)\<close> for a 32-byte array \<open>out\<close>.\<close>

definition copy32 :: "bytes \<Rightarrow> bytes" where
  "copy32 b = take 32 b @ replicate (32 - length b) 0"

definition NewInternalOutgoingTransferTx ::
  "'a libs_scheme \<Rightarrow> uint64 \<Rightarrow> string \<Rightarrow> string \<Rightarrow> ERC20Token \<Rightarrow> ERC20Token \<Rightarrow>
     error + InternalOutgoingTransferTx" where
  "NewInternalOutgoingTransferTx k i sender destAddress erc20Token erc20Fee =
     bindE (wrapE ''invalid sender'' (AccAddressFromBech32 k sender)) (\<lambda>send.
     bindE (wrapE ''invalid eth destination'' (NewEthAddress k destAddress)) (\<lambda>dest.
     bindE (wrapE ''invalid Erc20Token'' (ERC20Token_ToInternal k erc20Token)) (\<lambda>token.
     bindE (wrapE ''invalid Erc20Fee'' (ERC20Token_ToInternal k erc20Fee)) (\<lambda>fee.
       Inr \<lparr>TxId = i, Sender = send, DestAddress = dest, Erc20Token = token, Erc20Fee = fee\<rparr>))))"

definition OutgoingTransferTx_ToInternal ::
  "'a libs_scheme \<Rightarrow> OutgoingTransferTx \<Rightarrow> error + InternalOutgoingTransferTx" where
  "OutgoingTransferTx_ToInternal k t =
     NewInternalOutgoingTransferTx k (ext_Id t) (ext_Sender t) (ext_DestAddress t)
       (ext_Erc20Token t) (ext_Erc20Fee t)"

definition InternalOutgoingTransferTx_ToExternal ::
  "'a libs_scheme \<Rightarrow> InternalOutgoingTransferTx \<Rightarrow> OutgoingTransferTx" where
  "InternalOutgoingTransferTx_ToExternal k i =
     \<lparr>ext_Id = TxId i,
      ext_Sender = AccAddress_String k (Sender i),
      ext_DestAddress = Hex k (DestAddress i),
      ext_Erc20Token = InternalERC20Token_ToExternal k (Erc20Token i),
      ext_Erc20Fee = InternalERC20Token_ToExternal k (Erc20Fee i)\<rparr>"

definition InternalOutgoingTransferTx_ValidateBasic ::
  "'a libs_scheme \<Rightarrow> InternalOutgoingTransferTx \<Rightarrow> error option" where
  "InternalOutgoingTransferTx_ValidateBasic k i =
     (case EthAddress_ValidateBasic k (DestAddress i) of
        Some e \<Rightarrow> Some (Wrapped e ''invalid DestAddress'')
      | None \<Rightarrow> (case InternalERC20Token_ValidateBasic k (Erc20Token i) of
          Some e \<Rightarrow> Some (Wrapped e ''invalid Erc20Token'')
        | None \<Rightarrow> (case InternalERC20Token_ValidateBasic k (Erc20Fee i) of
            Some e \<Rightarrow> Some (Wrapped e ''invalid Erc20Fee'')
          | None \<Rightarrow> None)))"

fun firstInvalid :: "('t \<Rightarrow> error option) \<Rightarrow> string \<Rightarrow> 't list \<Rightarrow> error option" where
  "firstInvalid v msg [] = None"
| "firstInvalid v msg (t # ts) =
     (case v t of Some e \<Rightarrow> Some (Wrapped e msg) | None \<Rightarrow> firstInvalid v msg ts)"

definition InternalOutgoingTxBatch_ValidateBasic ::
  "'a libs_scheme \<Rightarrow> InternalOutgoingTxBatch \<Rightarrow> error option" where
  "InternalOutgoingTxBatch_ValidateBasic k b =
     (case EthAddress_ValidateBasic k (TokenContract b) of
        Some e \<Rightarrow> Some (Wrapped e ''invalid eth address'')
      | None \<Rightarrow> firstInvalid (InternalOutgoingTransferTx_ValidateBasic k) ''transaction is invalid''
          (Transactions b))"

definition NewInternalOutgingTxBatch ::
  "'a libs_scheme \<Rightarrow> uint64 \<Rightarrow> uint64 \<Rightarrow> InternalOutgoingTransferTx list \<Rightarrow> EthAddress \<Rightarrow> uint64 \<Rightarrow>
     error + InternalOutgoingTxBatch" where
  "NewInternalOutgingTxBatch k nonce timeout transactions contract blockCreated =
     (let ret = \<lparr>BatchNonce = nonce, BatchTimeout = timeout, Transactions = transactions,
                 TokenContract = contract, CosmosBlockCreated = blockCreated\<rparr>
      in case InternalOutgoingTxBatch_ValidateBasic k ret of Some e \<Rightarrow> Inl e | None \<Rightarrow> Inr ret)"

definition OutgoingTxBatch_ToInternal ::
  "'a libs_scheme \<Rightarrow> OutgoingTxBatch \<Rightarrow> error + InternalOutgoingTxBatch" where
  "OutgoingTxBatch_ToInternal k batch =
     bindE (wrapE ''invalid eth address'' (NewEthAddress k (ext_TokenContract batch))) (\<lambda>contractAddr.
     bindE (mapE (\<lambda>tx. wrapE ''invalid transaction in batch'' (OutgoingTransferTx_ToInternal k tx))
              (ext_Transactions batch)) (\<lambda>txs.
       Inr \<lparr>BatchNonce = ext_BatchNonce batch, BatchTimeout = ext_BatchTimeout batch,
            Transactions = txs, TokenContract = contractAddr,
            CosmosBlockCreated = ext_CosmosBlockCreated batch\<rparr>))"

definition InternalOutgoingTxBatch_ToExternal ::
  "'a libs_scheme \<Rightarrow> InternalOutgoingTxBatch \<Rightarrow> OutgoingTxBatch" where
  "InternalOutgoingTxBatch_ToExternal k i =
     \<lparr>ext_BatchNonce = BatchNonce i, ext_BatchTimeout = BatchTimeout i,
      ext_Transactions = map (InternalOutgoingTransferTx_ToExternal k) (Transactions i),
      ext_TokenContract = Hex k (TokenContract i),
      ext_CosmosBlockCreated = CosmosBlockCreated i\<rparr>"

definition ToExternalArray ::
  "'a libs_scheme \<Rightarrow> InternalOutgoingTxBatch list \<Rightarrow> OutgoingTxBatch list" where
  "ToExternalArray k bs = map (InternalOutgoingTxBatch_ToExternal k) bs"

definition GetFees :: "'a libs_scheme \<Rightarrow> OutgoingTxBatch \<Rightarrow> ('s, int) op" where
  "GetFees k b = foldM (\<lambda>t total. Int_Add k total (ERC20_Amount (ext_Erc20Fee t))) (ext_Transactions b) 0"

text \<open>
  The ABI-encoded batch, without its four-byte method selector, is hashed.  \<open>int64(n)\<close> reads a
  uint64 as a signed number.
\<close>

definition InternalOutgoingTxBatch_GetCheckpoint ::
  "'a libs_scheme \<Rightarrow> InternalOutgoingTxBatch \<Rightarrow> string \<Rightarrow> ('s, bytes) op" where
  "InternalOutgoingTxBatch_GetCheckpoint k i gravityIDstring =
     bind (orPanic ''string too long'' (lift (strToFixByteArray gravityIDstring))) (\<lambda>gravityID.
     bind (orPanic ''Error packing checkpoint!''
             (lift (AbiPack k ''OutgoingBatchTxCheckpointABIJSON'' ''submitBatch''
               [AbiBytes32 gravityID,
                AbiBytes32 (copy32 (bytes_of_string ''transactionBatch'')),
                AbiUints (map (\<lambda>tx. Amount (Erc20Token tx)) (Transactions i)),
                AbiAddresses (map DestAddress (Transactions i)),
                AbiUints (map (\<lambda>tx. Amount (Erc20Fee tx)) (Transactions i)),
                AbiUint (sint (BatchNonce i)),
                AbiAddress (TokenContract i),
                AbiUint (sint (BatchTimeout i))]))) (\<lambda>abiEncodedBatch.
       return (Keccak256Hash k (drop 4 abiEncodedBatch))))"

definition OutgoingTxBatch_GetCheckpoint ::
  "'a libs_scheme \<Rightarrow> OutgoingTxBatch \<Rightarrow> string \<Rightarrow> ('s, bytes) op" where
  "OutgoingTxBatch_GetCheckpoint k b gravityIDstring =
     bind (orPanic ''invalid OutgoingTxBatch'' (lift (OutgoingTxBatch_ToInternal k b))) (\<lambda>i.
       InternalOutgoingTxBatch_GetCheckpoint k i gravityIDstring)"

definition OutgoingLogicCall_ValidateBasic :: "'a libs_scheme \<Rightarrow> OutgoingLogicCall \<Rightarrow> error option" where
  "OutgoingLogicCall_ValidateBasic k c =
     (if list_ex (\<lambda>t. case ERC20Token_ToInternal k t of Inl _ \<Rightarrow> True | Inr _ \<Rightarrow> False) (Transfers c)
      then Some (Wrapped ErrInvalidLogicCall ''invalid transfer in logic call'')
      else if list_ex (\<lambda>t. case ERC20Token_ToInternal k t of Inl _ \<Rightarrow> True | Inr _ \<Rightarrow> False) (Fees c)
      then Some (Wrapped ErrInvalidLogicCall ''invalid fee in logic call'')
      else case NewEthAddress k (LogicContractAddress c) of
        Inl _ \<Rightarrow> Some (Wrapped ErrInvalidLogicCall ''invalid logic call logic contract address'')
      | Inr _ \<Rightarrow> None)"

definition OutgoingLogicCall_GetCheckpoint ::
  "'a libs_scheme \<Rightarrow> OutgoingLogicCall \<Rightarrow> string \<Rightarrow> ('s, bytes) op" where
  "OutgoingLogicCall_GetCheckpoint k c gravityIDstring =
     bind (orPanic ''string too long'' (lift (strToFixByteArray gravityIDstring))) (\<lambda>gravityID.
     bind (orPanic ''Error packing checkpoint!''
             (lift (AbiPack k ''OutgoingLogicCallABIJSON'' ''checkpoint''
               [AbiBytes32 gravityID,
                AbiBytes32 (copy32 (bytes_of_string ''logicCall'')),
                AbiUints (map ERC20_Amount (Transfers c)),
                AbiAddresses (map (\<lambda>t. HexToAddress k (ERC20_Contract t)) (Transfers c)),
                AbiUints (map ERC20_Amount (Fees c)),
                AbiAddresses (map (\<lambda>t. HexToAddress k (ERC20_Contract t)) (Fees c)),
                AbiAddress (HexToAddress k (LogicContractAddress c)),
                AbiBytes (Payload c),
                AbiUint (sint (LogicTimeout c)),
                AbiBytes32 (copy32 (InvalidationId c)),
                AbiUint (sint (InvalidationNonce c))]))) (\<lambda>abiEncodedCall.
       return (Keccak256Hash k (drop 4 abiEncodedCall))))"

section \<open>Round trips\<close>

text \<open>Internal values that the constructors accept, and the value a transfer carries.\<close>

definition tx_wf :: "'a libs_scheme \<Rightarrow> InternalOutgoingTransferTx \<Rightarrow> bool" where
  "tx_wf k i \<longleftrightarrow> VerifyAddressFormat k (Sender i) = None \<and> 0 \<le> Amount (Erc20Token i) \<and> 0 \<le> Amount (Erc20Fee i)"

definition tx_value :: "InternalOutgoingTransferTx \<Rightarrow> int" where
  "tx_value i = Amount (Erc20Token i) + Amount (Erc20Fee i)"

definition ext_value :: "OutgoingTransferTx \<Rightarrow> int" where
  "ext_value t = ERC20_Amount (ext_Erc20Token t) + ERC20_Amount (ext_Erc20Fee t)"

lemma ext_value_ToExternal [simp]: "ext_value (InternalOutgoingTransferTx_ToExternal k i) = tx_value i"
  by (simp add: ext_value_def tx_value_def InternalOutgoingTransferTx_ToExternal_def
      InternalERC20Token_ToExternal_def)

lemma tx_round_trip:
  assumes "geth_laws k" "bech32_laws k" "tx_wf k i"
  shows "OutgoingTransferTx_ToInternal k (InternalOutgoingTransferTx_ToExternal k i) = Inr i"
  using assms
  by (simp add: OutgoingTransferTx_ToInternal_def InternalOutgoingTransferTx_ToExternal_def
      NewInternalOutgoingTransferTx_def tx_wf_def bech32_laws_def)

lemma batch_round_trip:
  assumes "geth_laws k" "bech32_laws k" "\<And>i. i \<in> set (Transactions b) \<Longrightarrow> tx_wf k i"
  shows "OutgoingTxBatch_ToInternal k (InternalOutgoingTxBatch_ToExternal k b) = Inr b"
proof -
  have "mapE (\<lambda>tx. wrapE ''invalid transaction in batch'' (OutgoingTransferTx_ToInternal k tx))
          (map (InternalOutgoingTransferTx_ToExternal k) (Transactions b)) = Inr (Transactions b)"
    by (rule mapE_round_trip) (simp add: tx_round_trip assms)
  then show ?thesis
    using assms(1) by (simp add: OutgoingTxBatch_ToInternal_def InternalOutgoingTxBatch_ToExternal_def)
qed

lemma ToInternal_wf:
  assumes "bech32_laws k" "OutgoingTransferTx_ToInternal k t = Inr i"
  shows "tx_wf k i" and "tx_value i = ext_value t" and "TxId i = ext_Id t"
  using assms
  by (auto simp: OutgoingTransferTx_ToInternal_def NewInternalOutgoingTransferTx_def bindE_eq_Inr
      wrapE_eq_Inr tx_wf_def bech32_laws_def ERC20Token_ToInternal_def NewInternalERC20Token_def
      InternalERC20Token_ValidateBasic_def tx_value_def ext_value_def Let_def
      split: option.splits if_splits)

lemma ToInternal_nonneg:
  assumes "OutgoingTransferTx_ToInternal k t = Inr i"
  shows "0 \<le> Amount (Erc20Token i)" and "0 \<le> Amount (Erc20Fee i)"
  using assms
  by (auto simp: OutgoingTransferTx_ToInternal_def NewInternalOutgoingTransferTx_def bindE_eq_Inr
      wrapE_eq_Inr ERC20Token_ToInternal_def NewInternalERC20Token_def
      InternalERC20Token_ValidateBasic_def Let_def split: option.splits if_splits)

lemma batch_valid:
  assumes "geth_laws k" "\<And>i. i \<in> set (Transactions b) \<Longrightarrow> tx_wf k i"
  shows "InternalOutgoingTxBatch_ValidateBasic k b = None"
proof -
  have "firstInvalid (InternalOutgoingTransferTx_ValidateBasic k) msg ts = None"
    if "\<And>i. i \<in> set ts \<Longrightarrow> tx_wf k i" for msg ts
    using that assms(1)
    by (induction ts) (simp_all add: InternalOutgoingTransferTx_ValidateBasic_def
        InternalERC20Token_ValidateBasic_def tx_wf_def not_less)
  then show ?thesis
    using assms by (simp add: InternalOutgoingTxBatch_ValidateBasic_def)
qed

end
