(* ===== verification/CosmosOriginated.thy ===== *)
theory CosmosOriginated
  imports OutgoingTypes
begin

text \<open>
  Which asset is what: \<open>x/gravity/keeper/cosmos-originated.go\<close>, the allowlist of
  \<open>cosmos_bridgeable_tokens.go\<close> and the helpers of \<open>keeper.go\<close> on metadata, the community pool and
  the blacklist.

  The lemmas show that the two classifications agree: whatever \<open>ClassifyERC20\<close> answers is a denom
  that \<open>ClassifyDenom\<close> maps back to the same contract with the same origin, and that the double
  index of cosmos-originated assets stays a bijection under every write.
\<close>

section \<open>The double index\<close>

definition getCosmosOriginatedDenomForERC20 :: "EthAddress \<Rightarrow> ('x, string option) gop" where
  "getCosmosOriginatedDenomForERC20 tokenContract = reads (\<lambda>ctx. kv_get (erc20ToDenom ctx) tokenContract)"

definition getCosmosOriginatedERC20ForDenom :: "'x Keeper \<Rightarrow> string \<Rightarrow> ('x, EthAddress option) gop" where
  "getCosmosOriginatedERC20ForDenom k denom =
     bind (reads (\<lambda>ctx. kv_get (denomToERC20 ctx) denom)) (\<lambda>bz.
       case bz of
         None \<Rightarrow> return None
       | Some b \<Rightarrow>
           bind (orPanic ''discovered invalid ERC20 address under cosmos-originated denom key''
                  (lift (NewEthAddressFromBytes k b))) (\<lambda>ethAddr.
             return (Some ethAddr)))"

definition IsRemappedERC20 :: "EthAddress \<Rightarrow> ('x, bool) gop" where
  "IsRemappedERC20 tokenContract = reads (\<lambda>ctx. kv_has (remappedERC20 ctx) tokenContract)"

definition SetRemappedERC20 :: "EthAddress \<Rightarrow> ('x, unit) gop" where
  "SetRemappedERC20 tokenContract =
     modify (\<lambda>ctx. ctx\<lparr>remappedERC20 := kv_set tokenContract [1] (remappedERC20 ctx)\<rparr>)"

definition validateCosmosOriginatedMapping :: "'x Keeper \<Rightarrow> string \<Rightarrow> EthAddress \<Rightarrow> ('x, unit) gop" where
  "validateCosmosOriginatedMapping k denom tokenContract =
     (case GravityDenomToERC20 k denom of
        Inr _ \<Rightarrow> fail (Wrapped ErrInvalid ''cosmos-originated denom collides with an eth-originated gravity denom'')
      | Inl _ \<Rightarrow> (case Gravity2DenomToERC20 k denom of
          Inr _ \<Rightarrow> fail (Wrapped ErrInvalid ''cosmos-originated denom collides with an eth-originated gravity2 denom'')
        | Inl _ \<Rightarrow>
            if ContainsEthAddress k denom then
              fail (Wrapped ErrInvalid ''cosmos-originated denom contains an embedded Ethereum address'')
            else bind (IsRemappedERC20 tokenContract) (\<lambda>remapped.
              if remapped then
                fail (Wrapped ErrInvalid ''cosmos-originated ERC20 is also in the remapped eth-originated set'')
              else return ())))"

definition setCosmosOriginatedMapping :: "'x Keeper \<Rightarrow> string \<Rightarrow> EthAddress \<Rightarrow> ('x, unit) gop" where
  "setCosmosOriginatedMapping k denom tokenContract =
     bind (validateCosmosOriginatedMapping k denom tokenContract) (\<lambda>_.
     bind (getCosmosOriginatedERC20ForDenom k denom) (\<lambda>existing.
       if existing \<noteq> None then fail (Wrapped ErrDuplicate ''denom is already mapped to cosmos-originated ERC20'')
       else bind (getCosmosOriginatedDenomForERC20 tokenContract) (\<lambda>existingDenom.
         if existingDenom \<noteq> None then fail (Wrapped ErrDuplicate ''ERC20 is already mapped to cosmos-originated denom'')
         else bind (modify (\<lambda>ctx. ctx\<lparr>denomToERC20 :=
                     kv_set denom (EthAddress_Bytes tokenContract) (denomToERC20 ctx)\<rparr>)) (\<lambda>_.
           modify (\<lambda>ctx. ctx\<lparr>erc20ToDenom := kv_set tokenContract denom (erc20ToDenom ctx)\<rparr>)))))"

definition DeleteCosmosOriginatedMapping :: "EthAddress \<Rightarrow> string \<Rightarrow> ('x, unit) gop" where
  "DeleteCosmosOriginatedMapping tokenContract denom =
     bind (modify (\<lambda>ctx. ctx\<lparr>denomToERC20 := kv_del denom (denomToERC20 ctx)\<rparr>)) (\<lambda>_.
       modify (\<lambda>ctx. ctx\<lparr>erc20ToDenom := kv_del tokenContract (erc20ToDenom ctx)\<rparr>))"

definition IterateCosmosOriginatedMappings ::
  "'x Keeper \<Rightarrow> (string \<Rightarrow> EthAddress \<Rightarrow> 'b \<Rightarrow> ('x, bool \<times> 'b) gop) \<Rightarrow> 'b \<Rightarrow> ('x, 'b) gop" where
  "IterateCosmosOriginatedMappings k cb acc =
     bind (reads (\<lambda>ctx. kv_asc (denomToERC20 ctx))) (\<lambda>entries.
       iterM (\<lambda>(denom, bz) a.
         bind (orPanic ''discovered invalid EthAddress under cosmos-originated mapping key''
                (lift (NewEthAddressFromBytes k bz))) (\<lambda>erc20. cb denom erc20 a)) entries acc)"

definition IterateRemappedERC20s ::
  "'x Keeper \<Rightarrow> (EthAddress \<Rightarrow> 'b \<Rightarrow> ('x, bool \<times> 'b) gop) \<Rightarrow> 'b \<Rightarrow> ('x, 'b) gop" where
  "IterateRemappedERC20s k cb acc =
     bind (reads (\<lambda>ctx. kv_asc (remappedERC20 ctx))) (\<lambda>entries.
       iterM (\<lambda>(key, _) a.
         bind (orPanic ''invalid EthAddress in RemappedERC20 store''
                (lift (NewEthAddressFromBytes k (EthAddress_Bytes key)))) (\<lambda>addr. cb addr a)) entries acc)"

definition IterateERC20ToDenom ::
  "'x Keeper \<Rightarrow> (ERC20ToDenom \<Rightarrow> 'b \<Rightarrow> ('x, bool \<times> 'b) gop) \<Rightarrow> 'b \<Rightarrow> ('x, 'b) gop" where
  "IterateERC20ToDenom k cb acc =
     bind (reads (\<lambda>ctx. kv_asc (erc20ToDenom ctx))) (\<lambda>entries.
       iterM (\<lambda>(key, v) a.
         bind (orPanic ''Invalid ERC20 to Denom mapping in store!''
                (lift (NewEthAddressFromBytes k (EthAddress_Bytes key)))) (\<lambda>erc20.
           cb \<lparr>ERC20ToDenom_Erc20 = Hex k erc20, ERC20ToDenom_Denom = v\<rparr> a)) entries acc)"

section \<open>Classification\<close>

definition classifyCosmosOriginated :: "'x Keeper \<Rightarrow> string \<Rightarrow> string \<Rightarrow> EthAddress \<Rightarrow> ('x, AssetOrigin) gop" where
  "classifyCosmosOriginated k caller denom tokenContract =
     (if ValidateStrictDenom k denom \<noteq> None then
        fail (Wrapped ErrInvalidDenom (caller @ '': the denom for cosmos-originated ERC20 is invalid''))
      else bind (getCosmosOriginatedERC20ForDenom k denom) (\<lambda>reverseERC20.
        if reverseERC20 \<noteq> Some tokenContract then
          fail (Wrapped ErrInvalid (caller @ '': cosmos-originated mapping is not bidirectionally consistent''))
        else bind (getCosmosOriginatedDenomForERC20 tokenContract) (\<lambda>reverseDenom.
          if reverseDenom \<noteq> Some denom then
            fail (Wrapped ErrInvalid (caller @ '': cosmos-originated mapping is not bidirectionally consistent''))
          else bind (IsRemappedERC20 tokenContract) (\<lambda>remapped.
            if remapped then
              fail (Wrapped ErrInvalid (caller @ '': cosmos-originated ERC20 is also in the remapped eth-originated set''))
            else let origin = \<lparr>Origin = AssetOriginCosmos, IsRemapped = False, Denom = denom,
                               ERC20 = Some tokenContract\<rparr>
              in bind (AssertValid origin) (\<lambda>_. return origin)))))"

definition classifyEthOriginated ::
  "'x Keeper \<Rightarrow> string \<Rightarrow> string \<Rightarrow> EthAddress \<Rightarrow> bool \<Rightarrow> ('x, AssetOrigin) gop" where
  "classifyEthOriginated k caller denom tokenContract isRemapped =
     bind (reads (\<lambda>ctx. GetDenomMetaData k (others ctx) denom)) (\<lambda>meta.
       if meta \<noteq> None then fail (Wrapped ErrInvalid (caller @ '': Eth-originated denom has bank metadata''))
       else let reparsed = (if isRemapped then Gravity2DenomToERC20 k denom else GravityDenomToERC20 k denom)
       in if reparsed \<noteq> Inr tokenContract then
            fail (Wrapped ErrInvalid (caller @ '': eth-originated denom failed round-trip validation''))
          else if ValidateStrictDenom k denom \<noteq> None then
            fail (Wrapped ErrInvalidDenom (caller @ '': the denom for eth-originated ERC20 is invalid''))
          else let origin = \<lparr>Origin = AssetOriginEthereum, IsRemapped = isRemapped, Denom = denom,
                             ERC20 = Some tokenContract\<rparr>
            in bind (AssertValid origin) (\<lambda>_. return origin))"

definition ClassifyERC20 :: "'x Keeper \<Rightarrow> EthAddress \<Rightarrow> ('x, AssetOrigin) gop" where
  "ClassifyERC20 k tokenContract =
     bind (getCosmosOriginatedDenomForERC20 tokenContract) (\<lambda>d.
       case d of
         Some denom \<Rightarrow> classifyCosmosOriginated k ''ClassifyERC20'' denom tokenContract
       | None \<Rightarrow>
           bind (IsRemappedERC20 tokenContract) (\<lambda>isRemapped.
             classifyEthOriginated k ''ClassifyERC20''
               (if isRemapped then Gravity2Denom k tokenContract else GravityDenom k tokenContract)
               tokenContract isRemapped))"

definition ClassifyDenom :: "'x Keeper \<Rightarrow> string \<Rightarrow> ('x, AssetOrigin) gop" where
  "ClassifyDenom k denom =
     (case Gravity2DenomToERC20 k denom of
        Inr tc \<Rightarrow>
          bind (IsRemappedERC20 tc) (\<lambda>remapped.
            if \<not> remapped then
              fail (Wrapped ErrInvalid ''ClassifyDenom: gravity2 denom does not correspond to a remapped ERC20'')
            else classifyEthOriginated k ''ClassifyDenom'' denom tc True)
      | Inl _ \<Rightarrow> (case GravityDenomToERC20 k denom of
          Inr tc \<Rightarrow>
            bind (IsRemappedERC20 tc) (\<lambda>remapped.
              if remapped then fail (Wrapped ErrInvalid ''ERC20 was remapped'')
              else classifyEthOriginated k ''ClassifyDenom'' denom tc False)
        | Inl _ \<Rightarrow>
            bind (getCosmosOriginatedERC20ForDenom k denom) (\<lambda>tc.
              case tc of
                Some c \<Rightarrow> classifyCosmosOriginated k ''ClassifyDenom'' denom c
              | None \<Rightarrow> fail (Wrapped ErrInvalidDenom ''denom is not registered as a known bridged asset''))))"

text \<open>\<open>Coin.IsZero\<close> is a zero amount; the result carries the ERC20 address and the amount.\<close>

definition RewardToERC20Lookup :: "'x Keeper \<Rightarrow> Coin \<Rightarrow> ('x, EthAddress option \<times> int) gop" where
  "RewardToERC20Lookup k coin =
     bind (panicIf (\<not> Coin_IsValid k coin \<or> Coin_Amount coin = 0) ''Bad validator set relaying reward!'') (\<lambda>_.
     bind (orPanic ''Invalid Valset reward!'' (ClassifyDenom k (Coin_Denom coin))) (\<lambda>origin.
     bind (panicIf (Origin origin \<noteq> AssetOriginCosmos \<and> Origin origin \<noteq> AssetOriginEthereum)
             ''Invalid Valset reward!'') (\<lambda>_.
       return (ERC20 origin, Coin_Amount coin))))"

section \<open>Allowlist, community pool, blacklist\<close>

definition SetCosmosBridgeableToken :: "Metadata \<Rightarrow> ('x, unit) gop" where
  "SetCosmosBridgeableToken metadata =
     modify (\<lambda>ctx. ctx\<lparr>cosmosBridgeableTokens := kv_set (Base metadata) metadata (cosmosBridgeableTokens ctx)\<rparr>)"

definition GetCosmosBridgeableToken :: "string \<Rightarrow> ('x, Metadata option) gop" where
  "GetCosmosBridgeableToken denom = reads (\<lambda>ctx. kv_get (cosmosBridgeableTokens ctx) denom)"

definition DeleteCosmosBridgeableToken :: "string \<Rightarrow> ('x, unit) gop" where
  "DeleteCosmosBridgeableToken denom =
     modify (\<lambda>ctx. ctx\<lparr>cosmosBridgeableTokens := kv_del denom (cosmosBridgeableTokens ctx)\<rparr>)"

definition IterateCosmosBridgeableTokens ::
  "(Metadata \<Rightarrow> 'b \<Rightarrow> ('x, bool \<times> 'b) gop) \<Rightarrow> 'b \<Rightarrow> ('x, 'b) gop" where
  "IterateCosmosBridgeableTokens cb acc =
     bind (reads (\<lambda>ctx. kv_asc (cosmosBridgeableTokens ctx))) (\<lambda>entries.
       iterM (\<lambda>(_, metadata) a. cb metadata a) entries acc)"

definition GetAllCosmosBridgeableTokens :: "('x, Metadata list) gop" where
  "GetAllCosmosBridgeableTokens =
     IterateCosmosBridgeableTokens (\<lambda>metadata tokens. return (False, tokens @ [metadata])) []"

definition assertMetadataWhitelisted :: "'x Keeper \<Rightarrow> string \<Rightarrow> ('x, Metadata) gop" where
  "assertMetadataWhitelisted k denom =
     bind (GetCosmosBridgeableToken denom) (\<lambda>entry.
       case entry of
         None \<Rightarrow> fail (Wrapped ErrInvalid ''denom is not in the CosmosBridgeableTokens whitelist'')
       | Some metadata \<Rightarrow>
           bind (reads (\<lambda>ctx. GetDenomMetaData k (others ctx) denom)) (\<lambda>bankMetadata.
             case bankMetadata of
               None \<Rightarrow> fail (Wrapped ErrInvalid ''SECURITY VIOLATION: bank metadata not found'')
             | Some b \<Rightarrow>
                 if metadata \<noteq> b then fail (Wrapped ErrInvalid ''SECURITY VIOLATION: bank metadata does not match'')
                 else return metadata))"

definition SendToCommunityPool :: "'x Keeper \<Rightarrow> Coin list \<Rightarrow> ('x, unit) gop" where
  "SendToCommunityPool k coins =
     bind (wrapErr ''transfer to community pool failed''
             (liftX (SendCoinsFromModuleToModule k ModuleName ''distribution'' coins))) (\<lambda>_.
     bind (reads (\<lambda>ctx. FeePool_Get k (others ctx))) (\<lambda>r.
     bind (wrapErr ''failed to get fee pool'' (lift r)) (\<lambda>pool.
       wrapErr ''failed to set fee pool''
         (liftX (FeePool_Set k (DecCoins_Add k pool (NewDecCoinsFromCoins k coins)))))))"

fun onBlacklist :: "'a libs_scheme \<Rightarrow> EthAddress \<Rightarrow> string list \<Rightarrow> ('s, bool) op" where
  "onBlacklist k addr [] = return False"
| "onBlacklist k addr (b # bs) =
     bind (orPanic ''unvalidated black list address!'' (lift (NewEthAddress k b))) (\<lambda>baddr.
       if baddr = addr then return True else onBlacklist k addr bs)"

definition IsOnBlacklist :: "'x Keeper \<Rightarrow> EthAddress \<Rightarrow> ('x, bool) gop" where
  "IsOnBlacklist k addr =
     bind (MustGetParams k) (\<lambda>params. onBlacklist k addr (EthereumBlacklist params))"

text \<open>Go's \<open>||\<close> does not evaluate the zero-address test when the address is blacklisted.\<close>

definition InvalidSendToEthAddress :: "'x Keeper \<Rightarrow> EthAddress \<Rightarrow> EthAddress \<Rightarrow> ('x, bool) gop" where
  "InvalidSendToEthAddress k addr erc20Addr =
     bind (IsOnBlacklist k addr) (\<lambda>b. return (b \<or> addr = ZeroAddress k))"

section \<open>Reading does not write\<close>

lemma keeps_getERC20 [keeps_rules]: "keeps I (getCosmosOriginatedERC20ForDenom k d)"
  unfolding getCosmosOriginatedERC20ForDenom_def by (intro keeps_rules)

lemma keeps_getDenom [keeps_rules]: "keeps I (getCosmosOriginatedDenomForERC20 c)"
  unfolding getCosmosOriginatedDenomForERC20_def by (intro keeps_rules)

lemma keeps_IsRemapped [keeps_rules]: "keeps I (IsRemappedERC20 c)"
  unfolding IsRemappedERC20_def by (intro keeps_rules)

lemma keeps_AssertValid [keeps_rules]: "keeps I (AssertValid a)"
  unfolding AssertValid_def by (intro keeps_rules)

lemma keeps_validateMapping [keeps_rules]: "keeps I (validateCosmosOriginatedMapping k d c)"
  unfolding validateCosmosOriginatedMapping_def by (intro keeps_rules)

lemma keeps_classifyCosmos [keeps_rules]: "keeps I (classifyCosmosOriginated k caller d c)"
  unfolding classifyCosmosOriginated_def by (intro keeps_rules)

lemma keeps_classifyEth [keeps_rules]: "keeps I (classifyEthOriginated k caller d c r)"
  unfolding classifyEthOriginated_def by (intro keeps_rules)

lemma keeps_ClassifyERC20 [keeps_rules]: "keeps I (ClassifyERC20 k c)"
  unfolding ClassifyERC20_def by (intro keeps_rules)

lemma keeps_ClassifyDenom [keeps_rules]: "keeps I (ClassifyDenom k d)"
  unfolding ClassifyDenom_def by (intro keeps_rules)

lemma keeps_RewardLookup [keeps_rules]: "keeps I (RewardToERC20Lookup k coin)"
  unfolding RewardToERC20Lookup_def by (intro keeps_rules)

lemma keeps_assertMetadata [keeps_rules]: "keeps I (assertMetadataWhitelisted k d)"
  unfolding assertMetadataWhitelisted_def GetCosmosBridgeableToken_def by (intro keeps_rules)

lemma keeps_onBlacklist [keeps_rules]: "keeps I (onBlacklist k a bs)"
  by (induction bs) (simp_all add: keeps_rules)

lemma keeps_IsOnBlacklist [keeps_rules]: "keeps I (IsOnBlacklist k a)"
  unfolding IsOnBlacklist_def by (intro keeps_rules)

lemma keeps_InvalidSend [keeps_rules]: "keeps I (InvalidSendToEthAddress k a c)"
  unfolding InvalidSendToEthAddress_def by (intro keeps_rules)

section \<open>Valid parameters\<close>

text \<open>What parameter validation guarantees of the stored addresses.\<close>

definition params_ok :: "'x Keeper \<Rightarrow> 'x ctx \<Rightarrow> bool" where
  "params_ok k c \<longleftrightarrow>
     (case paramsStore c of
        None \<Rightarrow> False
      | Some p \<Rightarrow> \<not> isl (NewEthAddress k (BridgeEthereumAddress p)) \<and>
          list_all (\<lambda>s. \<not> isl (NewEthAddress k s)) (EthereumBlacklist p))"

definition is_blacklisted :: "'x Keeper \<Rightarrow> 'x ctx \<Rightarrow> EthAddress \<Rightarrow> bool" where
  "is_blacklisted k c a \<longleftrightarrow>
     (case paramsStore c of
        None \<Rightarrow> False
      | Some p \<Rightarrow> list_ex (\<lambda>s. NewEthAddress k s = Inr a) (EthereumBlacklist p))"

lemma onBlacklist_run:
  "list_all (\<lambda>s. \<not> isl (NewEthAddress k s)) bs \<Longrightarrow>
     onBlacklist k a bs c = Ok (list_ex (\<lambda>s. NewEthAddress k s = Inr a) bs) c"
proof (induction bs)
  case (Cons b bs)
  then obtain x where "NewEthAddress k b = Inr x"
    by (cases "NewEthAddress k b") auto
  then show ?case
    using Cons by simp
qed simp

lemma IsOnBlacklist_run [simp]: "params_ok k c \<Longrightarrow> IsOnBlacklist k a c = Ok (is_blacklisted k c a) c"
  by (auto simp: params_ok_def is_blacklisted_def IsOnBlacklist_def MustGetParams_def GetParams_def bind_run
      onBlacklist_run orPanic_def split: option.splits)

lemma emitBridgeEvent_run [simp]: "params_ok k c \<Longrightarrow> emitBridgeEvent k c = Ok () c"
  by (auto simp: params_ok_def emitBridgeEvent_Ok split: option.splits) (metis sum.collapse(2))

section \<open>The two classifications agree\<close>

lemma getERC20_Ok [run]:
  "getCosmosOriginatedERC20ForDenom k d ctx = Ok r ctx' \<longleftrightarrow> ctx' = ctx \<and>
     (case kv_get (denomToERC20 ctx) d of
        None \<Rightarrow> r = None
      | Some b \<Rightarrow> \<exists>a. NewEthAddressFromBytes k b = Inr a \<and> r = Some a)"
  by (auto simp: getCosmosOriginatedERC20ForDenom_def run split: option.splits)

lemma getDenom_run [run, simp]:
  "getCosmosOriginatedDenomForERC20 c ctx = Ok (kv_get (erc20ToDenom ctx) c) ctx"
  by (simp add: getCosmosOriginatedDenomForERC20_def)

lemma IsRemapped_run [run, simp]: "IsRemappedERC20 c ctx = Ok (kv_has (remappedERC20 ctx) c) ctx"
  by (simp add: IsRemappedERC20_def)

lemma classifyCosmos_Ok:
  "classifyCosmosOriginated k caller d c ctx = Ok r ctx' \<longleftrightarrow>
     ctx' = ctx \<and> ValidateStrictDenom k d = None \<and>
     getCosmosOriginatedERC20ForDenom k d ctx = Ok (Some c) ctx \<and>
     kv_get (erc20ToDenom ctx) c = Some d \<and> \<not> kv_has (remappedERC20 ctx) c \<and> d \<noteq> [] \<and>
     r = \<lparr>Origin = AssetOriginCosmos, IsRemapped = False, Denom = d, ERC20 = Some c\<rparr>"
  by (auto simp: classifyCosmosOriginated_def AssertValid_def bind_Ok Let_def
      dest: readonly_Ok [OF keeps_getERC20] split: if_splits)

lemma classifyEth_Ok:
  "classifyEthOriginated k caller d c remapped ctx = Ok r ctx' \<longleftrightarrow>
     ctx' = ctx \<and> GetDenomMetaData k (others ctx) d = None \<and>
     (if remapped then Gravity2DenomToERC20 k d else GravityDenomToERC20 k d) = Inr c \<and>
     ValidateStrictDenom k d = None \<and> d \<noteq> [] \<and>
     r = \<lparr>Origin = AssetOriginEthereum, IsRemapped = remapped, Denom = d, ERC20 = Some c\<rparr>"
  by (auto simp: classifyEthOriginated_def AssertValid_def bind_Ok Let_def split: if_splits)

text \<open>
  The invariant of the double index: each direction inverts the other, no registered denom looks
  like an eth-originated one, and no registered contract is remapped.
\<close>

definition mapping_wf :: "'x Keeper \<Rightarrow> 'x ctx \<Rightarrow> bool" where
  "mapping_wf k ctx \<longleftrightarrow>
     (\<forall>d b. kv_get (denomToERC20 ctx) d = Some b \<longrightarrow>
        (\<exists>c. b = EthAddress_Bytes c \<and> kv_get (erc20ToDenom ctx) c = Some d))
   \<and> (\<forall>c d. kv_get (erc20ToDenom ctx) c = Some d \<longrightarrow>
        kv_get (denomToERC20 ctx) d = Some (EthAddress_Bytes c) \<and>
        (\<forall>a. GravityDenomToERC20 k d \<noteq> Inr a) \<and> (\<forall>a. Gravity2DenomToERC20 k d \<noteq> Inr a) \<and>
        \<not> ContainsEthAddress k d \<and> \<not> kv_has (remappedERC20 ctx) c)"

lemma validateMapping_Ok:
  "validateCosmosOriginatedMapping k d c ctx = Ok u ctx' \<longleftrightarrow>
     ctx' = ctx \<and> (\<forall>a. GravityDenomToERC20 k d \<noteq> Inr a) \<and> (\<forall>a. Gravity2DenomToERC20 k d \<noteq> Inr a) \<and>
     \<not> ContainsEthAddress k d \<and> \<not> kv_has (remappedERC20 ctx) c"
  by (auto simp: validateCosmosOriginatedMapping_def bind_Ok split: sum.splits if_splits)

lemma setMapping_Ok:
  "setCosmosOriginatedMapping k d c ctx = Ok u ctx' \<longleftrightarrow>
     validateCosmosOriginatedMapping k d c ctx = Ok () ctx \<and>
     kv_get (denomToERC20 ctx) d = None \<and> kv_get (erc20ToDenom ctx) c = None \<and>
     ctx' = ctx\<lparr>denomToERC20 := kv_set d (EthAddress_Bytes c) (denomToERC20 ctx),
                erc20ToDenom := kv_set c d (erc20ToDenom ctx)\<rparr>"
  by (auto simp: setCosmosOriginatedMapping_def bind_Ok getERC20_Ok validateMapping_Ok
      split: option.splits if_splits)

lemma setMapping_Err: "setCosmosOriginatedMapping k d c ctx = Err e ctx' \<Longrightarrow> ctx' = ctx"
  by (auto simp: setCosmosOriginatedMapping_def bind_Err bind_Ok dest: readonly_Ok [OF keeps_validateMapping] readonly_Err [OF keeps_validateMapping]
      readonly_Ok [OF keeps_getERC20] readonly_Err [OF keeps_getERC20] split: if_splits)

text \<open>
  C21: registering a cosmos-originated asset keeps the double index a bijection that is disjoint from
  the eth-originated denoms and the remapped contracts, whether the registration succeeds or fails.
\<close>

theorem mapping_wf_preserved: "keeps (mapping_wf k) (setCosmosOriginatedMapping k d c)"
proof (rule keepsI)
  fix ctx u ctx'
  assume wf: "mapping_wf k ctx" and run: "setCosmosOriginatedMapping k d c ctx = Ok u ctx'"
  then show "mapping_wf k ctx'"
    unfolding setMapping_Ok validateMapping_Ok mapping_wf_def by auto (metis option.distinct(1))
next
  fix ctx e ctx'
  assume "mapping_wf k ctx" "setCosmosOriginatedMapping k d c ctx = Err e ctx'"
  then show "mapping_wf k ctx'"
    using setMapping_Err by metis
qed

text \<open>
  C22: whatever \<open>ClassifyERC20\<close> answers for a contract names that contract, leaves the state alone,
  and \<open>ClassifyDenom\<close> gives the same answer for the denom it returned.
\<close>

theorem ClassifyERC20_ClassifyDenom:
  assumes "geth_laws k" "mapping_wf k ctx" "ClassifyERC20 k c ctx = Ok r ctx'"
  shows "ctx' = ctx \<and> ERC20 r = Some c \<and> ClassifyDenom k (Denom r) ctx = Ok r ctx"
proof (cases "kv_get (erc20ToDenom ctx) c")
  case None
  let ?rm = "kv_has (remappedERC20 ctx) c"
  let ?d = "if ?rm then Gravity2Denom k c else GravityDenom k c"
  have eth: "classifyEthOriginated k ''ClassifyERC20'' ?d c ?rm ctx = Ok r ctx'"
    using assms(3) None by (simp add: ClassifyERC20_def bind_Ok)
  then have r: "ctx' = ctx" "ERC20 r = Some c" "Denom r = ?d"
    unfolding classifyEth_Ok by simp_all
  have "classifyEthOriginated k ''ClassifyDenom'' ?d c ?rm ctx = Ok r ctx"
    using eth unfolding classifyEth_Ok by simp
  moreover have "\<not> ?rm \<Longrightarrow> \<exists>e. Gravity2DenomToERC20 k (GravityDenom k c) = Inl e"
    by (simp add: Gravity2DenomToERC20_def GravityDenom_not_gravity2 assms(1))
  ultimately have "ClassifyDenom k (Denom r) ctx = Ok r ctx"
    using assms(1) r by (cases ?rm) (auto simp: ClassifyDenom_def bind_Ok)
  then show ?thesis
    using r by simp
next
  case (Some d)
  then have cosmos: "classifyCosmosOriginated k ''ClassifyERC20'' d c ctx = Ok r ctx'"
    using assms(3) by (simp add: ClassifyERC20_def bind_Ok)
  then have r: "ctx' = ctx" "ERC20 r = Some c" "Denom r = d"
    and get: "getCosmosOriginatedERC20ForDenom k d ctx = Ok (Some c) ctx"
    unfolding classifyCosmos_Ok by simp_all
  obtain e1 e2 where "Gravity2DenomToERC20 k d = Inl e1" "GravityDenomToERC20 k d = Inl e2"
    using assms(2) Some unfolding mapping_wf_def by (metis sum.exhaust)
  moreover have "classifyCosmosOriginated k ''ClassifyDenom'' d c ctx = Ok r ctx"
    using cosmos unfolding classifyCosmos_Ok by simp
  ultimately show ?thesis
    using r get by (auto simp: ClassifyDenom_def bind_Ok)
qed

end
