(* ===== verification/Pool.thy ===== *)
theory Pool
  imports CosmosOriginated
begin

text \<open>
  The pool of unbatched transfers to Ethereum, \<open>x/gravity/keeper/pool.go\<close>.

  A transfer is stored under its fee contract, fee amount and id, so a descending iteration over one
  contract yields the highest fees first.  The lemmas give the invariant of the pool (every entry
  reads back to an internal transfer stored under its own key), the order of iteration, and how
  each operation moves the total value held for a contract.
\<close>

section \<open>Counters\<close>

datatype counter = KeyLastTXPoolID | KeyLastOutgoingBatchID

definition getID :: "counter \<Rightarrow> ('x, uint64) gop" where
  "getID idKey =
     bind (reads (\<lambda>ctx. case idKey of KeyLastTXPoolID \<Rightarrow> lastTXPoolID ctx
                                   | KeyLastOutgoingBatchID \<Rightarrow> lastOutgoingBatchID ctx)) (\<lambda>bz.
       case bz of None \<Rightarrow> panic ''index out of range'' | Some i \<Rightarrow> return i)"

definition setID :: "uint64 \<Rightarrow> counter \<Rightarrow> ('x, unit) gop" where
  "setID i idKey =
     (case idKey of
        KeyLastTXPoolID \<Rightarrow> modify (\<lambda>ctx. ctx\<lparr>lastTXPoolID := Some i\<rparr>)
      | KeyLastOutgoingBatchID \<Rightarrow> modify (\<lambda>ctx. ctx\<lparr>lastOutgoingBatchID := Some i\<rparr>))"

definition autoIncrementID :: "counter \<Rightarrow> ('x, uint64) gop" where
  "autoIncrementID idKey =
     bind (getID idKey) (\<lambda>i. bind (setID (i + 1) idKey) (\<lambda>_. return (i + 1)))"

section \<open>Entries\<close>

text \<open>The typed form of \<open>GetOutgoingTxPoolKey\<close>.\<close>

definition pool_key_of :: "InternalERC20Token \<Rightarrow> uint64 \<Rightarrow> pool_key option" where
  "pool_key_of fee txID = map_option (\<lambda>amount. (Contract fee, amount, txID)) (FillBytes32 (Amount fee))"

definition poolKey :: "InternalERC20Token \<Rightarrow> uint64 \<Rightarrow> ('s, pool_key) op" where
  "poolKey fee txID =
     (case pool_key_of fee txID of
        None \<Rightarrow> panic ''math/big: buffer too small to fit value''
      | Some key \<Rightarrow> return key)"

definition addUnbatchedTX :: "'x Keeper \<Rightarrow> InternalOutgoingTransferTx \<Rightarrow> ('x, unit) gop" where
  "addUnbatchedTX k val =
     bind (poolKey (Erc20Fee val) (TxId val)) (\<lambda>idxKey.
     bind (reads (\<lambda>ctx. kv_has (outgoingTXPool ctx) idxKey)) (\<lambda>has.
       if has then fail (Wrapped ErrDuplicate ''transaction already in pool'')
       else modify (\<lambda>ctx. ctx\<lparr>outgoingTXPool :=
              kv_set idxKey (InternalOutgoingTransferTx_ToExternal k val) (outgoingTXPool ctx)\<rparr>)))"

definition removeUnbatchedTX :: "InternalERC20Token \<Rightarrow> uint64 \<Rightarrow> ('x, unit) gop" where
  "removeUnbatchedTX fee txID =
     bind (poolKey fee txID) (\<lambda>idxKey.
     bind (reads (\<lambda>ctx. kv_has (outgoingTXPool ctx) idxKey)) (\<lambda>has.
       if \<not> has then fail (Wrapped ErrUnknown ''pool transaction'')
       else modify (\<lambda>ctx. ctx\<lparr>outgoingTXPool := kv_del idxKey (outgoingTXPool ctx)\<rparr>)))"

definition GetUnbatchedTxByFeeAndId ::
  "'x Keeper \<Rightarrow> InternalERC20Token \<Rightarrow> uint64 \<Rightarrow> ('x, InternalOutgoingTransferTx) gop" where
  "GetUnbatchedTxByFeeAndId k fee txID =
     bind (poolKey fee txID) (\<lambda>idxKey.
     bind (reads (\<lambda>ctx. kv_get (outgoingTXPool ctx) idxKey)) (\<lambda>bz.
       case bz of
         None \<Rightarrow> fail (Wrapped ErrUnknown ''pool transaction'')
       | Some r \<Rightarrow> orPanic ''invalid unbatched tx in store'' (lift (OutgoingTransferTx_ToInternal k r))))"

section \<open>Iteration\<close>

text \<open>
  The prefix of an iteration is the whole pool or one fee contract
  (\<open>GetOutgoingTxPoolContractPrefix\<close>); iteration is in descending key order.
\<close>

definition poolRange :: "EthAddress option \<Rightarrow> 'x ctx \<Rightarrow> (pool_key \<times> OutgoingTransferTx) list" where
  "poolRange prefixKey ctx =
     filter (\<lambda>e. case prefixKey of None \<Rightarrow> True | Some c \<Rightarrow> fst (fst e) = c) (kv_desc (outgoingTXPool ctx))"

definition filterAndIterateUnbatchedTransactions ::
  "'x Keeper \<Rightarrow> EthAddress option \<Rightarrow>
     (pool_key \<Rightarrow> InternalOutgoingTransferTx \<Rightarrow> 'b \<Rightarrow> ('x, bool \<times> 'b) gop) \<Rightarrow> 'b \<Rightarrow> ('x, 'b) gop" where
  "filterAndIterateUnbatchedTransactions k prefixKey cb acc =
     bind (reads (poolRange prefixKey)) (\<lambda>entries.
       iterM (\<lambda>(key, transact) a.
         bind (orPanic ''invalid unbatched transaction in store''
                (lift (OutgoingTransferTx_ToInternal k transact))) (\<lambda>intTx. cb key intTx a)) entries acc)"

definition IterateUnbatchedTransactions ::
  "'x Keeper \<Rightarrow> (pool_key \<Rightarrow> InternalOutgoingTransferTx \<Rightarrow> 'b \<Rightarrow> ('x, bool \<times> 'b) gop) \<Rightarrow> 'b \<Rightarrow> ('x, 'b) gop" where
  "IterateUnbatchedTransactions k cb acc = filterAndIterateUnbatchedTransactions k None cb acc"

definition IterateUnbatchedTransactionsByContract ::
  "'x Keeper \<Rightarrow> EthAddress \<Rightarrow>
     (pool_key \<Rightarrow> InternalOutgoingTransferTx \<Rightarrow> 'b \<Rightarrow> ('x, bool \<times> 'b) gop) \<Rightarrow> 'b \<Rightarrow> ('x, 'b) gop" where
  "IterateUnbatchedTransactionsByContract k contractAddress cb acc =
     filterAndIterateUnbatchedTransactions k (Some contractAddress) cb acc"

definition collectUnbatchedTransactions ::
  "'x Keeper \<Rightarrow> EthAddress option \<Rightarrow> ('x, InternalOutgoingTransferTx list) gop" where
  "collectUnbatchedTransactions k prefixKey =
     filterAndIterateUnbatchedTransactions k prefixKey (\<lambda>_ tx out. return (False, out @ [tx])) []"

definition GetUnbatchedTransactionsByContract ::
  "'x Keeper \<Rightarrow> EthAddress \<Rightarrow> ('x, InternalOutgoingTransferTx list) gop" where
  "GetUnbatchedTransactionsByContract k contractAddress = collectUnbatchedTransactions k (Some contractAddress)"

definition GetUnbatchedTransactions :: "'x Keeper \<Rightarrow> ('x, InternalOutgoingTransferTx list) gop" where
  "GetUnbatchedTransactions k = collectUnbatchedTransactions k None"

definition GetUnbatchedTxById :: "'x Keeper \<Rightarrow> uint64 \<Rightarrow> ('x, InternalOutgoingTransferTx) gop" where
  "GetUnbatchedTxById k txID =
     bind (IterateUnbatchedTransactions k
             (\<lambda>_ tx r. if TxId tx = txID then return (True, Some tx) else return (False, r)) None) (\<lambda>r.
       case r of
         None \<Rightarrow> fail (Wrapped ErrUnknown ''pool transaction'')
       | Some tx \<Rightarrow> return tx)"

section \<open>Entering and leaving the pool\<close>

definition AddToOutgoingPool ::
  "'x Keeper \<Rightarrow> AccAddress \<Rightarrow> EthAddress \<Rightarrow> Coin \<Rightarrow> Coin \<Rightarrow> ('x, uint64) gop" where
  "AddToOutgoingPool k sender counterpartReceiver amount fee =
     bind (failIf (VerifyAddressFormat k sender \<noteq> None \<or> EthAddress_ValidateBasic k counterpartReceiver \<noteq> None
                   \<or> \<not> Coin_IsValid k amount \<or> \<not> Coin_IsValid k fee \<or> Coin_Denom fee \<noteq> Coin_Denom amount)
             (Wrapped ErrInvalid ''arguments'')) (\<lambda>_.
     bind (Int_Add k (Coin_Amount amount) (Coin_Amount fee)) (\<lambda>total.
     bind (wrapErr ''failed to classify denom'' (ClassifyDenom k (Coin_Denom amount))) (\<lambda>poolOrigin.
     bind (liftX (SendCoinsFromAccountToModule k sender ModuleName
                    [\<lparr>Coin_Denom = Coin_Denom amount, Coin_Amount = total\<rparr>])) (\<lambda>_.
     bind (autoIncrementID KeyLastTXPoolID) (\<lambda>nextID.
       case ERC20 poolOrigin of
         None \<Rightarrow> panic ''nil pointer dereference''
       | Some erc20 \<Rightarrow>
           bind (wrapErr ''invalid Erc20Fee'' (lift (NewInternalERC20Token k (Coin_Amount fee) (Hex k erc20)))) (\<lambda>erc20Fee.
           bind (wrapErr ''invalid ERC20Token'' (lift (NewInternalERC20Token k (Coin_Amount amount) (Hex k erc20)))) (\<lambda>erc20Token.
           bind (orPanic ''unable to create InternalOutgoingTransferTx''
                   (lift (OutgoingTransferTx_ToInternal k
                     \<lparr>ext_Id = nextID, ext_Sender = AccAddress_String k sender,
                      ext_DestAddress = Hex k counterpartReceiver,
                      ext_Erc20Token = InternalERC20Token_ToExternal k erc20Token,
                      ext_Erc20Fee = InternalERC20Token_ToExternal k erc20Fee\<rparr>))) (\<lambda>outgoing.
           bind (orPanic ''transaction already in pool'' (addUnbatchedTX k outgoing)) (\<lambda>_.
           bind (emitBridgeEvent k) (\<lambda>_.
             return nextID)))))))))) "

text \<open>
  After the removal the code checks that the entry is gone; a panic of that lookup is a panic of the
  whole operation.
\<close>

definition RemoveFromOutgoingPoolAndRefund ::
  "'x Keeper \<Rightarrow> uint64 \<Rightarrow> AccAddress \<Rightarrow> ('x, unit) gop" where
  "RemoveFromOutgoingPoolAndRefund k txId sender =
     bind (failIf (txId < 1 \<or> VerifyAddressFormat k sender \<noteq> None) (Wrapped ErrInvalid ''arguments'')) (\<lambda>_.
     bind (wrapErr ''unknown transaction'' (GetUnbatchedTxById k txId)) (\<lambda>tx.
     bind (failIf (Sender tx \<noteq> sender) (Wrapped ErrInvalid ''Sender did not send Id'')) (\<lambda>_.
     bind (failIf (Contract (Erc20Fee tx) \<noteq> Contract (Erc20Token tx))
             (Wrapped ErrInvalid ''Inconsistent tokens to cancel!'')) (\<lambda>_.
     bind (mapErr (\<lambda>_. Wrapped ErrInvalid ''txId not in unbatched index! Must be in a batch!'')
             (removeUnbatchedTX (Erc20Fee tx) txId)) (\<lambda>_.
     bind (attempt (GetUnbatchedTxByFeeAndId k (Erc20Fee tx) (TxId tx))) (\<lambda>oldTx.
     bind (failIf (case oldTx of Inr _ \<Rightarrow> True | Inl _ \<Rightarrow> False)
             (Wrapped ErrInvalid ''tx was not fully removed from the pool, a duplicate must exist'')) (\<lambda>_.
     bind (wrapErr ''failed to classify ERC20 for refund'' (ClassifyERC20 k (Contract (Erc20Token tx)))) (\<lambda>refundOrigin.
     bind (NewCoin k (Denom refundOrigin) (Amount (Erc20Token tx))) (\<lambda>coin.
     bind (Int_Add k (Coin_Amount coin) (Amount (Erc20Fee tx))) (\<lambda>total.
     bind (sdk_NewCoins k [coin\<lparr>Coin_Amount := total\<rparr>]) (\<lambda>totalToRefundCoins.
     bind (wrapErr ''transfer vouchers''
             (liftX (SendCoinsFromModuleToAccount k ModuleName sender totalToRefundCoins))) (\<lambda>_.
       emitBridgeEvent k))))))))))))"

section \<open>Fees\<close>

record BatchFees =
  BatchFees_Token :: string
  TotalFees :: int
  TxCount :: uint64

text \<open>The callback of \<open>GetBatchFeeByTokenType\<close>.\<close>

definition batchFeeStep ::
  "'x Keeper \<Rightarrow> EthAddress \<Rightarrow> uint64 \<Rightarrow> InternalOutgoingTransferTx \<Rightarrow> BatchFees \<Rightarrow> ('x, bool \<times> BatchFees) gop" where
  "batchFeeStep k tokenContractAddr maxElements tx batchFee =
     bind (IsOnBlacklist k (DestAddress tx)) (\<lambda>blacklisted.
       if \<not> blacklisted then
         bind (panicIf (Contract (Erc20Fee tx) \<noteq> tokenContractAddr) ''unexpected fee contract'') (\<lambda>_.
         bind (Int_Add k (TotalFees batchFee) (Amount (Erc20Fee tx))) (\<lambda>total.
           let batchFee' = batchFee\<lparr>TotalFees := total, TxCount := TxCount batchFee + 1\<rparr>
           in return (TxCount batchFee' = maxElements, batchFee')))
       else return (False, batchFee))"

definition GetBatchFeeByTokenType :: "'x Keeper \<Rightarrow> EthAddress \<Rightarrow> uint64 \<Rightarrow> ('x, BatchFees) gop" where
  "GetBatchFeeByTokenType k tokenContractAddr maxElements =
     IterateUnbatchedTransactionsByContract k tokenContractAddr
       (\<lambda>_. batchFeeStep k tokenContractAddr maxElements)
       \<lparr>BatchFees_Token = Hex k tokenContractAddr, TotalFees = 0, TxCount = 0\<rparr>"

text \<open>The Go map from token to fees is an association list keyed by the token string.\<close>

definition createBatchFees :: "'x Keeper \<Rightarrow> uint64 \<Rightarrow> ('x, (string, BatchFees) kv) gop" where
  "createBatchFees k maxElements =
     IterateUnbatchedTransactions k
       (\<lambda>_ tx m.
         let feeAddrStr = Hex k (Contract (Erc20Fee tx))
         in case kv_get m feeAddrStr of
              Some fees \<Rightarrow>
                if TxCount fees < maxElements then
                  bind (Int_Add k (TotalFees fees) (Amount (Erc20Fee tx))) (\<lambda>total.
                    return (False, kv_set feeAddrStr (fees\<lparr>TotalFees := total, TxCount := TxCount fees + 1\<rparr>) m))
                else return (False, m)
            | None \<Rightarrow>
                return (False, kv_set feeAddrStr
                  \<lparr>BatchFees_Token = feeAddrStr, TotalFees = Amount (Erc20Fee tx), TxCount = 1\<rparr> m))
       []"

text \<open>The map's values sorted by token; the keys of the map are the tokens.\<close>

definition GetAllBatchFees :: "'x Keeper \<Rightarrow> uint64 \<Rightarrow> ('x, BatchFees list) gop" where
  "GetAllBatchFees k maxElements =
     bind (createBatchFees k maxElements) (\<lambda>m. return (map snd (kv_asc m)))"

section \<open>The typed key is the byte key\<close>

lemma poolKey_bytes:
  "GetOutgoingTxPoolKey fee txID s =
     (case poolKey fee txID s of Ok key t \<Rightarrow> Ok (enc_pool_key key) t | Err e t \<Rightarrow> Err e t | Panic p \<Rightarrow> Panic p)"
  by (simp add: GetOutgoingTxPoolKey_def poolKey_def pool_key_of_def enc_pool_key_def split: option.split)

section \<open>Execution\<close>

lemma poolKey_Ok [run]: "poolKey fee txID s = Ok key t \<longleftrightarrow> t = s \<and> pool_key_of fee txID = Some key"
  by (auto simp: poolKey_def split: option.splits)

lemma poolKey_Err [run, simp]: "poolKey fee txID s \<noteq> Err e t"
  by (auto simp: poolKey_def split: option.splits)

lemma poolKey_run [simp]: "pool_key_of fee txID = Some key \<Longrightarrow> poolKey fee txID = return key"
  by (simp add: poolKey_def)

lemma addUnbatchedTX_Ok [run]:
  "addUnbatchedTX k val c = Ok u c' \<longleftrightarrow> (\<exists>key. pool_key_of (Erc20Fee val) (TxId val) = Some key \<and>
     \<not> kv_has (outgoingTXPool c) key \<and>
     c' = c\<lparr>outgoingTXPool := kv_set key (InternalOutgoingTransferTx_ToExternal k val) (outgoingTXPool c)\<rparr>)"
  by (auto simp: addUnbatchedTX_def run split: if_splits)

lemma addUnbatchedTX_Err: "addUnbatchedTX k val c = Err e c' \<Longrightarrow> c' = c"
  by (auto simp: addUnbatchedTX_def run split: if_splits)

lemma removeUnbatchedTX_Ok [run]:
  "removeUnbatchedTX fee txID c = Ok u c' \<longleftrightarrow> (\<exists>key. pool_key_of fee txID = Some key \<and>
     kv_has (outgoingTXPool c) key \<and> c' = c\<lparr>outgoingTXPool := kv_del key (outgoingTXPool c)\<rparr>)"
  by (auto simp: removeUnbatchedTX_def run split: if_splits)

lemma removeUnbatchedTX_Err: "removeUnbatchedTX fee txID c = Err e c' \<Longrightarrow> c' = c"
  by (auto simp: removeUnbatchedTX_def run split: if_splits)

lemma keeps_getID [keeps_rules]: "keeps I (getID idKey)"
  unfolding getID_def by (intro keeps_rules)

lemma keeps_poolKey [keeps_rules]: "keeps I (poolKey fee i)"
  unfolding poolKey_def by (intro keeps_rules)

lemma keeps_GetUnbatchedTxByFeeAndId [keeps_rules]: "keeps I (GetUnbatchedTxByFeeAndId k fee i)"
  unfolding GetUnbatchedTxByFeeAndId_def by (intro keeps_rules)

lemma keeps_filterAndIterate [keeps_rules]:
  "(\<And>key tx a. keeps I (cb key tx a)) \<Longrightarrow> keeps I (filterAndIterateUnbatchedTransactions k p cb acc)"
  unfolding filterAndIterateUnbatchedTransactions_def by (intro keeps_rules)

lemma keeps_iterate_pool [keeps_rules]:
  "(\<And>key tx a. keeps I (cb key tx a)) \<Longrightarrow> keeps I (IterateUnbatchedTransactions k cb acc)"
  "(\<And>key tx a. keeps I (cb key tx a)) \<Longrightarrow> keeps I (IterateUnbatchedTransactionsByContract k c cb acc)"
  unfolding IterateUnbatchedTransactions_def IterateUnbatchedTransactionsByContract_def
  by (intro keeps_rules; assumption)+

lemma keeps_GetUnbatchedTxById [keeps_rules]: "keeps I (GetUnbatchedTxById k i)"
  unfolding GetUnbatchedTxById_def by (intro keeps_rules)

lemma keeps_GetBatchFee [keeps_rules]: "keeps I (GetBatchFeeByTokenType k c n)"
  unfolding GetBatchFeeByTokenType_def batchFeeStep_def by (intro keeps_rules)

lemma autoIncrementID_Ok [run]:
  "autoIncrementID KeyLastTXPoolID c = Ok i c' \<longleftrightarrow>
     (\<exists>n. lastTXPoolID c = Some n \<and> i = n + 1 \<and> c' = c\<lparr>lastTXPoolID := Some (n + 1)\<rparr>)"
  "autoIncrementID KeyLastOutgoingBatchID c = Ok i c' \<longleftrightarrow>
     (\<exists>n. lastOutgoingBatchID c = Some n \<and> i = n + 1 \<and> c' = c\<lparr>lastOutgoingBatchID := Some (n + 1)\<rparr>)"
  by (auto simp: autoIncrementID_def getID_def setID_def run split: option.splits)

lemma autoIncrementID_Err [run, simp]: "autoIncrementID key c \<noteq> Err e c'"
  by (cases key) (auto simp: autoIncrementID_def getID_def setID_def run split: option.splits)

section \<open>The invariant of the pool\<close>

text \<open>
  Every stored transfer reads back to an internal transfer that would be written as the same message
  and under the same key, and pays its fee in the token it moves.
\<close>

definition internal :: "'x Keeper \<Rightarrow> OutgoingTransferTx \<Rightarrow> InternalOutgoingTransferTx" where
  "internal k t = projr (OutgoingTransferTx_ToInternal k t)"

definition pool_entry_ok :: "'x Keeper \<Rightarrow> pool_key \<times> OutgoingTransferTx \<Rightarrow> bool" where
  "pool_entry_ok k e \<longleftrightarrow>
     (case OutgoingTransferTx_ToInternal k (snd e) of
        Inl _ \<Rightarrow> False
      | Inr i \<Rightarrow> InternalOutgoingTransferTx_ToExternal k i = snd e \<and>
          Contract (Erc20Token i) = Contract (Erc20Fee i) \<and>
          pool_key_of (Erc20Fee i) (TxId i) = Some (fst e))"

definition pool_ok :: "'x Keeper \<Rightarrow> 'x ctx \<Rightarrow> bool" where
  "pool_ok k c \<longleftrightarrow> kv_ok (outgoingTXPool c) \<and> list_all (pool_entry_ok k) (kv_asc (outgoingTXPool c))"

lemma pool_entry_okD:
  assumes "pool_entry_ok k (key, t)"
  shows "OutgoingTransferTx_ToInternal k t = Inr (internal k t)"
    and "InternalOutgoingTransferTx_ToExternal k (internal k t) = t"
    and "Contract (Erc20Token (internal k t)) = Contract (Erc20Fee (internal k t))"
    and "pool_key_of (Erc20Fee (internal k t)) (TxId (internal k t)) = Some key"
    and "Contract (Erc20Fee (internal k t)) = fst key"
    and "uint (fst (snd key)) = Amount (Erc20Fee (internal k t))"
  using assms
  by (auto simp: pool_entry_ok_def internal_def pool_key_of_def abs_of_nonneg
      dest!: FillBytes32_Some ToInternal_nonneg(2) split: sum.splits)

lemma pool_okD:
  assumes "pool_ok k c" "kv_get (outgoingTXPool c) key = Some t"
  shows "pool_entry_ok k (key, t)"
  using assms by (auto simp: pool_ok_def list_all_iff kv.asc_get)

lemma pool_ok_add:
  assumes "geth_laws k" "bech32_laws k" "pool_ok k c" "tx_wf k i"
    and "Contract (Erc20Token i) = Contract (Erc20Fee i)" "pool_key_of (Erc20Fee i) (TxId i) = Some key"
  shows "pool_ok k (c\<lparr>outgoingTXPool := kv_set key (InternalOutgoingTransferTx_ToExternal k i) (outgoingTXPool c)\<rparr>)"
proof -
  have "pool_entry_ok k (key, InternalOutgoingTransferTx_ToExternal k i)"
    using assms by (simp add: pool_entry_ok_def tx_round_trip)
  then show ?thesis
    using assms(3) by (auto simp: pool_ok_def list_all_iff kv.asc_get split: if_splits)
qed

lemma pool_ok_del: "pool_ok k c \<Longrightarrow> pool_ok k (c\<lparr>outgoingTXPool := kv_del key (outgoingTXPool c)\<rparr>)"
  by (auto simp: pool_ok_def list_all_iff kv.asc_get kv.ok_del split: if_splits)

section \<open>What an iteration sees\<close>

definition pool_list :: "'x Keeper \<Rightarrow> EthAddress \<Rightarrow> 'x ctx \<Rightarrow> InternalOutgoingTransferTx list" where
  "pool_list k contract c = map (\<lambda>e. internal k (snd e)) (poolRange (Some contract) c)"

lemma poolRange_entry: "pool_ok k c \<Longrightarrow> e \<in> set (poolRange p c) \<Longrightarrow> pool_entry_ok k e"
  by (auto simp: pool_ok_def poolRange_def list_all_iff)

lemma iterate_entries:
  "(\<And>e. e \<in> set es \<Longrightarrow> pool_entry_ok k e) \<Longrightarrow>
   iterM (\<lambda>(key, t) a. bind (orPanic msg (lift (OutgoingTransferTx_ToInternal k t))) (\<lambda>i. cb i a)) es acc c =
   iterM cb (map (\<lambda>e. internal k (snd e)) es) acc c"
proof (induction es arbitrary: acc c)
  case (Cons e es)
  obtain key t where e: "e = (key, t)"
    by (cases e)
  then have "OutgoingTransferTx_ToInternal k t = Inr (internal k t)"
    using Cons.prems pool_entry_okD(1) by (metis list.set_intros(1))
  then show ?case
    using Cons by (simp add: e bind_run split: outcome.split)
qed simp

lemma iterate_contract:
  "pool_ok k c \<Longrightarrow> IterateUnbatchedTransactionsByContract k contract (\<lambda>_. cb) acc c = iterM cb (pool_list k contract c) acc c"
  by (simp add: IterateUnbatchedTransactionsByContract_def filterAndIterateUnbatchedTransactions_def
      pool_list_def iterate_entries poolRange_entry)

lemma pool_list_contract:
  assumes "pool_ok k c" "i \<in> set (pool_list k contract c)"
  shows "Contract (Erc20Fee i) = contract" and "Contract (Erc20Token i) = contract"
    and "\<exists>key. pool_key_of (Erc20Fee i) (TxId i) = Some key \<and>
           kv_get (outgoingTXPool c) key = Some (InternalOutgoingTransferTx_ToExternal k i)"
    and "OutgoingTransferTx_ToInternal k (InternalOutgoingTransferTx_ToExternal k i) = Inr i"
proof -
  obtain key t where e: "(key, t) \<in> set (poolRange (Some contract) c)" "i = internal k t"
    using assms(2) by (auto simp: pool_list_def)
  note ok = pool_entry_okD [OF poolRange_entry [OF assms(1) e(1)]]
  show "Contract (Erc20Fee i) = contract" "Contract (Erc20Token i) = contract"
    using ok e by (auto simp: poolRange_def)
  have "kv_get (outgoingTXPool c) key = Some t"
    using e(1) assms(1) by (simp add: poolRange_def pool_ok_def kv.asc_get)
  then show "\<exists>key. pool_key_of (Erc20Fee i) (TxId i) = Some key \<and>
           kv_get (outgoingTXPool c) key = Some (InternalOutgoingTransferTx_ToExternal k i)"
    using ok e(2) by auto
  show "OutgoingTransferTx_ToInternal k (InternalOutgoingTransferTx_ToExternal k i) = Inr i"
    using ok(1,2) e(2) by simp
qed

section \<open>Selection by fee\<close>

abbreviation fee_of :: "InternalOutgoingTransferTx \<Rightarrow> int" where
  "fee_of i \<equiv> Amount (Erc20Fee i)"

lemma pool_list_nonneg: "pool_ok k c \<Longrightarrow> i \<in> set (pool_list k contract c) \<Longrightarrow> 0 \<le> fee_of i"
  using poolRange_entry pool_entry_okD(1) ToInternal_nonneg(2)
  by (fastforce simp: pool_list_def)

lemma pool_list_sorted:
  assumes "pool_ok k c"
  shows "sorted_wrt (\<lambda>x y. fee_of y \<le> fee_of x) (pool_list k contract c)"
proof -
  have "sorted_wrt (\<lambda>a b. fst b < fst a) (kv_desc (outgoingTXPool c))"
    using assms kv_desc_sorted by (auto simp: pool_ok_def sorted_wrt_map)
  then have "sorted_wrt (\<lambda>a b. fst b < fst a) (poolRange (Some contract) c)"
    by (simp add: poolRange_def sorted_wrt_filter)
  then have "sorted_wrt (\<lambda>a b. fee_of (internal k (snd b)) \<le> fee_of (internal k (snd a))) (poolRange (Some contract) c)"
  proof (rule sorted_wrt_mono_rel [rotated])
    fix a b
    assume mem: "a \<in> set (poolRange (Some contract) c)" "b \<in> set (poolRange (Some contract) c)"
      and less: "fst b < fst a"
    have "fst (fst a) = fst (fst b)"
      using mem by (simp add: poolRange_def)
    then have "uint (fst (snd (fst b))) \<le> uint (fst (snd (fst a)))"
      using less by (auto simp: less_prod_def word_less_def word_le_def)
    then show "fee_of (internal k (snd b)) \<le> fee_of (internal k (snd a))"
      using pool_entry_okD(6) poolRange_entry [OF assms] mem by (metis prod.collapse)
  qed
  then show ?thesis
    by (simp add: pool_list_def sorted_wrt_map)
qed

lemma pool_list_distinct:
  assumes "pool_ok k c"
  shows "distinct (pool_list k contract c)"
proof -
  have "distinct (map fst (kv_desc (outgoingTXPool c)))"
    using assms by (simp add: pool_ok_def kv_ok_def kv_desc_def strict_sorted_iff flip: rev_map)
  then have "distinct (poolRange (Some contract) c)"
    by (simp add: poolRange_def distinct_map)
  moreover have "inj_on (\<lambda>e. internal k (snd e)) (set (poolRange (Some contract) c))"
  proof (rule inj_onI)
    fix a b
    assume mem: "a \<in> set (poolRange (Some contract) c)" "b \<in> set (poolRange (Some contract) c)"
      and eq: "internal k (snd a) = internal k (snd b)"
    note ok = pool_entry_okD [of k "fst a" "snd a"] pool_entry_okD [of k "fst b" "snd b"]
    show "a = b"
      using ok poolRange_entry [OF assms] mem eq by (metis option.inject prod.collapse)
  qed
  ultimately show ?thesis
    by (simp add: pool_list_def distinct_map)
qed

text \<open>
  The transfers a batch of at most \<open>maxElements\<close> takes: the first ones in the order of the pool whose
  destination is not blacklisted.
\<close>

definition eligible :: "'x Keeper \<Rightarrow> EthAddress \<Rightarrow> 'x ctx \<Rightarrow> InternalOutgoingTransferTx list" where
  "eligible k contract c = filter (\<lambda>i. \<not> is_blacklisted k c (DestAddress i)) (pool_list k contract c)"

definition selectTxs :: "'x Keeper \<Rightarrow> EthAddress \<Rightarrow> uint64 \<Rightarrow> 'x ctx \<Rightarrow> InternalOutgoingTransferTx list" where
  "selectTxs k contract maxElements c = take (unat maxElements) (eligible k contract c)"

lemma selectTxs_maximal:
  assumes "pool_ok k c" "mset ys \<subseteq># mset (eligible k contract c)" "length ys \<le> unat maxElements"
  shows "sum_list (map fee_of ys) \<le> sum_list (map fee_of (selectTxs k contract maxElements c))"
  unfolding selectTxs_def
proof (rule take_sorted_maximal)
  show "sorted_wrt (\<lambda>x y. fee_of y \<le> fee_of x) (eligible k contract c)"
    by (simp add: eligible_def sorted_wrt_filter pool_list_sorted assms(1))
  show "\<And>x. x \<in> set (eligible k contract c) \<Longrightarrow> 0 \<le> fee_of x"
    using pool_list_nonneg [OF assms(1)] by (auto simp: eligible_def)
qed (use assms in auto)

lemma batchFeeStep_run:
  "params_ok k c \<Longrightarrow> Contract (Erc20Fee tx) = contract \<Longrightarrow>
   batchFeeStep k contract maxElements tx acc c =
     (if is_blacklisted k c (DestAddress tx) then Ok (False, acc) c
      else if IntFits k (TotalFees acc + fee_of tx)
      then Ok (TxCount acc + 1 = maxElements, acc\<lparr>TotalFees := TotalFees acc + fee_of tx, TxCount := TxCount acc + 1\<rparr>) c
      else Panic ''Int overflow'')"
  by (simp add: batchFeeStep_def bind_step Int_Add_def)

lemma batchFeeStep_iterates:
  assumes "params_ok k c" "\<And>i. i \<in> set xs \<Longrightarrow> Contract (Erc20Fee i) = contract"
    and "unat (TxCount acc) < unat maxElements"
    and "iterM (batchFeeStep k contract maxElements) xs acc c = Ok r c'"
  defines "sel \<equiv> take (unat maxElements - unat (TxCount acc)) (filter (\<lambda>i. \<not> is_blacklisted k c (DestAddress i)) xs)"
  shows "r = acc\<lparr>TotalFees := TotalFees acc + sum_list (map fee_of sel),
                  TxCount := TxCount acc + word_of_nat (length sel)\<rparr>"
  using assms(2-4) unfolding sel_def
proof (induction xs arbitrary: acc)
  case (Cons x xs)
  let ?acc = "acc\<lparr>TotalFees := TotalFees acc + fee_of x, TxCount := TxCount acc + 1\<rparr>"
  have inc: "unat (TxCount acc + 1) = unat (TxCount acc) + 1"
    using Cons.prems(2) by (rule unat_inc)
  consider "is_blacklisted k c (DestAddress x)"
    | "\<not> is_blacklisted k c (DestAddress x)" "TxCount acc + 1 = maxElements"
    | "\<not> is_blacklisted k c (DestAddress x)" "TxCount acc + 1 \<noteq> maxElements"
    by blast
  then show ?case
  proof cases
    case 1
    then show ?thesis
      using Cons assms(1) by (simp add: batchFeeStep_run bind_step)
  next
    case 2
    then have "r = ?acc"
      using Cons.prems assms(1) by (auto simp: batchFeeStep_run bind_run split: if_splits)
    moreover have "unat maxElements - unat (TxCount acc) = 1"
      using 2 inc by auto
    ultimately show ?thesis
      using 2 by simp
  next
    case 3
    then have "iterM (batchFeeStep k contract maxElements) xs ?acc c = Ok r c'"
      using Cons.prems assms(1) by (auto simp: batchFeeStep_run bind_run split: if_splits)
    moreover have less: "unat (TxCount acc) + 1 < unat maxElements"
      using 3 inc Cons.prems(2) by (metis Suc_eq_plus1 Suc_leI le_neq_implies_less unsigned_word_eqI)
    ultimately have "r = ?acc\<lparr>TotalFees := TotalFees ?acc + sum_list (map fee_of (take (unat maxElements - unat (TxCount ?acc))
            (filter (\<lambda>i. \<not> is_blacklisted k c (DestAddress i)) xs))),
          TxCount := TxCount ?acc + word_of_nat (length (take (unat maxElements - unat (TxCount ?acc))
            (filter (\<lambda>i. \<not> is_blacklisted k c (DestAddress i)) xs)))\<rparr>"
      using Cons.prems(1) inc by (intro Cons.IH) auto
    moreover obtain m where "unat maxElements - unat (TxCount acc) = Suc m"
        "unat maxElements - (unat (TxCount acc) + 1) = m"
      using less by (metis Nat.add_diff_assoc Suc_diff_Suc Suc_eq_plus1 add_lessD1)
    ultimately show ?thesis
      using 3 inc by simp
  qed
qed simp

lemma GetBatchFee_Ok:
  assumes "pool_ok k c" "params_ok k c" "maxElements \<noteq> 0"
    and "GetBatchFeeByTokenType k contract maxElements c = Ok r c'"
  shows "c' = c" and "TotalFees r = sum_list (map fee_of (selectTxs k contract maxElements c))"
    and "TxCount r = word_of_nat (length (selectTxs k contract maxElements c))"
proof -
  show "c' = c"
    using readonly_Ok [OF keeps_GetBatchFee] assms(4) by blast
  let ?acc = "\<lparr>BatchFees_Token = Hex k contract, TotalFees = 0, TxCount = 0\<rparr>"
  have "unat (TxCount ?acc) < unat maxElements"
    using assms(3) by (simp add: unat_gt_0)
  moreover have "iterM (batchFeeStep k contract maxElements) (pool_list k contract c) ?acc c = Ok r c'"
    using assms(1,4) by (simp add: GetBatchFeeByTokenType_def iterate_contract)
  ultimately have "r = ?acc\<lparr>TotalFees := TotalFees ?acc + sum_list (map fee_of (selectTxs k contract maxElements c)),
       TxCount := TxCount ?acc + word_of_nat (length (selectTxs k contract maxElements c))\<rparr>"
    using batchFeeStep_iterates [OF assms(2), of "pool_list k contract c" contract ?acc maxElements r c']
      pool_list_contract(1) [OF assms(1)]
    by (simp add: selectTxs_def eligible_def)
  then show "TotalFees r = sum_list (map fee_of (selectTxs k contract maxElements c))"
      "TxCount r = word_of_nat (length (selectTxs k contract maxElements c))"
    by simp_all
qed

section \<open>Lookup by id\<close>

lemma iterM_find:
  "iterM (\<lambda>x r. if P x then return (True, Some x) else return (False, r)) xs acc c =
     Ok (case find P xs of None \<Rightarrow> acc | Some x \<Rightarrow> Some x) c"
  by (induction xs arbitrary: acc) (simp_all add: bind_step)

lemma GetUnbatchedTxById_run:
  assumes "pool_ok k c"
  shows "GetUnbatchedTxById k txID c =
    (case find (\<lambda>i. TxId i = txID) (map (\<lambda>e. internal k (snd e)) (kv_desc (outgoingTXPool c))) of
       None \<Rightarrow> Err (Wrapped ErrUnknown ''pool transaction'') c | Some tx \<Rightarrow> Ok tx c)"
proof -
  have "poolRange None c = kv_desc (outgoingTXPool c)"
    by (simp add: poolRange_def)
  moreover have "pool_entry_ok k e" if "e \<in> set (kv_desc (outgoingTXPool c))" for e
    using assms that by (auto simp: pool_ok_def list_all_iff)
  ultimately have "IterateUnbatchedTransactions k
      (\<lambda>_ tx r. if TxId tx = txID then return (True, Some tx) else return (False, r)) None c =
    Ok (find (\<lambda>i. TxId i = txID) (map (\<lambda>e. internal k (snd e)) (kv_desc (outgoingTXPool c)))) c"
    unfolding IterateUnbatchedTransactions_def filterAndIterateUnbatchedTransactions_def bind_reads
    by (subst iterate_entries) (auto simp: iterM_find split: option.split)
  then show ?thesis
    by (simp add: GetUnbatchedTxById_def bind_step split: option.split)
qed

lemma GetUnbatchedTxById_Ok:
  assumes "pool_ok k c" "GetUnbatchedTxById k txID c = Ok tx c'"
  shows "TxId tx = txID \<and> (\<exists>key. pool_key_of (Erc20Fee tx) txID = Some key \<and>
    kv_get (outgoingTXPool c) key = Some (InternalOutgoingTransferTx_ToExternal k tx) \<and>
    OutgoingTransferTx_ToInternal k (InternalOutgoingTransferTx_ToExternal k tx) = Inr tx)"
proof -
  have "find (\<lambda>i. TxId i = txID) (map (\<lambda>e. internal k (snd e)) (kv_desc (outgoingTXPool c))) = Some tx"
    using assms by (auto simp: GetUnbatchedTxById_run split: option.splits)
  then obtain key t where id: "TxId tx = txID" and e: "(key, t) \<in> set (kv_asc (outgoingTXPool c))" "tx = internal k t"
    by (auto simp: find_Some_iff) (metis kv_desc_set nth_mem prod.collapse)
  then have "kv_get (outgoingTXPool c) key = Some t"
    using assms(1) by (simp add: pool_ok_def kv.asc_get)
  then show ?thesis
    using pool_entry_okD [OF pool_okD [OF assms(1)], of key t] id e(2) by auto
qed

end
