(* ===== verification/Checkpoints.thy ===== *)
theory Checkpoints
  imports OutgoingTypes
begin

text \<open>
  Ethereum signatures (\<open>types/ethereum_signer.go\<close>) and the archive of checkpoints the chain has
  asked its validators to sign (\<open>keeper/evidence.go\<close>).
\<close>

section \<open>Signatures\<close>

definition signaturePrefix :: bytes where
  "signaturePrefix = 0x19 # bytes_of_string ''Ethereum Signed Message:'' @ [10] @ bytes_of_string ''32''"

definition decodeSignature :: "bytes \<Rightarrow> ('s, nat \<times> nat \<times> byte) op" where
  "decodeSignature sig =
     bind (panicIf (length sig \<noteq> 65) ''wrong size for signature'') (\<lambda>_.
       return (be_val (take 32 sig), be_val (take 32 (drop 32 sig)),
               if sig ! 64 = 27 \<or> sig ! 64 = 28 then sig ! 64 - 27 else sig ! 64))"

definition EthAddressFromSignature :: "'a libs_scheme \<Rightarrow> bytes \<Rightarrow> bytes \<Rightarrow> ('s, EthAddress) op" where
  "EthAddressFromSignature k hash signature =
     bind (failIf (length signature < 65) (Wrapped ErrInvalid ''signature too short'')) (\<lambda>_.
     bind (decodeSignature signature) (\<lambda>(r, s, v).
     bind (failIf (\<not> ValidateSignatureValues k v r s)
             (Wrapped ErrInvalid ''Signature values failed validation'')) (\<lambda>_.
       let sig' = (if signature ! 64 = 27 \<or> signature ! 64 = 28
                   then signature[64 := signature ! 64 - 27] else signature);
           protectedHash = Keccak256Hash k (signaturePrefix @ hash)
       in bind (wrapErr ''signature to public key'' (lift (SigToPub k protectedHash sig'))) (\<lambda>pubkey.
            wrapErr ''invalid address from public key''
              (lift (NewEthAddress k (Hex k (PubkeyToAddress k pubkey))))))))"

definition ValidateEthereumSignature :: "'a libs_scheme \<Rightarrow> bytes \<Rightarrow> bytes \<Rightarrow> EthAddress \<Rightarrow> ('s, unit) op" where
  "ValidateEthereumSignature k hash signature ethAddress =
     bind (wrapErr ''unable to get address from signature'' (EthAddressFromSignature k hash signature)) (\<lambda>addr.
       failIf (addr \<noteq> ethAddress) (Wrapped ErrInvalid ''signature not matching''))"

section \<open>Past checkpoints\<close>

text \<open>The store key of a checkpoint is \<open>convertByteArrToString\<close> of it, below the prefix.\<close>

definition SetPastEthSignatureCheckpoint :: "bytes \<Rightarrow> ('x, unit) gop" where
  "SetPastEthSignatureCheckpoint checkpoint =
     modify (\<lambda>ctx. ctx\<lparr>pastEthSignatureCheckpoint :=
       kv_set (convertByteArrToString checkpoint) [1] (pastEthSignatureCheckpoint ctx)\<rparr>)"

definition GetPastEthSignatureCheckpoint :: "bytes \<Rightarrow> ('x, bool) gop" where
  "GetPastEthSignatureCheckpoint checkpoint =
     reads (\<lambda>ctx. kv_get (pastEthSignatureCheckpoint ctx) (convertByteArrToString checkpoint) = Some [1])"

definition IteratePastEthSignatureCheckpoints ::
  "(bytes \<Rightarrow> bytes \<Rightarrow> 'b \<Rightarrow> ('x, bool \<times> 'b) gop) \<Rightarrow> 'b \<Rightarrow> ('x, 'b) gop" where
  "IteratePastEthSignatureCheckpoints cb acc =
     bind (reads (\<lambda>ctx. kv_asc (pastEthSignatureCheckpoint ctx))) (\<lambda>entries.
       iterM (\<lambda>(key, val) a.
         bind (panicIf (val \<noteq> [1]) ''Invalid stored past eth signature checkpoint'') (\<lambda>_. cb key val a)) entries acc)"

section \<open>Facts\<close>

lemma keeps_decodeSignature [keeps_rules]: "keeps I (decodeSignature sig)"
  unfolding decodeSignature_def by (intro keeps_rules)

lemma keeps_EthAddressFromSignature [keeps_rules]: "keeps I (EthAddressFromSignature k h sig)"
  unfolding EthAddressFromSignature_def by (intro keeps_rules)

lemma keeps_ValidateEthereumSignature [keeps_rules]: "keeps I (ValidateEthereumSignature k h sig a)"
  unfolding ValidateEthereumSignature_def by (intro keeps_rules)

lemma ValidateEthereumSignature_Ok:
  "ValidateEthereumSignature k h sig a c = Ok u c' \<longleftrightarrow> c' = c \<and> EthAddressFromSignature k h sig c = Ok a c"
  using readonly_Ok [OF keeps_EthAddressFromSignature]
  by (auto simp: ValidateEthereumSignature_def run)

lemma GetPast_run [run, simp]:
  "GetPastEthSignatureCheckpoint cp c =
     Ok (kv_get (pastEthSignatureCheckpoint c) (convertByteArrToString cp) = Some [1]) c"
  by (simp add: GetPastEthSignatureCheckpoint_def)

lemma SetPast_run [run, simp]:
  "SetPastEthSignatureCheckpoint cp c = Ok () (c\<lparr>pastEthSignatureCheckpoint :=
     kv_set (convertByteArrToString cp) [1] (pastEthSignatureCheckpoint c)\<rparr>)"
  by (simp add: SetPastEthSignatureCheckpoint_def)

lemma convertByteArrToString_inj: "convertByteArrToString a = convertByteArrToString b \<Longrightarrow> a = b"
proof (induction a arbitrary: b)
  case Nil
  then show ?case
    by (cases b) (auto simp: convertByteArrToString_def utf8_byte_def split: if_splits)
next
  case (Cons x a)
  have "b \<noteq> []"
    using Cons.prems by (auto simp: convertByteArrToString_def utf8_byte_def split: if_splits)
  then obtain y b' where b: "b = y # b'"
    by (cases b) simp_all
  then have "x = y \<and> convertByteArrToString a = convertByteArrToString b'"
    using Cons.prems utf8_byte_prefix [of x _ y] by (simp add: convertByteArrToString_def)
  then show ?case
    using Cons.IH b by simp
qed

text \<open>
  Archiving a checkpoint makes exactly that checkpoint known; what was known of every other
  checkpoint does not change.
\<close>

theorem checkpoint_archive:
  "bind (SetPastEthSignatureCheckpoint cp) (\<lambda>_. GetPastEthSignatureCheckpoint cp') c =
     (case GetPastEthSignatureCheckpoint cp' c of
        Ok known _ \<Rightarrow> Ok (cp' = cp \<or> known) (c\<lparr>pastEthSignatureCheckpoint :=
          kv_set (convertByteArrToString cp) [1] (pastEthSignatureCheckpoint c)\<rparr>)
      | Err e s \<Rightarrow> Err e s | Panic p \<Rightarrow> Panic p)"
  using convertByteArrToString_inj by (auto simp: bind_step)

text \<open>A signature of the wrong length is an error when it is short and a panic when it is long.\<close>

lemma long_signature_panics:
  "65 < length sig \<Longrightarrow> EthAddressFromSignature k h sig s = Panic ''wrong size for signature''"
  by (simp add: EthAddressFromSignature_def decodeSignature_def)

end
