(* ===== verification/Batch.thy ===== *)
theory Batch
  imports Pool Checkpoints
begin

text \<open>
  Outgoing batches (\<open>x/gravity/keeper/batch.go\<close>) and their confirmations (\<open>keeper_batch.go\<close>).

  A batch is built from the highest-fee transfers of one token, and ends by execution on Ethereum or
  by cancellation, which returns its transfers to the pool.  The theorems state that building and
  cancelling only move transfers (the multiset of outstanding transfers is unchanged), that the
  choice is the most profitable one, and that execution removes exactly the executed batch and
  returns exactly the earlier batches of that token.
\<close>

definition OutgoingTxBatchSize :: uint64 where
  "OutgoingTxBatchSize = 100"

section \<open>Confirmations\<close>

definition batchConfirmKey ::
  "'a libs_scheme \<Rightarrow> EthAddress \<Rightarrow> uint64 \<Rightarrow> AccAddress \<Rightarrow> ('s, EthAddress \<times> uint64 \<times> AccAddress) op" where
  "batchConfirmKey k tokenContract batchNonce validator =
     (case VerifyAddressFormat k validator of
        Some e \<Rightarrow> panic ''invalid validator address''
      | None \<Rightarrow> return (tokenContract, batchNonce, validator))"

text \<open>Unmarshalling into a message with preset fields keeps a preset where the stored field is empty.\<close>

definition presetConfirm :: "'a libs_scheme \<Rightarrow> uint64 \<Rightarrow> EthAddress \<Rightarrow> MsgConfirmBatch \<Rightarrow> MsgConfirmBatch" where
  "presetConfirm k nonce tokenContract m =
     m\<lparr>ConfirmBatch_Nonce := if ConfirmBatch_Nonce m = 0 then nonce else ConfirmBatch_Nonce m,
       ConfirmBatch_TokenContract :=
         if ConfirmBatch_TokenContract m = [] then Hex k tokenContract else ConfirmBatch_TokenContract m\<rparr>"

definition GetBatchConfirm ::
  "'x Keeper \<Rightarrow> uint64 \<Rightarrow> EthAddress \<Rightarrow> AccAddress \<Rightarrow> ('x, MsgConfirmBatch option) gop" where
  "GetBatchConfirm k nonce tokenContract validator =
     (if VerifyAddressFormat k validator \<noteq> None then return None
      else bind (batchConfirmKey k tokenContract nonce validator) (\<lambda>key.
        reads (\<lambda>ctx. map_option (presetConfirm k nonce tokenContract) (kv_get (batchConfirm ctx) key))))"

definition SetBatchConfirm ::
  "'x Keeper \<Rightarrow> MsgConfirmBatch \<Rightarrow> ('x, EthAddress \<times> uint64 \<times> AccAddress) gop" where
  "SetBatchConfirm k batch =
     bind (orPanic ''invalid Orchestrator address''
             (lift (AccAddressFromBech32 k (ConfirmBatch_Orchestrator batch)))) (\<lambda>acc.
     bind (orPanic ''invalid TokenContract'' (lift (NewEthAddress k (ConfirmBatch_TokenContract batch)))) (\<lambda>contract.
     bind (batchConfirmKey k contract (ConfirmBatch_Nonce batch) acc) (\<lambda>key.
     bind (modify (\<lambda>ctx. ctx\<lparr>batchConfirm := kv_set key batch (batchConfirm ctx)\<rparr>)) (\<lambda>_.
       return key))))"

definition IterateBatchConfirmByNonceAndTokenContract ::
  "'x Keeper \<Rightarrow> uint64 \<Rightarrow> EthAddress \<Rightarrow>
     (EthAddress \<times> uint64 \<times> AccAddress \<Rightarrow> MsgConfirmBatch \<Rightarrow> 'b \<Rightarrow> ('x, bool \<times> 'b) gop) \<Rightarrow> 'b \<Rightarrow> ('x, 'b) gop" where
  "IterateBatchConfirmByNonceAndTokenContract k nonce tokenContract cb acc =
     bind (reads (\<lambda>ctx. filter (\<lambda>((c, n, _), _). c = tokenContract \<and> n = nonce) (kv_asc (batchConfirm ctx)))) (\<lambda>entries.
       iterM (\<lambda>(key, confirm). cb key (presetConfirm k nonce tokenContract confirm)) entries acc)"

definition GetBatchConfirmByNonceAndTokenContract ::
  "'x Keeper \<Rightarrow> uint64 \<Rightarrow> EthAddress \<Rightarrow> ('x, MsgConfirmBatch list) gop" where
  "GetBatchConfirmByNonceAndTokenContract k nonce tokenContract =
     IterateBatchConfirmByNonceAndTokenContract k nonce tokenContract
       (\<lambda>_ msg out. return (False, out @ [msg])) []"

definition IterateBatchConfirms ::
  "(EthAddress \<times> uint64 \<times> AccAddress \<Rightarrow> MsgConfirmBatch \<Rightarrow> 'b \<Rightarrow> ('x, bool \<times> 'b) gop) \<Rightarrow> 'b \<Rightarrow> ('x, 'b) gop" where
  "IterateBatchConfirms cb acc =
     bind (reads (\<lambda>ctx. kv_asc (batchConfirm ctx))) (\<lambda>entries. iterM (\<lambda>(key, confirm). cb key confirm) entries acc)"

definition DeleteBatchConfirms :: "'x Keeper \<Rightarrow> InternalOutgoingTxBatch \<Rightarrow> ('x, unit) gop" where
  "DeleteBatchConfirms k batch =
     bind (GetBatchConfirmByNonceAndTokenContract k (BatchNonce batch) (TokenContract batch)) (\<lambda>confirms.
       forM confirms (\<lambda>confirm.
         case AccAddressFromBech32 k (ConfirmBatch_Orchestrator confirm) of
           Inl _ \<Rightarrow> return ()
         | Inr orchestrator \<Rightarrow>
             bind (batchConfirmKey k (TokenContract batch) (BatchNonce batch) orchestrator) (\<lambda>confirmKey.
             bind (reads (\<lambda>ctx. kv_has (batchConfirm ctx) confirmKey)) (\<lambda>has.
               if has then modify (\<lambda>ctx. ctx\<lparr>batchConfirm := kv_del confirmKey (batchConfirm ctx)\<rparr>)
               else return ()))))"

section \<open>The batch store\<close>

definition StoreBatch :: "'x Keeper \<Rightarrow> InternalOutgoingTxBatch \<Rightarrow> ('x, unit) gop" where
  "StoreBatch k batch =
     bind (panicIf (InternalOutgoingTxBatch_ValidateBasic k batch \<noteq> None) ''attempted to store invalid batch'') (\<lambda>_.
       let externalBatch = InternalOutgoingTxBatch_ToExternal k batch;
           key = (TokenContract batch, BatchNonce batch)
       in bind (reads (\<lambda>ctx. kv_has (outgoingTXBatch ctx) key)) (\<lambda>has.
            if has then panic ''Should never overwrite batch!''
            else modify (\<lambda>ctx. ctx\<lparr>outgoingTXBatch := kv_set key externalBatch (outgoingTXBatch ctx)\<rparr>)))"

definition DeleteBatch :: "'x Keeper \<Rightarrow> InternalOutgoingTxBatch \<Rightarrow> ('x, unit) gop" where
  "DeleteBatch k batch =
     bind (panicIf (InternalOutgoingTxBatch_ValidateBasic k batch \<noteq> None) ''attempted to delete invalid batch'') (\<lambda>_.
       modify (\<lambda>ctx. ctx\<lparr>outgoingTXBatch := kv_del (TokenContract batch, BatchNonce batch) (outgoingTXBatch ctx)\<rparr>))"

text \<open>
  The loop of \<open>GetOutgoingTXBatch\<close> that overwrites the token contracts assigns to copies of the
  transactions, so the batch that is returned is the stored one.
\<close>

definition GetOutgoingTXBatch ::
  "'x Keeper \<Rightarrow> EthAddress \<Rightarrow> uint64 \<Rightarrow> ('x, InternalOutgoingTxBatch option) gop" where
  "GetOutgoingTXBatch k tokenContract nonce =
     bind (reads (\<lambda>ctx. kv_get (outgoingTXBatch ctx) (tokenContract, nonce))) (\<lambda>bz.
       case bz of
         None \<Rightarrow> return None
       | Some b \<Rightarrow> bind (orPanic ''found invalid batch in store'' (lift (OutgoingTxBatch_ToInternal k b)))
                     (\<lambda>ret. return (Some ret)))"

definition IterateOutgoingTxBatches ::
  "'x Keeper \<Rightarrow> (EthAddress \<times> uint64 \<Rightarrow> InternalOutgoingTxBatch \<Rightarrow> 'b \<Rightarrow> ('x, bool \<times> 'b) gop) \<Rightarrow> 'b \<Rightarrow> ('x, 'b) gop" where
  "IterateOutgoingTxBatches k cb acc =
     bind (reads (\<lambda>ctx. kv_desc (outgoingTXBatch ctx))) (\<lambda>entries.
       iterM (\<lambda>(key, batch) a.
         bind (orPanic ''found invalid batch in store'' (lift (OutgoingTxBatch_ToInternal k batch))) (\<lambda>intBatch.
           cb key intBatch a)) entries acc)"

definition GetOutgoingTxBatches :: "'x Keeper \<Rightarrow> ('x, InternalOutgoingTxBatch list) gop" where
  "GetOutgoingTxBatches k = IterateOutgoingTxBatches k (\<lambda>_ batch out. return (False, out @ [batch])) []"

definition GetOutgoingTxBatchesByNonce :: "'x Keeper \<Rightarrow> ('x, (uint64, InternalOutgoingTxBatch) kv) gop" where
  "GetOutgoingTxBatchesByNonce k =
     IterateOutgoingTxBatches k
       (\<lambda>_ batch m. bind (panicIf (kv_has m (BatchNonce batch)) ''Batch with duplicate batch nonce in store'') (\<lambda>_.
          return (False, kv_set (BatchNonce batch) batch m))) []"

definition GetLastOutgoingBatchByTokenType ::
  "'x Keeper \<Rightarrow> EthAddress \<Rightarrow> ('x, InternalOutgoingTxBatch option) gop" where
  "GetLastOutgoingBatchByTokenType k token =
     bind (GetOutgoingTxBatches k) (\<lambda>batches.
       return (fst (fold (\<lambda>batch (lastBatch, lastNonce).
         if TokenContract batch = token \<and> BatchNonce batch > lastNonce then (Some batch, BatchNonce batch)
         else (lastBatch, lastNonce)) batches (None, 0))))"

section \<open>Slashing markers\<close>

definition HasLastSlashedBatchBlock :: "('x, bool) gop" where
  "HasLastSlashedBatchBlock = reads (\<lambda>ctx. lastSlashedBatchBlock ctx \<noteq> None)"

definition GetLastSlashedBatchBlock :: "('x, uint64) gop" where
  "GetLastSlashedBatchBlock =
     bind (reads lastSlashedBatchBlock) (\<lambda>b.
       case b of None \<Rightarrow> panic ''Last slashed batch block not initialized from genesis'' | Some h \<Rightarrow> return h)"

definition SetLastSlashedBatchBlock :: "uint64 \<Rightarrow> ('x, unit) gop" where
  "SetLastSlashedBatchBlock blockHeight =
     bind HasLastSlashedBatchBlock (\<lambda>has.
     bind (if has then bind GetLastSlashedBatchBlock (\<lambda>h. return (h > blockHeight)) else return False) (\<lambda>decrement.
     bind (panicIf decrement ''Attempted to decrement LastSlashedBatchBlock'') (\<lambda>_.
       modify (\<lambda>ctx. ctx\<lparr>lastSlashedBatchBlock := Some blockHeight\<rparr>))))"

definition GetUnSlashedBatches :: "'x Keeper \<Rightarrow> uint64 \<Rightarrow> ('x, InternalOutgoingTxBatch list) gop" where
  "GetUnSlashedBatches k maxHeight =
     bind GetLastSlashedBatchBlock (\<lambda>lastSlashed.
     bind (GetOutgoingTxBatches k) (\<lambda>batches.
       return (filter (\<lambda>batch. CosmosBlockCreated batch > lastSlashed \<and> CosmosBlockCreated batch < maxHeight) batches)))"

section \<open>Building, cancelling and executing batches\<close>

definition GetLastObservedEthereumBlockHeight :: "('x, LastObservedEthereumBlockHeight) gop" where
  "GetLastObservedEthereumBlockHeight =
     reads (\<lambda>ctx. case lastObservedEthereumBlockHeight ctx of
       None \<Rightarrow> \<lparr>CosmosBlockHeight = 0, EthereumBlockHeight = 0\<rparr> | Some h \<Rightarrow> h)"

text \<open>64-bit arithmetic throughout; Go's integer division panics on zero.\<close>

definition getBatchTimeoutHeight :: "'x Keeper \<Rightarrow> ('x, uint64) gop" where
  "getBatchTimeoutHeight k =
     bind (MustGetParams k) (\<lambda>params.
     bind (reads BlockHeight) (\<lambda>currentCosmosHeight.
     bind GetLastObservedEthereumBlockHeight (\<lambda>heights.
       if CosmosBlockHeight heights = 0 \<or> EthereumBlockHeight heights = 0 then return 0
       else
         let projectedMillis = (currentCosmosHeight - CosmosBlockHeight heights) * AverageBlockTime params
         in bind (panicIf (AverageEthereumBlockTime params = 0) ''integer divide by zero'') (\<lambda>_.
              let projectedCurrentEthereumHeight =
                    projectedMillis div AverageEthereumBlockTime params + EthereumBlockHeight heights;
                  blocksToAdd = TargetBatchTimeout params div AverageEthereumBlockTime params
              in return (projectedCurrentEthereumHeight + blocksToAdd)))))"

text \<open>The callback of \<open>pickUnbatchedTxs\<close>.\<close>

definition pickStep ::
  "'x Keeper \<Rightarrow> uint64 \<Rightarrow> InternalOutgoingTransferTx \<Rightarrow> InternalOutgoingTransferTx list \<Rightarrow>
     ('x, bool \<times> InternalOutgoingTransferTx list) gop" where
  "pickStep k maxElements tx selectedTxs =
     bind (IsOnBlacklist k (DestAddress tx)) (\<lambda>blacklisted.
       if \<not> blacklisted then
         let selectedTxs' = selectedTxs @ [tx]
         in bind (orPanic ''Failed to remote tx from unbatched queue'' (removeUnbatchedTX (Erc20Fee tx) (TxId tx))) (\<lambda>_.
            bind (attempt (GetUnbatchedTxByFeeAndId k (Erc20Fee tx) (TxId tx))) (\<lambda>oldTx.
            bind (panicIf (case oldTx of Inr _ \<Rightarrow> True | Inl _ \<Rightarrow> False)
                    ''picked a duplicate transaction from the pool, duplicates should never exist!'') (\<lambda>_.
              return (word_of_nat (length selectedTxs') = maxElements, selectedTxs'))))
       else return (False, selectedTxs))"

definition pickUnbatchedTxs ::
  "'x Keeper \<Rightarrow> EthAddress \<Rightarrow> uint64 \<Rightarrow> ('x, InternalOutgoingTransferTx list) gop" where
  "pickUnbatchedTxs k contractAddress maxElements =
     IterateUnbatchedTransactionsByContract k contractAddress (\<lambda>_. pickStep k maxElements) []"

text \<open>\<open>BuildOutgoingTXBatch\<close> in its three parts: the profitability check, the choice, the new batch.\<close>

definition requireProfitable ::
  "'x Keeper \<Rightarrow> EthAddress \<Rightarrow> uint64 \<Rightarrow> InternalOutgoingTxBatch option \<Rightarrow> ('x, unit) gop" where
  "requireProfitable k contract maxElements lastBatch =
     (case lastBatch of
        None \<Rightarrow> return ()
      | Some prev \<Rightarrow>
          bind (GetBatchFeeByTokenType k contract maxElements) (\<lambda>currentFees.
          bind (GetFees k (InternalOutgoingTxBatch_ToExternal k prev)) (\<lambda>lastFees.
            failIf (lastFees \<ge> TotalFees currentFees)
              (Wrapped ErrInvalid ''new batch would not be more profitable''))))"

definition createBatch ::
  "'x Keeper \<Rightarrow> EthAddress \<Rightarrow> InternalOutgoingTransferTx list \<Rightarrow> ('x, InternalOutgoingTxBatch) gop" where
  "createBatch k contract selectedTxs =
     bind (autoIncrementID KeyLastOutgoingBatchID) (\<lambda>nextID.
     bind (getBatchTimeoutHeight k) (\<lambda>timeout.
     bind (orPanic ''unable to create batch''
             (lift (NewInternalOutgingTxBatch k nextID timeout selectedTxs contract 0))) (\<lambda>batch0.
     bind (reads BlockHeight) (\<lambda>height.
       let batch = batch0\<lparr>CosmosBlockCreated := height\<rparr>
       in bind (StoreBatch k batch) (\<lambda>_.
          bind (GetGravityID k) (\<lambda>gravityID.
          bind (InternalOutgoingTxBatch_GetCheckpoint k batch gravityID) (\<lambda>checkpoint.
          bind (SetPastEthSignatureCheckpoint checkpoint) (\<lambda>_.
          bind (emitBridgeEvent k) (\<lambda>_.
            return batch)))))))))"

definition BuildOutgoingTXBatch ::
  "'x Keeper \<Rightarrow> EthAddress \<Rightarrow> uint64 \<Rightarrow> ('x, InternalOutgoingTxBatch) gop" where
  "BuildOutgoingTXBatch k contract maxElements =
     bind (failIf (maxElements = 0) (Wrapped ErrInvalid ''max elements value'')) (\<lambda>_.
     bind (RequireBridgeActive k) (\<lambda>_.
     bind (GetLastOutgoingBatchByTokenType k contract) (\<lambda>lastBatch.
     bind (requireProfitable k contract maxElements lastBatch) (\<lambda>_.
     bind (pickUnbatchedTxs k contract maxElements) (\<lambda>selectedTxs.
     bind (failIf (length selectedTxs = 0) (Wrapped ErrInvalid ''no transactions of this type to batch'')) (\<lambda>_.
       createBatch k contract selectedTxs))))))"

definition CancelOutgoingTXBatch :: "'x Keeper \<Rightarrow> EthAddress \<Rightarrow> uint64 \<Rightarrow> ('x, unit) gop" where
  "CancelOutgoingTXBatch k tokenContract nonce =
     bind (GetOutgoingTXBatch k tokenContract nonce) (\<lambda>b.
       case b of
         None \<Rightarrow> fail ErrUnknown
       | Some batch \<Rightarrow>
           bind (forM (Transactions batch) (\<lambda>tx.
             orPanic ''unable to add batched transaction back into pool'' (addUnbatchedTX k tx))) (\<lambda>_.
           bind (DeleteBatch k batch) (\<lambda>_.
           bind (DeleteBatchConfirms k batch) (\<lambda>_.
             emitBridgeEvent k))))"

text \<open>The callback that cancels the batches older than the executed one.\<close>

definition cancelOlder ::
  "'x Keeper \<Rightarrow> EthAddress \<Rightarrow> uint64 \<Rightarrow> InternalOutgoingTxBatch \<Rightarrow> unit \<Rightarrow> ('x, bool \<times> unit) gop" where
  "cancelOlder k tokenContract nonce batch _ =
     bind (if BatchNonce batch < nonce \<and> TokenContract batch = tokenContract
           then orPanic ''Failed cancel out batch'' (CancelOutgoingTXBatch k tokenContract (BatchNonce batch))
           else return ()) (\<lambda>_. return (False, ()))"

text \<open>Vouchers of an Ethereum-originated token are burned, amounts and fees together.\<close>

definition burnExecuted :: "'x Keeper \<Rightarrow> InternalOutgoingTxBatch \<Rightarrow> AssetOrigin \<Rightarrow> ('x, unit) gop" where
  "burnExecuted k b contractOrigin =
     (if Origin contractOrigin = AssetOriginEthereum then
        bind (foldM (\<lambda>tx total.
                bind (Int_Add k (Amount (Erc20Token tx)) (Amount (Erc20Fee tx))) (\<lambda>v. Int_Add k total v))
              (Transactions b) 0) (\<lambda>totalToBurn.
        bind (NewCoin k (Denom contractOrigin) totalToBurn) (\<lambda>coin.
        bind (sdk_NewCoins k [coin]) (\<lambda>burnVouchers.
          orPanic ''failed to burn'' (liftX (BurnCoins k ModuleName burnVouchers)))))
      else return ())"

definition OutgoingTxBatchExecuted ::
  "'x Keeper \<Rightarrow> EthAddress \<Rightarrow> MsgBatchSendToEthClaim \<Rightarrow> ('x, unit) gop" where
  "OutgoingTxBatchExecuted k tokenContract claim =
     bind (GetOutgoingTXBatch k tokenContract (BSE_BatchNonce claim)) (\<lambda>r.
       case r of
         None \<Rightarrow> panic ''unknown batch nonce for outgoing tx batch''
       | Some b \<Rightarrow>
           bind (panicIf (BatchTimeout b \<le> BSE_EthBlockHeight claim) ''Batch submitted after it timed out'') (\<lambda>_.
           bind (orPanic ''failed to classify'' (ClassifyERC20 k (TokenContract b))) (\<lambda>contractOrigin.
           bind (burnExecuted k b contractOrigin) (\<lambda>_.
           bind (IterateOutgoingTxBatches k (\<lambda>_. cancelOlder k tokenContract (BatchNonce b)) ()) (\<lambda>_.
           bind (DeleteBatch k b) (\<lambda>_.
             DeleteBatchConfirms k b))))))"

section \<open>Outstanding transfers\<close>

definition outstanding_list :: "'x ctx \<Rightarrow> OutgoingTransferTx list" where
  "outstanding_list c =
     map snd (kv_asc (outgoingTXPool c)) @ concat (map (\<lambda>e. ext_Transactions (snd e)) (kv_asc (outgoingTXBatch c)))"

definition pool_mset :: "'x ctx \<Rightarrow> OutgoingTransferTx multiset" where
  "pool_mset c = image_mset snd (mset (kv_asc (outgoingTXPool c)))"

definition batch_mset :: "'x ctx \<Rightarrow> OutgoingTransferTx multiset" where
  "batch_mset c = sum_mset (image_mset (\<lambda>e. mset (ext_Transactions (snd e))) (mset (kv_asc (outgoingTXBatch c))))"

definition outstanding :: "'x ctx \<Rightarrow> OutgoingTransferTx multiset" where
  "outstanding c = mset (outstanding_list c)"

lemma outstanding_split: "outstanding c = pool_mset c + batch_mset c"
  by (simp add: outstanding_def outstanding_list_def pool_mset_def batch_mset_def mset_concat
      sum_mset_sum_list multiset.map_comp comp_def flip: mset_map)

lemma mset_other_fields [simp]:
  "pool_mset (c\<lparr>outgoingTXBatch := b\<rparr>) = pool_mset c" "batch_mset (c\<lparr>outgoingTXPool := p\<rparr>) = batch_mset c"
  "pool_mset (c\<lparr>batchConfirm := bc\<rparr>) = pool_mset c" "batch_mset (c\<lparr>batchConfirm := bc\<rparr>) = batch_mset c"
  "pool_mset (c\<lparr>lastOutgoingBatchID := n\<rparr>) = pool_mset c" "batch_mset (c\<lparr>lastOutgoingBatchID := n\<rparr>) = batch_mset c"
  "pool_mset (c\<lparr>pastEthSignatureCheckpoint := ck\<rparr>) = pool_mset c"
  "batch_mset (c\<lparr>pastEthSignatureCheckpoint := ck\<rparr>) = batch_mset c"
  "pool_mset (c\<lparr>others := x\<rparr>) = pool_mset c" "batch_mset (c\<lparr>others := x\<rparr>) = batch_mset c"
  by (simp_all add: pool_mset_def batch_mset_def)

lemma pool_mset_add:
  "kv_ok (outgoingTXPool c) \<Longrightarrow> \<not> kv_has (outgoingTXPool c) key \<Longrightarrow>
   pool_mset (c\<lparr>outgoingTXPool := kv_set key t (outgoingTXPool c)\<rparr>) = add_mset t (pool_mset c)"
  by (simp add: pool_mset_def kv.mset_put_fresh kv_has_def)

lemma pool_mset_del:
  "kv_ok (outgoingTXPool c) \<Longrightarrow> kv_get (outgoingTXPool c) key = Some t \<Longrightarrow>
   pool_mset c = add_mset t (pool_mset (c\<lparr>outgoingTXPool := kv_del key (outgoingTXPool c)\<rparr>))"
  by (simp add: pool_mset_def kv.mset_del [of "outgoingTXPool c" key t])

lemma batch_mset_add:
  "kv_ok (outgoingTXBatch c) \<Longrightarrow> \<not> kv_has (outgoingTXBatch c) key \<Longrightarrow>
   batch_mset (c\<lparr>outgoingTXBatch := kv_set key b (outgoingTXBatch c)\<rparr>) = mset (ext_Transactions b) + batch_mset c"
  by (simp add: batch_mset_def kv.mset_put_fresh kv_has_def)

lemma batch_mset_del:
  "kv_ok (outgoingTXBatch c) \<Longrightarrow> kv_get (outgoingTXBatch c) key = Some b \<Longrightarrow>
   batch_mset c = mset (ext_Transactions b) + batch_mset (c\<lparr>outgoingTXBatch := kv_del key (outgoingTXBatch c)\<rparr>)"
  by (simp add: batch_mset_def kv.mset_del [of "outgoingTXBatch c" key b])

section \<open>Picking transfers\<close>

definition key_of :: "InternalOutgoingTransferTx \<Rightarrow> pool_key" where
  "key_of i = the (pool_key_of (Erc20Fee i) (TxId i))"

definition drop_pool :: "InternalOutgoingTransferTx list \<Rightarrow> 'x ctx \<Rightarrow> 'x ctx" where
  "drop_pool txs c = c\<lparr>outgoingTXPool := fold (\<lambda>i. kv_del (key_of i)) txs (outgoingTXPool c)\<rparr>"

text \<open>The transfers are in the pool, each under its own key.\<close>

definition in_pool :: "'x Keeper \<Rightarrow> 'x ctx \<Rightarrow> InternalOutgoingTransferTx list \<Rightarrow> bool" where
  "in_pool k c txs \<longleftrightarrow>
     (\<forall>i \<in> set txs. pool_key_of (Erc20Fee i) (TxId i) = Some (key_of i) \<and>
        kv_get (outgoingTXPool c) (key_of i) = Some (InternalOutgoingTransferTx_ToExternal k i)) \<and>
     distinct (map key_of txs)"

lemma params_frame [simp]:
  "params_ok k (c\<lparr>outgoingTXPool := p\<rparr>) = params_ok k c"
  "is_blacklisted k (c\<lparr>outgoingTXPool := p\<rparr>) = is_blacklisted k c"
  "params_ok k (c\<lparr>outgoingTXBatch := b\<rparr>) = params_ok k c"
  "params_ok k (c\<lparr>batchConfirm := bc\<rparr>) = params_ok k c"
  by (simp_all add: params_ok_def is_blacklisted_def fun_eq_iff)

lemma pickStep_run:
  "params_ok k c \<Longrightarrow> pool_key_of (Erc20Fee i) (TxId i) = Some key \<Longrightarrow> kv_has (outgoingTXPool c) key \<Longrightarrow>
   pickStep k maxElements i sel c =
     (if is_blacklisted k c (DestAddress i) then Ok (False, sel) c
      else Ok (word_of_nat (Suc (length sel)) = maxElements, sel @ [i])
             (c\<lparr>outgoingTXPool := kv_del key (outgoingTXPool c)\<rparr>))"
  by (simp add: pickStep_def bind_step removeUnbatchedTX_def GetUnbatchedTxByFeeAndId_def bind_run
      attempt_def orPanic_def)

lemma in_pool_tail:
  assumes "in_pool k c (i # txs)"
  shows "in_pool k c txs" and "in_pool k (c\<lparr>outgoingTXPool := kv_del (key_of i) (outgoingTXPool c)\<rparr>) txs"
  using assms by (auto simp: in_pool_def image_iff)

lemma drop_pool_Cons:
  "drop_pool (i # txs) c = drop_pool txs (c\<lparr>outgoingTXPool := kv_del (key_of i) (outgoingTXPool c)\<rparr>)"
  by (simp add: drop_pool_def)

lemma pick_iterates:
  assumes "params_ok k c" "in_pool k c xs" "length sel < unat maxElements"
  defines "picked \<equiv> take (unat maxElements - length sel) (filter (\<lambda>i. \<not> is_blacklisted k c (DestAddress i)) xs)"
  shows "iterM (pickStep k maxElements) xs sel c = Ok (sel @ picked) (drop_pool picked c)"
  using assms(1-3) unfolding picked_def
proof (induction xs arbitrary: sel c)
  case Nil
  then show ?case
    by (simp add: drop_pool_def)
next
  case (Cons x xs)
  let ?c = "c\<lparr>outgoingTXPool := kv_del (key_of x) (outgoingTXPool c)\<rparr>"
  have step: "pickStep k maxElements x sel c =
     (if is_blacklisted k c (DestAddress x) then Ok (False, sel) c
      else Ok (word_of_nat (Suc (length sel)) = maxElements, sel @ [x]) ?c)"
    using Cons.prems by (intro pickStep_run) (auto simp: in_pool_def kv_has_def)
  have size: "word_of_nat (Suc (length sel)) = maxElements \<longleftrightarrow> Suc (length sel) = unat maxElements"
    using Cons.prems(3) by (intro word_of_nat_eq_iff) simp
  consider "is_blacklisted k c (DestAddress x)"
    | "\<not> is_blacklisted k c (DestAddress x)" "Suc (length sel) = unat maxElements"
    | "\<not> is_blacklisted k c (DestAddress x)" "Suc (length sel) < unat maxElements"
    using Cons.prems(3) by linarith
  then show ?case
  proof cases
    case 1
    then show ?thesis
      using Cons.IH [of c sel] Cons.prems step in_pool_tail(1) [OF Cons.prems(2)] by (simp add: bind_step)
  next
    case 2
    then have "unat maxElements - length sel = Suc 0"
      by linarith
    then show ?thesis
      using 2 step size by (simp add: bind_step drop_pool_Cons) (simp add: drop_pool_def)
  next
    case 3
    then obtain m where m: "unat maxElements - length sel = Suc m" "unat maxElements - length (sel @ [x]) = m"
      by (metis Suc_diff_Suc Suc_lessD length_append_singleton)
    have "iterM (pickStep k maxElements) xs (sel @ [x]) ?c =
        Ok ((sel @ [x]) @ take m (filter (\<lambda>i. \<not> is_blacklisted k c (DestAddress i)) xs))
          (drop_pool (take m (filter (\<lambda>i. \<not> is_blacklisted k c (DestAddress i)) xs)) ?c)"
      using Cons.IH [of ?c "sel @ [x]"] Cons.prems in_pool_tail(2) [OF Cons.prems(2)] 3 m(2) by simp
    then show ?thesis
      using 3 step size m by (simp add: bind_step drop_pool_Cons)
  qed
qed

lemma drop_pool_ok: "pool_ok k c \<Longrightarrow> pool_ok k (drop_pool txs c)"
proof (induction txs arbitrary: c)
  case (Cons i txs)
  then show ?case
    by (simp add: drop_pool_Cons pool_ok_del)
qed (simp add: drop_pool_def)

lemma drop_pool_mset:
  "kv_ok (outgoingTXPool c) \<Longrightarrow> in_pool k c txs \<Longrightarrow>
   pool_mset c = image_mset (InternalOutgoingTransferTx_ToExternal k) (mset txs) + pool_mset (drop_pool txs c)"
proof (induction txs arbitrary: c)
  case (Cons i txs)
  let ?c = "c\<lparr>outgoingTXPool := kv_del (key_of i) (outgoingTXPool c)\<rparr>"
  have "pool_mset c = add_mset (InternalOutgoingTransferTx_ToExternal k i) (pool_mset ?c)"
    using Cons.prems by (intro pool_mset_del) (auto simp: in_pool_def)
  moreover have "pool_mset ?c = image_mset (InternalOutgoingTransferTx_ToExternal k) (mset txs) + pool_mset (drop_pool txs ?c)"
    using Cons.prems in_pool_tail(2) by (intro Cons.IH) auto
  ultimately show ?case
    by (simp add: drop_pool_Cons)
qed (simp add: drop_pool_def)

lemma in_pool_list:
  assumes "pool_ok k c"
  shows "in_pool k c (pool_list k contract c)"
proof -
  note entry = pool_list_contract [OF assms]
  have "inj_on key_of (set (pool_list k contract c))"
  proof (rule inj_onI)
    fix i j
    assume mem: "i \<in> set (pool_list k contract c)" "j \<in> set (pool_list k contract c)" and "key_of i = key_of j"
    then have "InternalOutgoingTransferTx_ToExternal k i = InternalOutgoingTransferTx_ToExternal k j"
      using entry(3) unfolding key_of_def by (metis option.inject option.sel)
    then show "i = j"
      using entry(4) mem by (metis sum.inject(2))
  qed
  then show ?thesis
    using entry(3) pool_list_distinct [OF assms] by (fastforce simp: in_pool_def key_of_def distinct_map)
qed

lemma in_pool_select: "pool_ok k c \<Longrightarrow> in_pool k c (selectTxs k contract maxElements c)"
  using in_pool_list [of k c contract]
  by (auto simp: in_pool_def selectTxs_def eligible_def distinct_map_filter take_map [symmetric]
      dest!: in_set_takeD intro!: distinct_take)

lemma pickUnbatchedTxs_run:
  assumes "pool_ok k c" "params_ok k c" "maxElements \<noteq> 0"
  shows "pickUnbatchedTxs k contract maxElements c =
    Ok (selectTxs k contract maxElements c) (drop_pool (selectTxs k contract maxElements c) c)"
proof -
  have "0 < unat maxElements"
    using assms(3) by (simp add: unat_gt_0)
  then show ?thesis
    using pick_iterates [OF assms(2) in_pool_list [OF assms(1)], of "[]" maxElements contract]
    by (simp add: pickUnbatchedTxs_def iterate_contract assms(1) selectTxs_def eligible_def)
qed

section \<open>The invariant of the batch store\<close>

definition batch_entry_ok :: "'x Keeper \<Rightarrow> (EthAddress \<times> uint64) \<times> OutgoingTxBatch \<Rightarrow> bool" where
  "batch_entry_ok k e \<longleftrightarrow>
     (case OutgoingTxBatch_ToInternal k (snd e) of
        Inl _ \<Rightarrow> False
      | Inr b \<Rightarrow> InternalOutgoingTxBatch_ToExternal k b = snd e \<and> (TokenContract b, BatchNonce b) = fst e \<and>
          list_all (\<lambda>i. Contract (Erc20Token i) = TokenContract b \<and> Contract (Erc20Fee i) = TokenContract b \<and>
                         pool_key_of (Erc20Fee i) (TxId i) \<noteq> None) (Transactions b))"

definition batches_ok :: "'x Keeper \<Rightarrow> 'x ctx \<Rightarrow> bool" where
  "batches_ok k c \<longleftrightarrow> kv_ok (outgoingTXBatch c) \<and> list_all (batch_entry_ok k) (kv_asc (outgoingTXBatch c))"

definition batch_internal :: "'x Keeper \<Rightarrow> OutgoingTxBatch \<Rightarrow> InternalOutgoingTxBatch" where
  "batch_internal k b = projr (OutgoingTxBatch_ToInternal k b)"

lemma batch_entry_okD:
  assumes "batch_entry_ok k (key, e)"
  shows "OutgoingTxBatch_ToInternal k e = Inr (batch_internal k e)"
    and "InternalOutgoingTxBatch_ToExternal k (batch_internal k e) = e"
    and "key = (TokenContract (batch_internal k e), BatchNonce (batch_internal k e))"
    and "i \<in> set (Transactions (batch_internal k e)) \<Longrightarrow>
      Contract (Erc20Token i) = TokenContract (batch_internal k e) \<and> Contract (Erc20Fee i) = TokenContract (batch_internal k e) \<and>
      pool_key_of (Erc20Fee i) (TxId i) = Some (key_of i)"
  using assms
  by (auto simp: batch_entry_ok_def batch_internal_def list_all_iff key_of_def split: sum.splits)

lemma batches_okD:
  "batches_ok k c \<Longrightarrow> kv_get (outgoingTXBatch c) key = Some b \<Longrightarrow> batch_entry_ok k (key, b)"
  by (auto simp: batches_ok_def list_all_iff kv.asc_get)

lemma batches_ok_del:
  "batches_ok k c \<Longrightarrow> batches_ok k (c\<lparr>outgoingTXBatch := kv_del key (outgoingTXBatch c)\<rparr>)"
  by (auto simp: batches_ok_def list_all_iff kv.asc_get split: if_splits)

lemma batches_ok_add:
  "batches_ok k c \<Longrightarrow> batch_entry_ok k (key, b) \<Longrightarrow>
   batches_ok k (c\<lparr>outgoingTXBatch := kv_set key b (outgoingTXBatch c)\<rparr>)"
  by (auto simp: batches_ok_def list_all_iff kv.asc_get split: if_splits)

definition batch_list :: "'x Keeper \<Rightarrow> 'x ctx \<Rightarrow> InternalOutgoingTxBatch list" where
  "batch_list k c = map (\<lambda>e. batch_internal k (snd e)) (kv_desc (outgoingTXBatch c))"

lemma iterate_batch_entries:
  "(\<And>e. e \<in> set es \<Longrightarrow> batch_entry_ok k e) \<Longrightarrow>
   iterM (\<lambda>(key, b) a. bind (orPanic msg (lift (OutgoingTxBatch_ToInternal k b))) (\<lambda>i. cb i a)) es acc c =
   iterM cb (map (\<lambda>e. batch_internal k (snd e)) es) acc c"
proof (induction es arbitrary: acc c)
  case (Cons e es)
  obtain key b where e: "e = (key, b)"
    by (cases e)
  then have "OutgoingTxBatch_ToInternal k b = Inr (batch_internal k b)"
    using Cons.prems batch_entry_okD(1) by (metis list.set_intros(1))
  then show ?case
    using Cons by (simp add: e bind_run split: outcome.split)
qed simp

lemma iterate_batches:
  "batches_ok k c \<Longrightarrow> IterateOutgoingTxBatches k (\<lambda>_. cb) acc c = iterM cb (batch_list k c) acc c"
  unfolding IterateOutgoingTxBatches_def batch_list_def batches_ok_def bind_reads
  by (rule iterate_batch_entries) (auto simp: list_all_iff)

lemma iterM_collect: "iterM (\<lambda>x out. return (False, out @ [x])) xs acc c = Ok (acc @ xs) c"
  by (induction xs arbitrary: acc) (simp_all add: bind_step)

lemma GetOutgoingTxBatches_run [simp]: "batches_ok k c \<Longrightarrow> GetOutgoingTxBatches k c = Ok (batch_list k c) c"
  by (simp add: GetOutgoingTxBatches_def iterate_batches iterM_collect)

lemma GetOutgoingTXBatch_run:
  "batches_ok k c \<Longrightarrow> GetOutgoingTXBatch k contract nonce c =
     Ok (map_option (batch_internal k) (kv_get (outgoingTXBatch c) (contract, nonce))) c"
  by (cases "kv_get (outgoingTXBatch c) (contract, nonce)")
    (simp_all add: GetOutgoingTXBatch_def batch_entry_okD(1) [OF batches_okD])

section \<open>Reading does not write\<close>

lemma keeps_IterateOutgoingTxBatches [keeps_rules]:
  "(\<And>key b a. keeps I (cb key b a)) \<Longrightarrow> keeps I (IterateOutgoingTxBatches k cb acc)"
  unfolding IterateOutgoingTxBatches_def by (intro keeps_rules)

lemma keeps_batch_readers [keeps_rules]:
  "keeps I (GetOutgoingTxBatches k)" "keeps I (GetLastOutgoingBatchByTokenType k a)"
  "keeps I (GetOutgoingTXBatch k a n)" "keeps I GetLastObservedEthereumBlockHeight"
  "keeps I (getBatchTimeoutHeight k)" "keeps I GetLastSlashedBatchBlock" "keeps I (GetUnSlashedBatches k n)"
  "keeps I (GetBatchConfirmByNonceAndTokenContract k n a)" "keeps I (GetBatchConfirm k n a v)"
  unfolding GetOutgoingTxBatches_def GetLastOutgoingBatchByTokenType_def GetOutgoingTXBatch_def
    GetLastObservedEthereumBlockHeight_def getBatchTimeoutHeight_def GetLastSlashedBatchBlock_def
    GetUnSlashedBatches_def GetBatchConfirmByNonceAndTokenContract_def batchConfirmKey_def
    IterateBatchConfirmByNonceAndTokenContract_def GetBatchConfirm_def
  by (intro keeps_rules)+

lemma keeps_batch_types [keeps_rules]:
  "keeps I (GetFees k b)" "keeps I (InternalOutgoingTxBatch_GetCheckpoint k ib g)"
  "keeps I (OutgoingTxBatch_GetCheckpoint k b g)" "keeps I (OutgoingLogicCall_GetCheckpoint k lc g)"
  unfolding GetFees_def InternalOutgoingTxBatch_GetCheckpoint_def OutgoingTxBatch_GetCheckpoint_def
    OutgoingLogicCall_GetCheckpoint_def
  by (intro keeps_rules)+

section \<open>Building a batch\<close>

definition batch_fees :: "InternalOutgoingTxBatch \<Rightarrow> int" where
  "batch_fees b = sum_list (map fee_of (Transactions b))"

lemma foldM_Int_Add: "foldM (\<lambda>t total. Int_Add k total (f t)) ts acc c = Ok r c' \<Longrightarrow> r = acc + sum_list (map f ts)"
proof (induction ts arbitrary: acc)
  case (Cons t ts)
  then have "foldM (\<lambda>t total. Int_Add k total (f t)) ts (acc + f t) c = Ok r c'"
    by (simp add: bind_Ok) (simp add: Int_Add_def split: if_splits)
  then show ?case
    using Cons.IH by fastforce
qed simp

lemma GetFees_Ok: "GetFees k (InternalOutgoingTxBatch_ToExternal k b) c = Ok r c' \<Longrightarrow> r = batch_fees b"
  unfolding GetFees_def by (drule foldM_Int_Add)
    (simp add: batch_fees_def InternalOutgoingTxBatch_ToExternal_def comp_def
      InternalOutgoingTransferTx_ToExternal_def InternalERC20Token_ToExternal_def)

lemma keeps_requireProfitable [keeps_rules]: "keeps I (requireProfitable k a n b)"
  unfolding requireProfitable_def by (intro keeps_rules)

lemma requireProfitable_Ok:
  assumes "pool_ok k c" "params_ok k c" "maxElements \<noteq> 0"
    and "requireProfitable k contract maxElements (Some prev) c = Ok u c'"
  shows "batch_fees prev < sum_list (map fee_of (selectTxs k contract maxElements c))"
  using assms GetBatchFee_Ok [OF assms(1-3)]
  by (auto simp: requireProfitable_def bind_Ok failIf_Ok not_le dest!: GetFees_Ok)

text \<open>Everything that storing a new batch does.\<close>

lemma createBatch_Ok:
  assumes "createBatch k contract txs c = Ok b c'"
  shows "\<exists>n cp. lastOutgoingBatchID c = Some n \<and> Transactions b = txs \<and> BatchNonce b = n + 1 \<and>
    TokenContract b = contract \<and> CosmosBlockCreated b = BlockHeight c \<and>
    \<not> kv_has (outgoingTXBatch c) (contract, n + 1) \<and>
    c' = c\<lparr>lastOutgoingBatchID := Some (n + 1),
         outgoingTXBatch := kv_set (contract, n + 1) (InternalOutgoingTxBatch_ToExternal k b) (outgoingTXBatch c),
         pastEthSignatureCheckpoint := kv_set cp [1] (pastEthSignatureCheckpoint c)\<rparr>"
proof -
  obtain n timeout where n: "lastOutgoingBatchID c = Some n"
    and b: "b = \<lparr>BatchNonce = n + 1, BatchTimeout = timeout, Transactions = txs, TokenContract = contract,
              CosmosBlockCreated = BlockHeight c\<rparr>"
    and rest: "bind (StoreBatch k b) (\<lambda>_. bind (GetGravityID k) (\<lambda>gravityID.
          bind (InternalOutgoingTxBatch_GetCheckpoint k b gravityID) (\<lambda>checkpoint.
          bind (SetPastEthSignatureCheckpoint checkpoint) (\<lambda>_.
          bind (emitBridgeEvent k) (\<lambda>_. return b))))) (c\<lparr>lastOutgoingBatchID := Some (n + 1)\<rparr>) = Ok b c'"
    using assms unfolding createBatch_def bind_Ok [of "autoIncrementID _"] bind_readonly [OF keeps_batch_readers(5)]
      bind_Ok [of "orPanic _ _"] bind_reads Let_def orPanic_Ok lift_Ok autoIncrementID_Ok NewInternalOutgingTxBatch_def
    by (auto simp: bind_Ok split: option.splits)
  then have "\<not> kv_has (outgoingTXBatch c) (contract, n + 1)"
    by (auto simp: StoreBatch_def bind_Ok panicIf_Ok Let_def split: if_splits)
  moreover have "\<exists>cp. c' = c\<lparr>lastOutgoingBatchID := Some (n + 1),
         outgoingTXBatch := kv_set (contract, n + 1) (InternalOutgoingTxBatch_ToExternal k b) (outgoingTXBatch c),
         pastEthSignatureCheckpoint := kv_set cp [1] (pastEthSignatureCheckpoint c)\<rparr>"
    using rest b unfolding StoreBatch_def Let_def bind_assoc
    by (auto simp: bind_Ok panicIf_Ok GetGravityID_Ok emitBridgeEvent_Ok
        dest!: readonly_Ok [OF keeps_batch_types(2)] split: if_splits)
  ultimately show ?thesis
    using n b by auto
qed

lemma Build_Ok:
  assumes ok: "pool_ok k c" "params_ok k c"
    and run: "BuildOutgoingTXBatch k contract maxElements c = Ok b c'"
  shows "maxElements \<noteq> 0" "selectTxs k contract maxElements c \<noteq> []"
    "createBatch k contract (selectTxs k contract maxElements c) (drop_pool (selectTxs k contract maxElements c) c) = Ok b c'"
    "GetLastOutgoingBatchByTokenType k contract c = Ok (Some prev) c \<Longrightarrow>
       batch_fees prev < sum_list (map fee_of (selectTxs k contract maxElements c))"
proof -
  show max: "maxElements \<noteq> 0"
    using run by (auto simp: BuildOutgoingTXBatch_def bind_Ok failIf_Ok)
  obtain lst where "GetLastOutgoingBatchByTokenType k contract c = Ok lst c"
      "requireProfitable k contract maxElements lst c = Ok () c"
    and rest: "selectTxs k contract maxElements c \<noteq> []"
      "createBatch k contract (selectTxs k contract maxElements c) (drop_pool (selectTxs k contract maxElements c) c) = Ok b c'"
    using run max
    unfolding BuildOutgoingTXBatch_def bind_readonly [OF keeps_batch_readers(2)]
      bind_readonly [OF keeps_requireProfitable] bind_readonly [OF keeps_params(3)] bind_readonly [OF keeps_failIf]
    by (auto simp: bind_step pickUnbatchedTxs_run ok failIf_Ok bind_Ok [of "failIf _ _"])
  then show "GetLastOutgoingBatchByTokenType k contract c = Ok (Some prev) c \<Longrightarrow>
       batch_fees prev < sum_list (map fee_of (selectTxs k contract maxElements c))"
    using requireProfitable_Ok [OF ok max] by auto
  show "selectTxs k contract maxElements c \<noteq> []"
    "createBatch k contract (selectTxs k contract maxElements c) (drop_pool (selectTxs k contract maxElements c) c) = Ok b c'"
    using rest by auto
qed

section \<open>The invariant of outgoing transfers\<close>

text \<open>
  Pool and batch store are well formed, no transfer id occurs twice among the outstanding transfers,
  and the counters are ahead of every id and nonce in use.
\<close>

definition ids_unique :: "'x ctx \<Rightarrow> bool" where
  "ids_unique c \<longleftrightarrow> distinct (map ext_Id (outstanding_list c))"

definition counters_ok :: "'x ctx \<Rightarrow> bool" where
  "counters_ok c \<longleftrightarrow>
     (case lastTXPoolID c of None \<Rightarrow> False | Some n \<Rightarrow> list_all (\<lambda>t. ext_Id t \<le> n) (outstanding_list c)) \<and>
     (case lastOutgoingBatchID c of None \<Rightarrow> False
      | Some n \<Rightarrow> list_all (\<lambda>e. snd (fst e) \<le> n) (kv_asc (outgoingTXBatch c)))"

definition outgoing_ok :: "'x Keeper \<Rightarrow> 'x ctx \<Rightarrow> bool" where
  "outgoing_ok k c \<longleftrightarrow> pool_ok k c \<and> batches_ok k c \<and> ids_unique c \<and> counters_ok c"

lemma ids_unique_cong: "outstanding c = outstanding d \<Longrightarrow> ids_unique c = ids_unique d"
  unfolding ids_unique_def outstanding_def
  by (rule mset_eq_imp_distinct_iff) simp

lemma counters_ok_alt:
  "counters_ok c \<longleftrightarrow>
     (\<exists>n. lastTXPoolID c = Some n \<and> (\<forall>t \<in># outstanding c. ext_Id t \<le> n)) \<and>
     (\<exists>n. lastOutgoingBatchID c = Some n \<and> (\<forall>e \<in> set (kv_asc (outgoingTXBatch c)). snd (fst e) \<le> n))"
  by (auto simp: counters_ok_def outstanding_def list_all_iff split: option.splits)

lemma outgoing_ok_frame [simp]:
  "pool_ok k (c\<lparr>outgoingTXBatch := b\<rparr>) = pool_ok k c" "batches_ok k (c\<lparr>outgoingTXPool := p\<rparr>) = batches_ok k c"
  "pool_ok k (c\<lparr>batchConfirm := bc\<rparr>) = pool_ok k c" "batches_ok k (c\<lparr>batchConfirm := bc\<rparr>) = batches_ok k c"
  "pool_ok k (c\<lparr>lastOutgoingBatchID := n\<rparr>) = pool_ok k c" "batches_ok k (c\<lparr>lastOutgoingBatchID := n\<rparr>) = batches_ok k c"
  "pool_ok k (c\<lparr>pastEthSignatureCheckpoint := ck\<rparr>) = pool_ok k c"
  "batches_ok k (c\<lparr>pastEthSignatureCheckpoint := ck\<rparr>) = batches_ok k c"
  "pool_ok k (c\<lparr>others := x\<rparr>) = pool_ok k c" "batches_ok k (c\<lparr>others := x\<rparr>) = batches_ok k c"
  by (simp_all add: pool_ok_def batches_ok_def)

section \<open>Returning transfers to the pool\<close>

definition add_pool :: "'x Keeper \<Rightarrow> InternalOutgoingTransferTx list \<Rightarrow> 'x ctx \<Rightarrow> 'x ctx" where
  "add_pool k txs c = c\<lparr>outgoingTXPool :=
     fold (\<lambda>i. kv_set (key_of i) (InternalOutgoingTransferTx_ToExternal k i)) txs (outgoingTXPool c)\<rparr>"

definition pool_ids :: "'x ctx \<Rightarrow> uint64 set" where
  "pool_ids c = (\<lambda>e. ext_Id (snd e)) ` set (kv_asc (outgoingTXPool c))"

lemma pool_id_in_key:
  assumes "bech32_laws k" "pool_ok k c" "kv_has (outgoingTXPool c) key"
  shows "snd (snd key) \<in> pool_ids c"
proof -
  obtain t where t: "kv_get (outgoingTXPool c) key = Some t"
    using assms(3) by (auto simp: kv_has_def)
  note ok = pool_entry_okD [OF pool_okD [OF assms(2) t]]
  have "snd (snd key) = ext_Id t"
    using ok(4) ToInternal_wf(3) [OF assms(1) ok(1)] by (auto simp: pool_key_of_def)
  moreover have "(key, t) \<in> set (kv_asc (outgoingTXPool c))"
    using t assms(2) by (simp add: pool_ok_def kv.asc_get)
  ultimately show ?thesis
    unfolding pool_ids_def by force
qed

text \<open>What a list of transfers needs to go back into the pool.\<close>

definition returnable :: "'x Keeper \<Rightarrow> 'x ctx \<Rightarrow> InternalOutgoingTransferTx list \<Rightarrow> bool" where
  "returnable k c txs \<longleftrightarrow>
     (\<forall>i \<in> set txs. tx_wf k i \<and> Contract (Erc20Token i) = Contract (Erc20Fee i) \<and>
        pool_key_of (Erc20Fee i) (TxId i) = Some (key_of i) \<and> TxId i \<notin> pool_ids c) \<and>
     distinct (map TxId txs)"

lemma add_pool_run:
  assumes "geth_laws k" "bech32_laws k" "pool_ok k c" "returnable k c txs"
  shows "forM txs (\<lambda>tx. orPanic msg (addUnbatchedTX k tx)) c = Ok () (add_pool k txs c) \<and>
    pool_ok k (add_pool k txs c) \<and>
    pool_mset (add_pool k txs c) = image_mset (InternalOutgoingTransferTx_ToExternal k) (mset txs) + pool_mset c"
  using assms(3,4)
proof (induction txs arbitrary: c)
  case Nil
  then show ?case
    by (simp add: add_pool_def)
next
  case (Cons i txs)
  let ?c = "c\<lparr>outgoingTXPool := kv_set (key_of i) (InternalOutgoingTransferTx_ToExternal k i) (outgoingTXPool c)\<rparr>"
  have i: "tx_wf k i" "Contract (Erc20Token i) = Contract (Erc20Fee i)"
      "pool_key_of (Erc20Fee i) (TxId i) = Some (key_of i)" "TxId i \<notin> pool_ids c"
    using Cons.prems(2) by (auto simp: returnable_def)
  then have "snd (snd (key_of i)) = TxId i"
    by (auto simp: pool_key_of_def key_of_def)
  then have fresh: "\<not> kv_has (outgoingTXPool c) (key_of i)"
    using pool_id_in_key [OF assms(2) Cons.prems(1), of "key_of i"] i(4) by auto
  have run: "orPanic msg (addUnbatchedTX k i) c = Ok () ?c"
    using i fresh by (simp add: orPanic_Ok addUnbatchedTX_Ok)
  have ok: "pool_ok k ?c"
    using pool_ok_add [OF assms(1,2) Cons.prems(1)] i by simp
  have "pool_ids ?c = insert (TxId i) (pool_ids c)"
    using fresh Cons.prems(1)
    by (auto simp: pool_ids_def kv_has_def pool_ok_def kv.set_asc_put_fresh InternalOutgoingTransferTx_ToExternal_def)
  then have "returnable k ?c txs"
    using Cons.prems(2) by (auto simp: returnable_def) (metis imageI)
  moreover have "add_pool k (i # txs) c = add_pool k txs ?c"
    by (simp add: add_pool_def)
  moreover have "pool_mset ?c = add_mset (InternalOutgoingTransferTx_ToExternal k i) (pool_mset c)"
    using Cons.prems(1) fresh by (simp add: pool_mset_add pool_ok_def)
  ultimately show ?case
    using Cons.IH [OF ok] run by (simp add: bind_step)
qed

lemma batch_ToInternal_wf:
  assumes "bech32_laws k" "OutgoingTxBatch_ToInternal k e = Inr b" "i \<in> set (Transactions b)"
  shows "tx_wf k i"
proof -
  have "mapE (\<lambda>tx. wrapE ''invalid transaction in batch'' (OutgoingTransferTx_ToInternal k tx)) (ext_Transactions e) =
      Inr (Transactions b)"
    using assms(2) by (auto simp: OutgoingTxBatch_ToInternal_def bindE_eq_Inr)
  then obtain t where "OutgoingTransferTx_ToInternal k t = Inr i"
    using mapE_Inr_set assms(3) by (fastforce simp: wrapE_eq_Inr)
  then show ?thesis
    by (rule ToInternal_wf(1) [OF assms(1)])
qed

lemma batch_returnable:
  assumes "bech32_laws k" "outgoing_ok k c" "kv_get (outgoingTXBatch c) key = Some e"
  shows "returnable k c (Transactions (batch_internal k e))"
proof -
  note ok = batch_entry_okD [OF batches_okD [OF _ assms(3), of k]]
  have bok: "batches_ok k c" and uniq: "ids_unique c"
    using assms(2) by (simp_all add: outgoing_ok_def)
  have ext: "ext_Transactions e = map (InternalOutgoingTransferTx_ToExternal k) (Transactions (batch_internal k e))"
    using arg_cong [OF ok(2) [OF bok], of ext_Transactions] by (simp add: InternalOutgoingTxBatch_ToExternal_def)
  then have ids: "map ext_Id (ext_Transactions e) = map TxId (Transactions (batch_internal k e))"
    by (simp add: comp_def InternalOutgoingTransferTx_ToExternal_def)
  have mem: "(key, e) \<in> set (kv_asc (outgoingTXBatch c))"
    using assms(3) bok by (simp add: batches_ok_def kv.asc_get)
  have "distinct (map ext_Id (concat (map (\<lambda>e. ext_Transactions (snd e)) (kv_asc (outgoingTXBatch c)))))"
    and disj: "pool_ids c \<inter> ext_Id ` set (concat (map (\<lambda>e. ext_Transactions (snd e)) (kv_asc (outgoingTXBatch c)))) = {}"
    using uniq by (auto simp: ids_unique_def outstanding_list_def pool_ids_def)
  then have "distinct (map ext_Id (ext_Transactions e))"
    using mem by (auto simp: map_concat comp_def distinct_concat_iff)
  moreover have sub: "set (ext_Transactions e) \<subseteq> set (concat (map (\<lambda>e. ext_Transactions (snd e)) (kv_asc (outgoingTXBatch c))))"
    using mem by force
  have "TxId i \<notin> pool_ids c" if "i \<in> set (Transactions (batch_internal k e))" for i
  proof -
    have "TxId i \<in> set (map ext_Id (ext_Transactions e))"
      using that by (simp add: ids)
    then have "TxId i \<in> ext_Id ` set (ext_Transactions e)"
      by simp
    then show ?thesis
      using disj sub by blast
  qed
  moreover have "tx_wf k i" if "i \<in> set (Transactions (batch_internal k e))" for i
    using batch_ToInternal_wf [OF assms(1) ok(1) [OF bok] that] .
  moreover have "Contract (Erc20Token i) = Contract (Erc20Fee i) \<and> pool_key_of (Erc20Fee i) (TxId i) = Some (key_of i)"
    if "i \<in> set (Transactions (batch_internal k e))" for i
    using ok(4) [OF bok that] by simp
  ultimately show ?thesis
    unfolding returnable_def ids by blast
qed

section \<open>Cancelling a batch\<close>

lemma forM_frame:
  assumes "\<And>x c. x \<in> set xs \<Longrightarrow> \<exists>bc. f x c = Ok () (c\<lparr>batchConfirm := bc\<rparr>)"
  shows "\<exists>bc. forM xs f c = Ok () (c\<lparr>batchConfirm := bc\<rparr>)"
  using assms
proof (induction xs arbitrary: c)
  case Nil
  have "forM [] f c = Ok () (c\<lparr>batchConfirm := batchConfirm c\<rparr>)"
    by simp
  then show ?case ..
next
  case (Cons x xs)
  obtain bc where x: "f x c = Ok () (c\<lparr>batchConfirm := bc\<rparr>)"
    using Cons.prems by fastforce
  obtain bc' where "forM xs f (c\<lparr>batchConfirm := bc\<rparr>) = Ok () (c\<lparr>batchConfirm := bc\<rparr>\<lparr>batchConfirm := bc'\<rparr>)"
    using Cons.IH [of "c\<lparr>batchConfirm := bc\<rparr>"] Cons.prems by fastforce
  then have "forM (x # xs) f c = Ok () (c\<lparr>batchConfirm := bc'\<rparr>)"
    using x by (simp add: bind_step)
  then show ?case ..
qed

lemma GetBatchConfirms_run:
  "\<exists>out. GetBatchConfirmByNonceAndTokenContract k n a c = Ok out c"
proof -
  have "iterM (\<lambda>(key, confirm) out. return (False, out @ [presetConfirm k n a confirm])) es acc c =
      Ok (acc @ map (\<lambda>e. presetConfirm k n a (snd e)) es) c" for es acc
    by (induction es arbitrary: acc) (simp_all add: bind_step split: prod.split)
  then show ?thesis
    unfolding GetBatchConfirmByNonceAndTokenContract_def IterateBatchConfirmByNonceAndTokenContract_def
      bind_reads case_prod_unfold by blast
qed

lemma DeleteBatchConfirms_run:
  assumes "bech32_laws k"
  shows "\<exists>bc. DeleteBatchConfirms k b c = Ok () (c\<lparr>batchConfirm := bc\<rparr>)"
proof -
  let ?f = "\<lambda>confirm. case AccAddressFromBech32 k (ConfirmBatch_Orchestrator confirm) of
           Inl _ \<Rightarrow> return ()
         | Inr orchestrator \<Rightarrow>
             bind (batchConfirmKey k (TokenContract b) (BatchNonce b) orchestrator) (\<lambda>confirmKey.
             bind (reads (\<lambda>ctx. kv_has (batchConfirm ctx) confirmKey)) (\<lambda>has.
               if has then modify (\<lambda>ctx. ctx\<lparr>batchConfirm := kv_del confirmKey (batchConfirm ctx)\<rparr>)
               else return ()))"
  have step: "\<exists>bc. ?f confirm d = Ok () (d\<lparr>batchConfirm := bc\<rparr>)" for confirm :: MsgConfirmBatch and d :: "'a ctx"
  proof (cases "AccAddressFromBech32 k (ConfirmBatch_Orchestrator confirm)")
    case (Inl e)
    then have "?f confirm d = Ok () (d\<lparr>batchConfirm := batchConfirm d\<rparr>)"
      by simp
    then show ?thesis ..
  next
    case (Inr a)
    then have "VerifyAddressFormat k a = None"
      using assms by (auto simp: bech32_laws_def)
    then have "?f confirm d = Ok () (d\<lparr>batchConfirm := if kv_has (batchConfirm d) (TokenContract b, BatchNonce b, a)
        then kv_del (TokenContract b, BatchNonce b, a) (batchConfirm d) else batchConfirm d\<rparr>)"
      using Inr by (simp add: batchConfirmKey_def bind_step)
    then show ?thesis ..
  qed
  obtain out where "GetBatchConfirmByNonceAndTokenContract k (BatchNonce b) (TokenContract b) c = Ok out c"
    using GetBatchConfirms_run by blast
  then show ?thesis
    using forM_frame [of out ?f c] step by (simp add: DeleteBatchConfirms_def bind_step)
qed

lemma DeleteBatch_run:
  assumes "geth_laws k" "\<And>i. i \<in> set (Transactions b) \<Longrightarrow> tx_wf k i"
  shows "DeleteBatch k b c =
    Ok () (c\<lparr>outgoingTXBatch := kv_del (TokenContract b, BatchNonce b) (outgoingTXBatch c)\<rparr>)"
  using batch_valid [OF assms] by (simp add: DeleteBatch_def)

lemma Cancel_run:
  assumes laws: "geth_laws k" "bech32_laws k"
    and ok: "outgoing_ok k c" "params_ok k c"
    and e: "kv_get (outgoingTXBatch c) (contract, nonce) = Some e"
  shows "\<exists>bc. CancelOutgoingTXBatch k contract nonce c =
    Ok () ((add_pool k (Transactions (batch_internal k e)) c)\<lparr>
      outgoingTXBatch := kv_del (contract, nonce) (outgoingTXBatch c), batchConfirm := bc\<rparr>)"
proof -
  let ?b = "batch_internal k e" and ?txs = "Transactions (batch_internal k e)"
  have pool: "pool_ok k c" and batches: "batches_ok k c"
    using ok(1) by (simp_all add: outgoing_ok_def)
  note ret = batch_returnable [OF laws(2) ok(1) e]
  have key: "TokenContract ?b = contract" "BatchNonce ?b = nonce"
    using batch_entry_okD(3) [OF batches_okD [OF batches e]] by simp_all
  have wf: "\<And>i. i \<in> set ?txs \<Longrightarrow> tx_wf k i"
    using ret by (simp add: returnable_def)
  let ?c1 = "add_pool k ?txs c"
  let ?c2 = "?c1\<lparr>outgoingTXBatch := kv_del (contract, nonce) (outgoingTXBatch c)\<rparr>"
  have "forM ?txs (\<lambda>tx. orPanic ''unable to add batched transaction back into pool'' (addUnbatchedTX k tx)) c = Ok () ?c1"
    using add_pool_run [OF laws pool ret] by blast
  moreover have "DeleteBatch k ?b ?c1 = Ok () ?c2"
    using DeleteBatch_run [OF laws(1) wf] key by (simp add: add_pool_def)
  moreover obtain bc where "DeleteBatchConfirms k ?b ?c2 = Ok () (?c2\<lparr>batchConfirm := bc\<rparr>)"
    using DeleteBatchConfirms_run [OF laws(2)] by blast
  moreover have "params_ok k (?c2\<lparr>batchConfirm := bc\<rparr>)"
    using ok(2) by (simp add: add_pool_def)
  ultimately have "CancelOutgoingTXBatch k contract nonce c = Ok () (?c2\<lparr>batchConfirm := bc\<rparr>)"
    using e by (simp add: CancelOutgoingTXBatch_def GetOutgoingTXBatch_run [OF batches] bind_step)
  then show ?thesis ..
qed

text \<open>
  Moving the transfers of a stored batch to the pool keeps the invariant and the outstanding transfers.
\<close>

lemma cancelled_ok:
  assumes laws: "geth_laws k" "bech32_laws k"
    and ok: "outgoing_ok k c"
    and e: "kv_get (outgoingTXBatch c) key = Some e"
    and c'_def: "c' = (add_pool k (Transactions (batch_internal k e)) c)\<lparr>
      outgoingTXBatch := kv_del key (outgoingTXBatch c), batchConfirm := bc\<rparr>"
  shows "outgoing_ok k c'" and "outstanding c' = outstanding c"
    and "pool_mset c' = mset (ext_Transactions e) + pool_mset c"
proof -
  have pool: "pool_ok k c" and batches: "batches_ok k c"
    using ok by (simp_all add: outgoing_ok_def)
  note add = add_pool_run [OF laws pool batch_returnable [OF laws(2) ok e]]
  have "mset (ext_Transactions e) =
      image_mset (InternalOutgoingTransferTx_ToExternal k) (mset (Transactions (batch_internal k e)))"
    using arg_cong [OF batch_entry_okD(2) [OF batches_okD [OF batches e]], of "\<lambda>b. mset (ext_Transactions b)"]
    by (simp add: InternalOutgoingTxBatch_ToExternal_def)
  then show pm: "pool_mset c' = mset (ext_Transactions e) + pool_mset c"
    using add by (simp add: c'_def)
  have "batch_mset c = mset (ext_Transactions e) + batch_mset (c\<lparr>outgoingTXBatch := kv_del key (outgoingTXBatch c)\<rparr>)"
    using batches e by (intro batch_mset_del) (simp_all add: batches_ok_def)
  moreover have "batch_mset c' = batch_mset (c\<lparr>outgoingTXBatch := kv_del key (outgoingTXBatch c)\<rparr>)"
    by (simp add: c'_def add_pool_def batch_mset_def)
  ultimately show out: "outstanding c' = outstanding c"
    using pm by (simp add: outstanding_split)
  have "counters_ok c'"
    using ok unfolding outgoing_ok_def counters_ok_alt out
    by (fastforce simp: c'_def add_pool_def kv_asc_def kv_del_def)
  moreover have "batches_ok k c'"
    using batches_ok_del [OF batches, of key] by (simp add: c'_def add_pool_def batches_ok_def)
  ultimately show "outgoing_ok k c'"
    using ok out add ids_unique_cong [OF out] by (simp add: outgoing_ok_def c'_def)
qed


section \<open>Execution of a batch\<close>

abbreviation batch_key :: "InternalOutgoingTxBatch \<Rightarrow> EthAddress \<times> uint64" where
  "batch_key b \<equiv> (TokenContract b, BatchNonce b)"

definition older :: "EthAddress \<Rightarrow> uint64 \<Rightarrow> InternalOutgoingTxBatch \<Rightarrow> bool" where
  "older contract nonce b \<longleftrightarrow> BatchNonce b < nonce \<and> TokenContract b = contract"

lemma cancel_iterates:
  fixes P :: "InternalOutgoingTxBatch \<Rightarrow> bool"
  defines "cancel \<equiv> \<lambda>k msg b.
    if P b then orPanic msg (CancelOutgoingTXBatch k (TokenContract b) (BatchNonce b)) else return ()"
  assumes laws: "geth_laws k" "bech32_laws k"
    and "outgoing_ok k c" "params_ok k c" "distinct (map batch_key bs)"
    and "\<And>b. b \<in> set bs \<Longrightarrow> kv_get (outgoingTXBatch c) (batch_key b) = Some (InternalOutgoingTxBatch_ToExternal k b)"
  shows "\<exists>c'. forM bs (cancel k msg) c = Ok () c' \<and> outgoing_ok k c' \<and> params_ok k c' \<and>
    outstanding c' = outstanding c \<and> others c' = others c \<and>
    (\<forall>key. kv_get (outgoingTXBatch c') key =
       (if key \<in> batch_key ` {b \<in> set bs. P b} then None else kv_get (outgoingTXBatch c) key))"
  using assms(4-7)
proof (induction bs arbitrary: c)
  case Nil
  then show ?case
    by simp
next
  case (Cons b bs)
  show ?case
  proof (cases "P b")
    case False
    then have "cancel k msg b c = Ok () c"
      by (simp add: cancel_def)
    then show ?thesis
      using Cons.IH [OF Cons.prems(1,2)] Cons.prems(3,4) False by (auto simp: bind_step)
  next
    case True
    note get = Cons.prems(4) [of b, OF list.set_intros(1)]
    obtain bc where run: "CancelOutgoingTXBatch k (TokenContract b) (BatchNonce b) c =
      Ok () ((add_pool k (Transactions (batch_internal k (InternalOutgoingTxBatch_ToExternal k b))) c)\<lparr>
        outgoingTXBatch := kv_del (batch_key b) (outgoingTXBatch c), batchConfirm := bc\<rparr>)" (is "_ = Ok () ?d")
      using Cancel_run [OF laws Cons.prems(1,2) get] by blast
    note d = cancelled_ok [OF laws Cons.prems(1) get refl, of bc]
    have par: "params_ok k ?d"
      using Cons.prems(2) by (simp add: add_pool_def)
    have "kv_get (outgoingTXBatch ?d) (batch_key x) = Some (InternalOutgoingTxBatch_ToExternal k x)" if "x \<in> set bs" for x
      using Cons.prems(3,4) that by (auto simp: image_iff)
    then obtain c' where c': "forM bs (cancel k msg) ?d = Ok () c'" "outgoing_ok k c'" "params_ok k c'"
        "outstanding c' = outstanding ?d" "others c' = others ?d"
        "\<forall>key. kv_get (outgoingTXBatch c') key =
           (if key \<in> batch_key ` {b \<in> set bs. P b} then None else kv_get (outgoingTXBatch ?d) key)"
      using Cons.IH [OF d(1) par] Cons.prems(3) by auto
    moreover have "cancel k msg b c = Ok () ?d"
      using True run by (simp add: cancel_def orPanic_def)
    ultimately show ?thesis
      using d(2) True by (intro exI [of _ c']) (auto simp: bind_step add_pool_def)
  qed
qed

lemma cancelOlder_forM:
  "iterM (cancelOlder k contract nonce) bs () = forM bs (\<lambda>b. if older contract nonce b
     then orPanic ''Failed cancel out batch'' (CancelOutgoingTXBatch k (TokenContract b) (BatchNonce b)) else return ())"
proof (induction bs)
  case (Cons b bs)
  then show ?case
    by (auto simp: cancelOlder_def bind_assoc older_def intro!: arg_cong2 [of _ _ _ _ bind])
qed simp

lemmas cancelOlder_iterates = cancel_iterates [of _ _ _ "older contract nonce" "''Failed cancel out batch''" for contract nonce,
    folded cancelOlder_forM]

lemma batch_list_keys: "batches_ok k c \<Longrightarrow> map batch_key (batch_list k c) = map fst (kv_desc (outgoingTXBatch c))"
  unfolding batch_list_def map_map
  by (rule map_cong) (auto simp: batches_ok_def list_all_iff dest!: bspec dest: batch_entry_okD(3))

lemma batch_list_distinct: "batches_ok k c \<Longrightarrow> distinct (map batch_key (batch_list k c))"
  by (simp add: batch_list_keys batches_ok_def kv_ok_def kv_desc_def strict_sorted_iff flip: rev_map)

lemma batch_list_get:
  assumes "batches_ok k c" "b \<in> set (batch_list k c)"
  shows "kv_get (outgoingTXBatch c) (batch_key b) = Some (InternalOutgoingTxBatch_ToExternal k b)"
proof -
  obtain key e where mem: "(key, e) \<in> set (kv_asc (outgoingTXBatch c))" "b = batch_internal k e"
    using assms(2) by (auto simp: batch_list_def)
  then have get: "kv_get (outgoingTXBatch c) key = Some e"
    using assms(1) by (simp add: batches_ok_def kv.asc_get)
  then show ?thesis
    using batch_entry_okD(2,3) [OF batches_okD [OF assms(1) get]] mem(2) by simp
qed

lemma batch_list_mem:
  assumes "batches_ok k c" "kv_get (outgoingTXBatch c) key = Some e"
  shows "batch_internal k e \<in> set (batch_list k c)"
proof -
  have "(key, e) \<in> set (kv_asc (outgoingTXBatch c))"
    using assms by (simp add: batches_ok_def kv.asc_get)
  then show ?thesis
    by (force simp: batch_list_def)
qed

lemma ids_unique_subset:
  assumes "outstanding d \<subseteq># outstanding c" "ids_unique c"
  shows "ids_unique d"
proof -
  obtain M where "outstanding c = outstanding d + M"
    using assms(1) by (auto simp: subset_mset.le_iff_add)
  moreover obtain ys where "mset ys = M"
    using ex_mset by blast
  ultimately have "mset (map ext_Id (outstanding_list c)) = mset (map ext_Id (outstanding_list d @ ys))"
    by (simp add: outstanding_def)
  then show ?thesis
    using assms(2) mset_eq_imp_distinct_iff by (fastforce simp: ids_unique_def)
qed

lemma outgoing_ok_others [simp]: "outgoing_ok k (c\<lparr>others := x\<rparr>) = outgoing_ok k c"
proof -
  have "outstanding_list (c\<lparr>others := x\<rparr>) = outstanding_list c"
    by (simp add: outstanding_list_def)
  then show ?thesis
    by (simp add: outgoing_ok_def ids_unique_def counters_ok_alt outstanding_def)
qed

lemma outstanding_others [simp]: "outstanding (c\<lparr>others := x\<rparr>) = outstanding c"
  by (simp add: outstanding_split)

lemma burn_frame: "burnExecuted k b origin c = Ok u d \<Longrightarrow> \<exists>x. d = c\<lparr>others := x\<rparr>"
proof -
  assume run: "burnExecuted k b origin c = Ok u d"
  have foldro: "keeps I (foldM (\<lambda>tx total. bind (Int_Add k (Amount (Erc20Token tx)) (Amount (Erc20Fee tx)))
      (\<lambda>v. Int_Add k total v)) txs acc)" for I :: "'a ctx \<Rightarrow> bool" and txs acc
    by (intro keeps_rules)
  show ?thesis
  proof (cases "Origin origin = AssetOriginEthereum")
    case True
    then show ?thesis
      using run unfolding burnExecuted_def
      by (auto simp: bind_readonly [OF foldro] bind_readonly [OF keeps_coins(2)] bind_readonly [OF keeps_coins(3)] orPanic_Ok liftX_Ok)
  next
    case False
    then have "d = c\<lparr>others := others c\<rparr>"
      using run by (simp add: burnExecuted_def)
    then show ?thesis ..
  qed
qed

lemma params_ok_others [simp]: "params_ok k (c\<lparr>others := x\<rparr>) = params_ok k c"
  by (simp add: params_ok_def)

lemma deleted_ok:
  assumes "outgoing_ok k c" "kv_get (outgoingTXBatch c) key = Some e"
    and c'_def: "c' = c\<lparr>outgoingTXBatch := kv_del key (outgoingTXBatch c), batchConfirm := bc\<rparr>"
  shows "outgoing_ok k c'" and "outstanding c = mset (ext_Transactions e) + outstanding c'"
proof -
  have batches: "batches_ok k c"
    using assms(1) by (simp add: outgoing_ok_def)
  then have "batch_mset c = mset (ext_Transactions e) + batch_mset c'"
    using batch_mset_del [OF _ assms(2)] by (simp add: c'_def batches_ok_def)
  moreover have "pool_mset c' = pool_mset c"
    by (simp add: c'_def)
  ultimately show out: "outstanding c = mset (ext_Transactions e) + outstanding c'"
    by (simp add: outstanding_split)
  have "counters_ok c'"
    using assms(1) unfolding outgoing_ok_def counters_ok_alt out
    by (fastforce simp: c'_def kv_asc_def kv_del_def)
  then show "outgoing_ok k c'"
    using assms(1) out ids_unique_subset [of c' c] batches_ok_del [OF batches, of key]
    by (simp add: outgoing_ok_def c'_def)
qed

lemma Executed_Ok:
  assumes laws: "geth_laws k" "bech32_laws k"
    and ok: "outgoing_ok k c" "params_ok k c"
    and e: "kv_get (outgoingTXBatch c) (contract, BSE_BatchNonce claim) = Some e"
    and run: "OutgoingTxBatchExecuted k contract claim c = Ok u c'"
  shows "outgoing_ok k c' \<and> outstanding c = mset (ext_Transactions e) + outstanding c' \<and>
    (\<forall>key. kv_get (outgoingTXBatch c') key =
       (if fst key = contract \<and> snd key \<le> BSE_BatchNonce claim then None else kv_get (outgoingTXBatch c) key)) \<and>
    BSE_EthBlockHeight claim < ext_BatchTimeout e \<and>
    (\<exists>origin. ClassifyERC20 k contract c = Ok origin c \<and>
       burnExecuted k (batch_internal k e) origin c = Ok () (c\<lparr>others := others c'\<rparr>))"
proof -
  let ?b = "batch_internal k e" and ?n = "BSE_BatchNonce claim"
  have batches: "batches_ok k c"
    using ok(1) by (simp add: outgoing_ok_def)
  note entry = batch_entry_okD [OF batches_okD [OF batches e]]
  have key: "TokenContract ?b = contract" "BatchNonce ?b = ?n"
    using entry(3) by simp_all
  obtain x d origin where timeout: "BSE_EthBlockHeight claim < BatchTimeout ?b"
    and burn: "ClassifyERC20 k contract c = Ok origin c" "burnExecuted k ?b origin c = Ok () (c\<lparr>others := x\<rparr>)"
    and iter: "IterateOutgoingTxBatches k (\<lambda>_. cancelOlder k contract ?n) () (c\<lparr>others := x\<rparr>) = Ok () d"
    and del: "bind (DeleteBatch k ?b) (\<lambda>_. DeleteBatchConfirms k ?b) d = Ok u c'"
    using run e unfolding OutgoingTxBatchExecuted_def
    by (auto simp: bind_readonly [OF keeps_batch_readers(3)] bind_readonly [OF keeps_panicIf]
        bind_readonly [OF keeps_orPanic [OF keeps_ClassifyERC20]] bind_Ok [of "burnExecuted _ _ _"]
        bind_Ok [of "IterateOutgoingTxBatches _ _ _"] GetOutgoingTXBatch_run [OF batches] panicIf_Ok not_le key orPanic_Ok)
      (metis burn_frame)
  let ?cx = "c\<lparr>others := x\<rparr>"
  have bx: "batches_ok k ?cx"
    using batches by simp
  obtain d' where d': "iterM (cancelOlder k contract ?n) (batch_list k ?cx) () ?cx = Ok () d'" "outgoing_ok k d'"
      "outstanding d' = outstanding c" "others d' = x"
      "\<And>key. kv_get (outgoingTXBatch d') key = (if key \<in> batch_key ` {b \<in> set (batch_list k ?cx). older contract ?n b}
          then None else kv_get (outgoingTXBatch c) key)"
    using cancelOlder_iterates [OF laws _ _ batch_list_distinct [OF bx] batch_list_get [OF bx], of contract ?n] ok by auto
  then have d: "d' = d"
    using iter by (simp add: iterate_batches [OF bx])
  have older_iff: "key \<in> batch_key ` {b \<in> set (batch_list k ?cx). older contract ?n b} \<longleftrightarrow>
      fst key = contract \<and> snd key < ?n \<and> kv_get (outgoingTXBatch c) key \<noteq> None" for key
  proof
    assume "key \<in> batch_key ` {b \<in> set (batch_list k ?cx). older contract ?n b}"
    then show "fst key = contract \<and> snd key < ?n \<and> kv_get (outgoingTXBatch c) key \<noteq> None"
      using batch_list_get [OF bx] by (auto simp: older_def)
  next
    assume as: "fst key = contract \<and> snd key < ?n \<and> kv_get (outgoingTXBatch c) key \<noteq> None"
    then obtain f where f: "kv_get (outgoingTXBatch ?cx) key = Some f"
      by auto
    then show "key \<in> batch_key ` {b \<in> set (batch_list k ?cx). older contract ?n b}"
      using batch_list_mem [OF bx f] batch_entry_okD(3) [OF batches_okD [OF bx f]] as by (auto simp: older_def image_iff)
  qed
  have get: "kv_get (outgoingTXBatch d) (contract, ?n) = Some e"
    using d'(5) e unfolding d older_iff by simp
  have wf: "\<And>i. i \<in> set (Transactions ?b) \<Longrightarrow> tx_wf k i"
    using batch_ToInternal_wf [OF laws(2) entry(1)] .
  obtain bc where "c' = d\<lparr>outgoingTXBatch := kv_del (contract, ?n) (outgoingTXBatch d), batchConfirm := bc\<rparr>"
    using del DeleteBatch_run [OF laws(1) wf] DeleteBatchConfirms_run [OF laws(2), of ?b] key
    by (auto simp: bind_step) (metis outcome.inject(1))
  note del' = deleted_ok [OF _ get this, of k]
  have "kv_get (outgoingTXBatch c') key =
       (if fst key = contract \<and> snd key \<le> ?n then None else kv_get (outgoingTXBatch c) key)" for key
    using \<open>c' = _\<close> d'(5) [of key] unfolding d older_iff by (cases key) auto
  moreover have "BatchTimeout ?b = ext_BatchTimeout e"
    using arg_cong [OF entry(2), of ext_BatchTimeout] by (simp add: InternalOutgoingTxBatch_ToExternal_def)
  moreover have "others c' = x"
    using \<open>c' = _\<close> d'(4) d by simp
  ultimately show ?thesis
    using del' d'(2,3) d timeout burn by simp
qed

text \<open>
  C14: when the execution of a batch is processed, exactly the executed batch leaves the outstanding
  transfers, every earlier batch of the same token is cancelled (its transfers stay outstanding),
  all other batches are untouched, and the batch had not timed out.
\<close>

theorem OutgoingTxBatchExecuted_effect:
  assumes "geth_laws k" "bech32_laws k" "outgoing_ok k c" "params_ok k c"
    and "kv_get (outgoingTXBatch c) (contract, BSE_BatchNonce claim) = Some e"
    and "OutgoingTxBatchExecuted k contract claim c = Ok u c'"
  shows "outgoing_ok k c' \<and> outstanding c = mset (ext_Transactions e) + outstanding c' \<and>
    (\<forall>key. kv_get (outgoingTXBatch c') key =
       (if fst key = contract \<and> snd key \<le> BSE_BatchNonce claim then None else kv_get (outgoingTXBatch c) key)) \<and>
    BSE_EthBlockHeight claim < ext_BatchTimeout e"
  using Executed_Ok [OF assms] by blast

section \<open>Correctness of building\<close>

lemma select_entry:
  assumes "bech32_laws k" "pool_ok k c" "i \<in> set (selectTxs k contract maxElements c)"
  shows "tx_wf k i" "Contract (Erc20Token i) = contract" "Contract (Erc20Fee i) = contract"
    "pool_key_of (Erc20Fee i) (TxId i) = Some (key_of i)" "\<not> is_blacklisted k c (DestAddress i)"
proof -
  have mem: "i \<in> set (pool_list k contract c)" and "\<not> is_blacklisted k c (DestAddress i)"
    using assms(3) by (auto simp: selectTxs_def eligible_def dest!: in_set_takeD)
  then show "tx_wf k i" "Contract (Erc20Token i) = contract" "Contract (Erc20Fee i) = contract"
    "\<not> is_blacklisted k c (DestAddress i)"
    using pool_list_contract(1,2) [OF assms(2)] ToInternal_wf(1) [OF assms(1) pool_list_contract(4) [OF assms(2) mem]] by auto
  show "pool_key_of (Erc20Fee i) (TxId i) = Some (key_of i)"
    using in_pool_select [OF assms(2)] assms(3) by (auto simp: in_pool_def)
qed

lemma built_state:
  assumes laws: "geth_laws k" "bech32_laws k"
    and ok: "pool_ok k c" "batches_ok k c" "params_ok k c"
    and run: "BuildOutgoingTXBatch k contract maxElements c = Ok b c'"
  shows "outstanding c' = outstanding c" "pool_ok k c'" "batches_ok k c'"
    "GetOutgoingTXBatch k contract (BatchNonce b) c' = Ok (Some b) c'"
    "lastTXPoolID c' = lastTXPoolID c"
    "\<exists>n. lastOutgoingBatchID c = Some n \<and> BatchNonce b = n + 1 \<and> lastOutgoingBatchID c' = Some (n + 1) \<and>
      outgoingTXBatch c' = kv_set (contract, n + 1) (InternalOutgoingTxBatch_ToExternal k b) (outgoingTXBatch c)"
    "Transactions b = selectTxs k contract maxElements c" "TokenContract b = contract"
proof -
  let ?sel = "selectTxs k contract maxElements c"
  obtain n cp where n: "lastOutgoingBatchID c = Some n" and b: "Transactions b = ?sel" "BatchNonce b = n + 1"
      "TokenContract b = contract" and fresh: "\<not> kv_has (outgoingTXBatch c) (contract, n + 1)"
    and c': "c' = (drop_pool ?sel c)\<lparr>lastOutgoingBatchID := Some (n + 1),
         outgoingTXBatch := kv_set (contract, n + 1) (InternalOutgoingTxBatch_ToExternal k b) (outgoingTXBatch c),
         pastEthSignatureCheckpoint := kv_set cp [1] (pastEthSignatureCheckpoint c)\<rparr>"
    using createBatch_Ok [OF Build_Ok(3) [OF ok(1,3) run]] by (auto simp: drop_pool_def)
  have trip: "OutgoingTxBatch_ToInternal k (InternalOutgoingTxBatch_ToExternal k b) = Inr b"
    using select_entry(1) [OF laws(2) ok(1)] b(1) by (intro batch_round_trip laws) auto
  have "list_all (\<lambda>i. Contract (Erc20Token i) = contract \<and> Contract (Erc20Fee i) = contract \<and>
      pool_key_of (Erc20Fee i) (TxId i) \<noteq> None) ?sel"
    unfolding list_all_iff using select_entry(2-4) [OF laws(2) ok(1), of _ contract maxElements] by simp
  then have "batch_entry_ok k ((contract, n + 1), InternalOutgoingTxBatch_ToExternal k b)"
    by (simp add: batch_entry_ok_def trip b)
  then show bok: "batches_ok k c'"
    using batches_ok_add [OF ok(2)] by (simp add: c' batches_ok_def)
  show "pool_ok k c'"
    using drop_pool_ok [OF ok(1)] by (simp add: c')
  have "kv_get (outgoingTXBatch c') (contract, BatchNonce b) = Some (InternalOutgoingTxBatch_ToExternal k b)"
    by (simp add: c' b)
  then show "GetOutgoingTXBatch k contract (BatchNonce b) c' = Ok (Some b) c'"
    by (simp add: GetOutgoingTXBatch_run [OF bok] batch_internal_def trip)
  have "pool_mset c = mset (ext_Transactions (InternalOutgoingTxBatch_ToExternal k b)) + pool_mset (drop_pool ?sel c)"
    using drop_pool_mset [OF _ in_pool_select [OF ok(1)]] ok(1) b(1)
    by (simp add: pool_ok_def InternalOutgoingTxBatch_ToExternal_def)
  moreover have "batch_mset c' = mset (ext_Transactions (InternalOutgoingTxBatch_ToExternal k b)) + batch_mset c"
    using batch_mset_add [OF _ fresh] ok(2) by (simp add: c' batches_ok_def drop_pool_def batch_mset_def)
  moreover have "pool_mset c' = pool_mset (drop_pool ?sel c)"
    by (simp add: c')
  ultimately show "outstanding c' = outstanding c"
    by (simp add: outstanding_split)
  show "lastTXPoolID c' = lastTXPoolID c"
    by (simp add: c' drop_pool_def)
  show "\<exists>n. lastOutgoingBatchID c = Some n \<and> BatchNonce b = n + 1 \<and> lastOutgoingBatchID c' = Some (n + 1) \<and>
      outgoingTXBatch c' = kv_set (contract, n + 1) (InternalOutgoingTxBatch_ToExternal k b) (outgoingTXBatch c)"
    using n b by (simp add: c')
  show "Transactions b = ?sel" "TokenContract b = contract"
    using b by simp_all
qed

lemma built_ok:
  assumes "geth_laws k" "bech32_laws k" "outgoing_ok k c" "params_ok k c" "lastOutgoingBatchID c \<noteq> Some (- 1)"
    and "BuildOutgoingTXBatch k contract maxElements c = Ok b c'"
  shows "outgoing_ok k c' \<and> outstanding c' = outstanding c \<and> lastTXPoolID c' = lastTXPoolID c \<and>
    (\<exists>n e. kv_get (outgoingTXBatch c) (contract, n) = None \<and> outgoingTXBatch c' = kv_set (contract, n) e (outgoingTXBatch c))"
proof -
  have ok: "pool_ok k c" "batches_ok k c" "ids_unique c" "counters_ok c"
    using assms(3) by (simp_all add: outgoing_ok_def)
  note built = built_state [OF assms(1,2) ok(1,2) assms(4,6)]
  obtain n where n: "lastOutgoingBatchID c = Some n" "lastOutgoingBatchID c' = Some (n + 1)"
      "outgoingTXBatch c' = kv_set (contract, n + 1) (InternalOutgoingTxBatch_ToExternal k b) (outgoingTXBatch c)"
    using built(6) by blast
  have less: "n < n + 1"
    using assms(5) n(1) by (intro word_less_inc) auto
  have old: "snd (fst e) \<le> n" if "e \<in> set (kv_asc (outgoingTXBatch c))" for e
    using that ok(4) n(1) unfolding counters_ok_alt by auto
  have "snd (fst e) \<le> n + 1" if "e \<in> set (kv_asc (outgoingTXBatch c'))" for e
  proof -
    have "kv_ok (outgoingTXBatch c)"
      using ok(2) by (simp add: batches_ok_def)
    then have "e \<in> set (kv_asc (outgoingTXBatch c)) \<or> fst e = (contract, n + 1)"
      using that by (cases e) (auto simp: n(3) kv.asc_get split: if_splits)
    then show ?thesis
      using old [of e] less by auto
  qed
  then have "counters_ok c'"
    using ok(4) built(1,5) n(2) unfolding counters_ok_alt by simp
  then have "outgoing_ok k c'"
    using built(1-3) ids_unique_cong [OF built(1)] ok(3) by (simp add: outgoing_ok_def)
  moreover have "kv_get (outgoingTXBatch c) (contract, n + 1) = None"
  proof (rule ccontr)
    assume "kv_get (outgoingTXBatch c) (contract, n + 1) \<noteq> None"
    then obtain e where "((contract, n + 1), e) \<in> set (kv_asc (outgoingTXBatch c))"
      using ok(2) by (auto simp: batches_ok_def kv.asc_get)
    then show False
      using old [of "((contract, n + 1), e)"] less by (auto dest: leD)
  qed
  ultimately show ?thesis
    using built(1,5) n(3) by blast
qed

text \<open>
  C19: a new batch holds the first eligible transfers of the pool (highest fee first, none to a
  blacklisted address), has the next nonce, can be read back from the store, pays strictly more fees
  than the last batch of the token, and the outstanding transfers do not change.
\<close>

theorem BuildOutgoingTXBatch_correct:
  assumes "geth_laws k" "bech32_laws k" "pool_ok k c" "batches_ok k c" "params_ok k c"
    and "BuildOutgoingTXBatch k contract maxElements c = Ok b c'"
  shows "Transactions b = selectTxs k contract maxElements c \<and> Transactions b \<noteq> [] \<and>
    lastOutgoingBatchID c = Some (BatchNonce b - 1) \<and> lastOutgoingBatchID c' = Some (BatchNonce b) \<and>
    GetOutgoingTXBatch k contract (BatchNonce b) c' = Ok (Some b) c' \<and>
    outstanding c' = outstanding c \<and>
    (\<forall>prev. GetLastOutgoingBatchByTokenType k contract c = Ok (Some prev) c \<longrightarrow> batch_fees prev < batch_fees b)"
  using built_state [OF assms] Build_Ok(2,4) [OF assms(3,5,6)] by (auto simp: batch_fees_def)

text \<open>
  C20: the choice is optimal: no other choice of at most \<open>maxElements\<close> eligible transfers of the token
  pays more fees than the batch that is built.
\<close>

theorem BuildOutgoingTXBatch_most_profitable:
  assumes "geth_laws k" "bech32_laws k" "pool_ok k c" "batches_ok k c" "params_ok k c"
    and "BuildOutgoingTXBatch k contract maxElements c = Ok b c'"
    and "mset ys \<subseteq># mset (eligible k contract c)" "length ys \<le> unat maxElements"
  shows "sum_list (map fee_of ys) \<le> batch_fees b"
  using selectTxs_maximal [OF assms(3,7,8)] built_state(7) [OF assms(1-6)] by (simp add: batch_fees_def)

end
