(* ===== verification/Escrow.thy ===== *)
theory Escrow
  imports Batch
begin

text \<open>
  Users' funds.  A transfer to Ethereum moves the amount and the fee into the module account when it
  enters the pool, and moves them out when it is refunded; Ethereum-originated vouchers are burned when
  the batch executes.  The theorems relate the balance of the module account, as the bank module
  reports it, to the value of the outstanding transfers, and show that the invariant of the outgoing
  state is kept by entering and leaving the pool.
\<close>

section \<open>The bank module\<close>

definition balance :: "'x Keeper \<Rightarrow> 'x ctx \<Rightarrow> AccAddress \<Rightarrow> string \<Rightarrow> int" where
  "balance k c a d = Coin_Amount (GetBalance k (others c) a d)"

definition amount_in :: "Coin list \<Rightarrow> string \<Rightarrow> int" where
  "amount_in cs d = sum_list (map Coin_Amount (filter (\<lambda>c. Coin_Denom c = d) cs))"

text \<open>
  What the module relies on: a successful transfer moves the coins from one account to the other and
  changes no other balance; minting and burning change only the named module account.
\<close>

definition moved :: "'x Keeper \<Rightarrow> 'x \<Rightarrow> 'x \<Rightarrow> AccAddress set \<Rightarrow> AccAddress set \<Rightarrow> Coin list \<Rightarrow> bool" where
  "moved k x x' from_accs to_accs cs \<longleftrightarrow>
     (\<forall>a d. Coin_Amount (GetBalance k x' a d) =
        Coin_Amount (GetBalance k x a d) - (if a \<in> from_accs then amount_in cs d else 0)
          + (if a \<in> to_accs then amount_in cs d else 0))"

definition bank_laws :: "'x Keeper \<Rightarrow> bool" where
  "bank_laws k \<longleftrightarrow>
     (\<forall>a m cs x x'. SendCoinsFromAccountToModule k a m cs x = Ok () x' \<longrightarrow> moved k x x' {a} {GetModuleAddress k m} cs)
   \<and> (\<forall>a m cs x x'. SendCoinsFromModuleToAccount k m a cs x = Ok () x' \<longrightarrow> moved k x x' {GetModuleAddress k m} {a} cs)
   \<and> (\<forall>m n cs x x'. SendCoinsFromModuleToModule k m n cs x = Ok () x' \<longrightarrow>
        moved k x x' {GetModuleAddress k m} {GetModuleAddress k n} cs)
   \<and> (\<forall>m cs x x'. MintCoins k m cs x = Ok () x' \<longrightarrow> moved k x x' {} {GetModuleAddress k m} cs)
   \<and> (\<forall>m cs x x'. BurnCoins k m cs x = Ok () x' \<longrightarrow> moved k x x' {GetModuleAddress k m} {} cs)"

lemma bank_moves:
  assumes "bank_laws k"
  shows "SendCoinsFromAccountToModule k a m cs x = Ok u x' \<Longrightarrow> moved k x x' {a} {GetModuleAddress k m} cs"
    and "SendCoinsFromModuleToAccount k m a cs x = Ok u x' \<Longrightarrow> moved k x x' {GetModuleAddress k m} {a} cs"
    and "SendCoinsFromModuleToModule k m n cs x = Ok u x' \<Longrightarrow>
      moved k x x' {GetModuleAddress k m} {GetModuleAddress k n} cs"
    and "MintCoins k m cs x = Ok u x' \<Longrightarrow> moved k x x' {} {GetModuleAddress k m} cs"
    and "BurnCoins k m cs x = Ok u x' \<Longrightarrow> moved k x x' {GetModuleAddress k m} {} cs"
  using assms by (simp_all add: bank_laws_def)

text \<open>
  Further laws of the bank and distribution modules: a rejected transfer moves nothing, the fee pool is
  only a record of what the distribution account holds, and module accounts differ.
\<close>

definition bank_error_laws :: "'x Keeper \<Rightarrow> bool" where
  "bank_error_laws k \<longleftrightarrow>
     (\<forall>m a cs x e x'. SendCoinsFromModuleToAccount k m a cs x = Err e x' \<longrightarrow> moved k x x' {} {} cs)
   \<and> (\<forall>p x x'. FeePool_Set k p x = Ok () x' \<longrightarrow> moved k x x' {} {} [])
   \<and> GetModuleAddress k ''distribution'' \<noteq> GetModuleAddress k ModuleName"

lemma NewCoins_amount:
  assumes "coin_laws k" "Coin_IsValid k coin" "NewCoins k [coin] = Some cs"
  shows "amount_in cs d = amount_in [coin] d"
  using assms by (auto simp: coin_laws_def amount_in_def)

abbreviation module_balance :: "'x Keeper \<Rightarrow> 'x ctx \<Rightarrow> string \<Rightarrow> int" where
  "module_balance k c d \<equiv> balance k c (GetModuleAddress k ModuleName) d"

section \<open>The value of outstanding transfers\<close>

definition value_for :: "'x Keeper \<Rightarrow> EthAddress \<Rightarrow> OutgoingTransferTx multiset \<Rightarrow> int" where
  "value_for k contract M =
     sum_mset (image_mset (\<lambda>t. if ERC20_Contract (ext_Erc20Token t) = Hex k contract then ext_value t else 0) M)"

lemma value_for_union [simp]: "value_for k a (M + N) = value_for k a M + value_for k a N"
  and value_for_add [simp]:
    "value_for k a (add_mset t M) = (if ERC20_Contract (ext_Erc20Token t) = Hex k a then ext_value t else 0) + value_for k a M"
  and value_for_empty [simp]: "value_for k a {#} = 0"
  by (simp_all add: value_for_def)

section \<open>Entering the pool\<close>

definition new_tx ::
  "uint64 \<Rightarrow> AccAddress \<Rightarrow> EthAddress \<Rightarrow> int \<Rightarrow> int \<Rightarrow> EthAddress \<Rightarrow> InternalOutgoingTransferTx" where
  "new_tx i sender receiver amount fee contract =
     \<lparr>TxId = i, Sender = sender, DestAddress = receiver,
      Erc20Token = \<lparr>Amount = amount, Contract = contract\<rparr>, Erc20Fee = \<lparr>Amount = fee, Contract = contract\<rparr>\<rparr>"

lemma AddToOutgoingPool_Ok:
  assumes laws: "geth_laws k" "bech32_laws k" "coin_laws k"
    and run: "AddToOutgoingPool k sender receiver amount fee c = Ok i c'"
  shows "\<exists>n x contract origin key. lastTXPoolID c = Some n \<and> i = n + 1 \<and>
    ClassifyDenom k (Coin_Denom amount) c = Ok origin c \<and> ERC20 origin = Some contract \<and>
    SendCoinsFromAccountToModule k sender ModuleName
      [\<lparr>Coin_Denom = Coin_Denom amount, Coin_Amount = Coin_Amount amount + Coin_Amount fee\<rparr>] (others c) = Ok () x \<and>
    (let tx = new_tx (n + 1) sender receiver (Coin_Amount amount) (Coin_Amount fee) contract
     in tx_wf k tx \<and> pool_key_of (Erc20Fee tx) (n + 1) = Some key \<and> \<not> kv_has (outgoingTXPool c) key \<and>
        c' = c\<lparr>others := x, lastTXPoolID := Some (n + 1),
          outgoingTXPool := kv_set key (InternalOutgoingTransferTx_ToExternal k tx) (outgoingTXPool c)\<rparr>)"
proof -
  let ?coin = "\<lparr>Coin_Denom = Coin_Denom amount, Coin_Amount = Coin_Amount amount + Coin_Amount fee\<rparr>"
  obtain origin x n contract where guard: "VerifyAddressFormat k sender = None" "Coin_IsValid k amount" "Coin_IsValid k fee"
    and cl: "ClassifyDenom k (Coin_Denom amount) c = Ok origin c" "ERC20 origin = Some contract"
    and send: "SendCoinsFromAccountToModule k sender ModuleName [?coin] (others c) = Ok () x"
    and n: "lastTXPoolID c = Some n"
    and rest: "bind (wrapErr ''invalid Erc20Fee'' (lift (NewInternalERC20Token k (Coin_Amount fee) (Hex k contract)))) (\<lambda>erc20Fee.
           bind (wrapErr ''invalid ERC20Token'' (lift (NewInternalERC20Token k (Coin_Amount amount) (Hex k contract)))) (\<lambda>erc20Token.
           bind (orPanic ''unable to create InternalOutgoingTransferTx''
                   (lift (OutgoingTransferTx_ToInternal k
                     \<lparr>ext_Id = n + 1, ext_Sender = AccAddress_String k sender,
                      ext_DestAddress = Hex k receiver,
                      ext_Erc20Token = InternalERC20Token_ToExternal k erc20Token,
                      ext_Erc20Fee = InternalERC20Token_ToExternal k erc20Fee\<rparr>))) (\<lambda>outgoing.
           bind (orPanic ''transaction already in pool'' (addUnbatchedTX k outgoing)) (\<lambda>_.
           bind (emitBridgeEvent k) (\<lambda>_. return (n + 1))))))
         (c\<lparr>others := x, lastTXPoolID := Some (n + 1)\<rparr>) = Ok i c'"
    using run unfolding AddToOutgoingPool_def
    by (auto simp: bind_readonly [OF keeps_failIf] bind_readonly [OF keeps_coins(1)] failIf_Ok Int_Add_Ok
        bind_readonly [OF keeps_wrapErr [OF keeps_ClassifyDenom]] wrapErr_Ok
        bind_Ok [of "liftX _"] bind_Ok [of "autoIncrementID _"] liftX_Ok autoIncrementID_Ok split: option.splits)
  let ?tx = "new_tx (n + 1) sender receiver (Coin_Amount amount) (Coin_Amount fee) contract"
  have wf: "tx_wf k ?tx"
    using guard laws(3) by (simp add: tx_wf_def coin_laws_def new_tx_def)
  then have "bind (orPanic ''transaction already in pool'' (addUnbatchedTX k ?tx)) (\<lambda>_.
      bind (emitBridgeEvent k) (\<lambda>_. return (n + 1))) (c\<lparr>others := x, lastTXPoolID := Some (n + 1)\<rparr>) = Ok i c'"
    using rest tx_round_trip [OF laws(1,2) wf] laws(1)
    by (simp add: tx_wf_def InternalOutgoingTransferTx_ToExternal_def InternalERC20Token_ToExternal_def new_tx_def)
  then obtain key where "i = n + 1" "pool_key_of (Erc20Fee ?tx) (n + 1) = Some key" "\<not> kv_has (outgoingTXPool c) key"
      "c' = c\<lparr>others := x, lastTXPoolID := Some (n + 1),
          outgoingTXPool := kv_set key (InternalOutgoingTransferTx_ToExternal k ?tx) (outgoingTXPool c)\<rparr>"
    by (auto simp: bind_Ok orPanic_Ok addUnbatchedTX_Ok emitBridgeEvent_Ok new_tx_def)
  then show ?thesis
    using n cl send wf unfolding Let_def by blast
qed

text \<open>What entering the pool does to the outgoing state, and which transfer of coins it makes.\<close>

lemma entered:
  assumes laws: "geth_laws k" "bech32_laws k" "coin_laws k"
    and ok: "outgoing_ok k c" "lastTXPoolID c \<noteq> Some (- 1)"
    and run: "AddToOutgoingPool k sender receiver amount fee c = Ok i c'"
  shows "outgoing_ok k c' \<and>
    (\<exists>t. outstanding c' = add_mset t (outstanding c) \<and> ext_Id t = i \<and> i \<notin># image_mset ext_Id (outstanding c) \<and>
       ext_value t = Coin_Amount amount + Coin_Amount fee) \<and>
    SendCoinsFromAccountToModule k sender ModuleName
      [\<lparr>Coin_Denom = Coin_Denom amount, Coin_Amount = Coin_Amount amount + Coin_Amount fee\<rparr>] (others c) = Ok () (others c') \<and>
    (\<exists>n x pool. lastTXPoolID c = Some n \<and> i = n + 1 \<and> c' = c\<lparr>others := x, lastTXPoolID := Some (n + 1), outgoingTXPool := pool\<rparr>)"
proof -
  obtain n x contract key tx where n: "lastTXPoolID c = Some n" "i = n + 1"
    and send: "SendCoinsFromAccountToModule k sender ModuleName
      [\<lparr>Coin_Denom = Coin_Denom amount, Coin_Amount = Coin_Amount amount + Coin_Amount fee\<rparr>] (others c) = Ok () x"
    and tx: "tx_wf k tx" "pool_key_of (Erc20Fee tx) (n + 1) = Some key" "\<not> kv_has (outgoingTXPool c) key"
      "c' = c\<lparr>others := x, lastTXPoolID := Some (n + 1),
          outgoingTXPool := kv_set key (InternalOutgoingTransferTx_ToExternal k tx) (outgoingTXPool c)\<rparr>"
    and new: "tx = new_tx (n + 1) sender receiver (Coin_Amount amount) (Coin_Amount fee) contract"
    using AddToOutgoingPool_Ok [OF laws(1-3) run] unfolding Let_def by blast
  let ?t = "InternalOutgoingTransferTx_ToExternal k tx"
  have "ext_Id ?t = n + 1" and val: "ext_value ?t = Coin_Amount amount + Coin_Amount fee"
    by (simp_all add: tx_value_def new new_tx_def) (simp add: InternalOutgoingTransferTx_ToExternal_def)
  note id = this(1)
  have pool: "pool_ok k c" and batches: "batches_ok k c"
    using ok(1) by (simp_all add: outgoing_ok_def)
  have "pool_mset c' = add_mset ?t (pool_mset c)"
    using pool_mset_add [OF _ tx(3)] pool by (simp add: tx(4) pool_ok_def pool_mset_def)
  then have out: "outstanding c' = add_mset ?t (outstanding c)"
    by (simp add: outstanding_split tx(4) batch_mset_def)
  have less: "n < n + 1"
    using ok(2) n(1) by (intro word_less_inc) auto
  have le: "\<forall>t \<in># outstanding c. ext_Id t \<le> n"
    using ok(1) n(1) by (auto simp: outgoing_ok_def counters_ok_alt)
  then have fresh: "i \<notin># image_mset ext_Id (outstanding c)"
    using less n(2) by (auto dest: leD)
  have "mset (map ext_Id (outstanding_list c')) = mset (map ext_Id (?t # outstanding_list c))"
    using out by (simp add: outstanding_def)
  then have uniq: "ids_unique c'"
    using ok(1) fresh n(2) mset_eq_imp_distinct_iff [of "map ext_Id (outstanding_list c')" "map ext_Id (?t # outstanding_list c)"]
    by (auto simp: ids_unique_def outgoing_ok_def outstanding_def id)
  have "ext_Id t \<le> n + 1" if "t \<in># outstanding c'" for t
    using that le less by (auto simp: out id intro: order.trans [OF _ less_imp_le])
  then have "counters_ok c'"
    using ok(1) unfolding outgoing_ok_def counters_ok_alt by (auto simp: tx(4))
  moreover have "pool_ok k c'"
    using pool_ok_add [OF laws(1,2) pool tx(1), of key] tx(2) by (simp add: tx(4) pool_ok_def new new_tx_def)
  moreover have "batches_ok k c'"
    using batches by (simp add: tx(4) batches_ok_def)
  ultimately have "outgoing_ok k c'"
    using uniq by (simp add: outgoing_ok_def)
  then show ?thesis
    using out fresh id val n send by (auto simp: tx(4))
qed


section \<open>Leaving the pool\<close>

lemma Refund_Ok:
  assumes ok: "pool_ok k c" and coin: "coin_laws k"
    and run: "RemoveFromOutgoingPoolAndRefund k txId sender c = Ok u c'"
  shows "\<exists>tx key origin x. Sender tx = sender \<and> TxId tx = txId \<and> pool_key_of (Erc20Fee tx) txId = Some key \<and>
    kv_get (outgoingTXPool c) key = Some (InternalOutgoingTransferTx_ToExternal k tx) \<and>
    ClassifyERC20 k (Contract (Erc20Token tx)) (c\<lparr>outgoingTXPool := kv_del key (outgoingTXPool c)\<rparr>) =
      Ok origin (c\<lparr>outgoingTXPool := kv_del key (outgoingTXPool c)\<rparr>) \<and>
    SendCoinsFromModuleToAccount k ModuleName sender
      (if tx_value tx = 0 then [] else [\<lparr>Coin_Denom = Denom origin, Coin_Amount = tx_value tx\<rparr>]) (others c) = Ok () x \<and>
    c' = c\<lparr>outgoingTXPool := kv_del key (outgoingTXPool c), others := x\<rparr>"
proof -
  obtain tx key where tx: "GetUnbatchedTxById k txId c = Ok tx c" "Sender tx = sender"
    and key: "pool_key_of (Erc20Fee tx) txId = Some key"
    and rest: "bind (wrapErr ''failed to classify ERC20 for refund'' (ClassifyERC20 k (Contract (Erc20Token tx)))) (\<lambda>refundOrigin.
       bind (NewCoin k (Denom refundOrigin) (Amount (Erc20Token tx))) (\<lambda>coin.
       bind (Int_Add k (Coin_Amount coin) (Amount (Erc20Fee tx))) (\<lambda>total.
       bind (sdk_NewCoins k [coin\<lparr>Coin_Amount := total\<rparr>]) (\<lambda>totalToRefundCoins.
       bind (wrapErr ''transfer vouchers''
             (liftX (SendCoinsFromModuleToAccount k ModuleName sender totalToRefundCoins))) (\<lambda>_.
         emitBridgeEvent k))))) (c\<lparr>outgoingTXPool := kv_del key (outgoingTXPool c)\<rparr>) = Ok u c'"
    using run unfolding RemoveFromOutgoingPoolAndRefund_def
    by (auto simp: bind_readonly [OF keeps_failIf] bind_readonly [OF keeps_wrapErr [OF keeps_GetUnbatchedTxById]]
        bind_readonly [OF keeps_attempt [OF keeps_GetUnbatchedTxByFeeAndId]] failIf_Ok wrapErr_Ok
        bind_Ok [of "mapErr _ _"] mapErr_Ok removeUnbatchedTX_Ok)
  note found = GetUnbatchedTxById_Ok [OF ok tx(1)]
  let ?d = "c\<lparr>outgoingTXPool := kv_del key (outgoingTXPool c)\<rparr>"
  obtain x origin coins where cls: "ClassifyERC20 k (Contract (Erc20Token tx)) ?d = Ok origin ?d"
    and valid: "Coin_IsValid k \<lparr>Coin_Denom = Denom origin, Coin_Amount = Amount (Erc20Token tx)\<rparr>"
    and coins: "NewCoins k [\<lparr>Coin_Denom = Denom origin, Coin_Amount = tx_value tx\<rparr>] = Some coins"
    and send: "SendCoinsFromModuleToAccount k ModuleName sender coins (others c) = Ok () x" "c' = ?d\<lparr>others := x\<rparr>"
    using rest unfolding bind_readonly [OF keeps_wrapErr [OF keeps_ClassifyERC20]]
    by (auto simp: bind_readonly [OF keeps_coins(1)] bind_readonly [OF keeps_coins(2)] bind_readonly [OF keeps_coins(3)]
        wrapErr_Ok Int_Add_Ok NewCoin_Ok sdk_NewCoins_Ok bind_Ok [of "wrapErr _ _"] liftX_Ok emitBridgeEvent_Ok tx_value_def)
  have "OutgoingTransferTx_ToInternal k (InternalOutgoingTransferTx_ToExternal k tx) = Inr tx"
    using found by blast
  then have "0 \<le> tx_value tx"
    using ToInternal_nonneg by (fastforce simp: tx_value_def)
  then have "coins = (if tx_value tx = 0 then [] else [\<lparr>Coin_Denom = Denom origin, Coin_Amount = tx_value tx\<rparr>])"
    using coin valid coins by (simp add: coin_laws_def)
  moreover have "TxId tx = txId" "kv_get (outgoingTXPool c) key = Some (InternalOutgoingTransferTx_ToExternal k tx)"
    using found key by auto
  ultimately show ?thesis
    using tx(2) key cls send by (intro exI [of _ tx] exI [of _ key] exI [of _ origin] exI [of _ x]) simp
qed

lemma ClassifyERC20_pool:
  "ClassifyERC20 k a (c\<lparr>outgoingTXPool := p\<rparr>) = Ok r (c\<lparr>outgoingTXPool := p\<rparr>) \<longleftrightarrow> ClassifyERC20 k a c = Ok r c"
  by (simp add: ClassifyERC20_def bind_Ok classifyCosmos_Ok classifyEth_Ok getERC20_Ok split: option.splits)

lemma refunded:
  assumes laws: "geth_laws k" "bech32_laws k" "coin_laws k" and ok: "outgoing_ok k c"
    and run: "RemoveFromOutgoingPoolAndRefund k txId sender c = Ok u c'"
  shows "outgoing_ok k c' \<and>
    (\<exists>x pool. c' = c\<lparr>outgoingTXPool := pool, others := x\<rparr>) \<and>
    (\<exists>t contract origin. pool_mset c = add_mset t (pool_mset c') \<and> outstanding c = add_mset t (outstanding c') \<and> ext_Id t = txId \<and>
       AccAddressFromBech32 k (ext_Sender t) = Inr sender \<and>
       NewEthAddress k (ERC20_Contract (ext_Erc20Token t)) = Inr contract \<and>
       ClassifyERC20 k contract c = Ok origin c \<and>
       SendCoinsFromModuleToAccount k ModuleName sender
         (if ext_value t = 0 then [] else [\<lparr>Coin_Denom = Denom origin, Coin_Amount = ext_value t\<rparr>]) (others c) = Ok () (others c'))"
proof -
  obtain tx key origin x where tx: "Sender tx = sender" "TxId tx = txId" "pool_key_of (Erc20Fee tx) txId = Some key"
      "kv_get (outgoingTXPool c) key = Some (InternalOutgoingTransferTx_ToExternal k tx)"
    and cls: "ClassifyERC20 k (Contract (Erc20Token tx)) c = Ok origin c"
    and send: "SendCoinsFromModuleToAccount k ModuleName sender
      (if tx_value tx = 0 then [] else [\<lparr>Coin_Denom = Denom origin, Coin_Amount = tx_value tx\<rparr>]) (others c) = Ok () x"
    and c': "c' = c\<lparr>outgoingTXPool := kv_del key (outgoingTXPool c), others := x\<rparr>"
    using Refund_Ok [OF _ laws(3) run] ok unfolding ClassifyERC20_pool outgoing_ok_def by blast
  let ?t = "InternalOutgoingTransferTx_ToExternal k tx"
  have pool: "pool_ok k c" and batches: "batches_ok k c"
    using ok by (simp_all add: outgoing_ok_def)
  have waiting: "pool_mset c = add_mset ?t (pool_mset c')"
    using pool_mset_del [OF _ tx(4)] pool by (simp add: c' pool_ok_def)
  then have out: "outstanding c = add_mset ?t (outstanding c')"
    by (simp add: outstanding_split c')
  have "counters_ok c'"
    using ok unfolding outgoing_ok_def counters_ok_alt out by (auto simp: c')
  moreover have "ids_unique c'"
    using ids_unique_subset [of c' c] out ok by (simp add: outgoing_ok_def)
  ultimately have "outgoing_ok k c'"
    using pool_ok_del [OF pool, of key] batches by (simp add: outgoing_ok_def c')
  moreover have "VerifyAddressFormat k sender = None"
    using run by (auto simp: RemoveFromOutgoingPoolAndRefund_def bind_Ok failIf_Ok)
  then have "AccAddressFromBech32 k (ext_Sender ?t) = Inr sender"
    using laws(2) tx(1) by (simp add: InternalOutgoingTransferTx_ToExternal_def bech32_laws_def)
  moreover have "NewEthAddress k (ERC20_Contract (ext_Erc20Token ?t)) = Inr (Contract (Erc20Token tx))" "ext_Id ?t = txId"
    using laws(1) tx(2) by (simp_all add: InternalOutgoingTransferTx_ToExternal_def InternalERC20Token_ToExternal_def)
  moreover have "\<exists>x pool. c' = c\<lparr>outgoingTXPool := pool, others := x\<rparr>"
    using c' by blast
  ultimately show ?thesis
    using waiting out cls send by (intro conjI exI [of _ ?t] exI [of _ "Contract (Erc20Token tx)"] exI [of _ origin]) (auto simp: c')
qed

text \<open>
  C17: a refund returns a transfer of the caller only: the transfer with that id leaves the outstanding
  transfers, its whole value moves from the module account back to its sender, in the denom the token
  is classified as, and the invariant is kept.
\<close>

theorem RemoveFromOutgoingPoolAndRefund_refunds:
  assumes laws: "geth_laws k" "bech32_laws k" "coin_laws k" "bank_laws k"
    and ok: "outgoing_ok k c" "sender \<noteq> GetModuleAddress k ModuleName"
    and run: "RemoveFromOutgoingPoolAndRefund k txId sender c = Ok u c'"
  shows "outgoing_ok k c' \<and>
    (\<exists>t contract origin. outstanding c = add_mset t (outstanding c') \<and> ext_Id t = txId \<and>
       AccAddressFromBech32 k (ext_Sender t) = Inr sender \<and>
       NewEthAddress k (ERC20_Contract (ext_Erc20Token t)) = Inr contract \<and>
       ClassifyERC20 k contract c = Ok origin c \<and>
       module_balance k c' (Denom origin) = module_balance k c (Denom origin) - ext_value t \<and>
       balance k c' sender (Denom origin) = balance k c sender (Denom origin) + ext_value t)"
proof -
  obtain t contract origin where eff: "outgoing_ok k c'" "outstanding c = add_mset t (outstanding c')" "ext_Id t = txId"
      "AccAddressFromBech32 k (ext_Sender t) = Inr sender" "NewEthAddress k (ERC20_Contract (ext_Erc20Token t)) = Inr contract"
      "ClassifyERC20 k contract c = Ok origin c"
    and send: "SendCoinsFromModuleToAccount k ModuleName sender
      (if ext_value t = 0 then [] else [\<lparr>Coin_Denom = Denom origin, Coin_Amount = ext_value t\<rparr>]) (others c) = Ok () (others c')"
    using refunded [OF laws(1-3) ok(1) run] by blast
  have "moved k (others c) (others c') {GetModuleAddress k ModuleName} {sender}
      (if ext_value t = 0 then [] else [\<lparr>Coin_Denom = Denom origin, Coin_Amount = ext_value t\<rparr>])"
    using laws(4) send by (rule bank_moves(2))
  then have "module_balance k c' (Denom origin) = module_balance k c (Denom origin) - ext_value t"
      "balance k c' sender (Denom origin) = balance k c sender (Denom origin) + ext_value t"
    using ok(2) by (auto simp: balance_def moved_def amount_in_def)
  with eff show ?thesis
    by blast
qed

section \<open>Execution\<close>

lemma foldM_value:
  "foldM (\<lambda>tx total. bind (Int_Add k (Amount (Erc20Token tx)) (Amount (Erc20Fee tx))) (\<lambda>v. Int_Add k total v)) txs acc s = Ok r t
     \<Longrightarrow> r = acc + sum_list (map tx_value txs)"
proof (induction txs arbitrary: acc)
  case (Cons tx txs)
  then have "foldM (\<lambda>tx total. bind (Int_Add k (Amount (Erc20Token tx)) (Amount (Erc20Fee tx))) (\<lambda>v. Int_Add k total v))
      txs (acc + tx_value tx) s = Ok r t"
    by (auto simp: bind_Ok [of "bind _ _"] bind_Ok [of "Int_Add _ _ _"] Int_Add_Ok tx_value_def)
  then show ?case
    using Cons.IH by fastforce
qed simp

text \<open>
  C15: when a batch of an Ethereum-originated token executes, exactly the value of its transfers (amounts
  and fees) is burned from the module account; for a cosmos-originated token the balance stays, because
  the coins remain locked behind their ERC20 representation.
\<close>

theorem OutgoingTxBatchExecuted_burns:
  assumes laws: "geth_laws k" "bech32_laws k" "coin_laws k" "bank_laws k"
    and ok: "outgoing_ok k c" "params_ok k c"
    and e: "kv_get (outgoingTXBatch c) (contract, BSE_BatchNonce claim) = Some e"
    and run: "OutgoingTxBatchExecuted k contract claim c = Ok u c'"
  shows "\<exists>origin. ClassifyERC20 k contract c = Ok origin c \<and>
    module_balance k c' (Denom origin) = module_balance k c (Denom origin) -
      (if Origin origin = AssetOriginEthereum then sum_list (map ext_value (ext_Transactions e)) else 0)"
proof -
  let ?txs = "Transactions (batch_internal k e)"
  obtain origin where origin: "ClassifyERC20 k contract c = Ok origin c"
    and burn: "burnExecuted k (batch_internal k e) origin c = Ok () (c\<lparr>others := others c'\<rparr>)"
    using Executed_Ok [OF laws(1,2) ok e run] by blast
  have "batches_ok k c"
    using ok(1) by (simp add: outgoing_ok_def)
  then have "ext_Transactions e = map (InternalOutgoingTransferTx_ToExternal k) ?txs"
    using arg_cong [OF batch_entry_okD(2) [OF batches_okD [OF _ e]], of k ext_Transactions]
    by (simp add: InternalOutgoingTxBatch_ToExternal_def)
  then have val: "sum_list (map ext_value (ext_Transactions e)) = sum_list (map tx_value ?txs)"
    by (simp add: comp_def)
  show ?thesis
  proof (cases "Origin origin = AssetOriginEthereum")
    case False
    then have "others c' = others c"
      using burn by (auto simp: burnExecuted_def dest: arg_cong [where f = others])
    then show ?thesis
      using origin False by (simp add: balance_def)
  next
    case True
    have foldro: "keeps I (foldM (\<lambda>tx total. bind (Int_Add k (Amount (Erc20Token tx)) (Amount (Erc20Fee tx)))
      (\<lambda>v. Int_Add k total v)) txs acc)" for I :: "'a ctx \<Rightarrow> bool" and txs acc
      by (intro keeps_rules)
    obtain coins where "Coin_IsValid k \<lparr>Coin_Denom = Denom origin, Coin_Amount = sum_list (map tx_value ?txs)\<rparr>"
        "NewCoins k [\<lparr>Coin_Denom = Denom origin, Coin_Amount = sum_list (map tx_value ?txs)\<rparr>] = Some coins"
      and send: "BurnCoins k ModuleName coins (others c) = Ok () (others c')"
      using burn True unfolding burnExecuted_def
      by (auto simp: bind_readonly [OF foldro] bind_readonly [OF keeps_coins(2)] bind_readonly [OF keeps_coins(3)]
          NewCoin_Ok sdk_NewCoins_Ok orPanic_Ok liftX_Ok dest!: foldM_value arg_cong [where f = others])
    then have "coins = (if sum_list (map tx_value ?txs) = 0 then []
        else [\<lparr>Coin_Denom = Denom origin, Coin_Amount = sum_list (map tx_value ?txs)\<rparr>])"
      using laws(3) by (simp add: coin_laws_def)
    then have "amount_in coins (Denom origin) = sum_list (map tx_value ?txs)"
      by (simp add: amount_in_def)
    moreover have "moved k (others c) (others c') {GetModuleAddress k ModuleName} {} coins"
      using laws(4) send by (rule bank_moves(5))
    ultimately show ?thesis
      using origin True val by (auto simp: balance_def moved_def)
  qed
qed

end
