(* ===== verification/DemoChain.thy ===== *)
theory DemoChain
  imports Escrow
begin

text \<open>
  A concrete instance of the dependencies: addresses print as lower-case hex, the bank is a table of
  balances, hashing keeps a prefix or everything.  The lemmas show that the laws the development assumes of go-ethereum,
  of the SDK and of the bank module hold for it, so they can hold together.  The witnesses evaluate
  the operations of the model on this instance.
\<close>

section \<open>Hex round trip\<close>

lemma fromHexChar_hexDigit: "unat n < 16 \<Longrightarrow> fromHexChar (hexDigit n) = Some n"
proof -
  assume n: "unat n < 16"
  have "list_all (\<lambda>i. fromHexChar (hexDigit (word_of_nat i)) = Some (word_of_nat i)) [0..<16]"
    by code_simp
  then have "\<And>i. i < 16 \<Longrightarrow> fromHexChar (hexDigit (word_of_nat i)) = Some (word_of_nat i)"
    unfolding list_all_iff by simp
  from this [OF n] show ?thesis
    by simp
qed

lemma nibbles: "push_bit 4 (drop_bit 4 b) OR (b AND 15) = (b :: byte)"
proof -
  have "push_bit 4 (drop_bit 4 b) OR take_bit 4 b = b"
    by (rule bit_eqI) (auto simp: bit_simps)
  then show ?thesis
    by (simp add: take_bit_eq_mask mask_eq_exp_minus_1)
qed

lemma DecodeString_EncodeToString [simp]: "DecodeString (EncodeToString bs) = Some bs"
  by (induction bs) (simp_all add: fromHexChar_hexDigit nibble_less nibbles)

section \<open>The instance\<close>

type_synonym bank = "(AccAddress \<times> string, int) kv"

definition demo_balance :: "bank \<Rightarrow> AccAddress \<Rightarrow> string \<Rightarrow> int" where
  "demo_balance x a d = (case kv_get x (a, d) of None \<Rightarrow> 0 | Some n \<Rightarrow> n)"

definition credit :: "AccAddress \<Rightarrow> Coin list \<Rightarrow> bank \<Rightarrow> bank" where
  "credit a cs x = fold (\<lambda>c x. kv_set (a, Coin_Denom c) (demo_balance x a (Coin_Denom c) + Coin_Amount c) x) cs x"

definition debit :: "AccAddress \<Rightarrow> Coin list \<Rightarrow> bank \<Rightarrow> bank" where
  "debit a cs x = credit a (map (\<lambda>c. c\<lparr>Coin_Amount := - Coin_Amount c\<rparr>) cs) x"

definition demo_move :: "AccAddress option \<Rightarrow> AccAddress option \<Rightarrow> Coin list \<Rightarrow> (bank, unit) op" where
  "demo_move src dst cs =
     bind (reads (\<lambda>x. case src of None \<Rightarrow> x | Some a \<Rightarrow> debit a cs x)) (\<lambda>x.
       if list_ex (\<lambda>c. Coin_Amount c < 0) cs
          \<or> (case src of None \<Rightarrow> False | Some a \<Rightarrow> list_ex (\<lambda>c. demo_balance x a (Coin_Denom c) < 0) cs)
       then fail (SdkErr ''ErrInsufficientFunds'')
       else modify (\<lambda>_. case dst of None \<Rightarrow> x | Some a \<Rightarrow> credit a cs x))"

definition demo_module :: "string \<Rightarrow> AccAddress" where
  "demo_module name = bytes_of_string name"

definition demo_verify :: "bytes \<Rightarrow> error option" where
  "demo_verify a =
     (if a = [] then Some (ErrorMsg ''addresses cannot be empty'')
      else if length a > 255 then Some (ErrorMsg ''address max length is 255'') else None)"

definition demo_parse :: "string \<Rightarrow> error + bytes" where
  "demo_parse s =
     (case DecodeString s of
        None \<Rightarrow> Inl (ErrorMsg ''decoding bech32 failed'')
      | Some a \<Rightarrow> (case demo_verify a of Some e \<Rightarrow> Inl e | None \<Rightarrow> Inr a))"

definition demo_print :: "bytes \<Rightarrow> string" where
  "demo_print a = EncodeToString a"

definition demo_denom :: "string \<Rightarrow> error option" where
  "demo_denom d = (if length d < 3 \<or> length d > 128 then Some (ErrorMsg ''invalid denom'') else None)"

definition demo_valid :: "Coin \<Rightarrow> bool" where
  "demo_valid c \<longleftrightarrow> demo_denom (Coin_Denom c) = None \<and> 0 \<le> Coin_Amount c"

fun demo_add :: "Coin \<Rightarrow> Coin list \<Rightarrow> Coin list" where
  "demo_add c [] = [c]"
| "demo_add c (d # cs) =
     (if Coin_Denom c = Coin_Denom d then d\<lparr>Coin_Amount := Coin_Amount d + Coin_Amount c\<rparr> # cs else d # demo_add c cs)"

definition demo_validator :: "ValAddress \<Rightarrow> Validator" where
  "demo_validator v = \<lparr>Operator = demo_print v, IsJailed = False, IsBonded = True, IsUnbonding = False, UnbondingHeight = 0,
     GetConsAddr = Inr (v @ [1]), ConsensusPower = 10\<rparr>"

definition demo_int :: "string \<Rightarrow> int option" where
  "demo_int s =
     (let neg = take 1 s = ''-''; t = (if neg then drop 1 s else s)
      in if list_all isDigit t \<and> t \<noteq> [] then Some (if neg then - int (decVal t) else int (decVal t)) else None)"

definition demo_power :: "ValAddress \<Rightarrow> error + 64 word" where
  "demo_power v = Inr (if v = [1] then 10 else if v = [2] then 20 else if v = [3] then 30 else 0)"

definition demo :: "bank Keeper" where
  "demo = \<lparr>
     HexToAddress = (\<lambda>s. case DecodeString (hexBody s) of None \<Rightarrow> 0 | Some bs \<Rightarrow> word_of_nat (be_val bs)),
     Hex = (\<lambda>a. ''0x'' @ EncodeToString (be_bytes 20 a)),
     BytesToAddress = (\<lambda>bs. word_of_nat (be_val bs)),
     IsHexAddress = (\<lambda>s. length (hexBody s) = 40 \<and> list_all isHexDigit (hexBody s)),
     AccAddressFromBech32 = demo_parse,
     AccAddress_String = demo_print,
     ValAddressFromBech32 = demo_parse,
     ValAddress_String = demo_print,
     DecodeAndConvert = (\<lambda>s. case demo_parse s of Inl e \<Rightarrow> Inl e | Inr a \<Rightarrow> Inr (''gravity'', a)),
     VerifyAddressFormat = demo_verify,
     ValidateDenom = demo_denom,
     Coin_IsValid = demo_valid,
     Coins_AmountOf = (\<lambda>cs d. sum_list (map Coin_Amount (filter (\<lambda>c. Coin_Denom c = d) cs))),
     Coins_Equal = (=),
     Coins_Add = (\<lambda>a b. Some (foldr demo_add b a)),
     Coins_Sub = (\<lambda>a b. let r = foldr demo_add (map (\<lambda>c. c\<lparr>Coin_Amount := - Coin_Amount c\<rparr>) b) a
       in if list_ex (\<lambda>c. Coin_Amount c < 0) r then None else Some (filter (\<lambda>c. Coin_Amount c \<noteq> 0) r)),
     NewCoins = (\<lambda>cs. if list_all demo_valid cs then Some (filter (\<lambda>c. Coin_Amount c \<noteq> 0) cs) else None),
     IntFits = (\<lambda>i. \<bar>i\<bar> < 2 ^ 256),
     DecFits = (\<lambda>i. \<bar>i\<bar> < 2 ^ 316),
     NewIntFromString = demo_int,
     LegacyNewDecFromStr = (\<lambda>s. case demo_int s of None \<Rightarrow> Inl (SdkErr ''invalid decimal'') | Some i \<Rightarrow> Inr (i * Dec_one)),
     ParseCoinNormalized = (\<lambda>s. Inl (SdkErr ''invalid coin'')),
     AbiPack = (\<lambda>_ _ vs. Inr (replicate 4 0 @ [word_of_nat (length vs)])),
     Keccak256Hash = take 32,
     tmhash_Sum = (\<lambda>b. b),
     ValidateSignatureValues = (\<lambda>_ _ _. True),
     SigToPub = (\<lambda>h s. Inr s),
     PubkeyToAddress = (\<lambda>p. word_of_nat (be_val (take 20 p))),
     GetBalance = (\<lambda>x a d. \<lparr>Coin_Denom = d, Coin_Amount = demo_balance x a d\<rparr>),
     GetSupply = (\<lambda>x d. \<lparr>Coin_Denom = d, Coin_Amount = sum_list (map snd (filter (\<lambda>e. snd (fst e) = d) (kv_asc x)))\<rparr>),
     GetDenomMetaData = (\<lambda>_ _. None),
     SetDenomMetaData = (\<lambda>_. return ()),
     Metadata_Validate = (\<lambda>_. None),
     GetAllBalances = (\<lambda>x a. map (\<lambda>e. \<lparr>Coin_Denom = snd (fst e), Coin_Amount = snd e\<rparr>)
       (filter (\<lambda>e. fst (fst e) = a \<and> 0 < snd e \<and> demo_denom (snd (fst e)) = None) (kv_asc x))),
     TotalSupply = (\<lambda>x. map (\<lambda>d. \<lparr>Coin_Denom = d, Coin_Amount = sum_list (map snd (filter (\<lambda>e. snd (fst e) = d) x))\<rparr>)
       (remdups (map (\<lambda>e. snd (fst e)) x))),
     MintDenom = (\<lambda>_. Inr ''ugraviton''),
     DeductFees = (\<lambda>a. demo_move (Some a) (Some (demo_module ''fee_collector''))),
     MintCoins = (\<lambda>m. demo_move None (Some (demo_module m))),
     BurnCoins = (\<lambda>m. demo_move (Some (demo_module m)) None),
     SendCoinsFromModuleToAccount = (\<lambda>m a. demo_move (Some (demo_module m)) (Some a)),
     SendCoinsFromAccountToModule = (\<lambda>a m. demo_move (Some a) (Some (demo_module m))),
     SendCoinsFromModuleToModule = (\<lambda>m n. demo_move (Some (demo_module m)) (Some (demo_module n))),
     GetModuleAccount = (\<lambda>m. return (demo_module m)),
     GetModuleAddress = demo_module,
     FeePool_Get = (\<lambda>_. Inr []),
     FeePool_Set = (\<lambda>_. return ()),
     DecCoins_Add = (\<lambda>a b. a @ b),
     DecCoins_AmountOf = (\<lambda>cs d. sum_list (map snd (filter (\<lambda>e. fst e = d) cs))),
     DecCoins_SafeSub = (\<lambda>a b. (a, b \<noteq> [])),
     NewDecCoinsFromCoins = map (\<lambda>c. (Coin_Denom c, Coin_Amount c)),
     GetLastTotalPower = (\<lambda>_. Inr 60),
     GetLastValidatorPower = (\<lambda>_. demo_power),
     GetBondedValidatorsByPower = (\<lambda>_. Inr (map demo_validator [[1], [2], [3]])),
     GetValidator = (\<lambda>_ v. if v \<in> set [[1], [2], [3]] then Inr (demo_validator v) else Inl (SdkErr ''ErrNoValidatorFound'')),
     StakingValidator = (\<lambda>_ v. if v \<in> set [[1], [2], [3]] then Inr (Some (demo_validator v)) else Inr None),
     StakingSlash = (\<lambda>_ _ _ _. return ()),
     StakingJail = (\<lambda>_. return ()),
     UnbondingTime = (\<lambda>_. Inr 0),
     ValidatorQueueIterator = (\<lambda>_ _ _. Inr []),
     SigningInfo_StartHeight = (\<lambda>_ _. Inr 0),
     NativeBech32Prefix = ''gravity'',
     proposalAuthority = ''gov'',
     auctionAuthority = ''gov'',
     json_Strings = (\<lambda>s. if s = ''[]'' then Inr [] else Inl (SdkErr ''invalid JSON'')),
     ibc_GetPort = (\<lambda>_. ''transfer''),
     ibc_GetChannel = (\<lambda>_ _ ch. ch = ''channel-1''),
     ibc_Transfer = (\<lambda>_. return ())\<rparr>"

section \<open>The laws hold\<close>

lemma geth_laws_demo [simp]: "geth_laws demo"
proof -
  have "unat a < 256 ^ 20" for a :: EthAddress
    using unsigned_less [of a, where 'a = nat] by simp
  then have "word_of_nat (be_val (be_bytes 20 a)) = a" for a :: EthAddress
    by (simp add: be_val_be_bytes)
  then show ?thesis
    by (simp add: geth_laws_def demo_def EncodeToString_hex length_EncodeToString)
qed

lemma bech32_laws_demo [simp]: "bech32_laws demo"
  by (simp add: bech32_laws_def demo_def demo_parse_def demo_print_def split: option.splits)

lemma coin_laws_demo [simp]: "coin_laws demo"
  by (simp add: coin_laws_def demo_def demo_valid_def)

lemma math_laws_demo [simp]: "math_laws demo"
proof -
  have "take 1 (natString 10 n) \<noteq> ''-''" for n
    using natString_digits [of n] isDigit_not_minus [of "CHR ''-''"] by (cases "natString 10 n") auto
  then have "demo_int (natString 10 n) = Some (int n)" "demo_int (''-'' @ natString 10 n) = Some (- int n)" for n
    using natString_digits [of n] by (simp_all add: demo_int_def Let_def)
  then show ?thesis
    by (simp add: math_laws_def demo_def decInt_def)
qed

lemma amount_in_simps [simp]:
  "amount_in [] d = 0" "amount_in (c # cs) d = (if Coin_Denom c = d then Coin_Amount c else 0) + amount_in cs d"
  by (simp_all add: amount_in_def)

lemma balance_credit:
  "demo_balance (credit a cs x) b d = demo_balance x b d + (if b = a then amount_in cs d else 0)"
  unfolding credit_def by (induction cs arbitrary: x) (auto simp: demo_balance_def)

lemma balance_debit:
  "demo_balance (debit a cs x) b d = demo_balance x b d - (if b = a then amount_in cs d else 0)"
proof -
  have "amount_in (map (\<lambda>c. c\<lparr>Coin_Amount := - Coin_Amount c\<rparr>) cs) d = - amount_in cs d"
    by (induction cs) simp_all
  then show ?thesis
    by (simp add: debit_def balance_credit)
qed

lemma demo_move_moved:
  assumes "demo_move src dst cs x = Ok u x'"
  shows "moved demo x x' (set_option src) (set_option dst) cs"
  using assms
  by (cases src; cases dst)
    (auto simp: demo_move_def moved_def demo_def balance_credit balance_debit split: if_splits)

lemma bank_laws_demo [simp]: "bank_laws demo"
proof -
  have ops: "SendCoinsFromAccountToModule demo a m = demo_move (Some a) (Some (GetModuleAddress demo m))"
    "SendCoinsFromModuleToAccount demo m a = demo_move (Some (GetModuleAddress demo m)) (Some a)"
    "SendCoinsFromModuleToModule demo m n = demo_move (Some (GetModuleAddress demo m)) (Some (GetModuleAddress demo n))"
    "MintCoins demo m = demo_move None (Some (GetModuleAddress demo m))"
    "BurnCoins demo m = demo_move (Some (GetModuleAddress demo m)) None" for a m n
    by (simp_all add: demo_def)
  show ?thesis
    unfolding bank_laws_def ops using demo_move_moved by fastforce
qed

section \<open>Evaluation\<close>

text \<open>
  Witnesses evaluate the operations with the simplifier.  The hex and bech32 forms stay symbolic: the
  round-trip lemmas cancel them.
\<close>

named_theorems demo_exec "definitions that evaluate an operation on the concrete instance"

fun is_Ok :: "('a, 's) outcome \<Rightarrow> bool" where
  "is_Ok (Ok _ _) = True"
| "is_Ok _ = False"

lemma is_OkE: "is_Ok r \<Longrightarrow> (\<And>a t. r = Ok a t \<Longrightarrow> P) \<Longrightarrow> P"
  by (cases r) simp_all

lemma demo_simps [simp]:
  "AccAddressFromBech32 demo = demo_parse" "AccAddress_String demo = demo_print"
  "ValAddressFromBech32 demo = demo_parse" "ValAddress_String demo = demo_print"
  "VerifyAddressFormat demo = demo_verify" "ValidateDenom demo = demo_denom" "Coin_IsValid demo = demo_valid"
  "NewCoins demo = (\<lambda>cs. if list_all demo_valid cs then Some (filter (\<lambda>c. Coin_Amount c \<noteq> 0) cs) else None)"
  "IntFits demo = (\<lambda>i. \<bar>i\<bar> < 2 ^ 256)" "GetDenomMetaData demo x d = None"
  "AbiPack demo n m vs = Inr (replicate 4 0 @ [word_of_nat (length vs)])"
  "GetModuleAddress demo = demo_module" "BurnCoins demo m = demo_move (Some (demo_module m)) None"
  "MintCoins demo m = demo_move None (Some (demo_module m))"
  "SendCoinsFromAccountToModule demo a m = demo_move (Some a) (Some (demo_module m))"
  "SendCoinsFromModuleToAccount demo m a = demo_move (Some (demo_module m)) (Some a)"
  "SendCoinsFromModuleToModule demo m n = demo_move (Some (demo_module m)) (Some (demo_module n))"
  "GetLastValidatorPower demo x = demo_power" "GetLastTotalPower demo x = Inr 60"
  "GetBondedValidatorsByPower demo x = Inr (map demo_validator [[1], [2], [3]])"
  "GetValidator demo x v = (if v \<in> set [[1], [2], [3]] then Inr (demo_validator v) else Inl (SdkErr ''ErrNoValidatorFound''))"
  by (simp_all add: demo_def)

lemma bank_error_laws_demo [simp]: "bank_error_laws demo"
proof -
  have "demo_move src dst cs x = Err e x' \<Longrightarrow> x' = x" for src dst cs x e x'
    by (auto simp: demo_move_def split: if_splits)
  moreover have "FeePool_Set demo p = return ()" for p
    by (simp add: demo_def)
  ultimately have "SendCoinsFromModuleToAccount demo m a cs x = Err e x' \<Longrightarrow> x' = x" "FeePool_Set demo p x = Ok () x' \<Longrightarrow> x' = x"
    for m a cs x e x' p
    by auto
  moreover have "GetModuleAddress demo ''distribution'' \<noteq> GetModuleAddress demo ModuleName"
    by (simp add: demo_module_def ModuleName_def bytes_of_string_def)
  moreover have "moved demo x x {} {} cs" for x cs
    by (simp add: moved_def)
  ultimately show ?thesis
    unfolding bank_error_laws_def by metis
qed

lemma demo_verify_ok [simp]: "demo_verify a = None \<longleftrightarrow> a \<noteq> [] \<and> length a \<le> 255"
  by (auto simp: demo_verify_def)

lemma demo_verify_None [simp]: "a \<noteq> [] \<Longrightarrow> length a \<le> 255 \<Longrightarrow> demo_verify a = None"
  by simp

lemma demo_parse_print [simp]: "a \<noteq> [] \<Longrightarrow> length a \<le> 255 \<Longrightarrow> demo_parse (demo_print a) = Inr a"
  by (simp add: demo_parse_def demo_print_def demo_verify_def)

lemma demo_denom_Gravity [simp]: "demo_denom (GravityDenom demo a) = None"
  by (simp add: demo_denom_def GravityDenom_def length_Hex GravityDenomPrefix_def GravityDenomSeparator_def)

lemma demo_balance_simps [simp]:
  "demo_balance [] a d = 0"
  "demo_balance ((key, n) # x) a d = (if key = (a, d) then n else demo_balance x a d)"
  by (simp_all add: demo_balance_def kv_get_def)

lemma GravityDenom_nonempty [simp]: "GravityDenom k a \<noteq> []"
  by (simp add: GravityDenom_def GravityDenomPrefix_def)

lemma kv_eval [demo_exec]:
  "kv_get [] key = None" "kv_get ((key', v) # s) key = (if key = key' then Some v else kv_get s key)"
  "kv_asc s = s" "kv_desc s = rev s" "kv_has s key = (kv_get s key \<noteq> None)"
  by (simp_all add: kv_get_def kv_simps)

lemmas monad_eval [demo_exec] = bind_def wrapErr_def mapErr_def orPanic_def attempt_def liftX_def

lemmas core_eval [demo_exec] = emitBridgeEvent_def GetBridgeContractAddress_def GetBridgeChainID_def
  MustGetParams_def GetParams_def Int_Add_def NewCoin_def sdk_NewCoins_def autoIncrementID_def getID_def setID_def
  poolKey_def pool_key_of_def FillBytes32_def demo_move_def balance_credit balance_debit demo_valid_def

lemma Classify_demo [simp]:
  assumes "kv_get (remappedERC20 c) a = None"
  shows "ClassifyDenom demo (GravityDenom demo a) c =
    Ok \<lparr>Origin = AssetOriginEthereum, IsRemapped = False, Denom = GravityDenom demo a, ERC20 = Some a\<rparr> c"
proof -
  obtain e where "Gravity2DenomToERC20 demo (GravityDenom demo a) = Inl e"
    by (simp add: Gravity2DenomToERC20_def GravityDenom_not_gravity2)
  then show ?thesis
    using assms
    by (simp add: ClassifyDenom_def IsRemappedERC20_def classifyEthOriginated_def AssertValid_def kv_has_def)
qed

lemma ClassifyERC20_demo [simp]:
  assumes "kv_get (remappedERC20 c) a = None" "kv_get (erc20ToDenom c) a = None"
  shows "ClassifyERC20 demo a c =
    Ok \<lparr>Origin = AssetOriginEthereum, IsRemapped = False, Denom = GravityDenom demo a, ERC20 = Some a\<rparr> c"
  using assms
  by (simp add: ClassifyERC20_def getCosmosOriginatedDenomForERC20_def IsRemappedERC20_def classifyEthOriginated_def
      AssertValid_def kv_has_def)

section \<open>A chain state\<close>

definition demo_params :: Params where
  "demo_params = \<lparr>GravityId = ''demo'', ContractSourceHash = [], BridgeEthereumAddress = Hex demo 1, BridgeChainId = 1,
     SignedValsetsWindow = 10, SignedBatchesWindow = 10, SignedLogicCallsWindow = 10, TargetBatchTimeout = 60000,
     AverageBlockTime = 5000, AverageEthereumBlockTime = 15000, SlashFractionValset = 0, SlashFractionBatch = 0,
     SlashFractionLogicCall = 0, UnbondSlashingValsetsWindow = 10, SlashFractionBadEthSignature = 0,
     ValsetReward = \<lparr>Coin_Denom = [], Coin_Amount = 0\<rparr>, BridgeActive = True, EthereumBlacklist = [],
     MinChainFeeBasisPoints = 2, ChainFeeAuctionPoolFraction = 0\<rparr>"

definition demo_auction :: AuctionParams where
  "demo_auction = \<lparr>AuctionLength = 10, MinBidFee = 5, NonAuctionableTokens = [''ugraviton''], BurnWinningBids = True,
     Enabled = True\<rparr>"

definition demo_ctx :: "bank ctx" where
  "demo_ctx = \<lparr>BlockHeight = 20, BlockTime = 100, ethAddressByValidator = [], validatorByEthAddress = [],
     valsetRequest = [], valsetConfirm = [], oracleAttestation = [], outgoingTXPool = [], outgoingTXBatch = [],
     batchConfirm = [], lastEventNonceByValidator = [], lastObservedEventNonce = None, lastTXPoolID = Some 0,
     lastOutgoingBatchID = Some 0, orchestratorAddress = [], outgoingLogicCall = [], outgoingLogicConfirm = [],
     lastObservedEthereumBlockHeight = Some \<lparr>CosmosBlockHeight = 10, EthereumBlockHeight = 5\<rparr>,
     denomToERC20 = [], erc20ToDenom = [], remappedERC20 = [], lastSlashedValsetNonce = None, latestValsetNonce = Some 0,
     lastSlashedBatchBlock = None, lastSlashedLogicCallBlock = None, lastUnBondingBlockHeight = None,
     pastEthSignatureCheckpoint = [], lastObservedValset = None, pendingIbcAutoForwards = [],
     paramsStore = Some demo_params, cosmosBridgeableTokens = [], nativeHrp = Some ''gravity'', hrpIbcRecords = [],
     auctionParams = Some demo_auction, auctionPeriod = Some \<lparr>StartBlockHeight = 15, EndBlockHeight = 25\<rparr>,
     auctionStore = [], auctionNonce = None,
     others = [(([1], GravityDenom demo 7), 1000)]\<rparr>"

lemma demo_ctx_fields [simp]:
  "BlockHeight demo_ctx = 20" "BlockTime demo_ctx = 100" "ethAddressByValidator demo_ctx = []"
  "validatorByEthAddress demo_ctx = []" "valsetRequest demo_ctx = []" "valsetConfirm demo_ctx = []"
  "oracleAttestation demo_ctx = []" "outgoingTXPool demo_ctx = []" "outgoingTXBatch demo_ctx = []"
  "batchConfirm demo_ctx = []" "lastEventNonceByValidator demo_ctx = []"
  "lastObservedEventNonce demo_ctx = None" "lastTXPoolID demo_ctx = Some 0"
  "lastOutgoingBatchID demo_ctx = Some 0" "orchestratorAddress demo_ctx = []" "outgoingLogicCall demo_ctx = []"
  "outgoingLogicConfirm demo_ctx = []"
  "lastObservedEthereumBlockHeight demo_ctx = Some \<lparr>CosmosBlockHeight = 10, EthereumBlockHeight = 5\<rparr>"
  "denomToERC20 demo_ctx = []" "erc20ToDenom demo_ctx = []" "remappedERC20 demo_ctx = []"
  "lastSlashedValsetNonce demo_ctx = None" "latestValsetNonce demo_ctx = Some 0"
  "lastSlashedBatchBlock demo_ctx = None" "lastSlashedLogicCallBlock demo_ctx = None"
  "lastUnBondingBlockHeight demo_ctx = None" "pastEthSignatureCheckpoint demo_ctx = []"
  "lastObservedValset demo_ctx = None" "pendingIbcAutoForwards demo_ctx = []"
  "paramsStore demo_ctx = Some demo_params" "cosmosBridgeableTokens demo_ctx = []"
  "nativeHrp demo_ctx = Some ''gravity''" "hrpIbcRecords demo_ctx = []"
  "auctionParams demo_ctx = Some demo_auction" "auctionStore demo_ctx = []" "auctionNonce demo_ctx = None"
  "auctionPeriod demo_ctx = Some \<lparr>StartBlockHeight = 15, EndBlockHeight = 25\<rparr>"
  "others demo_ctx = [(([1], GravityDenom demo 7), 1000)]"
  by (simp_all add: demo_ctx_def)

definition demo_coin :: "int \<Rightarrow> Coin" where
  "demo_coin n = \<lparr>Coin_Denom = GravityDenom demo 7, Coin_Amount = n\<rparr>"

definition demo_tx :: "uint64 \<Rightarrow> int \<Rightarrow> OutgoingTransferTx" where
  "demo_tx i fee = InternalOutgoingTransferTx_ToExternal demo (new_tx i [1] 9 100 fee 7)"

definition demo_bank :: "int \<Rightarrow> int \<Rightarrow> bank" where
  "demo_bank user escrow = [(([1], GravityDenom demo 7), user), ((demo_module ModuleName, GravityDenom demo 7), escrow)]"

text \<open>Two transfers wait in the pool.\<close>

definition pooled :: "bank ctx" where
  "pooled = demo_ctx\<lparr>others := demo_bank 786 214, lastTXPoolID := Some 2,
     outgoingTXPool := [((7, 5, 1), demo_tx 1 5), ((7, 9, 2), demo_tx 2 9)]\<rparr>"

text \<open>Two batches of one transfer each wait for their execution on Ethereum.\<close>

definition demo_batch :: "uint64 \<Rightarrow> int \<Rightarrow> InternalOutgoingTxBatch" where
  "demo_batch nonce fee = \<lparr>BatchNonce = nonce, BatchTimeout = 50, Transactions = [new_tx nonce [1] 9 100 fee 7],
     TokenContract = 7, CosmosBlockCreated = 15\<rparr>"

definition batched :: "bank ctx" where
  "batched = demo_ctx\<lparr>others := demo_bank 786 214, lastTXPoolID := Some 2, lastOutgoingBatchID := Some 2,
     outgoingTXBatch := [((7, 1), InternalOutgoingTxBatch_ToExternal demo (demo_batch 1 5)),
                      ((7, 2), InternalOutgoingTxBatch_ToExternal demo (demo_batch 2 9))]\<rparr>"

text \<open>Two of the three validators have registered their keys.\<close>

definition registered :: "bank ctx" where
  "registered = demo_ctx\<lparr>
     ethAddressByValidator := [([1], EthAddress_Bytes 11), ([2], EthAddress_Bytes 12)],
     validatorByEthAddress := [(11, [1]), (12, [2])],
     orchestratorAddress := [([21], [1]), ([22], [2])]\<rparr>"

end
