(* ===== verification/DelegateKeys.thy ===== *)
theory DelegateKeys
  imports Checkpoints
begin

text \<open>
  Delegated keys (\<open>x/gravity/keeper/keeper_delegate_key.go\<close> and the key iterations of \<open>keeper.go\<close>):
  the orchestrator account and the Ethereum key of each validator.
\<close>

section \<open>Orchestrator keys\<close>

definition SetOrchestratorValidator :: "'x Keeper \<Rightarrow> ValAddress \<Rightarrow> AccAddress \<Rightarrow> ('x, unit) gop" where
  "SetOrchestratorValidator k val orch =
     bind (panicIf (VerifyAddressFormat k val \<noteq> None) ''invalid val address'') (\<lambda>_.
     bind (panicIf (VerifyAddressFormat k orch \<noteq> None) ''invalid orch address'') (\<lambda>_.
       modify (\<lambda>ctx. ctx\<lparr>orchestratorAddress := kv_set orch val (orchestratorAddress ctx)\<rparr>)))"

text \<open>The address that comes with a false \<open>found\<close> is empty in both cases, so an option is enough.\<close>

definition GetOrchestratorValidatorAddr :: "'x Keeper \<Rightarrow> AccAddress \<Rightarrow> ('x, ValAddress option) gop" where
  "GetOrchestratorValidatorAddr k orch =
     (if VerifyAddressFormat k orch \<noteq> None then return None
      else reads (\<lambda>ctx. kv_get (orchestratorAddress ctx) orch))"

text \<open>
  A missing key gives the empty, non-nil address, which the code then looks up in the staking module.
\<close>

definition GetOrchestratorValidator :: "'x Keeper \<Rightarrow> AccAddress \<Rightarrow> ('x, Validator option) gop" where
  "GetOrchestratorValidator k orch =
     bind (GetOrchestratorValidatorAddr k orch) (\<lambda>valAddr.
       if VerifyAddressFormat k orch \<noteq> None then return None
       else reads (\<lambda>ctx. case GetValidator k (others ctx) (case valAddr of None \<Rightarrow> [] | Some v \<Rightarrow> v) of
              Inl _ \<Rightarrow> None | Inr validator \<Rightarrow> Some validator))"

section \<open>Ethereum keys\<close>

definition SetEthAddressForValidator :: "'x Keeper \<Rightarrow> ValAddress \<Rightarrow> EthAddress \<Rightarrow> ('x, unit) gop" where
  "SetEthAddressForValidator k validator ethAddr =
     bind (panicIf (VerifyAddressFormat k validator \<noteq> None) ''invalid validator address'') (\<lambda>_.
     bind (modify (\<lambda>ctx. ctx\<lparr>ethAddressByValidator :=
             kv_set validator (EthAddress_Bytes ethAddr) (ethAddressByValidator ctx)\<rparr>)) (\<lambda>_.
       modify (\<lambda>ctx. ctx\<lparr>validatorByEthAddress := kv_set ethAddr validator (validatorByEthAddress ctx)\<rparr>)))"

definition GetEthAddressByValidator :: "'x Keeper \<Rightarrow> ValAddress \<Rightarrow> ('x, EthAddress option) gop" where
  "GetEthAddressByValidator k validator =
     bind (panicIf (VerifyAddressFormat k validator \<noteq> None) ''invalid validator address'') (\<lambda>_.
       reads (\<lambda>ctx. case kv_get (ethAddressByValidator ctx) validator of
         None \<Rightarrow> None
       | Some ethAddr \<Rightarrow> (case NewEthAddressFromBytes k ethAddr of Inl _ \<Rightarrow> None | Inr addr \<Rightarrow> Some addr)))"

definition GetValidatorByEthAddress :: "'x Keeper \<Rightarrow> EthAddress \<Rightarrow> ('x, Validator option) gop" where
  "GetValidatorByEthAddress k ethAddr =
     reads (\<lambda>ctx. case kv_get (validatorByEthAddress ctx) ethAddr of
       None \<Rightarrow> None
     | Some valAddr \<Rightarrow> (case GetValidator k (others ctx) valAddr of Inl _ \<Rightarrow> None | Inr validator \<Rightarrow> Some validator))"

section \<open>Iteration\<close>

definition IterateEthAddressesByValidator ::
  "'x Keeper \<Rightarrow> (ValAddress \<Rightarrow> EthAddress \<Rightarrow> 'b \<Rightarrow> ('x, bool \<times> 'b) gop) \<Rightarrow> 'b \<Rightarrow> ('x, 'b) gop" where
  "IterateEthAddressesByValidator k cb acc =
     bind (reads (\<lambda>ctx. kv_asc (ethAddressByValidator ctx))) (\<lambda>entries.
       iterM (\<lambda>(key, val) a.
         bind (orPanic ''Unable to unmarshal EthAddress'' (lift (NewEthAddressFromBytes k val))) (\<lambda>value.
           cb key value a)) entries acc)"

definition IterateValidatorsByEthAddress ::
  "(EthAddress \<Rightarrow> ValAddress \<Rightarrow> 'b \<Rightarrow> ('x, bool \<times> 'b) gop) \<Rightarrow> 'b \<Rightarrow> ('x, 'b) gop" where
  "IterateValidatorsByEthAddress cb acc =
     bind (reads (\<lambda>ctx. kv_asc (validatorByEthAddress ctx))) (\<lambda>entries. iterM (\<lambda>(key, val). cb key val) entries acc)"

definition IterateValidatorsByOrchestratorAddress ::
  "(AccAddress \<Rightarrow> ValAddress \<Rightarrow> 'b \<Rightarrow> ('x, bool \<times> 'b) gop) \<Rightarrow> 'b \<Rightarrow> ('x, 'b) gop" where
  "IterateValidatorsByOrchestratorAddress cb acc =
     bind (reads (\<lambda>ctx. kv_asc (orchestratorAddress ctx))) (\<lambda>entries. iterM (\<lambda>(key, val). cb key val) entries acc)"

record MsgSetOrchestratorAddress =
  SOA_Validator :: string
  SOA_Orchestrator :: string
  SOA_EthAddress :: string

text \<open>The two Go maps are keyed by the validator's string form.\<close>

definition GetDelegateKeys :: "'x Keeper \<Rightarrow> ('x, MsgSetOrchestratorAddress list) gop" where
  "GetDelegateKeys k =
     bind (reads (\<lambda>ctx. kv_asc (ethAddressByValidator ctx))) (\<lambda>ethEntries.
     bind (foldM (\<lambda>(key, value) ethAddresses.
             bind (orPanic ''found invalid ethAddress'' (lift (NewEthAddressFromBytes k value))) (\<lambda>ethAddress.
             bind (panicIf (VerifyAddressFormat k key \<noteq> None) ''invalid valAddress in key'') (\<lambda>_.
               return (kv_set (ValAddress_String k key) ethAddress ethAddresses)))) ethEntries []) (\<lambda>ethAddresses.
     bind (reads (\<lambda>ctx. kv_asc (orchestratorAddress ctx))) (\<lambda>orchEntries.
     bind (foldM (\<lambda>(key, value) orchAddresses.
             bind (panicIf (VerifyAddressFormat k key \<noteq> None) ''invalid orchAddress in key'') (\<lambda>_.
             bind (panicIf (VerifyAddressFormat k value \<noteq> None) ''invalid val address stored for orchestrator'') (\<lambda>_.
               return (kv_set (ValAddress_String k value) (AccAddress_String k key) orchAddresses)))) orchEntries []) (\<lambda>orchAddresses.
     bind (foldM (\<lambda>(valAddr, ethAddr) result.
             case kv_get orchAddresses valAddr of
               None \<Rightarrow> panic ''Can't find address''
             | Some orch \<Rightarrow> return (result @ [\<lparr>SOA_Validator = valAddr, SOA_Orchestrator = orch, SOA_EthAddress = Hex k ethAddr\<rparr>]))
             (kv_asc ethAddresses) []) (\<lambda>result.
       return (sortSlice (\<lambda>a b. SOA_EthAddress a < SOA_EthAddress b) result))))))"

section \<open>Reading does not write\<close>

lemma keeps_delegate_readers [keeps_rules]:
  "keeps I (GetOrchestratorValidatorAddr k o1)" "keeps I (GetOrchestratorValidator k o1)"
  "keeps I (GetEthAddressByValidator k v)" "keeps I (GetValidatorByEthAddress k e)" "keeps I (GetDelegateKeys k)"
  unfolding GetOrchestratorValidatorAddr_def GetOrchestratorValidator_def GetEthAddressByValidator_def
    GetValidatorByEthAddress_def GetDelegateKeys_def
  by (intro keeps_rules)+

section \<open>Delegated keys are a bijection\<close>

text \<open>Each direction of the Ethereum-key index inverts the other.\<close>

definition eth_keys_ok :: "'x ctx \<Rightarrow> bool" where
  "eth_keys_ok c \<longleftrightarrow>
     (\<forall>v b. kv_get (ethAddressByValidator c) v = Some b \<longrightarrow>
        (\<exists>a. b = EthAddress_Bytes a \<and> kv_get (validatorByEthAddress c) a = Some v)) \<and>
     (\<forall>a v. kv_get (validatorByEthAddress c) a = Some v \<longrightarrow>
        kv_get (ethAddressByValidator c) v = Some (EthAddress_Bytes a))"

lemma SetEthAddress_Ok:
  "SetEthAddressForValidator k v a c = Ok u c' \<longleftrightarrow> VerifyAddressFormat k v = None \<and>
     c' = c\<lparr>ethAddressByValidator := kv_set v (EthAddress_Bytes a) (ethAddressByValidator c),
            validatorByEthAddress := kv_set a v (validatorByEthAddress c)\<rparr>"
  by (auto simp: SetEthAddressForValidator_def bind_Ok panicIf_Ok)

lemma SetOrchestrator_Ok:
  "SetOrchestratorValidator k v o1 c = Ok u c' \<longleftrightarrow> VerifyAddressFormat k v = None \<and> VerifyAddressFormat k o1 = None \<and>
     c' = c\<lparr>orchestratorAddress := kv_set o1 v (orchestratorAddress c)\<rparr>"
  by (auto simp: SetOrchestratorValidator_def bind_Ok panicIf_Ok)

lemma eth_keys_ok_set:
  assumes "eth_keys_ok c" "kv_get (ethAddressByValidator c) v = None" "kv_get (validatorByEthAddress c) a = None"
    and "SetEthAddressForValidator k v a c = Ok u c'"
  shows "eth_keys_ok c'"
  using assms unfolding SetEthAddress_Ok eth_keys_ok_def by auto (metis option.distinct(1))

end
