(* ===== verification/Valset.thy ===== *)
theory Valset
  imports Complex_Main CosmosOriginated DelegateKeys
begin

text \<open>
  Bridge validator sets: the types of \<open>x/gravity/types/validation.go\<close> and the keeper functions of
  \<open>keeper_valset.go\<close>.

  The theorems show that a generated validator set has at least one member, no duplicate Ethereum
  address, is ordered by power, has a total power of at most \<open>2^32\<close>, and that a stored set is never
  overwritten.
\<close>

section \<open>Bridge validators\<close>

definition InternalBridgeValidator_ValidateBasic ::
  "'a libs_scheme \<Rightarrow> InternalBridgeValidator \<Rightarrow> error option" where
  "InternalBridgeValidator_ValidateBasic k i =
     Wrap (EthAddress_ValidateBasic k (IEthereumAddress i)) ''ethereum address''"

definition NewInternalBridgeValidator ::
  "'a libs_scheme \<Rightarrow> BridgeValidator \<Rightarrow> error + InternalBridgeValidator" where
  "NewInternalBridgeValidator k bridgeValidator =
     bindE (wrapE ''invalid bridge validator eth address'' (NewEthAddress k (EthereumAddress bridgeValidator))) (\<lambda>ethAddr.
       let i = \<lparr>IPower = Power bridgeValidator, IEthereumAddress = ethAddr\<rparr>
       in case InternalBridgeValidator_ValidateBasic k i of
            Some e \<Rightarrow> Inl (Wrapped e ''invalid bridge validator'')
          | None \<Rightarrow> Inr i)"

definition BridgeValidator_ToInternal :: "'a libs_scheme \<Rightarrow> BridgeValidator \<Rightarrow> error + InternalBridgeValidator" where
  "BridgeValidator_ToInternal k b = NewInternalBridgeValidator k b"

definition BridgeValidators_ToInternal ::
  "'a libs_scheme \<Rightarrow> BridgeValidator list \<Rightarrow> error + InternalBridgeValidator list" where
  "BridgeValidators_ToInternal k b = mapE (\<lambda>v. wrapE ''member'' (NewInternalBridgeValidator k v)) b"

fun BridgeValidators_Equal :: "BridgeValidator list \<Rightarrow> BridgeValidator list \<Rightarrow> bool" where
  "BridgeValidators_Equal (b # bs) (c # cs) = (b = c \<and> BridgeValidators_Equal bs cs)"
| "BridgeValidators_Equal [] [] = True"
| "BridgeValidators_Equal _ _ = False"

definition InternalBridgeValidator_ToExternal ::
  "'a libs_scheme \<Rightarrow> InternalBridgeValidator \<Rightarrow> BridgeValidator" where
  "InternalBridgeValidator_ToExternal k i = \<lparr>Power = IPower i, EthereumAddress = Hex k (IEthereumAddress i)\<rparr>"

definition InternalBridgeValidators_ToExternal ::
  "'a libs_scheme \<Rightarrow> InternalBridgeValidator list \<Rightarrow> BridgeValidator list" where
  "InternalBridgeValidators_ToExternal k i = map (InternalBridgeValidator_ToExternal k) i"

definition validator_before :: "'a libs_scheme \<Rightarrow> InternalBridgeValidator \<Rightarrow> InternalBridgeValidator \<Rightarrow> bool" where
  "validator_before k a b \<longleftrightarrow>
     (if IPower a = IPower b then EthAddrLessThan k (IEthereumAddress a) (IEthereumAddress b)
      else IPower a > IPower b)"

definition InternalBridgeValidators_Sort ::
  "'a libs_scheme \<Rightarrow> InternalBridgeValidator list \<Rightarrow> InternalBridgeValidator list" where
  "InternalBridgeValidators_Sort k b = sortSlice (validator_before k) b"

text \<open>
  \<open>PowerDiff\<close> is computed with \<open>float64\<close>.  The summands are integers and every intermediate sum below
  \<open>2^53\<close> is exact, so the value is the quotient of the exact sum by \<open>math.MaxUint32\<close>, here a rational.
\<close>

definition powerChanges ::
  "'a libs_scheme \<Rightarrow> InternalBridgeValidator list \<Rightarrow> InternalBridgeValidator list \<Rightarrow> (string, 64 word) kv" where
  "powerChanges k b c =
     fold (\<lambda>bv powers.
       let key = Hex k (IEthereumAddress bv)
       in case kv_get powers key of
            Some val \<Rightarrow> kv_set key (val - IPower bv) powers
          | None \<Rightarrow> kv_set key (- IPower bv) powers) c
       (fold (\<lambda>bv powers. kv_set (Hex k (IEthereumAddress bv)) (IPower bv) powers) b [])"

definition PowerDiff :: "'a libs_scheme \<Rightarrow> InternalBridgeValidator list \<Rightarrow> InternalBridgeValidator list \<Rightarrow> rat" where
  "PowerDiff k b c =
     \<bar>of_int (sum_list (map (\<lambda>e. \<bar>sint (snd e)\<bar>) (kv_asc (powerChanges k b c)))) / 4294967295\<bar>"

definition TotalPower :: "InternalBridgeValidator list \<Rightarrow> uint64" where
  "TotalPower b = sum_list (map IPower b)"

definition HasDuplicates :: "'a libs_scheme \<Rightarrow> InternalBridgeValidator list \<Rightarrow> bool" where
  "HasDuplicates k b \<longleftrightarrow> length (remdups (map (\<lambda>v. Hex k (IEthereumAddress v)) b)) \<noteq> length b"

definition GetPowers :: "InternalBridgeValidator list \<Rightarrow> uint64 list" where
  "GetPowers b = map IPower b"

definition InternalBridgeValidators_ValidateBasic ::
  "'a libs_scheme \<Rightarrow> InternalBridgeValidator list \<Rightarrow> error option" where
  "InternalBridgeValidators_ValidateBasic k b =
     (if length b = 0 then Some ErrEmpty
      else case firstInvalid (InternalBridgeValidator_ValidateBasic k) ''member'' b of
        Some e \<Rightarrow> Some e
      | None \<Rightarrow> if HasDuplicates k b then Some (Wrapped ErrDuplicate ''addresses'') else None)"

section \<open>Validator sets\<close>

definition NewValset ::
  "'a libs_scheme \<Rightarrow> uint64 \<Rightarrow> uint64 \<Rightarrow> InternalBridgeValidator list \<Rightarrow> int \<Rightarrow> EthAddress \<Rightarrow> error + Valset" where
  "NewValset k nonce height members rewardAmount rewardToken =
     (case InternalBridgeValidators_ValidateBasic k members of
        Some e \<Rightarrow> Inl (Wrapped e ''invalid members'')
      | None \<Rightarrow>
          Inr \<lparr>Valset_Nonce = nonce,
               Valset_Members = map (InternalBridgeValidator_ToExternal k) (InternalBridgeValidators_Sort k members),
               Valset_Height = height, Valset_RewardAmount = rewardAmount, Valset_RewardToken = Hex k rewardToken\<rparr>)"

definition Valset_GetCheckpoint :: "'a libs_scheme \<Rightarrow> Valset \<Rightarrow> string \<Rightarrow> ('s, bytes) op" where
  "Valset_GetCheckpoint k v gravityIDstring =
     bind (orPanic ''string too long'' (lift (strToFixByteArray gravityIDstring))) (\<lambda>gravityID.
     bind (panicIf (ValidateEthAddress k (Valset_RewardToken v) \<noteq> None) ''invalid reward token'') (\<lambda>_.
     bind (orPanic ''Error packing checkpoint!''
             (lift (AbiPack k ''ValsetCheckpointABIJSON'' ''checkpoint''
               [AbiBytes32 gravityID,
                AbiBytes32 (copy32 (bytes_of_string ''checkpoint'')),
                AbiUint (sint (Valset_Nonce v)),
                AbiAddresses (map (\<lambda>m. HexToAddress k (EthereumAddress m)) (Valset_Members v)),
                AbiUints (map (\<lambda>m. sint (Power m)) (Valset_Members v)),
                AbiUint (Valset_RewardAmount v),
                AbiAddress (HexToAddress k (Valset_RewardToken v))]))) (\<lambda>packed.
       return (Keccak256Hash k (drop 4 packed)))))"

text \<open>\<open>Equal\<close> returns false together with an error that names the first difference.\<close>

definition Valset_Equal :: "Valset \<Rightarrow> Valset \<Rightarrow> error + bool" where
  "Valset_Equal v w =
     (if Valset_Height v \<noteq> Valset_Height w then Inl (Wrapped ErrInvalid ''valset heights mismatch'')
      else if Valset_Nonce v \<noteq> Valset_Nonce w then Inl (Wrapped ErrInvalid ''valset nonces mismatch'')
      else if Valset_RewardAmount v \<noteq> Valset_RewardAmount w then Inl (Wrapped ErrInvalid ''valset reward amounts mismatch'')
      else if Valset_RewardToken v \<noteq> Valset_RewardToken w then Inl (Wrapped ErrInvalid ''valset reward tokens mismatch'')
      else if \<not> BridgeValidators_Equal (Valset_Members v) (Valset_Members w) then Inl (Wrapped ErrInvalid ''valset members mismatch'')
      else Inr True)"

fun firstBadMember :: "'a libs_scheme \<Rightarrow> BridgeValidator list \<Rightarrow> error option" where
  "firstBadMember k [] = None"
| "firstBadMember k (m # ms) =
     (case BridgeValidator_ToInternal k m of Inl e \<Rightarrow> Some e | Inr _ \<Rightarrow> firstBadMember k ms)"

definition Valset_ValidateBasic :: "'a libs_scheme \<Rightarrow> Valset \<Rightarrow> error option" where
  "Valset_ValidateBasic k v =
     (if length (Valset_Members v) = 0 then Some (Wrapped ErrInvalidValset ''valset must have members'')
      else case firstBadMember k (Valset_Members v) of
        Some e \<Rightarrow> Some e
      | None \<Rightarrow>
          if Valset_RewardAmount v < 0 then Some (Wrapped ErrInvalidValset ''valset reward must not be negative'')
          else let cleanToken = TrimSpace (Valset_RewardToken v)
               in if Valset_RewardAmount v > 0 \<and> cleanToken = []
                  then Some (Wrapped ErrInvalidValset ''no valset reward denom for nonzero reward'')
                  else if cleanToken \<noteq> Valset_RewardToken v
                  then Some (Wrapped ErrInvalidValset ''reward token should be properly formatted'')
                  else None)"

fun Valsets_ValidateBasic :: "'a libs_scheme \<Rightarrow> Valset list \<Rightarrow> error option" where
  "Valsets_ValidateBasic k [] = None"
| "Valsets_ValidateBasic k (v # vs) =
     (case Valset_ValidateBasic k v of Some e \<Rightarrow> Some e | None \<Rightarrow> Valsets_ValidateBasic k vs)"

definition Valsets_Less :: "Valset \<Rightarrow> Valset \<Rightarrow> bool" where
  "Valsets_Less v w \<longleftrightarrow> Valset_Nonce v > Valset_Nonce w"

section \<open>The validator set store\<close>

definition StoreValset :: "Valset \<Rightarrow> ('x, unit) gop" where
  "StoreValset valset =
     bind (reads (\<lambda>ctx. kv_has (valsetRequest ctx) (Valset_Nonce valset))) (\<lambda>has.
       if has then panic ''Trying to overwrite existing valset!''
       else modify (\<lambda>ctx. ctx\<lparr>valsetRequest := kv_set (Valset_Nonce valset) valset (valsetRequest ctx)\<rparr>))"

definition HasValsetRequest :: "uint64 \<Rightarrow> ('x, bool) gop" where
  "HasValsetRequest nonce = reads (\<lambda>ctx. kv_has (valsetRequest ctx) nonce)"

definition DeleteValset :: "uint64 \<Rightarrow> ('x, unit) gop" where
  "DeleteValset nonce = modify (\<lambda>ctx. ctx\<lparr>valsetRequest := kv_del nonce (valsetRequest ctx)\<rparr>)"

definition CheckLatestValsetNonce :: "('x, bool) gop" where
  "CheckLatestValsetNonce = reads (\<lambda>ctx. latestValsetNonce ctx \<noteq> None)"

definition GetLatestValsetNonce :: "('x, uint64) gop" where
  "GetLatestValsetNonce =
     bind (reads latestValsetNonce) (\<lambda>n.
       case n of None \<Rightarrow> panic ''Valset nonce not initialized from genesis'' | Some nonce \<Rightarrow> return nonce)"

definition SetLatestValsetNonce :: "uint64 \<Rightarrow> ('x, unit) gop" where
  "SetLatestValsetNonce nonce =
     bind CheckLatestValsetNonce (\<lambda>has.
     bind (if has then bind GetLatestValsetNonce (\<lambda>n. return (n > nonce)) else return False) (\<lambda>decrement.
     bind (panicIf decrement ''Decrementing valset nonce!'') (\<lambda>_.
       modify (\<lambda>ctx. ctx\<lparr>latestValsetNonce := Some nonce\<rparr>))))"

definition GetValset :: "uint64 \<Rightarrow> ('x, Valset option) gop" where
  "GetValset nonce = reads (\<lambda>ctx. kv_get (valsetRequest ctx) nonce)"

definition IterateValsets :: "(uint64 \<Rightarrow> Valset \<Rightarrow> 'b \<Rightarrow> ('x, bool \<times> 'b) gop) \<Rightarrow> 'b \<Rightarrow> ('x, 'b) gop" where
  "IterateValsets cb acc =
     bind (reads (\<lambda>ctx. kv_desc (valsetRequest ctx))) (\<lambda>entries. iterM (\<lambda>(key, val). cb key val) entries acc)"

definition GetValsets :: "('x, Valset list) gop" where
  "GetValsets =
     bind (IterateValsets (\<lambda>_ val out. return (False, out @ [val])) []) (\<lambda>out.
       return (sortSlice Valsets_Less out))"

definition GetLatestValset :: "('x, Valset option) gop" where
  "GetLatestValset = bind GetLatestValsetNonce GetValset"

definition SetLastSlashedValsetNonce :: "uint64 \<Rightarrow> ('x, unit) gop" where
  "SetLastSlashedValsetNonce nonce = modify (\<lambda>ctx. ctx\<lparr>lastSlashedValsetNonce := Some nonce\<rparr>)"

definition GetLastSlashedValsetNonce :: "('x, uint64) gop" where
  "GetLastSlashedValsetNonce = reads (\<lambda>ctx. case lastSlashedValsetNonce ctx of None \<Rightarrow> 0 | Some n \<Rightarrow> n)"

definition SetLastUnBondingBlockHeight :: "uint64 \<Rightarrow> ('x, unit) gop" where
  "SetLastUnBondingBlockHeight h = modify (\<lambda>ctx. ctx\<lparr>lastUnBondingBlockHeight := Some h\<rparr>)"

definition GetLastUnBondingBlockHeight :: "('x, uint64) gop" where
  "GetLastUnBondingBlockHeight = reads (\<lambda>ctx. case lastUnBondingBlockHeight ctx of None \<Rightarrow> 0 | Some n \<Rightarrow> n)"

definition AfterValidatorBeginUnbonding :: "('x, unit) gop" where
  "AfterValidatorBeginUnbonding = bind (reads BlockHeight) SetLastUnBondingBlockHeight"

text \<open>The iterator covers the nonces from the last slashed one up to the latest one, ascending.\<close>

definition IterateValsetBySlashedValsetNonce ::
  "uint64 \<Rightarrow> (uint64 \<Rightarrow> Valset \<Rightarrow> 'b \<Rightarrow> ('x, bool \<times> 'b) gop) \<Rightarrow> 'b \<Rightarrow> ('x, 'b) gop" where
  "IterateValsetBySlashedValsetNonce lastSlashed cb acc =
     bind GetLatestValsetNonce (\<lambda>latest.
       let cutoffNonce = latest + 1
       in bind (reads (\<lambda>ctx. filter (\<lambda>e. lastSlashed \<le> fst e \<and> fst e < cutoffNonce) (kv_asc (valsetRequest ctx)))) (\<lambda>entries.
            iterM (\<lambda>(key, valset). cb key valset) entries acc))"

definition GetUnSlashedValsets :: "uint64 \<Rightarrow> ('x, Valset list) gop" where
  "GetUnSlashedValsets signedValsetsWindow =
     bind GetLastSlashedValsetNonce (\<lambda>lastSlashed.
     bind (reads BlockHeight) (\<lambda>blockHeight.
       IterateValsetBySlashedValsetNonce lastSlashed
         (\<lambda>_ valset out.
           return (False,
             if Valset_Nonce valset > lastSlashed \<and> \<not> (blockHeight < Valset_Height valset + signedValsetsWindow)
             then out @ [valset] else out)) []))"

section \<open>The current validator set\<close>

text \<open>
  \<open>big.Int\<close> division truncates and panics on zero; \<open>Uint64\<close> gives the low 64 bits of the absolute value.
\<close>

definition normalizeValidatorPower :: "uint64 \<Rightarrow> int \<Rightarrow> ('s, uint64) op" where
  "normalizeValidatorPower rawPower totalValidatorPower =
     bind (panicIf (totalValidatorPower = 0) ''division by zero'') (\<lambda>_.
       return (word_of_int ((uint rawPower * 4294967296) div \<bar>totalValidatorPower\<bar>)))"

text \<open>The loop of \<open>GetCurrentValset\<close> that collects the validators with an Ethereum key and their power.\<close>

definition collectValidator ::
  "'x Keeper \<Rightarrow> Validator \<Rightarrow> InternalBridgeValidator list \<times> int \<Rightarrow> ('x, InternalBridgeValidator list \<times> int) gop" where
  "collectValidator k validator acc =
     (case acc of (bridgeValidators, totalPower) \<Rightarrow>
       bind (wrapErr ''invalid validator address in current valset %v'' (lift (ValAddressFromBech32 k (Operator validator)))) (\<lambda>val.
       bind (check (Wrap (VerifyAddressFormat k val) ''invalid validator address in current valset %v'')) (\<lambda>_.
       bind (reads (\<lambda>ctx. GetLastValidatorPower k (others ctx) val)) (\<lambda>r.
       bind (wrapErr ''failed to get last validator power'' (lift r)) (\<lambda>power.
       bind (GetEthAddressByValidator k val) (\<lambda>ethAddr.
         case ethAddr of
           None \<Rightarrow> return (bridgeValidators, totalPower)
         | Some addr \<Rightarrow>
             bind (panicIf (sint power < 0) ''Uint64() out of bounds'') (\<lambda>_.
             bind (wrapErr ''discovered invalid eth address stored for validator %v''
                     (lift (NewInternalBridgeValidator k \<lparr>Power = power, EthereumAddress = Hex k addr\<rparr>))) (\<lambda>ibv.
             bind (Int_Add k totalPower (sint power)) (\<lambda>totalPower'.
               return (bridgeValidators @ [ibv], totalPower'))))))))))"

text \<open>The second half of \<open>GetCurrentValset\<close>: normalized powers, the reward and the new set.\<close>

definition valsetOf :: "'x Keeper \<Rightarrow> InternalBridgeValidator list \<Rightarrow> int \<Rightarrow> ('x, Valset) gop" where
  "valsetOf k bridgeValidators totalPower =
     bind (foldM (\<lambda>v out. bind (normalizeValidatorPower (IPower v) totalPower) (\<lambda>p.
             return (out @ [v\<lparr>IPower := p\<rparr>]))) bridgeValidators []) (\<lambda>members.
     bind (MustGetParams k) (\<lambda>params.
     bind (if \<not> Coin_IsValid k (ValsetReward params) \<or> Coin_Amount (ValsetReward params) = 0
           then return (Some (ZeroAddress k), 0)
           else RewardToERC20Lookup k (ValsetReward params)) (\<lambda>(rewardToken, rewardAmount).
     bind GetLatestValsetNonce (\<lambda>latest.
     bind (reads BlockHeight) (\<lambda>height.
       case rewardToken of
         None \<Rightarrow> panic ''nil pointer dereference''
       | Some token \<Rightarrow>
           wrapErr ''generated invalid valset''
             (lift (NewValset k (latest + 1) height members rewardAmount token)))))))"

definition GetCurrentValset :: "'x Keeper \<Rightarrow> ('x, Valset) gop" where
  "GetCurrentValset k =
     bind (reads (\<lambda>ctx. GetBondedValidatorsByPower k (others ctx))) (\<lambda>r.
       case r of
         Inl _ \<Rightarrow> fail ErrNoValidators
       | Inr validators \<Rightarrow>
           if length validators = 0 then fail ErrNoValidators
           else
             bind (foldM (collectValidator k) validators ([], 0)) (\<lambda>(bridgeValidators, totalPower).
               valsetOf k bridgeValidators totalPower))"

definition SetValsetRequest :: "'x Keeper \<Rightarrow> ('x, Valset) gop" where
  "SetValsetRequest k =
     bind (orPanic ''failed to get current valset'' (GetCurrentValset k)) (\<lambda>valset.
     bind (StoreValset valset) (\<lambda>_.
     bind (SetLatestValsetNonce (Valset_Nonce valset)) (\<lambda>_.
     bind (GetGravityID k) (\<lambda>gravityID.
     bind (Valset_GetCheckpoint k valset gravityID) (\<lambda>checkpoint.
     bind (SetPastEthSignatureCheckpoint checkpoint) (\<lambda>_.
     bind (emitBridgeEvent k) (\<lambda>_.
       return valset)))))))"

section \<open>Confirmations\<close>

definition valsetConfirmKey :: "'a libs_scheme \<Rightarrow> uint64 \<Rightarrow> AccAddress \<Rightarrow> ('s, uint64 \<times> AccAddress) op" where
  "valsetConfirmKey k nonce validator =
     (case VerifyAddressFormat k validator of
        Some e \<Rightarrow> panic ''invalid validator address''
      | None \<Rightarrow> return (nonce, validator))"

definition presetValsetConfirm :: "uint64 \<Rightarrow> MsgValsetConfirm \<Rightarrow> MsgValsetConfirm" where
  "presetValsetConfirm nonce m =
     m\<lparr>ValsetConfirm_Nonce := if ValsetConfirm_Nonce m = 0 then nonce else ValsetConfirm_Nonce m\<rparr>"

definition GetValsetConfirm :: "'x Keeper \<Rightarrow> uint64 \<Rightarrow> AccAddress \<Rightarrow> ('x, MsgValsetConfirm option) gop" where
  "GetValsetConfirm k nonce validator =
     (if VerifyAddressFormat k validator \<noteq> None then return None
      else bind (valsetConfirmKey k nonce validator) (\<lambda>key.
        reads (\<lambda>ctx. map_option (presetValsetConfirm nonce) (kv_get (valsetConfirm ctx) key))))"

definition SetValsetConfirm :: "'x Keeper \<Rightarrow> MsgValsetConfirm \<Rightarrow> ('x, uint64 \<times> AccAddress) gop" where
  "SetValsetConfirm k valsetConf =
     bind (orPanic ''invalid orchestrator'' (lift (AccAddressFromBech32 k (ValsetConfirm_Orchestrator valsetConf)))) (\<lambda>addr.
     bind (valsetConfirmKey k (ValsetConfirm_Nonce valsetConf) addr) (\<lambda>key.
     bind (modify (\<lambda>ctx. ctx\<lparr>valsetConfirm := kv_set key valsetConf (valsetConfirm ctx)\<rparr>)) (\<lambda>_.
       return key)))"

definition GetValsetConfirms :: "uint64 \<Rightarrow> ('x, MsgValsetConfirm list) gop" where
  "GetValsetConfirms nonce =
     reads (\<lambda>ctx. map (\<lambda>e. presetValsetConfirm nonce (snd e)) (filter (\<lambda>e. fst (fst e) = nonce) (kv_asc (valsetConfirm ctx))))"

text \<open>
  The confirms of one nonce are collected until the nonce changes; the key handed to the callback is the
  last key read.
\<close>

fun groupConfirms ::
  "((uint64 \<times> AccAddress) option \<Rightarrow> MsgValsetConfirm list \<Rightarrow> uint64 \<Rightarrow> 'b \<Rightarrow> ('x, bool \<times> 'b) gop) \<Rightarrow>
     ((uint64 \<times> AccAddress) \<times> MsgValsetConfirm) list \<Rightarrow> (uint64 \<times> AccAddress) option \<Rightarrow> MsgValsetConfirm list \<Rightarrow>
     uint64 \<Rightarrow> 'b \<Rightarrow> ('x, 'b) gop" where
  "groupConfirms cb [] key confirms nonce acc =
     (if length confirms \<noteq> 0 then bind (cb key confirms nonce acc) (\<lambda>(_, acc'). return acc') else return acc)"
| "groupConfirms cb ((key', confirm) # es) key confirms nonce acc =
     (if length confirms = 0 then groupConfirms cb es (Some key') [confirm] (ValsetConfirm_Nonce confirm) acc
      else if ValsetConfirm_Nonce confirm \<noteq> nonce then
        bind (cb (Some key') confirms nonce acc) (\<lambda>(stop, acc').
          if stop then return acc'
          else groupConfirms cb es (Some key') [confirm] (ValsetConfirm_Nonce confirm) acc')
      else groupConfirms cb es (Some key') (confirms @ [confirm]) nonce acc)"

definition IterateValsetConfirms ::
  "((uint64 \<times> AccAddress) option \<Rightarrow> MsgValsetConfirm list \<Rightarrow> uint64 \<Rightarrow> 'b \<Rightarrow> ('x, bool \<times> 'b) gop) \<Rightarrow> 'b \<Rightarrow> ('x, 'b) gop" where
  "IterateValsetConfirms cb acc =
     bind (reads (\<lambda>ctx. kv_desc (valsetConfirm ctx))) (\<lambda>entries. groupConfirms cb entries None [] 0 acc)"

definition DeleteValsetConfirms :: "'x Keeper \<Rightarrow> uint64 \<Rightarrow> ('x, unit) gop" where
  "DeleteValsetConfirms k nonce =
     bind (GetValsetConfirms nonce) (\<lambda>confirms.
       forM confirms (\<lambda>confirm.
         case AccAddressFromBech32 k (ValsetConfirm_Orchestrator confirm) of
           Inl _ \<Rightarrow> return ()
         | Inr orchestrator \<Rightarrow>
             bind (valsetConfirmKey k nonce orchestrator) (\<lambda>confirmKey.
             bind (reads (\<lambda>ctx. kv_has (valsetConfirm ctx) confirmKey)) (\<lambda>has.
               if has then modify (\<lambda>ctx. ctx\<lparr>valsetConfirm := kv_del confirmKey (valsetConfirm ctx)\<rparr>)
               else return ()))))"

section \<open>Reading does not write\<close>

lemma keeps_valset_readers [keeps_rules]:
  "keeps I GetLatestValsetNonce" "keeps I CheckLatestValsetNonce" "keeps I (GetValset n)"
  "keeps I (normalizeValidatorPower p t)" "keeps I (collectValidator k v acc)" "keeps I (GetValsets)"
  "keeps I (GetUnSlashedValsets w)" "keeps I (GetValsetConfirms n)" "keeps I GetLatestValset"
  unfolding GetLatestValsetNonce_def CheckLatestValsetNonce_def GetValset_def normalizeValidatorPower_def
    collectValidator_def GetValsets_def IterateValsets_def GetUnSlashedValsets_def GetLastSlashedValsetNonce_def
    IterateValsetBySlashedValsetNonce_def GetValsetConfirms_def GetLatestValset_def
  by (intro keeps_rules)+

lemma keeps_RewardToERC20Lookup [keeps_rules]: "keeps I (RewardToERC20Lookup k coin)"
  unfolding RewardToERC20Lookup_def by (intro keeps_rules keeps_ClassifyDenom)

lemma keeps_valsetOf [keeps_rules]: "keeps I (valsetOf k bs t)"
  unfolding valsetOf_def by (intro keeps_rules)

lemma keeps_GetCurrentValset [keeps_rules]: "keeps I (GetCurrentValset k)"
  unfolding GetCurrentValset_def by (intro keeps_rules)

lemma GetLatestValsetNonce_Ok:
  "GetLatestValsetNonce c = Ok n c' \<longleftrightarrow> latestValsetNonce c = Some n \<and> c' = c"
  by (auto simp: GetLatestValsetNonce_def split: option.splits)

section \<open>The power of a generated set\<close>

text \<open>The share of a validator, rounded down.\<close>

definition share :: "int \<Rightarrow> int \<Rightarrow> int" where
  "share tot p = p * 4294967296 div tot"

lemma share_le: "0 < tot \<Longrightarrow> tot * share tot p \<le> p * 4294967296"
  using div_mult_mod_eq [of "p * 4294967296" tot] pos_mod_sign [of tot "p * 4294967296"]
  unfolding share_def mult.commute [of tot] by linarith

lemma sum_share_le:
  assumes "0 < tot"
  shows "sum_list (map (share tot) ps) * tot \<le> 4294967296 * sum_list ps"
  using share_le [OF assms] by (induction ps) (simp_all add: algebra_simps add_mono)

lemma normalizeValidatorPower_Ok:
  "normalizeValidatorPower raw tot c = Ok p c' \<longleftrightarrow> tot \<noteq> 0 \<and> c' = c \<and> p = word_of_int (share \<bar>tot\<bar> (uint raw))"
  by (auto simp: normalizeValidatorPower_def bind_Ok panicIf_Ok share_def)

lemma normalize_all:
  assumes "foldM (\<lambda>v out. bind (normalizeValidatorPower (IPower v) tot) (\<lambda>p. return (out @ [v\<lparr>IPower := p\<rparr>]))) vs out c = Ok ms c'"
  shows "(vs \<noteq> [] \<longrightarrow> tot \<noteq> 0) \<and> c' = c \<and>
    ms = out @ map (\<lambda>v. v\<lparr>IPower := word_of_int (share \<bar>tot\<bar> (uint (IPower v)))\<rparr>) vs"
  using assms
proof (induction vs arbitrary: out)
  case (Cons v vs)
  then show ?case
    using Cons.IH [of "out @ [v\<lparr>IPower := word_of_int (share \<bar>tot\<bar> (uint (IPower v)))\<rparr>]"]
    by (auto simp: bind_Ok normalizeValidatorPower_Ok)
qed simp

text \<open>The key of each bonded validator, if it has one, and its power.\<close>

definition keyed :: "'x Keeper \<Rightarrow> 'x ctx \<Rightarrow> Validator \<Rightarrow> InternalBridgeValidator list" where
  "keyed k c validator =
     (case ValAddressFromBech32 k (Operator validator) of
        Inl _ \<Rightarrow> []
      | Inr val \<Rightarrow>
          (case (GetLastValidatorPower k (others c) val, GetEthAddressByValidator k val c) of
             (Inr p, Ok (Some addr) _) \<Rightarrow> [\<lparr>IPower = p, IEthereumAddress = addr\<rparr>]
           | _ \<Rightarrow> []))"

lemma uint_eq_sint: "0 \<le> sint w \<Longrightarrow> uint w = sint w" for w :: uint64
proof -
  assume "0 \<le> sint w"
  then have "\<not> bit (uint w) 63"
    by (simp add: sint_uint signed_take_bit_nonnegative_iff)
  moreover have "take_bit (Suc 63) (uint w) = uint w"
    using unsigned_less [of w, where 'a = int] by (intro take_bit_int_eq_self) simp_all
  ultimately show ?thesis
    unfolding take_bit_Suc_from_most by (simp add: sint_uint signed_take_bit_eq_if_positive)
qed

lemma collectValidator_Ok:
  assumes "geth_laws k" "collectValidator k validator (bs, t) c = Ok r c'"
  shows "c' = c \<and> r = (bs @ keyed k c validator, t + sum_list (map (\<lambda>b. uint (IPower b)) (keyed k c validator)))"
proof -
  have "c' = c"
    using assms(2) readonly_Ok [OF keeps_valset_readers(5)] by blast
  moreover obtain val p ethAddr where "ValAddressFromBech32 k (Operator validator) = Inr val"
      "GetLastValidatorPower k (others c) val = Inr p" "GetEthAddressByValidator k val c = Ok ethAddr c"
      and rest: "(case ethAddr of
           None \<Rightarrow> return (bs, t)
         | Some addr \<Rightarrow>
             bind (panicIf (sint p < 0) ''Uint64() out of bounds'') (\<lambda>_.
             bind (wrapErr ''discovered invalid eth address stored for validator %v''
                     (lift (NewInternalBridgeValidator k \<lparr>Power = p, EthereumAddress = Hex k addr\<rparr>))) (\<lambda>ibv.
             bind (Int_Add k t (sint p)) (\<lambda>totalPower'.
               return (bs @ [ibv], totalPower'))))) c = Ok r c'"
    using assms(2) unfolding collectValidator_def
    by (auto simp: bind_Ok [of "wrapErr _ _"] bind_Ok [of "check _"] wrapErr_Ok lift_Ok check_Ok
        bind_readonly [OF keeps_delegate_readers(3)])
  ultimately show ?thesis
    using assms(1)
    by (cases ethAddr)
      (auto simp: keyed_def bind_Ok panicIf_Ok wrapErr_Ok lift_Ok Int_Add_Ok NewInternalBridgeValidator_def
        InternalBridgeValidator_ValidateBasic_def Wrap_def uint_eq_sint)
qed

lemma collect_all:
  assumes "geth_laws k" "foldM (collectValidator k) vs (bs, t) c = Ok r c'"
  shows "c' = c \<and> r = (bs @ concat (map (keyed k c) vs), t + sum_list (map (\<lambda>b. uint (IPower b)) (concat (map (keyed k c) vs))))"
  using assms(2)
proof (induction vs arbitrary: bs t)
  case (Cons v vs)
  then obtain r1 where step: "collectValidator k v (bs, t) c = Ok r1 c" and rest: "foldM (collectValidator k) vs r1 c = Ok r c'"
    by (auto simp: bind_readonly [OF keeps_valset_readers(5)])
  show ?case
    using Cons.IH [of "bs @ keyed k c v" "t + sum_list (map (\<lambda>b. uint (IPower b)) (keyed k c v))"] rest
      collectValidator_Ok [OF assms(1) step] by (simp add: add.assoc)
qed simp

section \<open>Well-formed sets\<close>

lemma HasDuplicates_iff: "HasDuplicates k b \<longleftrightarrow> \<not> distinct (map (\<lambda>v. Hex k (IEthereumAddress v)) b)"
proof -
  have "length (remdups xs) = length xs \<longleftrightarrow> distinct xs" for xs :: "string list"
    by (metis distinct_remdups length_remdups_eq distinct_remdups_id)
  from this [of "map (\<lambda>v. Hex k (IEthereumAddress v)) b"] show ?thesis
    by (simp add: HasDuplicates_def)
qed

lemma validator_before_asym: "validator_before k a b \<Longrightarrow> \<not> validator_before k b a"
  by (auto simp: validator_before_def EthAddrLessThan_def split: if_splits)

lemma validator_before_negtrans:
  "\<not> validator_before k b a \<Longrightarrow> \<not> validator_before k c b \<Longrightarrow> \<not> validator_before k c a"
  by (auto simp: validator_before_def EthAddrLessThan_def split: if_splits)

lemma Sort_sorted: "sorted_wrt (\<lambda>a b. \<not> validator_before k b a) (InternalBridgeValidators_Sort k b)"
  unfolding InternalBridgeValidators_Sort_def
  by (rule sortSlice_sorted) (fact validator_before_asym, fact validator_before_negtrans)

lemma NewValset_Inr:
  "NewValset k nonce height members amount token = Inr v \<longleftrightarrow>
     members \<noteq> [] \<and> firstInvalid (InternalBridgeValidator_ValidateBasic k) ''member'' members = None \<and>
     distinct (map (\<lambda>m. Hex k (IEthereumAddress m)) members) \<and>
     v = \<lparr>Valset_Nonce = nonce,
           Valset_Members = map (InternalBridgeValidator_ToExternal k) (InternalBridgeValidators_Sort k members),
           Valset_Height = height, Valset_RewardAmount = amount, Valset_RewardToken = Hex k token\<rparr>"
  by (auto simp: NewValset_def InternalBridgeValidators_ValidateBasic_def HasDuplicates_iff split: option.splits if_splits)

definition scaled :: "InternalBridgeValidator list \<Rightarrow> InternalBridgeValidator list" where
  "scaled bs = (let tot = sum_list (map (\<lambda>b. uint (IPower b)) bs)
     in map (\<lambda>b. b\<lparr>IPower := word_of_int (share tot (uint (IPower b)))\<rparr>) bs)"

lemma valsetOf_Ok:
  assumes "valsetOf k bs (sum_list (map (\<lambda>b. uint (IPower b)) bs)) c = Ok v c'"
  shows "\<exists>n amount token. c' = c \<and> (bs \<noteq> [] \<longrightarrow> 0 < sum_list (map (\<lambda>b. uint (IPower b)) bs)) \<and>
    latestValsetNonce c = Some n \<and> NewValset k (n + 1) (BlockHeight c) (scaled bs) amount token = Inr v"
proof -
  let ?tot = "sum_list (map (\<lambda>b. uint (IPower b)) bs)"
  have pos: "0 \<le> ?tot"
    by (rule sum_list_nonneg_int) simp
  obtain ms p r n where
    ms: "foldM (\<lambda>v out. bind (normalizeValidatorPower (IPower v) ?tot) (\<lambda>p. return (out @ [v\<lparr>IPower := p\<rparr>]))) bs [] c = Ok ms c"
    and n: "latestValsetNonce c = Some n"
    and rest: "(case fst r of
         None \<Rightarrow> panic ''nil pointer dereference''
       | Some token \<Rightarrow>
           wrapErr ''generated invalid valset''
             (lift (NewValset k (n + 1) (BlockHeight c) ms (snd r) token))) c = Ok v c'"
    using assms unfolding valsetOf_def
    by (auto simp: bind_readonly [OF keeps_foldM [OF keeps_bind [OF keeps_valset_readers(4) keeps_return]]]
        bind_readonly [OF keeps_params(2)] bind_readonly [OF keeps_if [OF keeps_return keeps_RewardToERC20Lookup]]
        bind_readonly [OF keeps_valset_readers(1)] GetLatestValsetNonce_Ok case_prod_unfold)
  have "ms = scaled bs" "bs \<noteq> [] \<longrightarrow> 0 < ?tot"
    using normalize_all [OF ms] pos by (auto simp: scaled_def)
  then show ?thesis
    using n rest by (auto simp: wrapErr_Ok lift_Ok split: option.splits)
qed

lemma GetCurrentValset_Ok:
  assumes "geth_laws k" "GetCurrentValset k c = Ok v c'"
  shows "\<exists>vs n amount token. c' = c \<and> GetBondedValidatorsByPower k (others c) = Inr vs \<and>
    (concat (map (keyed k c) vs) \<noteq> [] \<longrightarrow> 0 < sum_list (map (\<lambda>b. uint (IPower b)) (concat (map (keyed k c) vs)))) \<and>
    latestValsetNonce c = Some n \<and>
    NewValset k (n + 1) (BlockHeight c) (scaled (concat (map (keyed k c) vs))) amount token = Inr v"
proof -
  obtain vs where vs: "GetBondedValidatorsByPower k (others c) = Inr vs"
    using assms(2) by (cases "GetBondedValidatorsByPower k (others c)") (auto simp: GetCurrentValset_def)
  then obtain r where r: "foldM (collectValidator k) vs ([], 0) c = Ok r c"
      and new: "valsetOf k (fst r) (snd r) c = Ok v c'"
    using assms(2) unfolding GetCurrentValset_def
    by (auto simp: bind_readonly [OF keeps_foldM [OF keeps_valset_readers(5)]] split: if_splits)
  let ?bs = "concat (map (keyed k c) vs)"
  have "r = (?bs, sum_list (map (\<lambda>b. uint (IPower b)) ?bs))"
    using collect_all [OF assms(1) r] by simp
  then show ?thesis
    using valsetOf_Ok [of k ?bs c v c'] new vs by auto
qed

lemma scaled_power:
  assumes "bs \<noteq> [] \<longrightarrow> 0 < sum_list (map (\<lambda>b. uint (IPower b)) bs)"
  shows "sum_list (map (\<lambda>b. uint (IPower b)) (scaled bs)) \<le> 2 ^ 32"
proof (cases "bs = []")
  case False
  let ?tot = "sum_list (map (\<lambda>b. uint (IPower b)) bs)"
  have pos: "0 < ?tot"
    using assms False by simp
  have "uint (word_of_int (share ?tot (uint (IPower b))) :: uint64) \<le> share ?tot (uint (IPower b))" for b
    using pos by (simp add: uint_word_of_int zmod_le_nonneg_dividend share_def pos_imp_zdiv_nonneg_iff)
  then have "sum_list (map (\<lambda>b. uint (IPower b)) (scaled bs)) \<le> sum_list (map (share ?tot) (map (\<lambda>b. uint (IPower b)) bs))"
    by (auto simp: scaled_def Let_def comp_def intro: sum_list_mono)
  moreover have "sum_list (map (share ?tot) (map (\<lambda>b. uint (IPower b)) bs)) * ?tot \<le> 4294967296 * ?tot"
    by (rule sum_share_le [OF pos])
  ultimately show ?thesis
    using pos by (simp add: mult_le_cancel_right)
qed (simp add: scaled_def)

lemma scaled_addresses [simp]: "map (\<lambda>b. Hex k (IEthereumAddress b)) (scaled bs) = map (\<lambda>b. Hex k (IEthereumAddress b)) bs"
  by (simp add: scaled_def Let_def comp_def)

lemma scaled_Nil: "scaled bs = [] \<longleftrightarrow> bs = []"
  by (simp add: scaled_def Let_def)

text \<open>
  C32: a generated validator set has the next nonce and the current height; its members are exactly the
  bonded validators that registered an Ethereum key, each once, ordered by power, and their normalized
  powers add up to at most \<open>2^32\<close>.
\<close>

theorem GetCurrentValset_correct:
  assumes "geth_laws k" "GetCurrentValset k c = Ok v c'"
  shows "c' = c \<and> latestValsetNonce c = Some (Valset_Nonce v - 1) \<and> Valset_Height v = BlockHeight c \<and>
    Valset_Members v \<noteq> [] \<and> distinct (map EthereumAddress (Valset_Members v)) \<and>
    sorted_wrt (\<lambda>a b. Power b \<le> Power a) (Valset_Members v) \<and>
    sum_list (map (\<lambda>m. uint (Power m)) (Valset_Members v)) \<le> 2 ^ 32 \<and>
    (\<exists>vs. GetBondedValidatorsByPower k (others c) = Inr vs \<and>
       mset (map EthereumAddress (Valset_Members v)) =
         mset (map (\<lambda>b. Hex k (IEthereumAddress b)) (concat (map (keyed k c) vs))))"
proof -
  obtain vs n amount token where c': "c' = c" and vs: "GetBondedValidatorsByPower k (others c) = Inr vs"
    and pos: "concat (map (keyed k c) vs) \<noteq> [] \<longrightarrow> 0 < sum_list (map (\<lambda>b. uint (IPower b)) (concat (map (keyed k c) vs)))"
    and n: "latestValsetNonce c = Some n"
    and new: "NewValset k (n + 1) (BlockHeight c) (scaled (concat (map (keyed k c) vs))) amount token = Inr v"
    using GetCurrentValset_Ok [OF assms] by blast
  let ?bs = "concat (map (keyed k c) vs)"
  let ?sorted = "InternalBridgeValidators_Sort k (scaled ?bs)"
  have v: "Valset_Members v = map (InternalBridgeValidator_ToExternal k) ?sorted" "Valset_Nonce v = n + 1"
    "Valset_Height v = BlockHeight c" "?bs \<noteq> []" and dist: "distinct (map (\<lambda>b. Hex k (IEthereumAddress b)) ?bs)"
    using new unfolding NewValset_Inr scaled_addresses scaled_Nil by simp_all
  have perm: "mset ?sorted = mset (scaled ?bs)"
    by (simp add: InternalBridgeValidators_Sort_def)
  have eth: "map EthereumAddress (Valset_Members v) = map (\<lambda>b. Hex k (IEthereumAddress b)) ?sorted"
    and pow: "map (\<lambda>m. uint (Power m)) (Valset_Members v) = map (\<lambda>b. uint (IPower b)) ?sorted"
    by (simp_all add: v InternalBridgeValidator_ToExternal_def)
  have "mset (map EthereumAddress (Valset_Members v)) = mset (map (\<lambda>b. Hex k (IEthereumAddress b)) ?bs)"
    unfolding eth mset_map perm by (simp flip: mset_map)
  moreover have "sum_list (map (\<lambda>m. uint (Power m)) (Valset_Members v)) \<le> 2 ^ 32"
    using scaled_power [OF pos] unfolding pow sum_mset_sum_list [symmetric] mset_map perm .
  moreover have "sorted_wrt (\<lambda>a b. Power b \<le> Power a) (Valset_Members v)"
    using Sort_sorted [of k "scaled ?bs"]
    by (auto simp: v sorted_wrt_map InternalBridgeValidator_ToExternal_def validator_before_def not_less
        elim!: sorted_wrt_mono_rel [rotated] split: if_splits)
  moreover have "distinct (map EthereumAddress (Valset_Members v))"
    using calculation(1) dist by (metis mset_eq_imp_distinct_iff)
  moreover have "Valset_Members v \<noteq> []"
    using calculation(1) v(4) by (metis mset_zero_iff Nil_is_map_conv)
  ultimately show ?thesis
    using c' n vs v by auto
qed

section \<open>Storing a set\<close>

lemma StoreValset_Ok:
  "StoreValset v c = Ok u c' \<longleftrightarrow> kv_get (valsetRequest c) (Valset_Nonce v) = None \<and>
     c' = c\<lparr>valsetRequest := kv_set (Valset_Nonce v) v (valsetRequest c)\<rparr>"
  by (auto simp: StoreValset_def kv_has_def)

lemma SetLatestValsetNonce_Ok:
  "SetLatestValsetNonce n c = Ok u c' \<longleftrightarrow>
     (\<forall>m. latestValsetNonce c = Some m \<longrightarrow> m \<le> n) \<and> c' = c\<lparr>latestValsetNonce := Some n\<rparr>"
  by (auto simp: SetLatestValsetNonce_def CheckLatestValsetNonce_def GetLatestValsetNonce_def bind_Ok panicIf_Ok
      split: if_splits option.splits)

lemma SetPast_Ok: "SetPastEthSignatureCheckpoint cp c = Ok u c' \<longleftrightarrow>
    c' = c\<lparr>pastEthSignatureCheckpoint := kv_set (convertByteArrToString cp) [1] (pastEthSignatureCheckpoint c)\<rparr>"
  by (auto simp: SetPastEthSignatureCheckpoint_def)

lemma keeps_Valset_GetCheckpoint [keeps_rules]: "keeps I (Valset_GetCheckpoint k v g)"
  unfolding Valset_GetCheckpoint_def by (intro keeps_rules)

lemma Valset_GetCheckpoint_any:
  "Valset_GetCheckpoint k v g s = Ok cp s' \<Longrightarrow> Valset_GetCheckpoint k v g t = Ok cp t"
  by (auto simp: Valset_GetCheckpoint_def bind_Ok orPanic_Ok lift_Ok panicIf_Ok)

text \<open>
  C33: requesting a validator set stores it under the next nonce, which was free and becomes the latest
  one; every earlier set stays as it was, and the checkpoint that validators sign is archived.
\<close>

theorem SetValsetRequest_extends:
  assumes "geth_laws k" "SetValsetRequest k c = Ok v c'"
  shows "\<exists>n cp. latestValsetNonce c = Some n \<and> n < n + 1 \<and> Valset_Nonce v = n + 1 \<and> latestValsetNonce c' = Some (n + 1) \<and>
    kv_get (valsetRequest c) (n + 1) = None \<and>
    (\<forall>m. kv_get (valsetRequest c') m = (if m = n + 1 then Some v else kv_get (valsetRequest c) m)) \<and>
    GetCurrentValset k c = Ok v c \<and> GetPastEthSignatureCheckpoint cp c' = Ok True c' \<and>
    (\<exists>g. GetGravityID k c = Ok g c \<and> Valset_GetCheckpoint k v g c = Ok cp c)"
proof -
  let ?c1 = "c\<lparr>valsetRequest := kv_set (Valset_Nonce v) v (valsetRequest c)\<rparr>"
  let ?c2 = "?c1\<lparr>latestValsetNonce := Some (Valset_Nonce v)\<rparr>"
  obtain w where cur0: "GetCurrentValset k c = Ok w c" and run: "bind (StoreValset w) (\<lambda>_.
     bind (SetLatestValsetNonce (Valset_Nonce w)) (\<lambda>_.
     bind (GetGravityID k) (\<lambda>gravityID.
     bind (Valset_GetCheckpoint k w gravityID) (\<lambda>checkpoint.
     bind (SetPastEthSignatureCheckpoint checkpoint) (\<lambda>_.
     bind (emitBridgeEvent k) (\<lambda>_. return w)))))) c = Ok v c'"
    using assms(2) unfolding SetValsetRequest_def bind_readonly [OF keeps_orPanic [OF keeps_GetCurrentValset]] orPanic_Ok
    by blast
  have w: "w = v"
    using run unfolding bind_Ok return_run by blast
  have free: "kv_get (valsetRequest c) (Valset_Nonce v) = None"
    and mono: "\<forall>m. latestValsetNonce c = Some m \<longrightarrow> m \<le> Valset_Nonce v"
    and run2: "bind (GetGravityID k) (\<lambda>gravityID.
     bind (Valset_GetCheckpoint k w gravityID) (\<lambda>checkpoint.
     bind (SetPastEthSignatureCheckpoint checkpoint) (\<lambda>_.
     bind (emitBridgeEvent k) (\<lambda>_. return w)))) ?c2 = Ok v c'"
    using run unfolding bind_Ok [of "StoreValset _"] bind_Ok [of "SetLatestValsetNonce _"] StoreValset_Ok
      SetLatestValsetNonce_Ok w by auto
  obtain g cp where g: "GetGravityID k c = Ok g c" and cp: "Valset_GetCheckpoint k v g c = Ok cp c"
    and c': "c' = ?c2\<lparr>pastEthSignatureCheckpoint := kv_set (convertByteArrToString cp) [1] (pastEthSignatureCheckpoint c)\<rparr>"
    using run2 unfolding bind_Ok [of "GetGravityID _"] bind_readonly [OF keeps_Valset_GetCheckpoint] GetGravityID_Ok w
    by (auto simp: bind_step [OF SetPast_run] bind_Ok [of "emitBridgeEvent _"] emitBridgeEvent_Ok
        dest: Valset_GetCheckpoint_any [where t = c])
  have cur: "GetCurrentValset k c = Ok v c"
    using cur0 w by simp
  obtain n where n: "latestValsetNonce c = Some n" "Valset_Nonce v = n + 1"
    using GetCurrentValset_Ok [OF assms(1) cur] unfolding NewValset_Inr by auto
  have "n \<le> n + 1"
    using mono n by simp
  then have "n < n + 1"
    by (simp add: order_less_le)
  then show ?thesis
    using n free cur cp g c' by (intro exI [of _ n] exI [of _ cp]) auto
qed

section \<open>Confirmations are grouped by nonce\<close>

definition group_ok :: "MsgValsetConfirm list \<times> uint64 \<Rightarrow> bool" where
  "group_ok g \<longleftrightarrow> fst g \<noteq> [] \<and> list_all (\<lambda>m. ValsetConfirm_Nonce m = snd g) (fst g)"

lemma group_ok_pair: "group_ok (cs, n) \<longleftrightarrow> cs \<noteq> [] \<and> list_all (\<lambda>m. ValsetConfirm_Nonce m = n) cs"
  by (simp add: group_ok_def)

definition collectGroup ::
  "(uint64 \<times> AccAddress) option \<Rightarrow> MsgValsetConfirm list \<Rightarrow> uint64 \<Rightarrow> (MsgValsetConfirm list \<times> uint64) list \<Rightarrow>
     ('x, bool \<times> (MsgValsetConfirm list \<times> uint64) list) gop" where
  "collectGroup key confirms nonce out = return (False, out @ [(confirms, nonce)])"

lemma bind_collectGroup: "bind (collectGroup key confirms nonce out) f = f (False, out @ [(confirms, nonce)])"
  by (simp add: collectGroup_def)

lemma groupConfirms_collects:
  assumes "group_ok (cs, nonce)"
  shows "\<exists>gs. groupConfirms collectGroup es key cs nonce out c = Ok (out @ gs) c \<and>
    concat (map fst gs) = cs @ map snd es \<and> list_all group_ok gs \<and> gs \<noteq> [] \<and> snd (hd gs) = nonce \<and> distinct_adj (map snd gs)"
  using assms
proof (induction es arbitrary: key cs nonce out)
  case Nil
  then show ?case
    by (intro exI [of _ "[(cs, nonce)]"]) (simp add: group_ok_pair bind_collectGroup)
next
  case (Cons e es)
  obtain key' m where e: "e = (key', m)"
    by (cases e)
  show ?case
  proof (cases "ValsetConfirm_Nonce m = nonce")
    case True
    then show ?thesis
      using Cons.IH [of "cs @ [m]" nonce "Some key'" out] Cons.prems by (auto simp: e group_ok_pair)
  next
    case False
    from Cons.IH [of "[m]" "ValsetConfirm_Nonce m" "Some key'" "out @ [(cs, nonce)]"]
    obtain gs where gs: "groupConfirms collectGroup es (Some key') [m]
        (ValsetConfirm_Nonce m) (out @ [(cs, nonce)]) c = Ok (out @ [(cs, nonce)] @ gs) c"
      "concat (map fst gs) = m # map snd es" "list_all group_ok gs" "gs \<noteq> []" "snd (hd gs) = ValsetConfirm_Nonce m"
      "distinct_adj (map snd gs)"
      by (auto simp: group_ok_pair)
    then have "distinct_adj (map snd ((cs, nonce) # gs))"
      using False by (cases gs) auto
    then show ?thesis
      using gs Cons.prems False by (intro exI [of _ "(cs, nonce) # gs"]) (simp add: e group_ok_pair bind_collectGroup)
  qed
qed

text \<open>
  \<open>IterateValsetConfirms\<close> hands every stored confirmation to the callback exactly once, newest first:
  the groups, in order, make up the whole store, no group is empty, each has the nonce it is labelled
  with, and two consecutive groups have different nonces.
\<close>

theorem IterateValsetConfirms_partition:
  "\<exists>groups. IterateValsetConfirms collectGroup [] c = Ok groups c \<and>
     concat (map fst groups) = map snd (kv_desc (valsetConfirm c)) \<and>
     list_all group_ok groups \<and> distinct_adj (map snd groups)"
proof (cases "kv_desc (valsetConfirm c)")
  case (Cons e es)
  then show ?thesis
    using groupConfirms_collects [of "[snd e]" "ValsetConfirm_Nonce (snd e)" es "Some (fst e)" "[]" c]
    by (cases e) (auto simp: IterateValsetConfirms_def group_ok_pair)
qed (simp add: IterateValsetConfirms_def)

end
