(* ===== verification/Witnesses.thy ===== *)
theory Witnesses
  imports DemoChain Valset
begin

text \<open>
  The hypotheses of the theorems hold on concrete states: each witness applies its theorem to the
  instance of \<open>DemoChain\<close>.
\<close>

lemma demo_params_ok [simp]: "params_ok demo pooled" "params_ok demo batched" "params_ok demo demo_ctx"
  by (simp_all add: params_ok_def pooled_def batched_def demo_params_def)

lemma demo_tx_wf [simp]: "0 \<le> fee \<Longrightarrow> tx_wf demo (new_tx i [1] 9 100 fee 7)"
  by (simp add: tx_wf_def new_tx_def)

lemma demo_ToInternal [simp]:
  "0 \<le> fee \<Longrightarrow> OutgoingTransferTx_ToInternal demo (demo_tx i fee) = Inr (new_tx i [1] 9 100 fee 7)"
  unfolding demo_tx_def by (rule tx_round_trip) simp_all

lemma demo_batch_ToInternal [simp]:
  "0 \<le> fee \<Longrightarrow>
     OutgoingTxBatch_ToInternal demo (InternalOutgoingTxBatch_ToExternal demo (demo_batch i fee)) = Inr (demo_batch i fee)"
  by (rule batch_round_trip) (simp_all add: demo_batch_def)

lemma demo_batch_simps [simp]:
  "BatchNonce (demo_batch i fee) = i" "BatchTimeout (demo_batch i fee) = 50"
  "Transactions (demo_batch i fee) = [new_tx i [1] 9 100 fee 7]" "TokenContract (demo_batch i fee) = 7"
  by (simp_all add: demo_batch_def)

lemma demo_entry_simps [simp]:
  "ext_Id (demo_tx i fee) = i"
  "ext_Transactions (InternalOutgoingTxBatch_ToExternal demo (demo_batch i fee)) = [demo_tx i fee]"
  by (simp_all add: demo_tx_def new_tx_def InternalOutgoingTransferTx_ToExternal_def
      InternalOutgoingTxBatch_ToExternal_def demo_batch_def)

lemma demo_outgoing_ok [simp]: "outgoing_ok demo demo_ctx" "outgoing_ok demo pooled" "outgoing_ok demo batched"
proof -
  note defs = outgoing_ok_def pool_ok_def batches_ok_def ids_unique_def counters_ok_def outstanding_list_def kv_ok_def kv_simps
  show "outgoing_ok demo demo_ctx"
    by (simp add: defs)
  show "outgoing_ok demo pooled"
    by (simp add: defs pooled_def pool_entry_ok_def)
      (simp add: demo_tx_def pool_key_of_def FillBytes32_def new_tx_def)
  show "outgoing_ok demo batched"
    by (simp add: defs batched_def batch_entry_ok_def)
      (simp add: demo_batch_def pool_key_of_def FillBytes32_def new_tx_def)
qed

lemma demo_module_user [simp]: "demo_module ModuleName \<noteq> [1]" "[1] \<noteq> demo_module ModuleName"
  by (simp_all add: demo_module_def ModuleName_def bytes_of_string_def)

lemma demo_balance_of [simp]: "balance demo c a d = demo_balance (others c) a d"
  by (simp add: balance_def demo_def)

lemma ClassifyERC20_ClassifyDenom_witness:
  "\<exists>r. ClassifyERC20 demo 7 demo_ctx = Ok r demo_ctx \<and> ERC20 r = Some 7 \<and> ClassifyDenom demo (Denom r) demo_ctx = Ok r demo_ctx"
proof -
  have "mapping_wf demo demo_ctx"
    by (simp add: mapping_wf_def demo_exec)
  moreover have "is_Ok (ClassifyERC20 demo 7 demo_ctx)"
    by (simp add: demo_exec)
  ultimately show ?thesis
    using ClassifyERC20_ClassifyDenom [of demo demo_ctx 7] by (auto elim!: is_OkE)
qed


lemmas batch_eval = OutgoingTxBatchExecuted_def GetOutgoingTXBatch_def burnExecuted_def cancelOlder_def
  IterateOutgoingTxBatches_def CancelOutgoingTXBatch_def addUnbatchedTX_def DeleteBatch_def DeleteBatchConfirms_def
  IterateBatchConfirmByNonceAndTokenContract_def GetBatchConfirmByNonceAndTokenContract_def
  BuildOutgoingTXBatch_def RequireBridgeActive_def GetLastOutgoingBatchByTokenType_def GetOutgoingTxBatches_def
  requireProfitable_def pickUnbatchedTxs_def pickStep_def IterateUnbatchedTransactionsByContract_def
  filterAndIterateUnbatchedTransactions_def poolRange_def IsOnBlacklist_def removeUnbatchedTX_def GetUnbatchedTxByFeeAndId_def
  createBatch_def getBatchTimeoutHeight_def GetLastObservedEthereumBlockHeight_def NewInternalOutgingTxBatch_def StoreBatch_def
  GetGravityID_def InternalOutgoingTxBatch_GetCheckpoint_def SetPastEthSignatureCheckpoint_def strToFixByteArray_def
  RemoveFromOutgoingPoolAndRefund_def GetUnbatchedTxById_def IterateUnbatchedTransactions_def
  new_tx_def kv_del_def demo_bank_def Let_def InternalOutgoingTxBatch_ValidateBasic_def InternalOutgoingTransferTx_ValidateBasic_def
  InternalERC20Token_ValidateBasic_def

lemma batched_entry [simp]:
  "kv_get (outgoingTXBatch batched) (7, 1) = Some (InternalOutgoingTxBatch_ToExternal demo (demo_batch 1 5))"
  "kv_get (outgoingTXBatch batched) (7, 2) = Some (InternalOutgoingTxBatch_ToExternal demo (demo_batch 2 9))"
  by (simp_all add: batched_def kv_eval)


definition demo_executed :: MsgBatchSendToEthClaim where
  "demo_executed = \<lparr>BSE_EventNonce = 1, BSE_EthBlockHeight = 8, BSE_BatchNonce = 2, BSE_TokenContract = Hex demo 7,
     BSE_Orchestrator = demo_print [1]\<rparr>"

lemma demo_executed_run: "is_Ok (OutgoingTxBatchExecuted demo 7 demo_executed batched)"
  by (simp add: demo_executed_def batched_def demo_params_def batch_eval demo_exec)

lemma OutgoingTxBatchExecuted_effect_witness:
  "\<exists>u c'. OutgoingTxBatchExecuted demo 7 demo_executed batched = Ok u c' \<and>
     outstanding batched = {#demo_tx 2 9#} + outstanding c'"
proof -
  obtain u c' where run: "OutgoingTxBatchExecuted demo 7 demo_executed batched = Ok u c'"
    using demo_executed_run by (rule is_OkE)
  with OutgoingTxBatchExecuted_effect [OF _ _ _ _ _ run] show ?thesis
    by (simp add: demo_executed_def)
qed

lemma OutgoingTxBatchExecuted_burns_witness:
  "\<exists>u c'. OutgoingTxBatchExecuted demo 7 demo_executed batched = Ok u c' \<and>
     module_balance demo c' (GravityDenom demo 7) = 105"
proof -
  obtain u c' where run: "OutgoingTxBatchExecuted demo 7 demo_executed batched = Ok u c'"
    using demo_executed_run by (rule is_OkE)
  with OutgoingTxBatchExecuted_burns [OF _ _ _ _ _ _ _ run] show ?thesis
    by (simp add: demo_executed_def) (simp add: batched_def demo_bank_def kv_eval demo_tx_def tx_value_def new_tx_def)
qed

lemma demo_build_run: "is_Ok (BuildOutgoingTXBatch demo 7 1 pooled)"
  by (simp add: pooled_def demo_params_def batch_eval demo_exec)

lemma BuildOutgoingTXBatch_correct_witness:
  "\<exists>b c'. BuildOutgoingTXBatch demo 7 1 pooled = Ok b c' \<and> Transactions b = selectTxs demo 7 1 pooled"
proof -
  obtain b c' where run: "BuildOutgoingTXBatch demo 7 1 pooled = Ok b c'"
    using demo_build_run by (rule is_OkE)
  with BuildOutgoingTXBatch_correct [OF _ _ _ _ _ run] show ?thesis
    using demo_outgoing_ok(2) by (simp add: outgoing_ok_def)
qed

lemma BuildOutgoingTXBatch_most_profitable_witness:
  "\<exists>b c'. BuildOutgoingTXBatch demo 7 1 pooled = Ok b c' \<and> fee_of (new_tx 1 [1] 9 100 5 7) \<le> batch_fees b"
proof -
  obtain b c' where run: "BuildOutgoingTXBatch demo 7 1 pooled = Ok b c'"
    using demo_build_run by (rule is_OkE)
  have "new_tx 1 [1] 9 100 5 7 \<in># mset (eligible demo 7 pooled)"
    by (simp add: eligible_def pool_list_def pooled_def poolRange_def kv_eval internal_def is_blacklisted_def demo_params_def)
  then have "sum_list (map fee_of [new_tx 1 [1] 9 100 5 7]) \<le> batch_fees b"
    using demo_outgoing_ok(2) by (intro BuildOutgoingTXBatch_most_profitable [OF _ _ _ _ _ run]) (simp_all add: outgoing_ok_def)
  with run show ?thesis
    by simp
qed

lemma RemoveFromOutgoingPoolAndRefund_refunds_witness:
  "\<exists>u c'. RemoveFromOutgoingPoolAndRefund demo 1 [1] pooled = Ok u c' \<and> outgoing_ok demo c'"
proof -
  have "is_Ok (RemoveFromOutgoingPoolAndRefund demo 1 [1] pooled)"
    by (simp add: pooled_def demo_params_def batch_eval demo_exec)
  then obtain u c' where run: "RemoveFromOutgoingPoolAndRefund demo 1 [1] pooled = Ok u c'"
    by (rule is_OkE)
  with RemoveFromOutgoingPoolAndRefund_refunds [OF _ _ _ _ _ _ run] show ?thesis
    by simp
qed

section \<open>Validator sets\<close>

lemmas valset_eval = GetCurrentValset_def collectValidator_def GetEthAddressByValidator_def demo_validator_def demo_power_def
  NewInternalBridgeValidator_def InternalBridgeValidator_ValidateBasic_def Wrap_def valsetOf_def normalizeValidatorPower_def
  GetLatestValsetNonce_def NewValset_def InternalBridgeValidators_ValidateBasic_def HasDuplicates_def Hex_inject
  SetValsetRequest_def StoreValset_def SetLatestValsetNonce_def CheckLatestValsetNonce_def Valset_GetCheckpoint_def
  GetGravityID_def strToFixByteArray_def SetPastEthSignatureCheckpoint_def

lemma demo_valset_run: "is_Ok (GetCurrentValset demo registered)"
  by (simp add: registered_def demo_params_def valset_eval demo_denom_def demo_exec)

lemma GetCurrentValset_correct_witness:
  "\<exists>v. GetCurrentValset demo registered = Ok v registered \<and> length (Valset_Members v) = 2"
proof -
  obtain v c' where run: "GetCurrentValset demo registered = Ok v c'"
    using demo_valset_run by (rule is_OkE)
  have "mset (map EthereumAddress (Valset_Members v)) =
      mset (map (\<lambda>b. Hex demo (IEthereumAddress b)) (concat (map (keyed demo registered) (map demo_validator [[1], [2], [3]]))))"
    using GetCurrentValset_correct [OF _ run] by auto
  also have "size \<dots> = 2"
    by (simp add: keyed_def registered_def valset_eval demo_exec)
  finally show ?thesis
    using run GetCurrentValset_correct [OF _ run] by (simp flip: size_mset)
qed

lemma SetValsetRequest_extends_witness:
  "\<exists>v c'. SetValsetRequest demo registered = Ok v c' \<and> latestValsetNonce c' = Some 1 \<and> kv_get (valsetRequest c') 1 = Some v"
proof -
  have "is_Ok (SetValsetRequest demo registered)"
    by (simp add: registered_def demo_params_def valset_eval demo_denom_def demo_exec)
  then obtain v c' where run: "SetValsetRequest demo registered = Ok v c'"
    by (rule is_OkE)
  with SetValsetRequest_extends [OF _ run] show ?thesis
    by (auto simp: registered_def)
qed

end
