(* ===== verification/Bech32Ibc.thy ===== *)
theory Bech32Ibc
  imports CosmosOriginated
begin

text \<open>
  The bech32ibc module (\<open>x/bech32ibc\<close>): which IBC channel belongs to which foreign address prefix, and the
  bech32 helpers of \<open>x/gravity/types/types.go\<close> that use it.
\<close>

section \<open>Prefixes\<close>

definition toLowerASCII :: "char \<Rightarrow> char" where
  "toLowerASCII c = (if CHR ''A'' \<le> c \<and> c \<le> CHR ''Z'' then char_of (of_char c + (32 :: nat)) else c)"

definition ValidateHrp :: "string \<Rightarrow> error option" where
  "ValidateHrp hrp =
     (if hrp = [] then Some (Wrapped (SdkErr ''ErrInvalidHRP'') ''empty HRP'')
      else if list_ex (\<lambda>c. of_char c < (33 :: nat) \<or> of_char c > (126 :: nat)) hrp
      then Some (ErrorMsg ''invalid character in string'')
      else if hrp \<noteq> map toLowerASCII hrp then Some (ErrorMsg ''string not all lowercase'')
      else None)"

definition IBCAddressFromBech32 :: "'a libs_scheme \<Rightarrow> string \<Rightarrow> error + bytes" where
  "IBCAddressFromBech32 k bech32str =
     (if bech32str = [] then Inl ErrEmpty
      else bindE (DecodeAndConvert k bech32str) (\<lambda>(_, bz).
        case VerifyAddressFormat k bz of Some e \<Rightarrow> Inl e | None \<Rightarrow> Inr bz))"

definition GetPrefixFromBech32 :: "string \<Rightarrow> error + string" where
  "GetPrefixFromBech32 bech32str =
     (if length bech32str < 8 then Inl (ErrorMsg ''invalid bech32 string length'')
      else case LastIndexByte bech32str (CHR ''1'') of
        None \<Rightarrow> Inl (ErrorMsg ''invalid index of 1'')
      | Some one \<Rightarrow>
          if one < 1 \<or> one + 7 > length bech32str then Inl (ErrorMsg ''invalid index of 1'')
          else Inr (take one bech32str))"

section \<open>The keeper\<close>

definition GetNativeHrp :: "('x, string) gop" where
  "GetNativeHrp = bind (reads nativeHrp) (\<lambda>bz.
     case bz of None \<Rightarrow> fail (SdkErr ''ErrNoNativeHrp'') | Some hrp \<Rightarrow> return hrp)"

definition SetNativeHrp :: "string \<Rightarrow> ('x, unit) gop" where
  "SetNativeHrp hrp =
     bind (check (ValidateHrp hrp)) (\<lambda>_. modify (\<lambda>ctx. ctx\<lparr>nativeHrp := Some hrp\<rparr>))"

definition ValidateHrpIbcRecord :: "'x Keeper \<Rightarrow> HrpIbcRecord \<Rightarrow> ('x, unit) gop" where
  "ValidateHrpIbcRecord k record =
     bind (check (ValidateHrp (Hrp record))) (\<lambda>_.
     bind GetNativeHrp (\<lambda>native.
     bind (failIf (Hrp record = native) (Wrapped (SdkErr ''ErrInvalidHRP'') ''cannot set a record for the chain's native prefix'')) (\<lambda>_.
     bind (reads (\<lambda>ctx. ibc_GetChannel k (others ctx) (ibc_GetPort k (others ctx)) (SourceChannel record))) (\<lambda>found.
       failIf (\<not> found) (Wrapped (SdkErr ''ErrInvalidIBCData'') ''channel not found'')))))"

definition GetHrpIbcRecord :: "string \<Rightarrow> ('x, HrpIbcRecord) gop" where
  "GetHrpIbcRecord hrp =
     bind (reads (\<lambda>ctx. kv_get (hrpIbcRecords ctx) hrp)) (\<lambda>bz.
       case bz of
         None \<Rightarrow> fail (Wrapped (SdkErr ''ErrRecordNotFound'') ''hrp record not found'')
       | Some record \<Rightarrow> return record)"

definition GetHrpSourceChannel :: "string \<Rightarrow> ('x, string) gop" where
  "GetHrpSourceChannel hrp = bind (GetHrpIbcRecord hrp) (\<lambda>record. return (SourceChannel record))"

definition setHrpIbcRecord :: "HrpIbcRecord \<Rightarrow> ('x, unit) gop" where
  "setHrpIbcRecord hrpIbcRecord =
     bind (failIf (SourceChannel hrpIbcRecord = [])
             (Wrapped (SdkErr ''ErrInvalidIBCData'') ''cannot set an HRP IBC record with an empty source channel'')) (\<lambda>_.
       modify (\<lambda>ctx. ctx\<lparr>hrpIbcRecords := kv_set (Hrp hrpIbcRecord) hrpIbcRecord (hrpIbcRecords ctx)\<rparr>))"

definition deleteHrpIbcRecord :: "string \<Rightarrow> ('x, unit) gop" where
  "deleteHrpIbcRecord hrp =
     bind (reads (\<lambda>ctx. kv_has (hrpIbcRecords ctx) hrp)) (\<lambda>has.
       if \<not> has then fail (Wrapped (SdkErr ''ErrRecordNotFound'') ''hrp record not found'')
       else modify (\<lambda>ctx. ctx\<lparr>hrpIbcRecords := kv_del hrp (hrpIbcRecords ctx)\<rparr>))"

definition GetHrpIbcRecords :: "('x, HrpIbcRecord list) gop" where
  "GetHrpIbcRecords = reads (\<lambda>ctx. map snd (kv_asc (hrpIbcRecords ctx)))"

text \<open>\<open>GenesisState.Validate\<close> accepts everything.\<close>

definition GenesisState_Validate :: "string \<Rightarrow> HrpIbcRecord list \<Rightarrow> error option" where
  "GenesisState_Validate native records = None"

definition SetHrpIbcRecords :: "HrpIbcRecord list \<Rightarrow> ('x, unit) gop" where
  "SetHrpIbcRecords records =
     bind (orPanic ''native HRP not set'' GetNativeHrp) (\<lambda>nativePrefix.
     bind (panicIf (GenesisState_Validate nativePrefix records \<noteq> None) ''invalid hrp ibc records'') (\<lambda>_.
       forM records (\<lambda>record. orPanic ''failed to set hrp ibc record'' (setHrpIbcRecord record))))"

definition GetNativePrefixedAccAddressString :: "string \<Rightarrow> ('x, string) gop" where
  "GetNativePrefixedAccAddressString foreignStr =
     bind (wrapErr ''invalid bech32 string'' (lift (GetPrefixFromBech32 foreignStr))) (\<lambda>pref.
     bind (orPanic ''bech32ibc NativePrefix has not been registered!'' GetNativeHrp) (\<lambda>nativePrefix.
       if pref = nativePrefix then return foreignStr
       else return (nativePrefix @ drop (length pref) foreignStr)))"

section \<open>Proposals\<close>

record UpdateHrpIbcChannelProposal =
  Update_Hrp :: string
  Update_SourceChannel :: string
  Update_IcsToHeightOffset :: uint64
  Update_IcsToTimeOffset :: int

definition HandleUpdateHrpIbcChannelProposal :: "'x Keeper \<Rightarrow> UpdateHrpIbcChannelProposal \<Rightarrow> ('x, unit) gop" where
  "HandleUpdateHrpIbcChannelProposal k p =
     bind (check (ValidateHrp (Update_Hrp p))) (\<lambda>_.
     bind GetNativeHrp (\<lambda>native.
     bind (failIf (Update_Hrp p = native) (Wrapped (SdkErr ''ErrInvalidHRP'') ''cannot map an IBC channel for the native prefix'')) (\<lambda>_.
     bind (reads (\<lambda>ctx. ibc_GetChannel k (others ctx) (ibc_GetPort k (others ctx)) (Update_SourceChannel p))) (\<lambda>found.
     bind (failIf (\<not> found) (Wrapped (SdkErr ''ErrInvalidIBCData'') ''channel not found'')) (\<lambda>_.
       setHrpIbcRecord \<lparr>Hrp = Update_Hrp p, SourceChannel = Update_SourceChannel p,
         IcsToHeightOffset = Update_IcsToHeightOffset p, IcsToTimeOffset = Update_IcsToTimeOffset p\<rparr>)))))"

definition HandleDeleteHrpIbcChannelProposal :: "string \<Rightarrow> ('x, unit) gop" where
  "HandleDeleteHrpIbcChannelProposal hrp =
     bind (check (ValidateHrp hrp)) (\<lambda>_.
     bind GetNativeHrp (\<lambda>native.
     bind (failIf (hrp = native) (Wrapped (SdkErr ''ErrInvalidHRP'') ''cannot delete a record for the native prefix'')) (\<lambda>_.
       deleteHrpIbcRecord hrp)))"

datatype Bech32ProposalContent =
    UpdateContent UpdateHrpIbcChannelProposal
  | DeleteContent string
  | OtherContent

fun Bech32IBCProposalHandler :: "'x Keeper \<Rightarrow> Bech32ProposalContent \<Rightarrow> ('x, unit) gop" where
  "Bech32IBCProposalHandler k (UpdateContent p) = HandleUpdateHrpIbcChannelProposal k p"
| "Bech32IBCProposalHandler k (DeleteContent hrp) = HandleDeleteHrpIbcChannelProposal hrp"
| "Bech32IBCProposalHandler k OtherContent = fail (Wrapped (SdkErr ''ErrUnknownRequest'') ''unrecognized bech32 ibc proposal content type'')"

section \<open>Genesis\<close>

record Bech32GenesisState =
  NativeHRP :: string
  HrpIBCRecords :: "HrpIbcRecord list"

definition Bech32_InitGenesis :: "Bech32GenesisState \<Rightarrow> ('x, unit) gop" where
  "Bech32_InitGenesis genState =
     bind (orPanic ''failed to set native HRP'' (SetNativeHrp (NativeHRP genState))) (\<lambda>_.
       SetHrpIbcRecords (HrpIBCRecords genState))"

definition Bech32_ExportGenesis :: "('x, Bech32GenesisState) gop" where
  "Bech32_ExportGenesis =
     bind GetHrpIbcRecords (\<lambda>records.
     bind (orPanic ''no native HRP'' GetNativeHrp) (\<lambda>native.
       return \<lparr>NativeHRP = native, HrpIBCRecords = records\<rparr>))"

section \<open>Reading does not write\<close>

lemma keeps_hrp_readers [keeps_rules]:
  "keeps I GetNativeHrp" "keeps I (GetHrpIbcRecord h)" "keeps I GetHrpIbcRecords" "keeps I (GetHrpSourceChannel h)"
  "keeps I Bech32_ExportGenesis"
  unfolding GetNativeHrp_def GetHrpIbcRecord_def GetHrpIbcRecords_def GetHrpSourceChannel_def Bech32_ExportGenesis_def
  by (intro keeps_rules)+

lemma GetNativeHrp_Ok: "GetNativeHrp c = Ok h c' \<longleftrightarrow> c' = c \<and> nativeHrp c = Some h"
  by (auto simp: GetNativeHrp_def split: option.splits)

lemma GetHrpIbcRecord_Ok: "GetHrpIbcRecord h c = Ok r c' \<longleftrightarrow> c' = c \<and> kv_get (hrpIbcRecords c) h = Some r"
  by (auto simp: GetHrpIbcRecord_def split: option.splits)

section \<open>The registry\<close>

text \<open>Records are stored under their own valid prefix and never claim the native prefix.\<close>

definition hrp_ok :: "'x ctx \<Rightarrow> bool" where
  "hrp_ok c \<longleftrightarrow> kv_ok (hrpIbcRecords c) \<and>
     (\<forall>h r. kv_get (hrpIbcRecords c) h = Some r \<longrightarrow> Hrp r = h \<and> SourceChannel r \<noteq> [] \<and> ValidateHrp h = None) \<and>
     (\<forall>h. nativeHrp c = Some h \<longrightarrow> ValidateHrp h = None \<and> kv_get (hrpIbcRecords c) h = None)"

lemma HandleUpdate_Ok:
  "HandleUpdateHrpIbcChannelProposal k p c = Ok u c' \<longleftrightarrow>
     ValidateHrp (Update_Hrp p) = None \<and> (\<exists>h. nativeHrp c = Some h \<and> Update_Hrp p \<noteq> h) \<and>
     ibc_GetChannel k (others c) (ibc_GetPort k (others c)) (Update_SourceChannel p) \<and> Update_SourceChannel p \<noteq> [] \<and>
     c' = c\<lparr>hrpIbcRecords := kv_set (Update_Hrp p) \<lparr>Hrp = Update_Hrp p, SourceChannel = Update_SourceChannel p,
         IcsToHeightOffset = Update_IcsToHeightOffset p, IcsToTimeOffset = Update_IcsToTimeOffset p\<rparr> (hrpIbcRecords c)\<rparr>"
  by (auto simp: HandleUpdateHrpIbcChannelProposal_def setHrpIbcRecord_def bind_Ok check_Ok failIf_Ok GetNativeHrp_Ok)

lemma HandleDelete_Ok:
  "HandleDeleteHrpIbcChannelProposal h c = Ok u c' \<Longrightarrow> c' = c\<lparr>hrpIbcRecords := kv_del h (hrpIbcRecords c)\<rparr>"
  by (auto simp: HandleDeleteHrpIbcChannelProposal_def deleteHrpIbcRecord_def bind_Ok check_Ok failIf_Ok GetNativeHrp_Ok split: if_splits)

lemma proposal_Err:
  "Bech32IBCProposalHandler k content c = Err e c' \<Longrightarrow> c' = c"
  by (cases content) (auto simp: HandleUpdateHrpIbcChannelProposal_def HandleDeleteHrpIbcChannelProposal_def setHrpIbcRecord_def
      deleteHrpIbcRecord_def GetNativeHrp_def bind_Err check_Err check_Ok failIf_Err failIf_Ok split: option.splits if_splits)

text \<open>
  C37: every governance proposal keeps the prefix registry well-formed, on success and on error: a prefix keeps at most one
  record, stored under its own valid prefix with a channel that is not empty, and the native prefix is never mapped.
\<close>

theorem proposals_keep_registry: "keeps hrp_ok (Bech32IBCProposalHandler k content)"
proof (rule keepsI)
  show "hrp_ok t" if "hrp_ok s" "Bech32IBCProposalHandler k content s = Ok a t" for s a t
  proof (cases content)
    case (UpdateContent p)
    then show ?thesis
      using that by (auto simp: HandleUpdate_Ok hrp_ok_def)
  next
    case (DeleteContent h)
    then show ?thesis
      using that by (auto simp: hrp_ok_def dest!: HandleDelete_Ok split: if_splits)
  qed (use that in simp)
qed (auto dest: proposal_Err)

section \<open>Genesis round trip\<close>

lemma kv_set_last: "kv_ok (s @ [(h, r)]) \<Longrightarrow> kv_set h r s = s @ [(h, r)]"
proof (induction s)
  case (Cons p s)
  then have "fst p < h"
    by (simp add: kv_ok_Cons)
  with Cons show ?case
    by (cases p) (auto simp: kv_ok_Cons)
qed simp

lemma import_records:
  assumes "kv_ok (hrpIbcRecords c @ records)" "\<forall>p \<in> set records. Hrp (snd p) = fst p \<and> SourceChannel (snd p) \<noteq> []"
  shows "forM (map snd records) (\<lambda>record. orPanic msg (setHrpIbcRecord record)) c =
    Ok () (c\<lparr>hrpIbcRecords := hrpIbcRecords c @ records\<rparr>)"
  using assms
proof (induction records arbitrary: c)
  case (Cons p records)
  obtain h r where p: "p = (h, r)"
    by (cases p)
  have "kv_ok (hrpIbcRecords c @ [(h, r)])"
    using Cons.prems(1) by (simp add: p kv_ok_def sorted_wrt_append)
  then have "orPanic msg (setHrpIbcRecord r) c = Ok () (c\<lparr>hrpIbcRecords := hrpIbcRecords c @ [(h, r)]\<rparr>)"
    using Cons.prems(2) kv_set_last [of "hrpIbcRecords c" h r]
    by (auto simp: p orPanic_Ok setHrpIbcRecord_def bind_Ok failIf_Ok)
  then show ?case
    using Cons.IH [of "c\<lparr>hrpIbcRecords := hrpIbcRecords c @ [(h, r)]\<rparr>"] Cons.prems by (simp add: p bind_step)
qed simp

text \<open>
  Exporting the module's state and importing it into a chain state without records restores the native
  prefix and every record, and changes nothing else there.
\<close>

theorem bech32ibc_genesis_round_trip:
  assumes "hrp_ok c" "Bech32_ExportGenesis c = Ok g c'" "hrpIbcRecords d = []"
  shows "Bech32_InitGenesis g d = Ok () (d\<lparr>nativeHrp := nativeHrp c, hrpIbcRecords := hrpIbcRecords c\<rparr>)"
proof -
  obtain native where native: "nativeHrp c = Some native" and g: "g = \<lparr>NativeHRP = native, HrpIBCRecords = map snd (hrpIbcRecords c)\<rparr>"
    using assms(2) by (auto simp: Bech32_ExportGenesis_def GetHrpIbcRecords_def bind_Ok orPanic_Ok GetNativeHrp_Ok kv_asc_def)
  have ok: "kv_ok (hrpIbcRecords c)" "\<forall>p \<in> set (hrpIbcRecords c). Hrp (snd p) = fst p \<and> SourceChannel (snd p) \<noteq> []"
    using assms(1) kv_get_entries unfolding hrp_ok_def by (blast, metis prod.collapse)
  have "ValidateHrp native = None"
    using assms(1) native by (simp add: hrp_ok_def)
  moreover have "forM (map snd (hrpIbcRecords c)) (\<lambda>record. orPanic ''failed to set hrp ibc record'' (setHrpIbcRecord record))
      (d\<lparr>nativeHrp := Some native\<rparr>) = Ok () (d\<lparr>nativeHrp := Some native, hrpIbcRecords := hrpIbcRecords c\<rparr>)"
    using import_records [of "d\<lparr>nativeHrp := Some native\<rparr>" "hrpIbcRecords c"] ok assms(3) by simp
  ultimately show ?thesis
    by (simp add: Bech32_InitGenesis_def SetNativeHrp_def SetHrpIbcRecords_def GenesisState_Validate_def GetNativeHrp_def
        native g bind_def orPanic_def)
qed

end
