(* ===== verification/Claims.thy ===== *)
theory Claims
  imports Valset
begin

text \<open>
  Claims about events on Ethereum: the five claim messages of \<open>x/gravity/types/msgs.go\<close>, their hashes, the
  hashed components stored with an attestation (\<open>types/attestation.go\<close>) and the length limits of
  \<open>types/claim_limits.go\<close>.

  An \<open>Any\<close> that holds a claim is the claim itself; its type URL is the one of the claim's type.
\<close>

section \<open>The claim interface\<close>

fun GetEventNonce :: "EthereumClaim \<Rightarrow> uint64" where
  "GetEventNonce (SendToCosmosClaim m) = STC_EventNonce m"
| "GetEventNonce (BatchSendToEthClaim m) = BSE_EventNonce m"
| "GetEventNonce (ERC20DeployedClaim m) = ED_EventNonce m"
| "GetEventNonce (LogicCallExecutedClaim m) = LCE_EventNonce m"
| "GetEventNonce (ValsetUpdatedClaim m) = VU_EventNonce m"

fun GetEthBlockHeight :: "EthereumClaim \<Rightarrow> uint64" where
  "GetEthBlockHeight (SendToCosmosClaim m) = STC_EthBlockHeight m"
| "GetEthBlockHeight (BatchSendToEthClaim m) = BSE_EthBlockHeight m"
| "GetEthBlockHeight (ERC20DeployedClaim m) = ED_EthBlockHeight m"
| "GetEthBlockHeight (LogicCallExecutedClaim m) = LCE_EthBlockHeight m"
| "GetEthBlockHeight (ValsetUpdatedClaim m) = VU_EthBlockHeight m"

fun GetType :: "EthereumClaim \<Rightarrow> ClaimType" where
  "GetType (SendToCosmosClaim m) = CLAIM_TYPE_SEND_TO_COSMOS"
| "GetType (BatchSendToEthClaim m) = CLAIM_TYPE_BATCH_SEND_TO_ETH"
| "GetType (ERC20DeployedClaim m) = CLAIM_TYPE_ERC20_DEPLOYED"
| "GetType (LogicCallExecutedClaim m) = CLAIM_TYPE_LOGIC_CALL_EXECUTED"
| "GetType (ValsetUpdatedClaim m) = CLAIM_TYPE_VALSET_UPDATED"

fun claim_Orchestrator :: "EthereumClaim \<Rightarrow> string" where
  "claim_Orchestrator (SendToCosmosClaim m) = STC_Orchestrator m"
| "claim_Orchestrator (BatchSendToEthClaim m) = BSE_Orchestrator m"
| "claim_Orchestrator (ERC20DeployedClaim m) = ED_Orchestrator m"
| "claim_Orchestrator (LogicCallExecutedClaim m) = LCE_Orchestrator m"
| "claim_Orchestrator (ValsetUpdatedClaim m) = VU_Orchestrator m"

fun SetOrchestrator :: "'a libs_scheme \<Rightarrow> AccAddress \<Rightarrow> EthereumClaim \<Rightarrow> EthereumClaim" where
  "SetOrchestrator k orch (SendToCosmosClaim m) = SendToCosmosClaim (m\<lparr>STC_Orchestrator := AccAddress_String k orch\<rparr>)"
| "SetOrchestrator k orch (BatchSendToEthClaim m) = BatchSendToEthClaim (m\<lparr>BSE_Orchestrator := AccAddress_String k orch\<rparr>)"
| "SetOrchestrator k orch (ERC20DeployedClaim m) = ERC20DeployedClaim (m\<lparr>ED_Orchestrator := AccAddress_String k orch\<rparr>)"
| "SetOrchestrator k orch (LogicCallExecutedClaim m) = LogicCallExecutedClaim (m\<lparr>LCE_Orchestrator := AccAddress_String k orch\<rparr>)"
| "SetOrchestrator k orch (ValsetUpdatedClaim m) = ValsetUpdatedClaim (m\<lparr>VU_Orchestrator := AccAddress_String k orch\<rparr>)"

section \<open>Stateless checks\<close>

text \<open>\<open>firstError\<close> is a sequence of checks: the first error that occurs.\<close>

fun firstError :: "error option list \<Rightarrow> error option" where
  "firstError [] = None"
| "firstError (None # es) = firstError es"
| "firstError (Some e # es) = Some e"

definition badAddress :: "error + 'b \<Rightarrow> error option" where
  "badAddress r = (case r of Inl _ \<Rightarrow> Some (Wrapped (SdkErr ''ErrInvalidAddress'') []) | Inr _ \<Rightarrow> None)"

definition ifError :: "bool \<Rightarrow> string \<Rightarrow> error option" where
  "ifError b msg = (if b then Some (ErrorMsg msg) else None)"

definition MsgSendToCosmosClaim_ValidateBasic :: "'a libs_scheme \<Rightarrow> MsgSendToCosmosClaim \<Rightarrow> error option" where
  "MsgSendToCosmosClaim_ValidateBasic k m = firstError [
     Wrap (ValidateEthAddress k (STC_EthereumSender m)) ''eth sender'',
     Wrap (ValidateEthAddress k (STC_TokenContract m)) ''erc20 token'',
     badAddress (AccAddressFromBech32 k (STC_Orchestrator m)),
     ifError (STC_EventNonce m = 0) ''nonce == 0'']"

definition MsgBatchSendToEthClaim_ValidateBasic :: "'a libs_scheme \<Rightarrow> MsgBatchSendToEthClaim \<Rightarrow> error option" where
  "MsgBatchSendToEthClaim_ValidateBasic k e = firstError [
     ifError (BSE_EventNonce e = 0) ''event_nonce == 0'',
     ifError (BSE_BatchNonce e = 0) ''batch_nonce == 0'',
     Wrap (ValidateEthAddress k (BSE_TokenContract e)) ''erc20 token'',
     badAddress (AccAddressFromBech32 k (BSE_Orchestrator e))]"

definition MsgERC20DeployedClaim_ValidateBasic :: "'a libs_scheme \<Rightarrow> MsgERC20DeployedClaim \<Rightarrow> error option" where
  "MsgERC20DeployedClaim_ValidateBasic k e = firstError [
     Wrap (ValidateStrictDenom k (ED_CosmosDenom e)) ''cosmos denom'',
     Wrap (ValidateEthAddress k (ED_TokenContract e)) ''erc20 token'',
     badAddress (AccAddressFromBech32 k (ED_Orchestrator e)),
     ifError (ED_EventNonce e = 0) ''nonce == 0'']"

definition MsgLogicCallExecutedClaim_ValidateBasic :: "'a libs_scheme \<Rightarrow> MsgLogicCallExecutedClaim \<Rightarrow> error option" where
  "MsgLogicCallExecutedClaim_ValidateBasic k e = firstError [
     badAddress (AccAddressFromBech32 k (LCE_Orchestrator e)),
     ifError (LCE_EventNonce e = 0) ''nonce == 0'']"

definition MsgValsetUpdatedClaim_ValidateBasic :: "'a libs_scheme \<Rightarrow> MsgValsetUpdatedClaim \<Rightarrow> error option" where
  "MsgValsetUpdatedClaim_ValidateBasic k e = firstError ([
     badAddress (AccAddressFromBech32 k (VU_Orchestrator e)),
     ifError (VU_EventNonce e = 0) ''nonce == 0'',
     ValidateEthAddress k (VU_RewardToken e)]
     @ map (\<lambda>member. ValidateEthAddress k (EthereumAddress member)) (VU_Members e))"

fun EthereumClaim_ValidateBasic :: "'a libs_scheme \<Rightarrow> EthereumClaim \<Rightarrow> error option" where
  "EthereumClaim_ValidateBasic k (SendToCosmosClaim m) = MsgSendToCosmosClaim_ValidateBasic k m"
| "EthereumClaim_ValidateBasic k (BatchSendToEthClaim m) = MsgBatchSendToEthClaim_ValidateBasic k m"
| "EthereumClaim_ValidateBasic k (ERC20DeployedClaim m) = MsgERC20DeployedClaim_ValidateBasic k m"
| "EthereumClaim_ValidateBasic k (LogicCallExecutedClaim m) = MsgLogicCallExecutedClaim_ValidateBasic k m"
| "EthereumClaim_ValidateBasic k (ValsetUpdatedClaim m) = MsgValsetUpdatedClaim_ValidateBasic k m"

text \<open>Every claim's \<open>GetClaimer\<close> has the same body.\<close>

definition GetClaimer :: "'a libs_scheme \<Rightarrow> EthereumClaim \<Rightarrow> ('s, AccAddress) op" where
  "GetClaimer k claim =
     bind (panicIf (EthereumClaim_ValidateBasic k claim \<noteq> None) ''failed ValidateBasic! Should have been handled earlier'') (\<lambda>_.
       orPanic ''Invalid orchestrator'' (lift (AccAddressFromBech32 k (claim_Orchestrator claim))))"

definition MaxTokenNameLength :: nat where
  "MaxTokenNameLength = 256"

definition MaxTokenSymbolLength :: nat where
  "MaxTokenSymbolLength = 64"

definition validateERC20AddressField :: "'a libs_scheme \<Rightarrow> string \<Rightarrow> string \<Rightarrow> error option" where
  "validateERC20AddressField k addr fieldName =
     (if length addr > ETHContractAddressLen then Some (Wrapped ErrInvalidClaim (fieldName @ '' too long''))
      else case ValidateEthAddress k addr of
        Some _ \<Rightarrow> Some (Wrapped ErrInvalidClaim (''invalid '' @ fieldName))
      | None \<Rightarrow> None)"

fun ValidateClaimFieldLengths :: "'a libs_scheme \<Rightarrow> EthereumClaim \<Rightarrow> error option" where
  "ValidateClaimFieldLengths k (SendToCosmosClaim c) = firstError [
     validateERC20AddressField k (STC_TokenContract c) ''token contract'',
     validateERC20AddressField k (STC_EthereumSender c) ''ethereum sender'']"
| "ValidateClaimFieldLengths k (ERC20DeployedClaim c) = firstError [
     validateERC20AddressField k (ED_TokenContract c) ''token contract'',
     (case ValidateStrictDenom k (ED_CosmosDenom c) of
        Some _ \<Rightarrow> Some (Wrapped ErrInvalidClaim ''invalid cosmos denom'') | None \<Rightarrow> None),
     (if length (ED_Name c) > MaxTokenNameLength then Some (Wrapped ErrInvalidClaim ''token name too long'') else None),
     (if length (ED_Symbol c) > MaxTokenSymbolLength then Some (Wrapped ErrInvalidClaim ''token symbol too long'') else None)]"
| "ValidateClaimFieldLengths k (BatchSendToEthClaim c) = validateERC20AddressField k (BSE_TokenContract c) ''token contract''"
| "ValidateClaimFieldLengths k (ValsetUpdatedClaim c) = validateERC20AddressField k (VU_RewardToken c) ''reward token''"
| "ValidateClaimFieldLengths k (LogicCallExecutedClaim c) = None"

section \<open>Claim hashes\<close>

text \<open>The fields of the path, which are then joined by the separator.\<close>

fun joinFields :: "string list \<Rightarrow> string" where
  "joinFields [] = []"
| "joinFields [f] = f"
| "joinFields (f # fs) = f @ AttestationSeparator @ joinFields fs"

text \<open>\<open>%x\<close> of a slice of structs: each struct in braces, numbers and strings in lower-case hex.\<close>

definition hexMember :: "BridgeValidator \<Rightarrow> string" where
  "hexMember m = ''{'' @ hexUint (Power m) @ '' '' @ EncodeToString (bytes_of_string (EthereumAddress m)) @ ''}''"

fun joinSpace :: "string list \<Rightarrow> string" where
  "joinSpace [] = []"
| "joinSpace [f] = f"
| "joinSpace (f # fs) = f @ '' '' @ joinSpace fs"

definition hexMembers :: "BridgeValidator list \<Rightarrow> string" where
  "hexMembers ms = ''['' @ joinSpace (map hexMember ms) @ '']''"

definition sortedMembers :: "'a libs_scheme \<Rightarrow> BridgeValidator list \<Rightarrow> error + BridgeValidator list" where
  "sortedMembers k members =
     bindE (BridgeValidators_ToInternal k members) (\<lambda>internalMembers.
       Inr (InternalBridgeValidators_ToExternal k (InternalBridgeValidators_Sort k internalMembers)))"

definition MsgSendToCosmosClaim_path :: "MsgSendToCosmosClaim \<Rightarrow> string list" where [simp]:
  "MsgSendToCosmosClaim_path msg = [
     decUint (STC_EventNonce msg), decUint (STC_EthBlockHeight msg), STC_TokenContract msg, decInt (STC_Amount msg),
     STC_EthereumSender msg, STC_CosmosReceiver msg]"

definition MsgBatchSendToEthClaim_path :: "MsgBatchSendToEthClaim \<Rightarrow> string list" where [simp]:
  "MsgBatchSendToEthClaim_path msg = [
     decUint (BSE_EventNonce msg), decUint (BSE_EthBlockHeight msg), decUint (BSE_BatchNonce msg), BSE_TokenContract msg]"

definition MsgERC20DeployedClaim_path :: "MsgERC20DeployedClaim \<Rightarrow> string list" where [simp]:
  "MsgERC20DeployedClaim_path b = [
     decUint (ED_EventNonce b), decUint (ED_EthBlockHeight b), ED_CosmosDenom b, ED_TokenContract b, ED_Name b,
     ED_Symbol b, decUint (ED_Decimals b)]"

definition MsgLogicCallExecutedClaim_path :: "MsgLogicCallExecutedClaim \<Rightarrow> string list" where [simp]:
  "MsgLogicCallExecutedClaim_path b = [
     decUint (LCE_EventNonce b), decUint (LCE_EthBlockHeight b), string_of_bytes (LCE_InvalidationId b),
     decUint (LCE_InvalidationNonce b)]"

definition MsgValsetUpdatedClaim_path :: "'a libs_scheme \<Rightarrow> MsgValsetUpdatedClaim \<Rightarrow> error + string list" where [simp]:
  "MsgValsetUpdatedClaim_path k b =
     bindE (wrapE ''invalid members'' (sortedMembers k (VU_Members b))) (\<lambda>members.
       Inr [decUint (VU_EventNonce b), decUint (VU_ValsetNonce b), decUint (VU_EthBlockHeight b), hexMembers members,
            decInt (VU_RewardAmount b), VU_RewardToken b])"

fun claimPath :: "'a libs_scheme \<Rightarrow> EthereumClaim \<Rightarrow> error + string list" where
  "claimPath k (SendToCosmosClaim msg) = Inr (MsgSendToCosmosClaim_path msg)"
| "claimPath k (BatchSendToEthClaim msg) = Inr (MsgBatchSendToEthClaim_path msg)"
| "claimPath k (ERC20DeployedClaim b) = Inr (MsgERC20DeployedClaim_path b)"
| "claimPath k (LogicCallExecutedClaim b) = Inr (MsgLogicCallExecutedClaim_path b)"
| "claimPath k (ValsetUpdatedClaim b) = MsgValsetUpdatedClaim_path k b"

definition ClaimHash :: "'a libs_scheme \<Rightarrow> EthereumClaim \<Rightarrow> error + bytes" where
  "ClaimHash k claim = bindE (claimPath k claim) (\<lambda>fs. Inr (tmhash_Sum k (bytes_of_string (joinFields fs))))"

section \<open>Components\<close>

fun ExtractClaimHashComponents :: "'a libs_scheme \<Rightarrow> EthereumClaim \<Rightarrow> error + ClaimHashComponents" where
  "ExtractClaimHashComponents k (SendToCosmosClaim c) =
     Inr (Comp_SendToCosmos (STC_EventNonce c) (STC_EthBlockHeight c) (STC_TokenContract c) (decInt (STC_Amount c))
       (STC_EthereumSender c) (STC_CosmosReceiver c))"
| "ExtractClaimHashComponents k (BatchSendToEthClaim c) =
     Inr (Comp_BatchSendToEth (BSE_EventNonce c) (BSE_EthBlockHeight c) (BSE_BatchNonce c) (BSE_TokenContract c))"
| "ExtractClaimHashComponents k (ERC20DeployedClaim c) =
     Inr (Comp_Erc20Deployed (ED_EventNonce c) (ED_EthBlockHeight c) (ED_CosmosDenom c) (ED_TokenContract c) (ED_Name c)
       (ED_Symbol c) (ED_Decimals c))"
| "ExtractClaimHashComponents k (LogicCallExecutedClaim c) =
     Inr (Comp_LogicCallExecuted (LCE_EventNonce c) (LCE_EthBlockHeight c) (LCE_InvalidationId c) (LCE_InvalidationNonce c))"
| "ExtractClaimHashComponents k (ValsetUpdatedClaim c) =
     bindE (wrapE ''invalid valset members'' (sortedMembers k (VU_Members c))) (\<lambda>members.
       Inr (Comp_ValsetUpdated (VU_EventNonce c) (VU_ValsetNonce c) (VU_EthBlockHeight c) members
         (decInt (VU_RewardAmount c)) (VU_RewardToken c)))"

text \<open>The claim type is not consulted: the components carry their own.\<close>

fun reconstruct :: "'a libs_scheme \<Rightarrow> ClaimHashComponents \<Rightarrow> error + EthereumClaim" where
  "reconstruct k (Comp_SendToCosmos n h tc amount sender receiver) =
     (case NewIntFromString k amount of
        None \<Rightarrow> Inl (Wrapped ErrInvalidAttestation ''invalid amount'')
      | Some a \<Rightarrow> Inr (SendToCosmosClaim \<lparr>STC_EventNonce = n, STC_EthBlockHeight = h, STC_TokenContract = tc,
          STC_Amount = a, STC_EthereumSender = sender, STC_CosmosReceiver = receiver, STC_Orchestrator = []\<rparr>))"
| "reconstruct k (Comp_BatchSendToEth n h batchNonce tc) =
     Inr (BatchSendToEthClaim \<lparr>BSE_EventNonce = n, BSE_EthBlockHeight = h, BSE_BatchNonce = batchNonce,
       BSE_TokenContract = tc, BSE_Orchestrator = []\<rparr>)"
| "reconstruct k (Comp_Erc20Deployed n h denom tc name symbol decimals) =
     Inr (ERC20DeployedClaim \<lparr>ED_EventNonce = n, ED_EthBlockHeight = h, ED_CosmosDenom = denom, ED_TokenContract = tc,
       ED_Name = name, ED_Symbol = symbol, ED_Decimals = decimals, ED_Orchestrator = []\<rparr>)"
| "reconstruct k (Comp_LogicCallExecuted n h i j) =
     Inr (LogicCallExecutedClaim \<lparr>LCE_EventNonce = n, LCE_EthBlockHeight = h, LCE_InvalidationId = i,
       LCE_InvalidationNonce = j, LCE_Orchestrator = []\<rparr>)"
| "reconstruct k (Comp_ValsetUpdated n vn h members amount token) =
     (case NewIntFromString k amount of
        None \<Rightarrow> Inl (Wrapped ErrInvalidAttestation ''invalid reward_amount'')
      | Some a \<Rightarrow> Inr (ValsetUpdatedClaim \<lparr>VU_EventNonce = n, VU_ValsetNonce = vn, VU_EthBlockHeight = h,
          VU_Members = members, VU_RewardAmount = a, VU_RewardToken = token, VU_Orchestrator = []\<rparr>))"

definition ReconstructClaim ::
  "'a libs_scheme \<Rightarrow> ClaimType \<Rightarrow> ClaimHashComponents option \<Rightarrow> error + EthereumClaim" where
  "ReconstructClaim k claimType components =
     (case components of
        None \<Rightarrow> Inl (Wrapped ErrInvalidAttestation ''nil claim components'')
      | Some c \<Rightarrow> reconstruct k c)"

definition ComputeClaimHash :: "'a libs_scheme \<Rightarrow> ClaimHashComponents option \<Rightarrow> ClaimType \<Rightarrow> error + bytes" where
  "ComputeClaimHash k c claimType =
     bindE (wrapE ''reconstruct claim'' (ReconstructClaim k claimType c)) (ClaimHash k)"

definition VerifyClaimHash :: "'a libs_scheme \<Rightarrow> Attestation \<Rightarrow> error option" where
  "VerifyClaimHash k m =
     (if ClaimComponents m = None then Some (Wrapped ErrInvalidAttestation ''nil claim components'')
      else case ClaimHash k (Claim m) of
        Inl e \<Rightarrow> Some (Wrapped e ''compute hash from stored claim'')
      | Inr hashFromClaim \<Rightarrow>
          (case ComputeClaimHash k (ClaimComponents m) (Att_ClaimType m) of
             Inl e \<Rightarrow> Some (Wrapped e ''compute hash from stored components'')
           | Inr hashFromComponents \<Rightarrow>
               if hashFromClaim \<noteq> hashFromComponents
               then Some (Wrapped ErrInvalidAttestation ''claim hash from components does not match hash from stored claim'')
               else None))"

definition ClaimValidateBasic :: "'a libs_scheme \<Rightarrow> EthereumClaim \<Rightarrow> error option" where
  "ClaimValidateBasic k claim =
     (case EthereumClaim_ValidateBasic k claim of Some _ \<Rightarrow> Some (Wrapped ErrInvalidClaim []) | None \<Rightarrow> None)"

definition Attestation_ValidateBasic :: "'a libs_scheme \<Rightarrow> Attestation \<Rightarrow> error option" where
  "Attestation_ValidateBasic k m =
     (if Observed m \<and> length (Votes m) = 0 then Some (Wrapped ErrInvalidAttestation ''must be voted on to be observed'')
      else if list_ex (\<lambda>v. isl (ValAddressFromBech32 k v)) (Votes m)
      then Some (Wrapped ErrInvalidAttestation ''votes must contain bech32 validator addresses'')
      else case ClaimValidateBasic k (Claim m) of
        Some _ \<Rightarrow> Some (Wrapped ErrInvalidAttestation [])
      | None \<Rightarrow> None)"

fun ClaimTypeToTypeUrl :: "ClaimType \<Rightarrow> string" where
  "ClaimTypeToTypeUrl CLAIM_TYPE_UNSPECIFIED = ''unspecified''"
| "ClaimTypeToTypeUrl CLAIM_TYPE_SEND_TO_COSMOS = ''/gravity.v1.MsgSendToCosmosClaim''"
| "ClaimTypeToTypeUrl CLAIM_TYPE_BATCH_SEND_TO_ETH = ''/gravity.v1.MsgBatchSendToEthClaim''"
| "ClaimTypeToTypeUrl CLAIM_TYPE_ERC20_DEPLOYED = ''/gravity.v1.MsgERC20DeployedClaim''"
| "ClaimTypeToTypeUrl CLAIM_TYPE_LOGIC_CALL_EXECUTED = ''/gravity.v1.MsgLogicCallExecutedClaim''"
| "ClaimTypeToTypeUrl CLAIM_TYPE_VALSET_UPDATED = ''/gravity.v1.MsgValsetUpdatedClaim''"

section \<open>Hashes from components\<close>

lemma insertBy_sorted_head: "list_all (\<lambda>y. \<not> lt y x) ys \<Longrightarrow> insertBy lt x ys = x # ys"
  by (cases ys) auto

lemma sortSlice_sorted_id: "sorted_wrt (\<lambda>a b. \<not> lt b a) xs \<Longrightarrow> sortSlice lt xs = xs"
  by (induction xs) (simp_all add: sortSlice_def insertBy_sorted_head list_all_iff)

lemma Sort_idem [simp]: "InternalBridgeValidators_Sort k (InternalBridgeValidators_Sort k b) = InternalBridgeValidators_Sort k b"
  using sortSlice_sorted_id [OF Sort_sorted] by (simp add: InternalBridgeValidators_Sort_def)

lemma NewInternalBridgeValidator_ToExternal [simp]:
  "geth_laws k \<Longrightarrow> NewInternalBridgeValidator k (InternalBridgeValidator_ToExternal k i) = Inr i"
  by (simp add: NewInternalBridgeValidator_def InternalBridgeValidator_ToExternal_def InternalBridgeValidator_ValidateBasic_def Wrap_def)

lemma BridgeValidators_round_trip [simp]:
  "geth_laws k \<Longrightarrow> BridgeValidators_ToInternal k (InternalBridgeValidators_ToExternal k i) = Inr i"
  unfolding BridgeValidators_ToInternal_def InternalBridgeValidators_ToExternal_def
  by (rule mapE_round_trip) simp

lemma sortedMembers_idem: "geth_laws k \<Longrightarrow> sortedMembers k ms = Inr ms' \<Longrightarrow> sortedMembers k ms' = Inr ms'"
  by (auto simp: sortedMembers_def bindE_eq_Inr)

fun amounts_fit :: "'a libs_scheme \<Rightarrow> EthereumClaim \<Rightarrow> bool" where
  "amounts_fit k (SendToCosmosClaim m) = IntFits k (STC_Amount m)"
| "amounts_fit k (ValsetUpdatedClaim m) = IntFits k (VU_RewardAmount m)"
| "amounts_fit k _ = True"

text \<open>
  C35: the hash that \<open>ComputeClaimHash\<close> rebuilds from the components of a claim is the hash of the claim
  itself, for every claim type; no field of the hash is lost in the components.
\<close>

theorem ComputeClaimHash_components:
  assumes "geth_laws k" "math_laws k" "amounts_fit k claim" "ExtractClaimHashComponents k claim = Inr cs"
  shows "ComputeClaimHash k (Some cs) t = ClaimHash k claim"
proof (cases claim)
  case (ValsetUpdatedClaim m)
  then obtain members where members: "sortedMembers k (VU_Members m) = Inr members"
      "cs = Comp_ValsetUpdated (VU_EventNonce m) (VU_ValsetNonce m) (VU_EthBlockHeight m) members
         (decInt (VU_RewardAmount m)) (VU_RewardToken m)"
    using assms(4) by (auto simp: bindE_eq_Inr wrapE_eq_Inr)
  then show ?thesis
    using assms(2,3) sortedMembers_idem [OF assms(1) members(1)]
    by (simp add: ValsetUpdatedClaim ComputeClaimHash_def ReconstructClaim_def ClaimHash_def math_laws_def)
qed (use assms(2-4) in \<open>auto simp: ComputeClaimHash_def ReconstructClaim_def ClaimHash_def math_laws_def\<close>)

section \<open>What a hash determines\<close>

lemma ascii_field:
  assumes "isASCII f" "isASCII g" "f @ AttestationSeparator @ r = g @ AttestationSeparator @ r'"
  shows "f = g \<and> r = r'"
proof -
  let ?A = "\<lambda>c. of_char c \<le> (127 :: nat)"
  have "takeWhile ?A (h @ AttestationSeparator @ t) = h @ [CHR 0x47]" if "isASCII h" for h t
    using that by (induction h) (simp_all add: isASCII_def AttestationSeparator_def)
  then have "f @ [CHR 0x47] = g @ [CHR 0x47]"
    using assms by metis
  then show ?thesis
    using assms(3) by simp
qed

lemma joinFields_inj:
  assumes "joinFields fs = joinFields gs" "length fs = length gs"
    and "list_all isASCII (butlast fs)" "list_all isASCII (butlast gs)"
  shows "fs = gs"
  using assms
proof (induction fs arbitrary: gs rule: joinFields.induct)
  case (3 f f' fs)
  then obtain g g' gs' where gs: "gs = g # g' # gs'"
    by (cases gs; cases "tl gs") auto
  then have "f = g" "joinFields (f' # fs) = joinFields (g' # gs')"
    using ascii_field [of f g "joinFields (f' # fs)" "joinFields (g' # gs')"] "3.prems" by auto
  then show ?case
    using "3.IH" [of "g' # gs'"] "3.prems" gs by simp
next
  case (2 f)
  then show ?case
    by (cases gs; cases "tl gs") auto
qed auto

lemma isDigit_ASCII: "list_all isDigit s \<Longrightarrow> isASCII s"
  by (auto simp: isASCII_def list_all_iff isDigit_def less_eq_char_def)

lemma decUint_ASCII [simp]: "isASCII (decUint n)"
  by (simp add: decUint_def isDigit_ASCII natString_digits)

lemma decInt_ASCII [simp]: "isASCII (decInt n)"
  using isDigit_ASCII [OF natString_digits] by (simp add: decInt_def isASCII_def)

lemma ValidateEthAddress_ASCII:
  assumes "geth_laws k" "ValidateEthAddress k s = None"
  shows "isASCII s"
proof -
  have body: "isASCII (hexBody s)"
    using assms by (simp add: ValidateEthAddress_iff hex_ASCII)
  show ?thesis
  proof (cases "has0xPrefix s")
    case True
    then obtain c d t where "s = c # d # t" "c = CHR ''0''" "d = CHR ''x'' \<or> d = CHR ''X''"
      by (cases s; cases "tl s") (auto simp: has0xPrefix_def)
    then show ?thesis
      using body True by (auto simp: hexBody_def isASCII_def)
  qed (use body in \<open>simp add: hexBody_def\<close>)
qed

lemma firstError_None: "firstError es = None \<longleftrightarrow> list_all (\<lambda>e. e = None) es"
  by (induction es rule: firstError.induct) auto

lemma Wrap_None [simp]: "Wrap e msg = None \<longleftrightarrow> e = None"
  by (simp add: Wrap_def)

text \<open>The two claims that move funds: deposits and executed withdrawals.\<close>

fun moves_funds :: "EthereumClaim \<Rightarrow> bool" where
  "moves_funds (SendToCosmosClaim m) = True"
| "moves_funds (BatchSendToEthClaim m) = True"
| "moves_funds _ = False"

text \<open>
  C36: two valid claims of the same type that move funds and have the same hash preimage have the same
  components: nothing but the orchestrator can differ between them.
\<close>

theorem claim_preimage_injective:
  assumes "geth_laws k" "moves_funds a" "GetType a = GetType b"
    and "EthereumClaim_ValidateBasic k a = None" "EthereumClaim_ValidateBasic k b = None"
    and "claimPath k a = Inr fs" "claimPath k b = Inr gs" "joinFields fs = joinFields gs"
  shows "ExtractClaimHashComponents k a = ExtractClaimHashComponents k b"
proof -
  note ascii = ValidateEthAddress_ASCII [OF assms(1)]
  show ?thesis
  proof (cases a)
    case (SendToCosmosClaim m)
    then obtain n where b: "b = SendToCosmosClaim n"
      using assms(3) by (cases b) simp_all
    have "fs = gs"
      using assms(4-8) SendToCosmosClaim b
      by (intro joinFields_inj) (auto simp: MsgSendToCosmosClaim_ValidateBasic_def firstError_None dest!: ascii)
    then show ?thesis
      using assms(6,7) SendToCosmosClaim b by auto
  next
    case (BatchSendToEthClaim m)
    then obtain n where b: "b = BatchSendToEthClaim n"
      using assms(3) by (cases b) simp_all
    have "fs = gs"
      using assms(6-8) BatchSendToEthClaim b by (intro joinFields_inj) auto
    then show ?thesis
      using assms(6,7) BatchSendToEthClaim b by auto
  qed (use assms(2) in simp_all)
qed

text \<open>
  The hash of a deployment claim does not determine its name and symbol: both are free text and may
  hold the separator.
\<close>

lemma ERC20Deployed_hash_collision:
  fixes m :: MsgERC20DeployedClaim
  defines "a \<equiv> m\<lparr>ED_Name := ''x'' @ AttestationSeparator @ ''y'', ED_Symbol := ''z''\<rparr>"
    and "b \<equiv> m\<lparr>ED_Name := ''x'', ED_Symbol := ''y'' @ AttestationSeparator @ ''z''\<rparr>"
  shows "ClaimHash k (ERC20DeployedClaim a) = ClaimHash k (ERC20DeployedClaim b) \<and>
    ExtractClaimHashComponents k (ERC20DeployedClaim a) \<noteq> ExtractClaimHashComponents k (ERC20DeployedClaim b)"
  by (simp add: a_def b_def ClaimHash_def AttestationSeparator_def)

end
