(* ===== verification/Attestation.thy ===== *)
theory Attestation
  imports Claims Batch
begin

text \<open>
  The oracle (\<open>x/gravity/keeper/attestation.go\<close>): validators vote for claims about Ethereum, votes for the
  same claim gather in an attestation, and an attestation with more than 66% of the voting power
  is observed and applied.

  The handler that applies a claim is an argument here; what the oracle needs of it is the locale
  \<open>claim_handler\<close>, which the handler of \<open>attestation_handler.go\<close> interprets.
\<close>

section \<open>Stores\<close>

definition AttestationVotesPowerThreshold :: int where
  "AttestationVotesPowerThreshold = 66"

definition UnpackAttestationClaim :: "Attestation \<Rightarrow> error + EthereumClaim" where
  "UnpackAttestationClaim att = Inr (Claim att)"

definition SetAttestation :: "uint64 \<Rightarrow> bytes \<Rightarrow> Attestation \<Rightarrow> ('x, unit) gop" where
  "SetAttestation eventNonce claimHash att =
     modify (\<lambda>ctx. ctx\<lparr>oracleAttestation := kv_set (eventNonce, claimHash) att (oracleAttestation ctx)\<rparr>)"

definition GetAttestation :: "uint64 \<Rightarrow> bytes \<Rightarrow> ('x, Attestation option) gop" where
  "GetAttestation eventNonce claimHash = reads (\<lambda>ctx. kv_get (oracleAttestation ctx) (eventNonce, claimHash))"

definition DeleteAttestation :: "'x Keeper \<Rightarrow> Attestation \<Rightarrow> ('x, unit) gop" where
  "DeleteAttestation k att =
     bind (orPanic ''Bad Attestation in DeleteAttestation'' (lift (UnpackAttestationClaim att))) (\<lambda>claim.
     bind (orPanic ''unable to compute claim hash'' (lift (ClaimHash k claim))) (\<lambda>hash.
       modify (\<lambda>ctx. ctx\<lparr>oracleAttestation := kv_del (GetEventNonce claim, hash) (oracleAttestation ctx)\<rparr>)))"

definition IterateAttestations ::
  "bool \<Rightarrow> (uint64 \<times> bytes \<Rightarrow> Attestation \<Rightarrow> 'b \<Rightarrow> ('x, bool \<times> 'b) gop) \<Rightarrow> 'b \<Rightarrow> ('x, 'b) gop" where
  "IterateAttestations reverse cb acc =
     bind (reads (\<lambda>ctx. if reverse then kv_desc (oracleAttestation ctx) else kv_asc (oracleAttestation ctx))) (\<lambda>entries.
       iterM (\<lambda>(key, att). cb key att) entries acc)"

definition IterateClaims ::
  "bool \<Rightarrow> ClaimType \<Rightarrow> (uint64 \<times> bytes \<Rightarrow> Attestation \<Rightarrow> EthereumClaim \<Rightarrow> 'b \<Rightarrow> ('x, bool \<times> 'b) gop) \<Rightarrow> 'b
    \<Rightarrow> ('x, 'b) gop" where
  "IterateClaims reverse claimType cb acc =
     (let typeUrl = ClaimTypeToTypeUrl claimType
      in IterateAttestations reverse (\<lambda>key att a.
           if ClaimTypeToTypeUrl (GetType (Claim att)) = typeUrl then
             bind (orPanic ''Discovered invalid claim in attestation'' (lift (UnpackAttestationClaim att))) (\<lambda>claim.
               cb key att claim a)
           else return (False, a)) acc)"

text \<open>The Go map together with its sorted keys is an association list sorted by nonce.\<close>

definition GetAttestationMapping :: "('x, (uint64, Attestation list) kv) gop" where
  "GetAttestationMapping =
     IterateAttestations False (\<lambda>_ att attestationMapping.
       bind (orPanic ''couldn't cast to claim'' (lift (UnpackAttestationClaim att))) (\<lambda>claim.
         return (False,
           case kv_get attestationMapping (GetEventNonce claim) of
             None \<Rightarrow> kv_set (GetEventNonce claim) [att] attestationMapping
           | Some val \<Rightarrow> kv_set (GetEventNonce claim) (val @ [att]) attestationMapping))) []"

definition GetLastObservedEventNonce :: "('x, uint64) gop" where
  "GetLastObservedEventNonce = reads (\<lambda>ctx. case lastObservedEventNonce ctx of None \<Rightarrow> 0 | Some n \<Rightarrow> n)"

definition SetLastObservedEthereumBlockHeight :: "uint64 \<Rightarrow> ('x, unit) gop" where
  "SetLastObservedEthereumBlockHeight ethereumHeight =
     bind GetLastObservedEthereumBlockHeight (\<lambda>previous.
     bind (panicIf (EthereumBlockHeight previous > ethereumHeight) ''Attempt to roll back Ethereum block height!'') (\<lambda>_.
       modify (\<lambda>ctx. ctx\<lparr>lastObservedEthereumBlockHeight :=
         Some \<lparr>CosmosBlockHeight = BlockHeight ctx, EthereumBlockHeight = ethereumHeight\<rparr>\<rparr>)))"

definition GetLastObservedValset :: "('x, Valset option) gop" where
  "GetLastObservedValset = reads lastObservedValset"

definition SetLastObservedValset :: "Valset \<Rightarrow> ('x, unit) gop" where
  "SetLastObservedValset valset = modify (\<lambda>ctx. ctx\<lparr>lastObservedValset := Some valset\<rparr>)"

definition setLastObservedEventNonce :: "uint64 \<Rightarrow> ('x, unit) gop" where
  "setLastObservedEventNonce nonce =
     bind GetLastObservedEventNonce (\<lambda>lastNonce.
       let zeroCase = (lastNonce = 0 \<and> nonce = 0)
       in bind (panicIf (lastNonce \<ge> nonce \<and> \<not> zeroCase) ''Event nonce going backwards or replay!'') (\<lambda>_.
            modify (\<lambda>ctx. ctx\<lparr>lastObservedEventNonce := Some nonce\<rparr>)))"

definition GetLastEventNonceByValidator :: "'x Keeper \<Rightarrow> ValAddress \<Rightarrow> ('x, uint64) gop" where
  "GetLastEventNonceByValidator k validator =
     bind (panicIf (VerifyAddressFormat k validator \<noteq> None) ''invalid validator address'') (\<lambda>_.
     bind (reads (\<lambda>ctx. kv_get (lastEventNonceByValidator ctx) validator)) (\<lambda>bytes.
       case bytes of
         None \<Rightarrow> bind GetLastObservedEventNonce (\<lambda>lastEventNonce.
           if lastEventNonce \<ge> 1 then return (lastEventNonce - 1) else return 0)
       | Some nonce \<Rightarrow> return nonce))"

definition SetLastEventNonceByValidator :: "'x Keeper \<Rightarrow> ValAddress \<Rightarrow> uint64 \<Rightarrow> ('x, unit) gop" where
  "SetLastEventNonceByValidator k validator nonce =
     bind (panicIf (VerifyAddressFormat k validator \<noteq> None) ''invalid validator address'') (\<lambda>_.
       modify (\<lambda>ctx. ctx\<lparr>lastEventNonceByValidator := kv_set validator nonce (lastEventNonceByValidator ctx)\<rparr>))"

definition IterateValidatorLastEventNonces ::
  "(ValAddress \<Rightarrow> uint64 \<Rightarrow> 'b \<Rightarrow> ('x, bool \<times> 'b) gop) \<Rightarrow> 'b \<Rightarrow> ('x, 'b) gop" where
  "IterateValidatorLastEventNonces cb acc =
     bind (reads (\<lambda>ctx. kv_asc (lastEventNonceByValidator ctx))) (\<lambda>entries. iterM (\<lambda>(key, nonce). cb key nonce) entries acc)"

section \<open>Voting\<close>

definition newAttestation :: "'x Keeper \<Rightarrow> EthereumClaim \<Rightarrow> EthereumClaim \<Rightarrow> ('x, Attestation) gop" where
  "newAttestation k claim anyClaim =
     bind (wrapErr ''unable to extract claim hash components'' (lift (ExtractClaimHashComponents k claim))) (\<lambda>components.
       reads (\<lambda>ctx. \<lparr>Observed = False, Votes = [], Att_Height = BlockHeight ctx, Claim = anyClaim,
         Att_ClaimType = GetType claim, ClaimComponents = Some components\<rparr>))"

definition verifyComponents :: "'x Keeper \<Rightarrow> EthereumClaim \<Rightarrow> bytes \<Rightarrow> Attestation \<Rightarrow> ('x, unit) gop" where
  "verifyComponents k claim hash att =
     (if ClaimComponents att \<noteq> None then
        bind (orPanic ''could not compute hash from stored components''
               (lift (ComputeClaimHash k (ClaimComponents att) (Att_ClaimType att)))) (\<lambda>storedHash.
        bind (failIf (storedHash \<noteq> hash)
               (Wrapped ErrInvalid ''incoming claim does not match stored attestation components'')) (\<lambda>_.
        bind (orPanic ''unable to extract incoming claim components for comparison''
               (lift (ExtractClaimHashComponents k claim))) (\<lambda>incomingComponents.
          failIf (ClaimComponents att \<noteq> Some incomingComponents)
            (Wrapped ErrInvalid ''incoming claim fields do not match stored attestation components''))))
      else panic ''attestation claim components should never be nil'')"

definition Attest :: "'x Keeper \<Rightarrow> EthereumClaim \<Rightarrow> EthereumClaim \<Rightarrow> ('x, Attestation) gop" where
  "Attest k claim anyClaim =
     bind (GetClaimer k claim) (\<lambda>claimer.
     bind (GetOrchestratorValidator k claimer) (\<lambda>found.
     case found of
       None \<Rightarrow> panic ''Could not find ValAddr for delegate key, should be checked by now''
     | Some val \<Rightarrow>
         bind (orPanic ''Failed to parse validator operator address'' (lift (ValAddressFromBech32 k (Operator val)))) (\<lambda>valAddr.
         bind (check (Wrap (VerifyAddressFormat k valAddr) ''invalid orchestrator validator address'')) (\<lambda>_.
         bind (GetLastEventNonceByValidator k valAddr) (\<lambda>lastEventNonce.
         bind (failIf (GetEventNonce claim \<noteq> lastEventNonce + 1) (ErrorMsg ''non contiguous event nonce'')) (\<lambda>_.
         bind (wrapErr ''unable to compute claim hash'' (lift (ClaimHash k claim))) (\<lambda>hash.
         bind (GetAttestation (GetEventNonce claim) hash) (\<lambda>stored.
         bind (case stored of None \<Rightarrow> newAttestation k claim anyClaim | Some att \<Rightarrow> return att) (\<lambda>att.
         bind (verifyComponents k claim hash att) (\<lambda>_.
           let att = att\<lparr>Votes := Votes att @ [ValAddress_String k valAddr]\<rparr>
           in bind (SetAttestation (GetEventNonce claim) hash att) (\<lambda>_.
              bind (SetLastEventNonceByValidator k valAddr (GetEventNonce claim)) (\<lambda>_.
                return att))))))))))))"

section \<open>Observing\<close>

type_synonym 'x handler = "Attestation \<Rightarrow> EthereumClaim \<Rightarrow> ('x, unit) gop"

text \<open>The handler runs on a cached context that is committed only when it returns no error.\<close>

definition processAttestation :: "'x Keeper \<Rightarrow> 'x handler \<Rightarrow> Attestation \<Rightarrow> EthereumClaim \<Rightarrow> ('x, unit) gop" where
  "processAttestation k handle att claim =
     bind (orPanic ''unable to compute claim hash'' (lift (ClaimHash k claim))) (\<lambda>_ ctx.
       case handle att claim ctx of
         Ok u xCtx \<Rightarrow> Ok () xCtx
       | Err e xCtx \<Rightarrow> Ok () ctx
       | Panic p \<Rightarrow> Panic p)"

definition emitObservedEvent :: "'x Keeper \<Rightarrow> Attestation \<Rightarrow> EthereumClaim \<Rightarrow> ('x, unit) gop" where
  "emitObservedEvent k att claim =
     bind (orPanic ''unable to compute claim hash'' (lift (ClaimHash k claim))) (\<lambda>_. emitBridgeEvent k)"

definition observe :: "'x Keeper \<Rightarrow> 'x handler \<Rightarrow> Attestation \<Rightarrow> EthereumClaim \<Rightarrow> bytes \<Rightarrow> ('x, unit) gop" where
  "observe k handle att claim hash =
     bind GetLastObservedEventNonce (\<lambda>lastEventNonce.
     bind (panicIf (GetEventNonce claim \<noteq> lastEventNonce + 1) ''attempting to apply events to state out of order'') (\<lambda>_.
     bind (setLastObservedEventNonce (GetEventNonce claim)) (\<lambda>_.
     bind (SetLastObservedEthereumBlockHeight (GetEthBlockHeight claim)) (\<lambda>_.
       let att = att\<lparr>Observed := True\<rparr>
       in bind (SetAttestation (GetEventNonce claim) hash att) (\<lambda>_.
          bind (processAttestation k handle att claim) (\<lambda>_.
            emitObservedEvent k att claim))))))"

fun tallyVotes ::
  "'x Keeper \<Rightarrow> ('x, unit) gop \<Rightarrow> int \<Rightarrow> string list \<Rightarrow> int \<Rightarrow> ('x, unit) gop" where
  "tallyVotes k reached requiredPower [] attestationPower = return ()"
| "tallyVotes k reached requiredPower (validator # votes) attestationPower =
     bind (orPanic ''invalid validator address'' (lift (ValAddressFromBech32 k validator))) (\<lambda>val.
     bind (reads (\<lambda>ctx. GetLastValidatorPower k (others ctx) val)) (\<lambda>r.
     bind (orPanic ''no validator power'' (lift r)) (\<lambda>validatorPower.
     bind (Int_Add k attestationPower (sint validatorPower)) (\<lambda>attestationPower.
       if attestationPower > requiredPower then reached
       else tallyVotes k reached requiredPower votes attestationPower))))"

definition TryAttestation :: "'x Keeper \<Rightarrow> 'x handler \<Rightarrow> Attestation \<Rightarrow> ('x, unit) gop" where
  "TryAttestation k handle att =
     bind (orPanic ''could not cast to claim'' (lift (UnpackAttestationClaim att))) (\<lambda>claim.
     bind (orPanic ''unable to compute claim hash'' (lift (ClaimHash k claim))) (\<lambda>hash.
       if \<not> Observed att then
         bind (reads (\<lambda>ctx. GetLastTotalPower k (others ctx))) (\<lambda>r.
         bind (orPanic ''no total power'' (lift r)) (\<lambda>totalPower.
         bind (Int_Mul k AttestationVotesPowerThreshold totalPower) (\<lambda>product.
         bind (Int_Quo product 100) (\<lambda>requiredPower.
           tallyVotes k (observe k handle att claim hash) requiredPower (Votes att) 0))))
       else panic ''attempting to process observed attestation''))"

section \<open>Reading and writing\<close>

definition last_observed :: "'x ctx \<Rightarrow> uint64" where
  "last_observed c = (case lastObservedEventNonce c of None \<Rightarrow> 0 | Some n \<Rightarrow> n)"

text \<open>The only nonce a validator may vote on next.\<close>

definition next_nonce :: "'x ctx \<Rightarrow> ValAddress \<Rightarrow> uint64" where
  "next_nonce c v = (case kv_get (lastEventNonceByValidator c) v of
     Some n \<Rightarrow> n + 1 | None \<Rightarrow> if last_observed c \<ge> 1 then last_observed c else 1)"

lemma GetLastObservedEventNonce_run: "GetLastObservedEventNonce c = Ok (last_observed c) c"
  by (simp add: GetLastObservedEventNonce_def last_observed_def)

lemma GetLastEventNonce_Ok:
  "GetLastEventNonceByValidator k v c = Ok n c' \<longleftrightarrow>
     c' = c \<and> VerifyAddressFormat k v = None \<and> n + 1 = next_nonce c v"
  by (auto simp: GetLastEventNonceByValidator_def next_nonce_def bind_Ok panicIf_Ok GetLastObservedEventNonce_run
      diff_eq_eq split: option.splits if_splits)

lemma setLastObservedEventNonce_Ok:
  "setLastObservedEventNonce n c = Ok u c' \<longleftrightarrow>
     (last_observed c < n \<or> last_observed c = 0 \<and> n = 0) \<and> c' = c\<lparr>lastObservedEventNonce := Some n\<rparr>"
  by (auto simp: setLastObservedEventNonce_def bind_Ok panicIf_Ok GetLastObservedEventNonce_run Let_def not_le)

lemma GetClaimer_Ok:
  "GetClaimer k claim c = Ok orch c' \<longleftrightarrow>
     c' = c \<and> EthereumClaim_ValidateBasic k claim = None \<and> AccAddressFromBech32 k (claim_Orchestrator claim) = Inr orch"
  by (auto simp: GetClaimer_def bind_Ok panicIf_Ok orPanic_Ok lift_Ok)

lemma keeps_oracle_readers [keeps_rules]:
  "keeps I (GetAttestation n h)" "keeps I GetLastObservedEventNonce" "keeps I (GetLastEventNonceByValidator k v)"
  "keeps I GetAttestationMapping" "keeps I (newAttestation k claim any)" "keeps I (verifyComponents k claim h att)"
  "keeps I (GetClaimer k claim)" "keeps I (emitObservedEvent k att claim)"
  unfolding GetAttestation_def GetLastObservedEventNonce_def GetLastEventNonceByValidator_def GetAttestationMapping_def
    IterateAttestations_def newAttestation_def verifyComponents_def GetClaimer_def emitObservedEvent_def
  by (intro keeps_rules)+

lemma verifyComponents_Ok:
  "verifyComponents k claim hash att c = Ok u c' \<Longrightarrow>
     c' = c \<and> (\<exists>cs. ClaimComponents att = Some cs \<and> ExtractClaimHashComponents k claim = Inr cs)"
  by (auto simp: verifyComponents_def bind_Ok orPanic_Ok lift_Ok failIf_Ok split: if_splits)

lemma newAttestation_Ok:
  "newAttestation k claim any c = Ok att c' \<Longrightarrow> c' = c \<and> Votes att = [] \<and> \<not> Observed att \<and> Claim att = any"
  by (auto simp: newAttestation_def bind_Ok wrapErr_Ok lift_Ok)

text \<open>What a vote does.\<close>

lemma Attest_Ok:
  assumes "Attest k claim any c = Ok att c'"
  shows "\<exists>orch val v hash cs att0.
    EthereumClaim_ValidateBasic k claim = None \<and> AccAddressFromBech32 k (claim_Orchestrator claim) = Inr orch \<and>
    GetOrchestratorValidator k orch c = Ok (Some val) c \<and> ValAddressFromBech32 k (Operator val) = Inr v \<and>
    VerifyAddressFormat k v = None \<and> GetEventNonce claim = next_nonce c v \<and> ClaimHash k claim = Inr hash \<and>
    (case kv_get (oracleAttestation c) (GetEventNonce claim, hash) of
       Some a \<Rightarrow> att0 = a | None \<Rightarrow> Votes att0 = [] \<and> \<not> Observed att0 \<and> Claim att0 = any) \<and>
    ClaimComponents att0 = Some cs \<and> ExtractClaimHashComponents k claim = Inr cs \<and>
    att = att0\<lparr>Votes := Votes att0 @ [ValAddress_String k v]\<rparr> \<and>
    c' = c\<lparr>oracleAttestation := kv_set (GetEventNonce claim, hash) att (oracleAttestation c),
           lastEventNonceByValidator := kv_set v (GetEventNonce claim) (lastEventNonceByValidator c)\<rparr>"
proof -
  obtain orch val v hash where who: "EthereumClaim_ValidateBasic k claim = None"
      "AccAddressFromBech32 k (claim_Orchestrator claim) = Inr orch"
      "GetOrchestratorValidator k orch c = Ok (Some val) c" "ValAddressFromBech32 k (Operator val) = Inr v"
      "VerifyAddressFormat k v = None" "GetEventNonce claim = next_nonce c v" "ClaimHash k claim = Inr hash"
    and rest: "bind (case kv_get (oracleAttestation c) (GetEventNonce claim, hash) of
           None \<Rightarrow> newAttestation k claim any | Some att \<Rightarrow> return att) (\<lambda>att.
         bind (verifyComponents k claim hash att) (\<lambda>_.
           let att = att\<lparr>Votes := Votes att @ [ValAddress_String k v]\<rparr>
           in bind (SetAttestation (GetEventNonce claim) hash att) (\<lambda>_.
              bind (SetLastEventNonceByValidator k v (GetEventNonce claim)) (\<lambda>_. return att)))) c = Ok att c'"
    using assms unfolding Attest_def
    by (auto simp: bind_readonly [OF keeps_oracle_readers(7)] bind_readonly [OF keeps_delegate_readers(2)]
        bind_readonly [OF keeps_oracle_readers(3)] bind_readonly [OF keeps_check] bind_readonly [OF keeps_failIf]
        bind_readonly [OF keeps_orPanic [OF keeps_lift]] bind_readonly [OF keeps_wrapErr [OF keeps_lift]]
        GetClaimer_Ok orPanic_Ok wrapErr_Ok lift_Ok check_Ok failIf_Ok GetLastEventNonce_Ok GetAttestation_def
        split: option.splits)
  obtain att0 where att0: "(case kv_get (oracleAttestation c) (GetEventNonce claim, hash) of
       Some a \<Rightarrow> att0 = a | None \<Rightarrow> Votes att0 = [] \<and> \<not> Observed att0 \<and> Claim att0 = any)"
    and verify: "verifyComponents k claim hash att0 c = Ok () c"
    and rest: "bind (SetAttestation (GetEventNonce claim) hash (att0\<lparr>Votes := Votes att0 @ [ValAddress_String k v]\<rparr>)) (\<lambda>_.
         bind (SetLastEventNonceByValidator k v (GetEventNonce claim)) (\<lambda>_.
           return (att0\<lparr>Votes := Votes att0 @ [ValAddress_String k v]\<rparr>))) c = Ok att c'"
    using rest
    by (auto simp: bind_Ok [of "case_option _ _ _"] bind_readonly [OF keeps_oracle_readers(6)] Let_def
        dest!: newAttestation_Ok split: option.splits)
  from rest have "att = att0\<lparr>Votes := Votes att0 @ [ValAddress_String k v]\<rparr>"
    "c' = c\<lparr>oracleAttestation := kv_set (GetEventNonce claim, hash) att (oracleAttestation c),
           lastEventNonceByValidator := kv_set v (GetEventNonce claim) (lastEventNonceByValidator c)\<rparr>"
    by (auto simp: SetAttestation_def SetLastEventNonceByValidator_def bind_Ok panicIf_Ok)
  then show ?thesis
    using who att0 verifyComponents_Ok [OF verify] by blast
qed

section \<open>The invariant of the oracle\<close>

text \<open>
  An attestation is stored under the nonce and the hash of its claim, with the components of that claim;
  it is voted on at most once by each validator, and only by validators who have moved past its nonce;
  it is observed only when its nonce was reached.
\<close>

definition attestation_ok :: "'x Keeper \<Rightarrow> 'x ctx \<Rightarrow> uint64 \<Rightarrow> bytes \<Rightarrow> Attestation \<Rightarrow> bool" where
  "attestation_ok k c n h att \<longleftrightarrow>
     n \<noteq> 0 \<and> GetEventNonce (Claim att) = n \<and> ClaimHash k (Claim att) = Inr h \<and>
     (\<exists>cs. ClaimComponents att = Some cs \<and> ExtractClaimHashComponents k (Claim att) = Inr cs) \<and>
     (Observed att \<longrightarrow> n \<le> last_observed c) \<and> distinct (Votes att) \<and>
     (\<forall>s \<in> set (Votes att). \<exists>v m. s = ValAddress_String k v \<and> VerifyAddressFormat k v = None \<and>
        kv_get (lastEventNonceByValidator c) v = Some m \<and> n \<le> m)"

definition oracle_ok :: "'x Keeper \<Rightarrow> 'x ctx \<Rightarrow> bool" where
  "oracle_ok k c \<longleftrightarrow> kv_ok (oracleAttestation c) \<and>
     (\<forall>n h att. kv_get (oracleAttestation c) (n, h) = Some att \<longrightarrow> attestation_ok k c n h att) \<and>
     (\<forall>n h h' att att'. kv_get (oracleAttestation c) (n, h) = Some att \<and> kv_get (oracleAttestation c) (n, h') = Some att' \<and>
        h \<noteq> h' \<longrightarrow> set (Votes att) \<inter> set (Votes att') = {} \<and> \<not> (Observed att \<and> Observed att'))"

lemma oracle_okD:
  assumes "oracle_ok k c"
  shows "kv_get (oracleAttestation c) (n, h) = Some att \<Longrightarrow> attestation_ok k c n h att"
    and "kv_get (oracleAttestation c) (n, h) = Some att \<Longrightarrow> kv_get (oracleAttestation c) (n, h') = Some att' \<Longrightarrow>
      h \<noteq> h' \<Longrightarrow> set (Votes att) \<inter> set (Votes att') = {} \<and> \<not> (Observed att \<and> Observed att')"
  using assms by (auto simp: oracle_ok_def)

lemma ValidateBasic_nonce: "EthereumClaim_ValidateBasic k claim = None \<Longrightarrow> GetEventNonce claim \<noteq> 0"
  by (cases claim) (simp_all add: firstError_None ifError_def MsgSendToCosmosClaim_ValidateBasic_def
      MsgBatchSendToEthClaim_ValidateBasic_def MsgERC20DeployedClaim_ValidateBasic_def
      MsgLogicCallExecutedClaim_ValidateBasic_def MsgValsetUpdatedClaim_ValidateBasic_def split: if_splits)

lemma ValAddress_String_inj:
  assumes "bech32_laws k" "VerifyAddressFormat k v = None" "VerifyAddressFormat k w = None"
  shows "ValAddress_String k v = ValAddress_String k w \<longleftrightarrow> v = w"
  using assms unfolding bech32_laws_def by (metis sum.inject(2))

lemma next_nonce_le: "next_nonce c v \<noteq> 0 \<Longrightarrow> kv_get (lastEventNonceByValidator c) v = Some m \<Longrightarrow> m < next_nonce c v"
  unfolding next_nonce_def by (simp add: word_less_inc eq_neg_iff_add_eq_0)

text \<open>A validator has not voted yet on the next nonce it may vote on.\<close>

lemma not_voted_yet:
  assumes "bech32_laws k" "attestation_ok k c n h att" "n = next_nonce c v" "VerifyAddressFormat k v = None"
  shows "ValAddress_String k v \<notin> set (Votes att)"
proof
  assume "ValAddress_String k v \<in> set (Votes att)"
  then obtain m where "kv_get (lastEventNonceByValidator c) v = Some m" "n \<le> m"
    using assms ValAddress_String_inj [OF assms(1,4)] unfolding attestation_ok_def by metis
  then show False
    using next_nonce_le [of c v m] assms(2,3) by (auto simp: attestation_ok_def)
qed

lemma attestation_ok_voted:
  assumes "attestation_ok k c n h att" "next_nonce c v \<noteq> 0"
  shows "attestation_ok k (c\<lparr>oracleAttestation := s, lastEventNonceByValidator :=
    kv_set v (next_nonce c v) (lastEventNonceByValidator c)\<rparr>) n h att"
  using assms next_nonce_le [OF assms(2)]
  by (fastforce simp: attestation_ok_def last_observed_def intro: less_imp_le order.trans)

lemma attestation_ok_vote:
  assumes "attestation_ok k c n h att" "n = next_nonce c v" "VerifyAddressFormat k v = None"
    and "ValAddress_String k v \<notin> set (Votes att)"
  shows "attestation_ok k (c\<lparr>oracleAttestation := s, lastEventNonceByValidator :=
    kv_set v n (lastEventNonceByValidator c)\<rparr>) n h (att\<lparr>Votes := Votes att @ [ValAddress_String k v]\<rparr>)"
proof -
  have "attestation_ok k (c\<lparr>oracleAttestation := s, lastEventNonceByValidator := kv_set v n (lastEventNonceByValidator c)\<rparr>) n h att"
    using attestation_ok_voted [of k c n h att v s] assms(1,2) by (simp add: attestation_ok_def)
  then show ?thesis
    using assms(3,4) unfolding attestation_ok_def by auto
qed

lemma oracle_ok_put:
  assumes ok: "oracle_ok k c" and store: "oracleAttestation c' = kv_set (n, h) att (oracleAttestation c)"
    and new: "attestation_ok k c' n h att"
    and old: "\<And>m h' a. kv_get (oracleAttestation c) (m, h') = Some a \<Longrightarrow> attestation_ok k c m h' a \<Longrightarrow> attestation_ok k c' m h' a"
    and same: "\<And>h' a. kv_get (oracleAttestation c) (n, h') = Some a \<Longrightarrow> h' \<noteq> h \<Longrightarrow>
      set (Votes att) \<inter> set (Votes a) = {} \<and> \<not> (Observed att \<and> Observed a)"
  shows "oracle_ok k c'"
proof -
  have get: "kv_get (oracleAttestation c') (m, h') =
      (if m = n \<and> h' = h then Some att else kv_get (oracleAttestation c) (m, h'))" for m h'
    by (simp add: store)
  have "attestation_ok k c' m h' a" if "kv_get (oracleAttestation c') (m, h') = Some a" for m h' a
    using that new old oracle_okD(1) [OF ok] unfolding get by (metis option.inject)
  moreover have "set (Votes a) \<inter> set (Votes a') = {} \<and> \<not> (Observed a \<and> Observed a')"
    if two: "kv_get (oracleAttestation c') (m, h1) = Some a" "kv_get (oracleAttestation c') (m, h2) = Some a'" "h1 \<noteq> h2"
    for m h1 h2 a a'
  proof -
    consider "m = n" "h1 = h" "a = att" "kv_get (oracleAttestation c) (n, h2) = Some a'"
      | "m = n" "h2 = h" "a' = att" "kv_get (oracleAttestation c) (n, h1) = Some a"
      | "kv_get (oracleAttestation c) (m, h1) = Some a" "kv_get (oracleAttestation c) (m, h2) = Some a'"
      using two unfolding get by (metis option.inject)
    then show ?thesis
      using two(3) same oracle_okD(2) [OF ok] by cases blast+
  qed
  moreover have "kv_ok (oracleAttestation c')"
    using ok by (simp add: oracle_ok_def store)
  ultimately show ?thesis
    unfolding oracle_ok_def by blast
qed

lemma oracle_ok_Attest:
  assumes laws: "bech32_laws k" and ok: "oracle_ok k c" and run: "Attest k claim claim c = Ok att c'"
  shows "oracle_ok k c'"
proof -
  obtain v hash cs att0 where v: "VerifyAddressFormat k v = None" "GetEventNonce claim = next_nonce c v"
    and hash: "ClaimHash k claim = Inr hash" and valid: "EthereumClaim_ValidateBasic k claim = None"
    and att0: "case kv_get (oracleAttestation c) (GetEventNonce claim, hash) of
       Some a \<Rightarrow> att0 = a | None \<Rightarrow> Votes att0 = [] \<and> \<not> Observed att0 \<and> Claim att0 = claim"
    and cs: "ClaimComponents att0 = Some cs" "ExtractClaimHashComponents k claim = Inr cs"
    and att: "att = att0\<lparr>Votes := Votes att0 @ [ValAddress_String k v]\<rparr>"
    and c': "c' = c\<lparr>oracleAttestation := kv_set (GetEventNonce claim, hash) att (oracleAttestation c),
           lastEventNonceByValidator := kv_set v (GetEventNonce claim) (lastEventNonceByValidator c)\<rparr>"
    using Attest_Ok [OF run] by blast
  let ?n = "next_nonce c v"
  have n0: "?n \<noteq> 0"
    using ValidateBasic_nonce [OF valid] v(2) by simp
  have ok0: "attestation_ok k c ?n hash att0"
  proof (cases "kv_get (oracleAttestation c) (?n, hash)")
    case None
    then show ?thesis
      using att0 cs hash n0 v(2) by (simp add: attestation_ok_def)
  next
    case (Some a)
    then show ?thesis
      using att0 oracle_okD(1) [OF ok] v(2) by simp
  qed
  have new: "attestation_ok k c' ?n hash att"
    using attestation_ok_vote [OF ok0 refl v(1)] not_voted_yet [OF laws ok0 refl v(1)] by (simp add: att c' v(2))
  have others: "set (Votes att) \<inter> set (Votes a) = {} \<and> \<not> (Observed att \<and> Observed a)"
    if a: "kv_get (oracleAttestation c) (?n, h) = Some a" "h \<noteq> hash" for h a
  proof -
    have "ValAddress_String k v \<notin> set (Votes a)"
      using not_voted_yet [OF laws oracle_okD(1) [OF ok a(1)] refl v(1)] .
    moreover have "set (Votes att0) \<inter> set (Votes a) = {} \<and> \<not> (Observed att0 \<and> Observed a)"
      using att0 v(2) oracle_okD(2) [OF ok a(1), of hash att0] a(2)
      by (cases "kv_get (oracleAttestation c) (?n, hash)") auto
    ultimately show ?thesis
      by (auto simp: att)
  qed
  show ?thesis
    using ok _ new _ others
  proof (rule oracle_ok_put)
    show "attestation_ok k c' m h a" if "attestation_ok k c m h a" for m h a
      using attestation_ok_voted [OF that n0] by (simp add: c' v(2))
  qed (simp add: c' v(2))
qed

section \<open>Voting power\<close>

definition validator_power :: "'x Keeper \<Rightarrow> 'x \<Rightarrow> ValAddress \<Rightarrow> int" where
  "validator_power k x v = (case GetLastValidatorPower k x v of Inl _ \<Rightarrow> 0 | Inr p \<Rightarrow> sint p)"

definition vote_power :: "'x Keeper \<Rightarrow> 'x \<Rightarrow> string list \<Rightarrow> int" where
  "vote_power k x votes = sum_list (map (\<lambda>s.
     case ValAddressFromBech32 k s of Inl _ \<Rightarrow> 0 | Inr v \<Rightarrow> validator_power k x v) votes)"

text \<open>
  The staking module: powers are not negative, and the total power covers any set of validators.
\<close>

definition staking_laws :: "'x Keeper \<Rightarrow> bool" where
  "staking_laws k \<longleftrightarrow>
     (\<forall>x v p. GetLastValidatorPower k x v = Inr p \<longrightarrow> 0 \<le> sint p) \<and>
     (\<forall>x t vs. GetLastTotalPower k x = Inr t \<and> distinct vs \<longrightarrow> sum_list (map (validator_power k x) vs) \<le> t)"

definition quorum :: "'x Keeper \<Rightarrow> 'x ctx \<Rightarrow> Attestation \<Rightarrow> bool" where
  "quorum k c att \<longleftrightarrow> (\<exists>t. GetLastTotalPower k (others c) = Inr t \<and>
     AttestationVotesPowerThreshold * t div 100 < vote_power k (others c) (Votes att))"

lemma validator_power_nonneg: "staking_laws k \<Longrightarrow> 0 \<le> validator_power k x v"
  by (auto simp: staking_laws_def validator_power_def split: sum.splits)

lemma vote_power_nonneg: "staking_laws k \<Longrightarrow> 0 \<le> vote_power k x votes"
  unfolding vote_power_def by (rule sum_list_nonneg_int) (simp add: validator_power_nonneg split: sum.split)

lemma total_power_nonneg: "staking_laws k \<Longrightarrow> GetLastTotalPower k x = Inr t \<Longrightarrow> 0 \<le> t"
  unfolding staking_laws_def by (metis distinct.simps(1) list.map(1) sum_list.Nil)

lemma vote_power_Cons:
  "ValAddressFromBech32 k s = Inr v \<Longrightarrow> GetLastValidatorPower k x v = Inr p \<Longrightarrow>
     vote_power k x (s # votes) = sint p + vote_power k x votes"
  by (simp add: vote_power_def validator_power_def)

text \<open>The loop stops early, but decides as if it had added all votes.\<close>

lemma tallyVotes_Ok:
  assumes "staking_laws k" "sofar \<le> req" "tallyVotes k reached req votes sofar c = Ok u c'"
  shows "if req < sofar + vote_power k (others c) votes then reached c = Ok u c' else c' = c"
  using assms(2,3)
proof (induction votes arbitrary: sofar)
  case Nil
  then show ?case
    by (simp add: vote_power_def)
next
  case (Cons s votes)
  obtain v p where vote: "ValAddressFromBech32 k s = Inr v" "GetLastValidatorPower k (others c) v = Inr p"
    and rest: "(if sofar + sint p > req then reached
       else tallyVotes k reached req votes (sofar + sint p)) c = Ok u c'"
    using Cons.prems(2) by (auto simp: bind_Ok orPanic_Ok lift_Ok Int_Add_Ok)
  have "sofar + vote_power k (others c) (s # votes) = sofar + sint p + vote_power k (others c) votes"
    using vote_power_Cons [OF vote] by simp
  then show ?case
    using rest Cons.IH [of "sofar + sint p"] vote_power_nonneg [OF assms(1), of "others c" votes]
    by (cases "sofar + sint p > req") auto
qed

lemma TryAttestation_Ok:
  assumes "staking_laws k" "TryAttestation k handle att c = Ok u c'"
  shows "\<not> Observed att \<and> (\<exists>hash. ClaimHash k (Claim att) = Inr hash \<and>
    (if quorum k c att then observe k handle att (Claim att) hash c = Ok u c' else c' = c))"
proof -
  obtain hash t where att: "\<not> Observed att" "ClaimHash k (Claim att) = Inr hash"
      and t: "GetLastTotalPower k (others c) = Inr t"
      and rest: "tallyVotes k (observe k handle att (Claim att) hash)
        (sgn (AttestationVotesPowerThreshold * t) * (\<bar>AttestationVotesPowerThreshold * t\<bar> div 100)) (Votes att) 0 c = Ok u c'"
    using assms(2) unfolding TryAttestation_def UnpackAttestationClaim_def
    by (auto simp: bind_Ok orPanic_Ok lift_Ok Int_Mul_Ok Int_Quo_Ok split: if_splits)
  have t0: "0 \<le> t"
    using total_power_nonneg [OF assms(1) t] .
  then have nonneg: "0 \<le> AttestationVotesPowerThreshold * t div 100"
    and eq: "sgn (AttestationVotesPowerThreshold * t) * (\<bar>AttestationVotesPowerThreshold * t\<bar> div 100) =
        AttestationVotesPowerThreshold * t div 100"
    by (cases "t = 0"; simp add: AttestationVotesPowerThreshold_def)+
  have "quorum k c att \<longleftrightarrow> AttestationVotesPowerThreshold * t div 100 < 0 + vote_power k (others c) (Votes att)"
    by (simp add: quorum_def t)
  then show ?thesis
    using tallyVotes_Ok [OF assms(1) nonneg rest [unfolded eq]] att by metis
qed

text \<open>Two attestations that no validator voted for together cannot both have a quorum.\<close>

lemma quorum_intersection:
  assumes "staking_laws k" "quorum k c a" "quorum k c b"
    and "\<And>s. s \<in> set (Votes a @ Votes b) \<Longrightarrow> \<exists>v. s = ValAddress_String k v \<and> VerifyAddressFormat k v = None"
    and "distinct (Votes a @ Votes b)" "bech32_laws k"
  shows False
proof -
  obtain t where t: "GetLastTotalPower k (others c) = Inr t"
    "AttestationVotesPowerThreshold * t div 100 < vote_power k (others c) (Votes a)"
    "AttestationVotesPowerThreshold * t div 100 < vote_power k (others c) (Votes b)"
    using assms(2,3) by (auto simp: quorum_def)
  define val where "val s = (case ValAddressFromBech32 k s of Inr v \<Rightarrow> v)" for s
  have val: "ValAddressFromBech32 k s = Inr (val s) \<and> s = ValAddress_String k (val s)" if "s \<in> set (Votes a @ Votes b)" for s
    using assms(4) [OF that] assms(6) by (auto simp: val_def bech32_laws_def)
  have "inj_on val (set (Votes a @ Votes b))"
    using val by (metis inj_on_inverseI)
  then have "distinct (map val (Votes a @ Votes b))"
    using assms(5) by (simp only: distinct_map)
  then have "sum_list (map (validator_power k (others c)) (map val (Votes a @ Votes b))) \<le> t"
    using assms(1) t(1) unfolding staking_laws_def by blast
  moreover have "vote_power k (others c) (Votes a @ Votes b) =
      sum_list (map (validator_power k (others c)) (map val (Votes a @ Votes b)))"
    unfolding vote_power_def using val by (intro arg_cong [of _ _ sum_list]) simp
  moreover have "vote_power k (others c) (Votes a @ Votes b) = vote_power k (others c) (Votes a) + vote_power k (others c) (Votes b)"
    by (simp add: vote_power_def)
  ultimately show False
    using t total_power_nonneg [OF assms(1) t(1)] by (simp add: AttestationVotesPowerThreshold_def)
qed

section \<open>Applying an observed event\<close>

lemma processAttestation_Ok:
  "processAttestation k handle att claim c = Ok u c' \<Longrightarrow>
     handle att claim c = Ok () c' \<or> (\<exists>e d. handle att claim c = Err e d) \<and> c' = c"
  by (auto simp: processAttestation_def bind_Ok orPanic_Ok lift_Ok split: outcome.splits)

lemma SetLastObservedHeight_Ok:
  "SetLastObservedEthereumBlockHeight h c = Ok u c' \<Longrightarrow>
     c' = c\<lparr>lastObservedEthereumBlockHeight := Some \<lparr>CosmosBlockHeight = BlockHeight c, EthereumBlockHeight = h\<rparr>\<rparr> \<and>
     (\<forall>p. lastObservedEthereumBlockHeight c = Some p \<longrightarrow> EthereumBlockHeight p \<le> h)"
  by (auto simp: SetLastObservedEthereumBlockHeight_def GetLastObservedEthereumBlockHeight_def bind_Ok panicIf_Ok not_less
      split: option.splits)

text \<open>The bookkeeping that precedes the handler.\<close>

definition marked :: "Attestation \<Rightarrow> bytes \<Rightarrow> 'x ctx \<Rightarrow> 'x ctx" where
  "marked att hash c = c\<lparr>lastObservedEventNonce := Some (GetEventNonce (Claim att)),
     lastObservedEthereumBlockHeight :=
       Some \<lparr>CosmosBlockHeight = BlockHeight c, EthereumBlockHeight = GetEthBlockHeight (Claim att)\<rparr>,
     oracleAttestation := kv_set (GetEventNonce (Claim att), hash) (att\<lparr>Observed := True\<rparr>) (oracleAttestation c)\<rparr>"

lemma observe_Ok:
  assumes "observe k handle att (Claim att) hash c = Ok u c'"
  shows "GetEventNonce (Claim att) = last_observed c + 1 \<and> last_observed c < GetEventNonce (Claim att) \<and>
    (handle (att\<lparr>Observed := True\<rparr>) (Claim att) (marked att hash c) = Ok () c' \<or>
     (\<exists>e d. handle (att\<lparr>Observed := True\<rparr>) (Claim att) (marked att hash c) = Err e d) \<and> c' = marked att hash c)"
proof -
  obtain c1 c2 where n: "GetEventNonce (Claim att) = last_observed c + 1"
    and set: "setLastObservedEventNonce (GetEventNonce (Claim att)) c = Ok () c1"
    and height: "SetLastObservedEthereumBlockHeight (GetEthBlockHeight (Claim att)) c1 = Ok () c2"
    and rest: "bind (SetAttestation (GetEventNonce (Claim att)) hash (att\<lparr>Observed := True\<rparr>)) (\<lambda>_.
          bind (processAttestation k handle (att\<lparr>Observed := True\<rparr>) (Claim att)) (\<lambda>_.
            emitObservedEvent k (att\<lparr>Observed := True\<rparr>) (Claim att))) c2 = Ok u c'"
    using assms unfolding observe_def Let_def
    by (auto simp: bind_step [of GetLastObservedEventNonce] GetLastObservedEventNonce_run bind_Ok [of "panicIf _ _"] panicIf_Ok
        bind_Ok [of "setLastObservedEventNonce _"] bind_Ok [of "SetLastObservedEthereumBlockHeight _"])
  have less: "last_observed c < GetEventNonce (Claim att)" and "c1 = c\<lparr>lastObservedEventNonce := Some (GetEventNonce (Claim att))\<rparr>"
    using set n unfolding setLastObservedEventNonce_Ok by auto
  then have "c2\<lparr>oracleAttestation := kv_set (GetEventNonce (Claim att), hash) (att\<lparr>Observed := True\<rparr>) (oracleAttestation c2)\<rparr>
      = marked att hash c"
    using SetLastObservedHeight_Ok [OF height] by (simp add: marked_def)
  with rest obtain d where "processAttestation k handle (att\<lparr>Observed := True\<rparr>) (Claim att) (marked att hash c) = Ok () d"
      "emitObservedEvent k (att\<lparr>Observed := True\<rparr>) (Claim att) d = Ok u c'"
    by (auto simp: SetAttestation_def bind_Ok [of "processAttestation _ _ _ _"])
  then show ?thesis
    using n less processAttestation_Ok [of k handle "att\<lparr>Observed := True\<rparr>" "Claim att" "marked att hash c" "()" d]
      readonly_Ok [OF keeps_oracle_readers(8)] by blast
qed

section \<open>The claim handler's contract\<close>

text \<open>The part of the state that belongs to the oracle; a handler must leave it alone.\<close>

definition oracle_view :: "'x ctx \<Rightarrow>
    (uint64 \<times> bytes, Attestation) kv \<times> (ValAddress, uint64) kv \<times> uint64 option \<times> LastObservedEthereumBlockHeight option" where
  "oracle_view c = (oracleAttestation c, lastEventNonceByValidator c, lastObservedEventNonce c, lastObservedEthereumBlockHeight c)"

lemma oracle_ok_cong: "oracle_view c' = oracle_view c \<Longrightarrow> oracle_ok k c' \<longleftrightarrow> oracle_ok k c"
  by (simp add: oracle_view_def oracle_ok_def attestation_ok_def last_observed_def)

locale claim_handler =
  fixes k :: "'x Keeper" and handle :: "'x handler"
  assumes handle_frame: "keeps (\<lambda>c. oracle_view c = s) (handle att claim)"
begin

lemma observe_oracle:
  assumes "observe k handle att (Claim att) hash c = Ok u c'"
  shows "oracle_view c' = oracle_view (marked att hash c)"
proof -
  have "oracle_view c' = oracle_view (marked att hash c)"
    if "handle (att\<lparr>Observed := True\<rparr>) (Claim att) (marked att hash c) = Ok () c'"
    using keeps_Ok [OF handle_frame _ that] by blast
  then show ?thesis
    using observe_Ok [OF assms] by blast
qed

text \<open>An attestation becomes observed only in turn, and only with a quorum.\<close>

lemma TryAttestation_oracle:
  assumes "staking_laws k" "TryAttestation k handle att c = Ok u c'"
  shows "c' = c \<and> \<not> quorum k c att \<or>
    quorum k c att \<and> \<not> Observed att \<and> GetEventNonce (Claim att) = last_observed c + 1 \<and>
    last_observed c < GetEventNonce (Claim att) \<and>
    (\<exists>hash. ClaimHash k (Claim att) = Inr hash \<and> oracle_view c' = oracle_view (marked att hash c))"
  using TryAttestation_Ok [OF assms] observe_Ok [of k handle att _ c u c'] observe_oracle [of att _ c u c']
  by (auto split: if_splits)

lemma oracle_ok_TryAttestation:
  assumes "staking_laws k" and ok: "oracle_ok k c" and run: "TryAttestation k handle att c = Ok u c'"
    and stored: "kv_get (oracleAttestation c) (n, h) = Some att"
  shows "oracle_ok k c'"
proof (cases "quorum k c att")
  case True
  have att: "attestation_ok k c n h att"
    using oracle_okD(1) [OF ok stored] .
  then have new: "n = last_observed c + 1" "last_observed c < n" "oracle_view c' = oracle_view (marked att h c)"
    using TryAttestation_oracle [OF assms(1) run] True by (auto simp: attestation_ok_def)
  have lo: "last_observed (marked att h c) = n"
    using att by (simp add: marked_def last_observed_def attestation_ok_def)
  have "oracle_ok k (marked att h c)"
  proof (rule oracle_ok_put [OF ok])
    show "oracleAttestation (marked att h c) = kv_set (n, h) (att\<lparr>Observed := True\<rparr>) (oracleAttestation c)"
      using att by (simp add: marked_def attestation_ok_def)
    show "attestation_ok k (marked att h c) n h (att\<lparr>Observed := True\<rparr>)"
      using att lo unfolding attestation_ok_def by (simp add: marked_def)
    show "attestation_ok k (marked att h c) m h' a" if "attestation_ok k c m h' a" for m h' a
      using that new(2) lo unfolding attestation_ok_def by (auto simp: marked_def)
    show "set (Votes (att\<lparr>Observed := True\<rparr>)) \<inter> set (Votes a) = {} \<and> \<not> (Observed (att\<lparr>Observed := True\<rparr>) \<and> Observed a)"
      if a: "kv_get (oracleAttestation c) (n, h') = Some a" "h' \<noteq> h" for h' a
      using oracle_okD(1) [OF ok a(1)] oracle_okD(2) [OF ok a(1) stored a(2)] new(2)
      by (auto simp: attestation_ok_def)
  qed
  then show ?thesis
    using oracle_ok_cong [OF new(3)] by simp
next
  case False
  then show ?thesis
    using TryAttestation_oracle [OF assms(1) run] ok by auto
qed

end

section \<open>Votes\<close>

text \<open>
  C2: a vote counts for a single validator, once per nonce and in order: it is accepted only at the next nonce of
  the validator behind the orchestrator and only for an attestation with exactly the components of the
  submitted claim; after it no other attestation of that nonce holds a vote of that validator, and
  the invariant of the oracle is kept.
\<close>

theorem Attest_correct:
  assumes "bech32_laws k" "oracle_ok k c" "Attest k claim claim c = Ok att c'"
  shows "oracle_ok k c' \<and> (\<exists>v h cs. GetEventNonce claim = next_nonce c v \<and> ClaimHash k claim = Inr h \<and>
    kv_get (oracleAttestation c') (GetEventNonce claim, h) = Some att \<and>
    ClaimComponents att = Some cs \<and> ExtractClaimHashComponents k claim = Inr cs \<and>
    last (Votes att) = ValAddress_String k v \<and> distinct (Votes att) \<and>
    kv_get (lastEventNonceByValidator c') v = Some (GetEventNonce claim) \<and>
    (\<forall>h' att'. h' \<noteq> h \<and> kv_get (oracleAttestation c') (GetEventNonce claim, h') = Some att' \<longrightarrow>
       ValAddress_String k v \<notin> set (Votes att')))"
proof -
  have ok': "oracle_ok k c'"
    using oracle_ok_Attest [OF assms] .
  obtain v hash cs where v: "GetEventNonce claim = next_nonce c v" "ClaimHash k claim = Inr hash"
    and cs: "ClaimComponents att = Some cs" "ExtractClaimHashComponents k claim = Inr cs"
    and votes: "last (Votes att) = ValAddress_String k v" "ValAddress_String k v \<in> set (Votes att)"
    and store: "kv_get (oracleAttestation c') (GetEventNonce claim, hash) = Some att"
      "kv_get (lastEventNonceByValidator c') v = Some (GetEventNonce claim)"
    using Attest_Ok [OF assms(3)] by fastforce
  have "distinct (Votes att)"
    using oracle_okD(1) [OF ok' store(1)] by (simp add: attestation_ok_def)
  then show ?thesis
    using ok' v cs votes store oracle_okD(2) [OF ok' store(1)] by blast
qed

text \<open>
  C3: two different attestations with the same event nonce never both have more than 66% of the voting
  power behind them: whatever the handler does, at most one of them can be observed from the same state.
\<close>

theorem no_two_quorums:
  assumes "bech32_laws k" "staking_laws k" "oracle_ok k c"
    and "kv_get (oracleAttestation c) (n, h) = Some a" "kv_get (oracleAttestation c) (n, h') = Some b" "h \<noteq> h'"
    and "TryAttestation k handle a c = Ok u c1" "TryAttestation k handle b c = Ok w c2"
  shows "\<not> (quorum k c a \<and> quorum k c b) \<and> (c1 = c \<or> c2 = c)"
proof -
  have ok: "attestation_ok k c n h a" "attestation_ok k c n h' b"
    using oracle_okD(1) [OF assms(3)] assms(4,5) by blast+
  have "distinct (Votes a @ Votes b)"
    using ok oracle_okD(2) [OF assms(3-6)] by (simp add: attestation_ok_def)
  moreover have "\<exists>v. s = ValAddress_String k v \<and> VerifyAddressFormat k v = None" if "s \<in> set (Votes a @ Votes b)" for s
    using that ok unfolding attestation_ok_def by auto
  ultimately have "\<not> (quorum k c a \<and> quorum k c b)"
    using quorum_intersection [OF assms(2)] assms(1) by blast
  then show ?thesis
    using TryAttestation_Ok [OF assms(2,7)] TryAttestation_Ok [OF assms(2,8)] by metis
qed

end
