(* ===== verification/IbcForward.thy ===== *)
theory IbcForward
  imports Bech32Ibc Attestation
begin

text \<open>
  Deposits for accounts on other chains (\<open>x/gravity/keeper/ibc_auto_forward.go\<close>,
  \<open>types/ibc_auto_forward.go\<close>): the queue of pending forwards, filled by the attestation handler and emptied
  by \<open>MsgExecuteIbcAutoForwards\<close>.
\<close>

section \<open>Validation\<close>

definition PendingIbcAutoForward_ValidateBasic :: "'x Keeper \<Rightarrow> PendingIbcAutoForward \<Rightarrow> error option" where
  "PendingIbcAutoForward_ValidateBasic k p =
     (case DecodeAndConvert k (ForeignReceiver p) of
        Inl e \<Rightarrow> Some (Wrapped e ''ForeignReceiver is not a valid bech32 address'')
      | Inr (pref, _) \<Rightarrow>
          if pref = NativeBech32Prefix k then
            Some (Wrapped (SdkErr ''ErrInvalidAddress'') ''ForeignReceiver cannot have the native chain prefix'')
          else if Coin_Amount (Forward_Token p) = 0 then Some (Wrapped (SdkErr ''ErrInvalidCoins'') ''Token must be non-zero'')
          else if IbcChannel p = [] then Some (Wrapped ErrInvalid ''IbcChannel must not be an empty string'')
          else if Forward_EventNonce p = 0 then Some (Wrapped ErrInvalid ''EventNonce must be non-zero'')
          else None)"

definition ValidatePendingIbcAutoForward :: "'x Keeper \<Rightarrow> PendingIbcAutoForward \<Rightarrow> ('x, unit) gop" where
  "ValidatePendingIbcAutoForward k forward =
     bind (check (PendingIbcAutoForward_ValidateBasic k forward)) (\<lambda>_.
     bind (check (Wrap (ValidateStrictDenom k (Coin_Denom (Forward_Token forward))) ''invalid IBC auto-forward token denom'')) (\<lambda>_.
     bind GetLastObservedEventNonce (\<lambda>latestEventNonce.
     bind (failIf (Forward_EventNonce forward > latestEventNonce)
             (Wrapped ErrInvalid ''EventNonce must be <= latest observed event nonce'')) (\<lambda>_.
     bind (wrapErr ''ForeignReceiver is not a valid bech32 address'' (lift (DecodeAndConvert k (ForeignReceiver forward)))) (\<lambda>(pref, _).
     bind (mapErr (\<lambda>_. Wrapped (SdkErr ''ErrInvalidHRP'') ''ForeignReciever has an invalid or unregistered prefix'')
             (GetHrpIbcRecord pref)) (\<lambda>hrpRecord.
     bind (failIf (IbcChannel forward \<noteq> SourceChannel hrpRecord)
             (Wrapped ErrMismatched ''IbcChannel does not match the registered prefix's IBC channel'')) (\<lambda>_.
     bind (reads (\<lambda>ctx. GetBalance k (others ctx) (GetModuleAddress k ModuleName) (Coin_Denom (Forward_Token forward)))) (\<lambda>modBal.
     bind (Coin_IsLT modBal (Forward_Token forward)) (\<lambda>lt.
       failIf lt (Wrapped (SdkErr ''ErrInsufficientFunds'') ''Gravity Module account does not have enough funds''))))))))))"

section \<open>The queue\<close>

definition GetNextPendingIbcAutoForward :: "('x, PendingIbcAutoForward option) gop" where
  "GetNextPendingIbcAutoForward =
     reads (\<lambda>ctx. case kv_asc (pendingIbcAutoForwards ctx) of [] \<Rightarrow> None | (_, forward) # _ \<Rightarrow> Some forward)"

definition IteratePendingIbcAutoForwards ::
  "(uint64 \<Rightarrow> PendingIbcAutoForward \<Rightarrow> 'b \<Rightarrow> ('x, bool \<times> 'b) gop) \<Rightarrow> 'b \<Rightarrow> ('x, 'b) gop" where
  "IteratePendingIbcAutoForwards cb acc =
     bind (reads (\<lambda>ctx. kv_asc (pendingIbcAutoForwards ctx))) (\<lambda>entries. iterM (\<lambda>(key, forward). cb key forward) entries acc)"

definition PendingIbcAutoForwards :: "uint64 \<Rightarrow> ('x, PendingIbcAutoForward list) gop" where
  "PendingIbcAutoForwards limit =
     IteratePendingIbcAutoForwards (\<lambda>_ forward forwards.
       return (limit \<noteq> 0 \<and> word_of_nat (length (forwards @ [forward])) \<ge> limit, forwards @ [forward])) []"

definition addPendingIbcAutoForward :: "'x Keeper \<Rightarrow> PendingIbcAutoForward \<Rightarrow> string \<Rightarrow> ('x, unit) gop" where
  "addPendingIbcAutoForward k forward token =
     bind (ValidatePendingIbcAutoForward k forward) (\<lambda>_.
     bind (reads (\<lambda>ctx. kv_has (pendingIbcAutoForwards ctx) (Forward_EventNonce forward))) (\<lambda>has.
       if has then fail (Wrapped ErrDuplicate ''Pending IBC Auto-Forward Queue already has an entry with nonce'')
       else modify (\<lambda>ctx. ctx\<lparr>pendingIbcAutoForwards :=
              kv_set (Forward_EventNonce forward) forward (pendingIbcAutoForwards ctx)\<rparr>)))"

definition deletePendingIbcAutoForward :: "uint64 \<Rightarrow> ('x, unit) gop" where
  "deletePendingIbcAutoForward eventNonce =
     bind (reads (\<lambda>ctx. kv_has (pendingIbcAutoForwards ctx) eventNonce)) (\<lambda>has.
       if \<not> has then fail (Wrapped ErrInvalid ''No PendingIbcAutoForward with nonce in the store'')
       else modify (\<lambda>ctx. ctx\<lparr>pendingIbcAutoForwards := kv_del eventNonce (pendingIbcAutoForwards ctx)\<rparr>))"

section \<open>Processing\<close>

definition createIbcMsgTransfer :: "string \<Rightarrow> PendingIbcAutoForward \<Rightarrow> string \<Rightarrow> uint64 \<Rightarrow> MsgTransfer" where
  "createIbcMsgTransfer portId forward sender timeoutTimestampNs =
     \<lparr>Transfer_SourcePort = portId, Transfer_SourceChannel = IbcChannel forward, Transfer_Token = Forward_Token forward,
      Transfer_Sender = sender, Transfer_Receiver = ForeignReceiver forward, TimeoutHeight = (0, 0),
      TimeoutTimestamp = timeoutTimestampNs, Memo = ''IBC Auto-Forward via Gravity Bridge''\<rparr>"

text \<open>Times are nanoseconds since the epoch.\<close>

definition thirtyDaysInFuture :: "('x, int) gop" where
  "thirtyDaysInFuture = reads (\<lambda>ctx. BlockTime ctx + 3600000000000 * 24 * 30)"

definition logEmitIbcForwardFailureEvent :: "'x Keeper \<Rightarrow> PendingIbcAutoForward \<Rightarrow> ('x, unit) gop" where
  "logEmitIbcForwardFailureEvent k forward =
     bind (orPanic ''invalid receiver'' (lift (IBCAddressFromBech32 k (ForeignReceiver forward)))) (\<lambda>_. return ())"

definition sendForward :: "'x Keeper \<Rightarrow> PendingIbcAutoForward \<Rightarrow> ('x, bool) gop" where
  "sendForward k forward =
     bind (reads (\<lambda>ctx. ibc_GetPort k (others ctx))) (\<lambda>portId.
     bind (orPanic ''Invalid ForeignReceiver found in Pending IBC Auto-Forward queue''
            (lift (IBCAddressFromBech32 k (ForeignReceiver forward)))) (\<lambda>fallback.
     bind (sdk_NewCoins k [Forward_Token forward]) (\<lambda>coins.
     bind (attempt (liftX (SendCoinsFromModuleToAccount k ModuleName fallback coins))) (\<lambda>sent.
       case sent of
         Inl _ \<Rightarrow> bind (SendToCommunityPool k coins) (\<lambda>_. return False)
       | Inr _ \<Rightarrow>
           bind thirtyDaysInFuture (\<lambda>timeoutTime.
           bind (attempt (liftX (ibc_Transfer k
                   (createIbcMsgTransfer portId forward (AccAddress_String k fallback) (word_of_int timeoutTime))))) (\<lambda>recoverableErr.
             case recoverableErr of
               Inr _ \<Rightarrow> return False
             | Inl _ \<Rightarrow> bind (logEmitIbcForwardFailureEvent k forward) (\<lambda>_. return False)))))))"

definition ProcessNextPendingIbcAutoForward :: "'x Keeper \<Rightarrow> ('x, bool) gop" where
  "ProcessNextPendingIbcAutoForward k =
     bind GetNextPendingIbcAutoForward (\<lambda>nextForward.
       case nextForward of
         None \<Rightarrow> return True
       | Some forward \<Rightarrow>
           bind (panicIf (PendingIbcAutoForward_ValidateBasic k forward \<noteq> None)
                  ''Invalid forward found in Pending IBC Auto-Forward queue'') (\<lambda>_.
           bind (panicIf (ValidateStrictDenom k (Coin_Denom (Forward_Token forward)) \<noteq> None)
                  ''Invalid denom in Pending IBC Auto-Forward queue'') (\<lambda>_.
           bind (orPanic ''Discovered nonexistent Pending IBC Auto-Forward in the queue''
                  (deletePendingIbcAutoForward (Forward_EventNonce forward))) (\<lambda>_.
             sendForward k forward))))"

fun processForwards :: "'x Keeper \<Rightarrow> nat \<Rightarrow> ('x, unit) gop" where
  "processForwards k 0 = return ()"
| "processForwards k (Suc n) =
     bind (wrapErr ''unable to process Pending IBC Auto-Forward'' (ProcessNextPendingIbcAutoForward k)) (\<lambda>stop.
       if stop then return () else processForwards k n)"

definition ProcessPendingIbcAutoForwards :: "'x Keeper \<Rightarrow> uint64 \<Rightarrow> ('x, unit) gop" where
  "ProcessPendingIbcAutoForwards k forwardsToClear = processForwards k (unat forwardsToClear)"

section \<open>Reading does not write\<close>

lemma keeps_forward_readers [keeps_rules]:
  "keeps I (Coin_IsLT a b)" "keeps I (Coin_Sub a b)" "keeps I (ValidatePendingIbcAutoForward k f)"
  "keeps I GetNextPendingIbcAutoForward" "keeps I thirtyDaysInFuture" "keeps I (logEmitIbcForwardFailureEvent k f)"
  unfolding Coin_IsLT_def Coin_Sub_def ValidatePendingIbcAutoForward_def GetNextPendingIbcAutoForward_def thirtyDaysInFuture_def
    logEmitIbcForwardFailureEvent_def
  by (intro keeps_rules)+

section \<open>The queue is worked off\<close>

text \<open>Forwards are stored under the nonce of their event, in the order of the nonces.\<close>

definition queue_ok :: "'x ctx \<Rightarrow> bool" where
  "queue_ok c \<longleftrightarrow> kv_ok (pendingIbcAutoForwards c) \<and>
     list_all (\<lambda>e. Forward_EventNonce (snd e) = fst e) (kv_asc (pendingIbcAutoForwards c))"

lemma queue_ok_add:
  assumes "queue_ok c" "addPendingIbcAutoForward k f t c = Ok u c'"
  shows "queue_ok c'"
proof -
  have c': "c' = c\<lparr>pendingIbcAutoForwards := kv_set (Forward_EventNonce f) f (pendingIbcAutoForwards c)\<rparr>"
    using assms(2) by (auto simp: addPendingIbcAutoForward_def bind_readonly [OF keeps_forward_readers(3)] split: if_splits)
  have sorted: "kv_ok (pendingIbcAutoForwards c)"
    and old: "\<forall>n g. kv_get (pendingIbcAutoForwards c) n = Some g \<longrightarrow> Forward_EventNonce g = n"
    using assms(1) by (auto simp: queue_ok_def kv_asc_def list_all_iff kv_get_entries [symmetric])
  have "kv_ok (pendingIbcAutoForwards c')"
    using sorted by (simp add: c')
  moreover have "\<forall>n g. kv_get (pendingIbcAutoForwards c') n = Some g \<longrightarrow> Forward_EventNonce g = n"
    using old by (simp add: c')
  ultimately show ?thesis
    by (auto simp: queue_ok_def kv_asc_def list_all_iff kv_get_entries)
qed

lemma keeps_sendForward: "keeps (\<lambda>c. pendingIbcAutoForwards c = q) (sendForward k f)"
  unfolding sendForward_def SendToCommunityPool_def by (intro keeps_rules keeps_liftX) simp_all

lemma sendForward_stop: "sendForward k f c = Ok stop c' \<Longrightarrow> \<not> stop"
  by (auto simp: sendForward_def run split: sum.splits) (metis (full_types) old.sum.exhaust old.unit.exhaust)+

lemma kv_del_first: "kv_ok ((n, v) # s) \<Longrightarrow> kv_del n ((n, v) # s) = s"
  by (auto simp: kv_ok_Cons kv_del_def filter_id_conv)

lemma next_forward:
  assumes ok: "queue_ok c" and run: "ProcessNextPendingIbcAutoForward k c = Ok stop d"
  shows "queue_ok d \<and> pendingIbcAutoForwards d = tl (pendingIbcAutoForwards c) \<and> (stop \<longleftrightarrow> pendingIbcAutoForwards c = [])"
proof (cases "pendingIbcAutoForwards c")
  case Nil
  then show ?thesis
    using run ok by (simp add: ProcessNextPendingIbcAutoForward_def GetNextPendingIbcAutoForward_def kv_asc_def bind_def)
next
  case (Cons e q)
  obtain n f where e: "e = (n, f)"
    by (rule prod.exhaust)
  then have n: "Forward_EventNonce f = n" and sorted: "kv_ok ((n, f) # q)"
    using ok Cons by (simp_all add: queue_ok_def kv_asc_def)
  let ?c = "c\<lparr>pendingIbcAutoForwards := q\<rparr>"
  have "deletePendingIbcAutoForward n c = Ok () ?c"
    using Cons e kv_del_first [OF sorted] by (simp add: deletePendingIbcAutoForward_def kv_has_def kv_get_def bind_def)
  then have send: "sendForward k f ?c = Ok stop d"
    using run Cons e n
    by (auto simp: ProcessNextPendingIbcAutoForward_def GetNextPendingIbcAutoForward_def kv_asc_def bind_readonly [OF keeps_panicIf]
        bind_Ok [of "orPanic _ _"] orPanic_Ok)
  have "pendingIbcAutoForwards d = q"
    using keeps_Ok [OF keeps_sendForward _ send, of q] by simp
  then show ?thesis
    using sendForward_stop [OF send] ok Cons e by (simp add: queue_ok_def kv_asc_def kv_ok_Cons)
qed

lemma processForwards_drop:
  "queue_ok c \<Longrightarrow> processForwards k n c = Ok u c' \<Longrightarrow> queue_ok c' \<and> pendingIbcAutoForwards c' = drop n (pendingIbcAutoForwards c)"
proof (induction n arbitrary: c)
  case (Suc n)
  from Suc.prems(2) obtain stop d where step: "ProcessNextPendingIbcAutoForward k c = Ok stop d"
    and rest: "(if stop then return () else processForwards k n) d = Ok u c'"
    by (auto simp: bind_Ok wrapErr_Ok)
  note next_forward [OF Suc.prems(1) step]
  with rest Suc.IH [of d] show ?case
    by (auto simp: drop_Suc split: if_splits)
qed simp

lemma processForwards_bounded:
  "queue_ok c \<Longrightarrow> length (pendingIbcAutoForwards c) < n \<Longrightarrow>
     processForwards k n c = processForwards k (Suc (length (pendingIbcAutoForwards c))) c"
proof (induction n arbitrary: c)
  case (Suc n)
  have "(if stop then return () else processForwards k n) d =
      (if stop then return () else processForwards k (length (pendingIbcAutoForwards c))) d"
    if step: "ProcessNextPendingIbcAutoForward k c = Ok stop d" for stop d
  proof (cases stop)
    case False
    note d = next_forward [OF Suc.prems(1) step]
    then have "Suc (length (pendingIbcAutoForwards d)) = length (pendingIbcAutoForwards c)"
      using False by (cases "pendingIbcAutoForwards c") simp_all
    then show ?thesis
      using Suc.IH [of d] Suc.prems(2) d False by simp
  qed simp
  then show ?case
    by (cases "ProcessNextPendingIbcAutoForward k c") (simp_all add: bind_def wrapErr_def mapErr_def)
qed simp

text \<open>
  C0: working off the queue of deposits for other chains ends, whatever number of forwards the message asks for:
  the loop takes at most one turn more than the queue is long.  When it returns, the forwards it was asked for
  are gone from the front of the queue, in the order of their events, and every other one is still there.
\<close>

theorem ProcessPendingIbcAutoForwards_terminates:
  assumes "queue_ok c"
  shows "ProcessPendingIbcAutoForwards k n c = processForwards k (min (unat n) (Suc (length (pendingIbcAutoForwards c)))) c \<and>
    (\<forall>u c'. ProcessPendingIbcAutoForwards k n c = Ok u c' \<longrightarrow>
       queue_ok c' \<and> pendingIbcAutoForwards c' = drop (unat n) (pendingIbcAutoForwards c))"
proof
  show "ProcessPendingIbcAutoForwards k n c = processForwards k (min (unat n) (Suc (length (pendingIbcAutoForwards c)))) c"
    using processForwards_bounded [OF assms, of "unat n" k]
    by (cases "length (pendingIbcAutoForwards c) < unat n") (simp_all add: ProcessPendingIbcAutoForwards_def min_def)
  show "\<forall>u c'. ProcessPendingIbcAutoForwards k n c = Ok u c' \<longrightarrow>
      queue_ok c' \<and> pendingIbcAutoForwards c' = drop (unat n) (pendingIbcAutoForwards c)"
    using processForwards_drop [OF assms] by (simp add: ProcessPendingIbcAutoForwards_def)
qed

end
