(* ===== verification/AttestationHandler.thy ===== *)
theory AttestationHandler
  imports IbcForward Escrow
begin

text \<open>
  Applying observed events (\<open>x/gravity/keeper/attestation_handler.go\<close>): deposits, executed batches, deployed
  ERC20 representations and validator set updates.
\<close>

section \<open>Deposits\<close>

text \<open>Every logged error first computes the claim hash, which may itself fail.\<close>

definition logClaim :: "'x Keeper \<Rightarrow> MsgSendToCosmosClaim \<Rightarrow> ('x, unit) gop" where
  "logClaim k claim =
     bind (wrapErr ''Unable to log error, could not compute ClaimHash'' (lift (ClaimHash k (SendToCosmosClaim claim)))) (\<lambda>_. return ())"

definition moduleBalance :: "'x Keeper \<Rightarrow> string \<Rightarrow> ('x, Coin) gop" where
  "moduleBalance k denom = reads (\<lambda>ctx. GetBalance k (others ctx) (GetModuleAddress k ModuleName) denom)"

definition assertNothingSent :: "'x Keeper \<Rightarrow> Coin \<Rightarrow> string \<Rightarrow> ('x, unit) gop" where
  "assertNothingSent k preSendBalance denom =
     bind (moduleBalance k denom) (\<lambda>postSendBalance.
       panicIf (preSendBalance \<noteq> postSendBalance) ''SendToCosmos somehow sent tokens in an error case!'')"

definition assertSentAmount :: "'x Keeper \<Rightarrow> Coin \<Rightarrow> string \<Rightarrow> int \<Rightarrow> ('x, unit) gop" where
  "assertSentAmount k preSendBalance denom amount =
     bind (moduleBalance k denom) (\<lambda>postSendBalance.
     bind (Coin_Sub preSendBalance postSendBalance) (\<lambda>diff.
       panicIf (Coin_Amount diff \<noteq> amount) ''SendToCosmos somehow sent incorrect amount!''))"

definition mintEthereumOriginatedVouchers :: "'x Keeper \<Rightarrow> MsgSendToCosmosClaim \<Rightarrow> Coin \<Rightarrow> ('x, unit) gop" where
  "mintEthereumOriginatedVouchers k claim coin =
     bind (moduleBalance k (Coin_Denom coin)) (\<lambda>preMintBalance.
     bind (reads (\<lambda>ctx. GetSupply k (others ctx) (Coin_Denom coin))) (\<lambda>prevSupply.
     bind (failIf (\<bar>Coin_Amount prevSupply + STC_Amount claim\<bar> \<ge> 2 ^ 256)
            (Wrapped (SdkErr ''ErrIntOverflowAttestation'') ''invalid supply after SendToCosmos attestation'')) (\<lambda>_.
     bind (sdk_NewCoins k [coin]) (\<lambda>coins.
     bind (attempt (liftX (MintCoins k ModuleName coins))) (\<lambda>minted.
       case minted of
         Inl err \<Rightarrow> bind (logClaim k claim) (\<lambda>_. fail (Wrapped err ''mint vouchers coins''))
       | Inr _ \<Rightarrow>
           bind (moduleBalance k (Coin_Denom coin)) (\<lambda>postMintBalance.
           bind (Coin_Sub postMintBalance preMintBalance) (\<lambda>diff.
             panicIf (Coin_Amount diff \<noteq> STC_Amount claim) ''Somehow minted incorrect amount!'')))))))"

definition sendCoinToLocalAddress :: "'x Keeper \<Rightarrow> MsgSendToCosmosClaim \<Rightarrow> AccAddress \<Rightarrow> Coin \<Rightarrow> ('x, unit) gop" where
  "sendCoinToLocalAddress k claim receiver coin =
     bind (sdk_NewCoins k [coin]) (\<lambda>coins.
     bind (attempt (liftX (SendCoinsFromModuleToAccount k ModuleName receiver coins))) (\<lambda>sent.
       case sent of
         Inl err \<Rightarrow> bind (logClaim k claim) (\<lambda>_. fail err)
       | Inr _ \<Rightarrow> return ()))"

definition addToIbcAutoForwardQueue ::
  "'x Keeper \<Rightarrow> AccAddress \<Rightarrow> string \<Rightarrow> Coin \<Rightarrow> string \<Rightarrow> MsgSendToCosmosClaim \<Rightarrow> ('x, unit) gop" where
  "addToIbcAutoForwardQueue k receiver accountPrefix coin channel claim =
     bind (panicIf (TrimSpace accountPrefix = []) ''invalid call to addToIbcAutoForwardQueue: provided accountPrefix is empty!'') (\<lambda>_.
     bind (panicIf (GetPrefixFromBech32 (STC_CosmosReceiver claim) \<noteq> Inr accountPrefix)
            ''invalid call to addToIbcAutoForwardQueue: invalid or inaccurate accountPrefix!'') (\<lambda>_.
       addPendingIbcAutoForward k
         \<lparr>ForeignReceiver = STC_CosmosReceiver claim, Forward_Token = coin, IbcChannel = channel, Forward_EventNonce = STC_EventNonce claim\<rparr>
         (STC_TokenContract claim)))"

text \<open>The result says whether an IBC forward was queued.\<close>

definition sendCoinToCosmosAccount :: "'x Keeper \<Rightarrow> MsgSendToCosmosClaim \<Rightarrow> AccAddress \<Rightarrow> Coin \<Rightarrow> ('x, bool) gop" where
  "sendCoinToCosmosAccount k claim receiver coin =
     (case GetPrefixFromBech32 (STC_CosmosReceiver claim) of
        Inl err \<Rightarrow> bind (logClaim k claim) (\<lambda>_. fail err)
      | Inr accountPrefix \<Rightarrow>
          bind (orPanic ''SendToCosmos failure: bech32ibc NativeHrp has not been set!'' GetNativeHrp) (\<lambda>nativePrefix.
            if accountPrefix = nativePrefix then
              bind (sendCoinToLocalAddress k claim receiver coin) (\<lambda>_. return False)
            else
              bind (attempt (GetHrpIbcRecord accountPrefix)) (\<lambda>r.
                case r of
                  Inl _ \<Rightarrow>
                    bind (logClaim k claim) (\<lambda>_.
                    bind (wrapErr ''Unregistered foreign prefix, send via x/bank''
                           (sendCoinToLocalAddress k claim receiver coin)) (\<lambda>_. return False))
                | Inr hrpIbcRecord \<Rightarrow>
                    bind (attempt (addToIbcAutoForwardQueue k receiver accountPrefix coin (SourceChannel hrpIbcRecord) claim)) (\<lambda>q.
                      case q of
                        Inl _ \<Rightarrow>
                          bind (wrapErr ''IBC Transfer failure, send via x/bank''
                                 (sendCoinToLocalAddress k claim receiver coin)) (\<lambda>_. return False)
                      | Inr _ \<Rightarrow> return True))))"

text \<open>The result says that the deposit must go to the community pool.\<close>

definition deliverDeposit :: "'x Keeper \<Rightarrow> MsgSendToCosmosClaim \<Rightarrow> AccAddress \<Rightarrow> Coin \<Rightarrow> ('x, bool) gop" where
  "deliverDeposit k claim receiver coin =
     bind (moduleBalance k (Coin_Denom coin)) (\<lambda>preSendBalance.
     bind (attempt (sendCoinToCosmosAccount k claim receiver coin)) (\<lambda>r.
       case r of
         Inl _ \<Rightarrow> bind (assertNothingSent k preSendBalance (Coin_Denom coin)) (\<lambda>_. return True)
       | Inr ibcForwardQueued \<Rightarrow>
           bind (if ibcForwardQueued then assertNothingSent k preSendBalance (Coin_Denom coin)
                 else assertSentAmount k preSendBalance (Coin_Denom coin) (STC_Amount claim)) (\<lambda>_. return False)))"

definition depositToCommunityPool :: "'x Keeper \<Rightarrow> MsgSendToCosmosClaim \<Rightarrow> Coin list \<Rightarrow> ('x, unit) gop" where
  "depositToCommunityPool k claim coins =
     bind (attempt (SendToCommunityPool k coins)) (\<lambda>r.
       case r of
         Inl err \<Rightarrow> bind (logClaim k claim) (\<lambda>_. fail (Wrapped err ''failed to send to Community pool''))
       | Inr _ \<Rightarrow> return ())"

text \<open>
  With a malformed Ethereum sender the code wraps the error of the token contract, which is nil there,
  and so returns success.
\<close>

definition handleSendToCosmos :: "'x Keeper \<Rightarrow> MsgSendToCosmosClaim \<Rightarrow> ('x, unit) gop" where
  "handleSendToCosmos k claim =
     (let receiverAddress = IBCAddressFromBech32 k (STC_CosmosReceiver claim)
      in bind (if isl receiverAddress then logClaim k claim else return ()) (\<lambda>_.
         case NewEthAddress k (STC_TokenContract claim) of
           Inl errTokenAddress \<Rightarrow> bind (logClaim k claim) (\<lambda>_. fail (Wrapped errTokenAddress ''invalid token contract on claim''))
         | Inr tokenAddress \<Rightarrow>
         (case NewEthAddress k (STC_EthereumSender claim) of
           Inl _ \<Rightarrow> bind (logClaim k claim) (\<lambda>_. return ())
         | Inr ethereumSender \<Rightarrow>
             bind (IsOnBlacklist k ethereumSender) (\<lambda>blacklisted.
             bind (if blacklisted then logClaim k claim else return ()) (\<lambda>_.
             bind (wrapErr ''failed to classify ERC20 token'' (ClassifyERC20 k tokenAddress)) (\<lambda>tokenOrigin.
             bind (check (Wrap (ValidateStrictDenom k (Denom tokenOrigin)) ''invalid derived denom from ERC20 classification'')) (\<lambda>_.
             bind (if Origin tokenOrigin = AssetOriginCosmos
                   then bind (wrapErr ''token not whitelisted for SendToCosmos'' (assertMetadataWhitelisted k (Denom tokenOrigin))) (\<lambda>_. return ())
                   else return ()) (\<lambda>_.
             bind (NewCoin k (Denom tokenOrigin) (STC_Amount claim)) (\<lambda>coin.
             bind (if Origin tokenOrigin = AssetOriginEthereum then mintEthereumOriginatedVouchers k claim coin else return ()) (\<lambda>_.
             bind (case receiverAddress of
                     Inr receiver \<Rightarrow> if blacklisted then return True else deliverDeposit k claim receiver coin
                   | Inl _ \<Rightarrow> return True) (\<lambda>invalidAddress.
               if invalidAddress then depositToCommunityPool k claim [coin] else return ())))))))))))"

section \<open>Executed batches\<close>

definition handleBatchSendToEth :: "'x Keeper \<Rightarrow> MsgBatchSendToEthClaim \<Rightarrow> ('x, unit) gop" where
  "handleBatchSendToEth k claim =
     bind (wrapErr ''invalid token contract on batch'' (lift (NewEthAddress k (BSE_TokenContract claim)))) (\<lambda>contract.
     bind (wrapErr ''failed to classify ERC20 token'' (ClassifyERC20 k contract)) (\<lambda>contractOrigin.
     bind (check (Wrap (ValidateStrictDenom k (Denom contractOrigin)) ''invalid derived denom for batch'')) (\<lambda>_.
     bind (if Origin contractOrigin = AssetOriginCosmos
           then bind (wrapErr ''token not whitelisted for BatchSendToEth'' (assertMetadataWhitelisted k (Denom contractOrigin))) (\<lambda>_. return ())
           else return ()) (\<lambda>_.
       OutgoingTxBatchExecuted k contract claim))))"

section \<open>Deployed representations\<close>

fun displayExponent :: "string \<Rightarrow> DenomUnit list \<Rightarrow> 32 word" where
  "displayExponent display [] = 0"
| "displayExponent display (denomUnit # units) =
     (if Unit_Denom denomUnit = display then Exponent denomUnit else displayExponent display units)"

definition handleErc20Deployed :: "'x Keeper \<Rightarrow> MsgERC20DeployedClaim \<Rightarrow> ('x, unit) gop" where
  "handleErc20Deployed k claim =
     bind (check (Wrap (ValidateStrictDenom k (ED_CosmosDenom claim)) ''invalid cosmos denom in ERC20 deployed attestation'')) (\<lambda>_.
     bind (wrapErr ''invalid token contract on claim'' (lift (NewEthAddress k (ED_TokenContract claim)))) (\<lambda>tokenAddress.
     bind (validateCosmosOriginatedMapping k (ED_CosmosDenom claim) tokenAddress) (\<lambda>_.
     bind (getCosmosOriginatedERC20ForDenom k (ED_CosmosDenom claim)) (\<lambda>existingERC20.
     bind (failIf (existingERC20 \<noteq> None) (Wrapped ErrInvalid ''ERC20 already exists for denom'')) (\<lambda>_.
     bind (getCosmosOriginatedDenomForERC20 tokenAddress) (\<lambda>existingDenom.
     bind (failIf (existingDenom \<noteq> None) (Wrapped ErrInvalid ''ERC20 already mapped to denom'')) (\<lambda>_.
     bind (wrapErr ''ERC20 deployment blocked because of invalid metadata'' (assertMetadataWhitelisted k (ED_CosmosDenom claim))) (\<lambda>metadata.
     bind (failIf (ED_Name claim \<noteq> Meta_Name metadata) (Wrapped ErrInvalid ''ERC20 name does not match denom name'')) (\<lambda>_.
     bind (failIf (ED_Symbol claim \<noteq> Meta_Symbol metadata) (Wrapped ErrInvalid ''ERC20 symbol does not match denom symbol'')) (\<lambda>_.
     bind (failIf (displayExponent (Display metadata) (DenomUnits metadata) \<noteq> ucast (ED_Decimals claim))
            (Wrapped ErrInvalid ''ERC20 decimals does not match denom decimals'')) (\<lambda>_.
       wrapErr ''failed to register cosmos-originated ERC20 mapping''
         (setCosmosOriginatedMapping k (ED_CosmosDenom claim) tokenAddress))))))))))))"

section \<open>Validator set updates\<close>

definition claimSet :: "MsgValsetUpdatedClaim \<Rightarrow> Valset" where
  "claimSet claim = \<lparr>Valset_Nonce = VU_ValsetNonce claim, Valset_Members = VU_Members claim, Valset_Height = 0,
     Valset_RewardAmount = VU_RewardAmount claim, Valset_RewardToken = VU_RewardToken claim\<rparr>"

definition observeValset :: "MsgValsetUpdatedClaim \<Rightarrow> ('x, unit) gop" where
  "observeValset claim =
     (if VU_ValsetNonce claim \<noteq> 0 then
        bind (GetValset (VU_ValsetNonce claim)) (\<lambda>trusted.
          case trusted of
            None \<Rightarrow> fail (Wrapped ErrInvalidValset ''attested valset does not exist in store'')
          | Some trustedValset \<Rightarrow>
              let observedValset = (claimSet claim)\<lparr>Valset_Height := Valset_Height trustedValset\<rparr>
              in bind (panicIf (isl (Valset_Equal trustedValset observedValset))
                        ''Potential bridge highjacking: observed valset does not match stored valset!'') (\<lambda>_.
                   SetLastObservedValset observedValset))
      else SetLastObservedValset (claimSet claim))"

definition rewardRelayer :: "'x Keeper \<Rightarrow> MsgValsetUpdatedClaim \<Rightarrow> EthAddress \<Rightarrow> ('x, unit) gop" where
  "rewardRelayer k claim rewardAddress =
     (if VU_RewardAmount claim > 0 \<and> VU_RewardToken claim \<noteq> ZeroAddressString then
        bind (wrapErr ''failed to classify reward ERC20 token'' (ClassifyERC20 k rewardAddress)) (\<lambda>rewardOrigin.
        bind (check (Wrap (ValidateStrictDenom k (Denom rewardOrigin)) ''invalid derived reward denom'')) (\<lambda>_.
          if Origin rewardOrigin = AssetOriginCosmos then
            bind (NewCoin k (Denom rewardOrigin) (VU_RewardAmount claim)) (\<lambda>coin.
              wrapErr ''unable to mint cosmos originated coins'' (liftX (MintCoins k ModuleName [coin])))
          else panic ''Can not use Ethereum originated token as reward!''))
      else return ())"

definition handleValsetUpdated :: "'x Keeper \<Rightarrow> MsgValsetUpdatedClaim \<Rightarrow> ('x, unit) gop" where
  "handleValsetUpdated k claim =
     bind (wrapErr ''invalid reward token on claim'' (lift (NewEthAddress k (VU_RewardToken claim)))) (\<lambda>rewardAddress.
     bind (observeValset claim) (\<lambda>_.
       rewardRelayer k claim rewardAddress))"

section \<open>Dispatch\<close>

definition Handle :: "'x Keeper \<Rightarrow> Attestation \<Rightarrow> EthereumClaim \<Rightarrow> ('x, unit) gop" where
  "Handle k att claim =
     bind (check (ValidateClaimFieldLengths k claim)) (\<lambda>_.
       case claim of
         SendToCosmosClaim c \<Rightarrow> handleSendToCosmos k c
       | BatchSendToEthClaim c \<Rightarrow> handleBatchSendToEth k c
       | ERC20DeployedClaim c \<Rightarrow> handleErc20Deployed k c
       | ValsetUpdatedClaim c \<Rightarrow> handleValsetUpdated k c
       | LogicCallExecutedClaim c \<Rightarrow> panic ''Invalid event type for attestations'')"

section \<open>Frames\<close>

text \<open>A view of the chain state that the state of other modules is not part of.\<close>

locale module_frame =
  fixes view :: "'x ctx \<Rightarrow> 'v"
  assumes view_others: "view (c\<lparr>others := x\<rparr>) = view c"
begin

lemma frame_modify: "(\<And>c. view (g c) = view c) \<Longrightarrow> keeps (\<lambda>c. view c = s) (modify g)"
  by (rule keeps_modify) simp

lemma frame_liftX: "keeps (\<lambda>c. view c = s) (liftX m)"
  by (rule keeps_liftX) (simp add: view_others)

lemma frame_community: "keeps (\<lambda>c. view c = s) (SendToCommunityPool k cs)"
  unfolding SendToCommunityPool_def by (intro keeps_rules frame_liftX)

end

text \<open>
  A view that none of the stores of outgoing transfers is part of: operations on the pool and on batches
  leave it as it is.
\<close>

locale outgoing_frame = module_frame +
  assumes view_pool: "view (c\<lparr>outgoingTXPool := pool\<rparr>) = view c"
    and view_batch: "view (c\<lparr>outgoingTXBatch := batches\<rparr>) = view c"
    and view_confirm: "view (c\<lparr>batchConfirm := confirms\<rparr>) = view c"
begin

lemma frame_pool: "keeps (\<lambda>c. view c = s) (addUnbatchedTX k tx)" "keeps (\<lambda>c. view c = s) (DeleteBatch k b)"
  "keeps (\<lambda>c. view c = s) (DeleteBatchConfirms k b)"
  unfolding addUnbatchedTX_def poolKey_def DeleteBatch_def DeleteBatchConfirms_def
    IterateBatchConfirmByNonceAndTokenContract_def GetBatchConfirmByNonceAndTokenContract_def batchConfirmKey_def
  by (intro keeps_rules frame_modify; simp add: view_pool view_batch view_confirm)+

lemma frame_cancel: "keeps (\<lambda>c. view c = s) (CancelOutgoingTXBatch k a n)"
  unfolding CancelOutgoingTXBatch_def by (intro keeps_rules frame_pool)

lemma frame_executed: "keeps (\<lambda>c. view c = s) (OutgoingTxBatchExecuted k a claim)"
  unfolding OutgoingTxBatchExecuted_def burnExecuted_def IterateOutgoingTxBatches_def cancelOlder_def
  by (intro keeps_rules frame_pool frame_cancel frame_liftX)

lemma frame_batches: "keeps (\<lambda>c. view c = s) (handleBatchSendToEth k claim)"
  unfolding handleBatchSendToEth_def by (intro keeps_rules frame_executed)

end

text \<open>A view that excludes what deposits, deployments and validator set updates write.\<close>

locale deposit_frame = module_frame +
  assumes view_forwards: "view (c\<lparr>pendingIbcAutoForwards := fs\<rparr>) = view c"
    and view_valset: "view (c\<lparr>lastObservedValset := v\<rparr>) = view c"
    and view_denoms: "view (c\<lparr>denomToERC20 := ds\<rparr>) = view c" "view (c\<lparr>erc20ToDenom := es\<rparr>) = view c"
begin

lemma frame_deposit: "keeps (\<lambda>c. view c = s) (handleSendToCosmos k claim)"
  unfolding handleSendToCosmos_def depositToCommunityPool_def deliverDeposit_def sendCoinToCosmosAccount_def logClaim_def
    addToIbcAutoForwardQueue_def addPendingIbcAutoForward_def sendCoinToLocalAddress_def mintEthereumOriginatedVouchers_def
    assertSentAmount_def assertNothingSent_def moduleBalance_def
  by (intro keeps_rules frame_community frame_liftX frame_modify) (simp_all add: view_forwards)

lemma frame_deployed: "keeps (\<lambda>c. view c = s) (handleErc20Deployed k claim)"
  unfolding handleErc20Deployed_def setCosmosOriginatedMapping_def
  by (intro keeps_rules frame_modify) (simp_all add: view_denoms)

lemma frame_valset: "keeps (\<lambda>c. view c = s) (handleValsetUpdated k claim)"
  unfolding handleValsetUpdated_def observeValset_def rewardRelayer_def SetLastObservedValset_def GetValset_def
  by (intro keeps_rules frame_modify frame_liftX) (simp_all add: view_valset)

end

text \<open>The whole handler leaves a view alone that excludes both.\<close>

locale handler_frame = outgoing_frame + deposit_frame
begin

lemma frame_Handle: "keeps (\<lambda>c. view c = s) (Handle k att claim)"
  unfolding Handle_def
  by (cases claim) (simp_all add: keeps_bind keeps_check keeps_panic [unfolded panic_def] frame_deposit frame_deployed frame_valset frame_batches)

end

interpretation oracle_part: handler_frame oracle_view
  by unfold_locales (simp_all add: oracle_view_def)

text \<open>The stores of outgoing transfers and the parameters.\<close>

definition outgoing_view :: "'x ctx \<Rightarrow> (pool_key, OutgoingTransferTx) kv \<times> (EthAddress \<times> uint64, OutgoingTxBatch) kv \<times>
    uint64 option \<times> uint64 option \<times> Params option" where
  "outgoing_view c = (outgoingTXPool c, outgoingTXBatch c, lastTXPoolID c, lastOutgoingBatchID c, paramsStore c)"

lemma outgoing_view_cong:
  assumes "outgoing_view c' = outgoing_view c"
  shows "outgoing_ok k c' \<longleftrightarrow> outgoing_ok k c" "params_ok k c' \<longleftrightarrow> params_ok k c" "outstanding c' = outstanding c"
proof -
  have "outstanding_list c' = outstanding_list c"
    using assms by (simp add: outgoing_view_def outstanding_list_def)
  then show "outgoing_ok k c' \<longleftrightarrow> outgoing_ok k c" "params_ok k c' \<longleftrightarrow> params_ok k c" "outstanding c' = outstanding c"
    using assms by (simp_all add: outgoing_view_def outgoing_ok_def pool_ok_def batches_ok_def ids_unique_def counters_ok_def
        params_ok_def outstanding_def cong: option.case_cong)
qed

interpretation outgoing_part: deposit_frame outgoing_view
  by unfold_locales (simp_all add: outgoing_view_def)

interpretation params_part: handler_frame paramsStore
  by unfold_locales simp_all

interpretation pool_counter: handler_frame lastTXPoolID
  by unfold_locales simp_all

text \<open>The transfers of one batch are gone, with its batch and all earlier batches of the token.\<close>

definition executes :: "'x ctx \<Rightarrow> 'x ctx \<Rightarrow> bool" where
  "executes c c' \<longleftrightarrow> lastTXPoolID c' = lastTXPoolID c \<and>
     (\<exists>contract n e. kv_get (outgoingTXBatch c) (contract, n) = Some e \<and>
       outstanding c = mset (ext_Transactions e) + outstanding c' \<and>
       (\<forall>key. kv_get (outgoingTXBatch c') key =
          (if fst key = contract \<and> snd key \<le> n then None else kv_get (outgoingTXBatch c) key)))"

lemma outgoing_ok_Handle:
  assumes laws: "geth_laws k" "bech32_laws k" and ok: "outgoing_ok k c" "params_ok k c"
    and run: "Handle k att claim c = Ok u c'"
  shows "outgoing_ok k c' \<and> params_ok k c' \<and> (outgoing_view c' = outgoing_view c \<or> executes c c')"
proof -
  have "paramsStore c' = paramsStore c"
    using keeps_Ok [OF params_part.frame_Handle _ run] by blast
  then have params: "params_ok k c'"
    using ok(2) by (simp add: params_ok_def)
  have same: "outgoing_ok k c' \<and> (outgoing_view c' = outgoing_view c \<or> executes c c')"
    if "keeps (\<lambda>d. outgoing_view d = outgoing_view c) m" "m c = Ok u c'" for m
    using keeps_Ok [OF that(1) _ that(2)] outgoing_view_cong(1) [of c' c] ok(1) by simp
  have "outgoing_ok k c' \<and> (outgoing_view c' = outgoing_view c \<or> executes c c')"
  proof (cases claim)
    case (BatchSendToEthClaim b)
    have ro: "keeps I (if x then bind (wrapErr m (assertMetadataWhitelisted k d)) (\<lambda>_. return ()) else return ())"
      for I :: "'a ctx \<Rightarrow> bool" and x m d
      by (intro keeps_rules)
    obtain a where exec: "OutgoingTxBatchExecuted k a b c = Ok u c'"
      using run BatchSendToEthClaim unfolding Handle_def handleBatchSendToEth_def
      by (auto simp: bind_readonly [OF keeps_check] bind_readonly [OF keeps_wrapErr [OF keeps_lift]]
          bind_readonly [OF keeps_wrapErr [OF keeps_ClassifyERC20]] bind_readonly [OF ro])
    then obtain e where e: "kv_get (outgoingTXBatch c) (a, BSE_BatchNonce b) = Some e"
      by (auto simp: OutgoingTxBatchExecuted_def GetOutgoingTXBatch_def bind_Ok split: option.splits)
    note gone = Executed_Ok [OF laws ok e exec]
    have "lastTXPoolID c' = lastTXPoolID c"
      using keeps_Ok [OF pool_counter.frame_Handle _ run] by blast
    then have "executes c c'"
      using e gone unfolding executes_def by blast
    then show ?thesis
      using gone by blast
  qed (use run same [OF outgoing_part.frame_deposit] same [OF outgoing_part.frame_deployed]
      same [OF outgoing_part.frame_valset] in \<open>auto simp: Handle_def bind_Ok check_Ok\<close>)
  with params show ?thesis
    by blast
qed

text \<open>The handler meets the contract of the oracle.\<close>

interpretation handler: claim_handler k "Handle k" for k :: "'x Keeper"
  by unfold_locales (rule oracle_part.frame_Handle)

section \<open>Funds owed to receivers on other chains\<close>

definition forward_value :: "string \<Rightarrow> uint64 \<times> PendingIbcAutoForward \<Rightarrow> int" where
  "forward_value d e = amount_in [Forward_Token (snd e)] d"

definition pending_value :: "'x ctx \<Rightarrow> string \<Rightarrow> int" where
  "pending_value c d = sum_mset (image_mset (forward_value d) (mset (kv_asc (pendingIbcAutoForwards c))))"

text \<open>What the module account holds beyond the pending forwards.\<close>

definition unpledged :: "'x Keeper \<Rightarrow> 'x ctx \<Rightarrow> string \<Rightarrow> int" where
  "unpledged k c d = module_balance k c d - pending_value c d"

lemma addPending_Ok:
  "addPendingIbcAutoForward k f t c = Ok u c' \<Longrightarrow> kv_get (pendingIbcAutoForwards c) (Forward_EventNonce f) = None \<and>
     c' = c\<lparr>pendingIbcAutoForwards := kv_set (Forward_EventNonce f) f (pendingIbcAutoForwards c)\<rparr>"
  unfolding addPendingIbcAutoForward_def
  by (auto simp: bind_readonly [OF keeps_forward_readers(3)] kv_has_def split: if_splits)

lemma addPending_Err: "addPendingIbcAutoForward k f t c = Err e c' \<Longrightarrow> c' = c"
  unfolding addPendingIbcAutoForward_def
  by (auto simp: bind_readonly_Err [OF keeps_forward_readers(3)] split: if_splits)

lemma queue_Ok:
  "addToIbcAutoForwardQueue k r p coin ch claim c = Ok u c' \<Longrightarrow> \<exists>f. Forward_Token f = coin \<and>
     kv_get (pendingIbcAutoForwards c) (Forward_EventNonce f) = None \<and>
     c' = c\<lparr>pendingIbcAutoForwards := kv_set (Forward_EventNonce f) f (pendingIbcAutoForwards c)\<rparr>"
  unfolding addToIbcAutoForwardQueue_def bind_Ok panicIf_Ok
  by (elim exE conjE, drule addPending_Ok)
    (rule exI [of _ "\<lparr>ForeignReceiver = STC_CosmosReceiver claim, Forward_Token = coin, IbcChannel = ch,
       Forward_EventNonce = STC_EventNonce claim\<rparr>"], simp)

lemma queue_Err: "addToIbcAutoForwardQueue k r p coin ch claim c = Err e c' \<Longrightarrow> c' = c"
  by (auto simp: addToIbcAutoForwardQueue_def bind_Err panicIf_Ok dest: addPending_Err)

lemma pending_value_put:
  assumes "kv_ok (pendingIbcAutoForwards c)" "kv_get (pendingIbcAutoForwards c) n = None"
  shows "pending_value (c\<lparr>pendingIbcAutoForwards := kv_set n f (pendingIbcAutoForwards c)\<rparr>) d =
    pending_value c d + amount_in [Forward_Token f] d"
  using kv.mset_put_fresh [OF assms] by (simp add: pending_value_def forward_value_def)

lemma unpledged_put:
  assumes "kv_ok (pendingIbcAutoForwards c)" "kv_get (pendingIbcAutoForwards c) n = None"
  shows "unpledged k (c\<lparr>pendingIbcAutoForwards := kv_set n f (pendingIbcAutoForwards c)\<rparr>) d =
    unpledged k c d - amount_in [Forward_Token f] d"
  using pending_value_put [OF assms] by (simp add: unpledged_def balance_def)

lemma unpledged_moved:
  assumes "moved k (others c) x from_accs to_accs cs"
  shows "unpledged k (c\<lparr>others := x\<rparr>) d = unpledged k c d
    - (if GetModuleAddress k ModuleName \<in> from_accs then amount_in cs d else 0)
    + (if GetModuleAddress k ModuleName \<in> to_accs then amount_in cs d else 0)"
  using assms by (simp add: unpledged_def balance_def moved_def pending_value_def)

section \<open>Deposits conserve funds\<close>

lemma logClaim_run [simp]: "logClaim k claim c = Ok () c"
  by (simp add: logClaim_def ClaimHash_def)

lemma moduleBalance_run [simp]: "moduleBalance k d c = Ok (GetBalance k (others c) (GetModuleAddress k ModuleName) d) c"
  by (simp add: moduleBalance_def)

lemma sendLocal_Ok:
  assumes "sendCoinToLocalAddress k claim r coin c = Ok u c'"
  shows "\<exists>cs x. NewCoins k [coin] = Some cs \<and> SendCoinsFromModuleToAccount k ModuleName r cs (others c) = Ok () x \<and>
    c' = c\<lparr>others := x\<rparr>"
  using assms unfolding sendCoinToLocalAddress_def sdk_NewCoins_def
  by (auto simp: bind_attempt bind_Ok [of "logClaim _ _"] liftX_def split: outcome.splits option.splits)

lemma sendLocal_Err:
  assumes "sendCoinToLocalAddress k claim r coin c = Err e c'"
  shows "\<exists>cs x e. NewCoins k [coin] = Some cs \<and> SendCoinsFromModuleToAccount k ModuleName r cs (others c) = Err e x \<and>
    c' = c\<lparr>others := x\<rparr>"
  using assms unfolding sendCoinToLocalAddress_def sdk_NewCoins_def
  by (auto simp: bind_attempt bind_Err [of "logClaim _ _"] liftX_def split: outcome.splits option.splits)

text \<open>How a deposit leaves the module account: not at all, as a queued forward, or as a local transfer.\<close>

definition localSend :: "('a, 's) outcome \<Rightarrow> (error \<Rightarrow> error) \<Rightarrow> (bool, 's) outcome" where
  "localSend r h = (case r of Ok _ t \<Rightarrow> Ok False t | Err e t \<Rightarrow> Err (h e) t | Panic m \<Rightarrow> Panic m)"

lemma localSend_Ok: "localSend r h = Ok b t \<longleftrightarrow> \<not> b \<and> (\<exists>u. r = Ok u t)"
  and localSend_Err: "localSend r h = Err e t \<longleftrightarrow> (\<exists>e'. r = Err e' t \<and> e = h e')"
  by (auto simp: localSend_def split: outcome.splits)

lemma sendCosmos_run:
  assumes "GetPrefixFromBech32 (STC_CosmosReceiver claim) = Inr p"
  shows "sendCoinToCosmosAccount k claim r coin c =
    (case nativeHrp c of
       None \<Rightarrow> Panic ''SendToCosmos failure: bech32ibc NativeHrp has not been set!''
     | Some native \<Rightarrow>
         if p = native then localSend (sendCoinToLocalAddress k claim r coin c) (\<lambda>e. e)
         else case kv_get (hrpIbcRecords c) p of
           None \<Rightarrow> localSend (sendCoinToLocalAddress k claim r coin c) (\<lambda>e. Wrapped e ''Unregistered foreign prefix, send via x/bank'')
         | Some rec \<Rightarrow>
             (case addToIbcAutoForwardQueue k r p coin (SourceChannel rec) claim c of
                Ok _ t \<Rightarrow> Ok True t
              | Err _ t \<Rightarrow> localSend (sendCoinToLocalAddress k claim r coin t) (\<lambda>e. Wrapped e ''IBC Transfer failure, send via x/bank'')
              | Panic m \<Rightarrow> Panic m))"
  unfolding sendCoinToCosmosAccount_def assms localSend_def
  by (auto simp: GetNativeHrp_def GetHrpIbcRecord_def bind_def orPanic_def attempt_def wrapErr_def mapErr_def
      split: option.splits outcome.splits)

lemma sendCosmos_Ok:
  assumes "sendCoinToCosmosAccount k claim r coin c = Ok queued c'"
  shows "if queued then \<exists>f. Forward_Token f = coin \<and> kv_get (pendingIbcAutoForwards c) (Forward_EventNonce f) = None \<and>
       c' = c\<lparr>pendingIbcAutoForwards := kv_set (Forward_EventNonce f) f (pendingIbcAutoForwards c)\<rparr>
     else \<exists>u. sendCoinToLocalAddress k claim r coin c = Ok u c'"
proof (cases "GetPrefixFromBech32 (STC_CosmosReceiver claim)")
  case (Inr p)
  show ?thesis
    using assms queue_Ok [of k r p coin _ claim c] queue_Err [of k r p coin _ claim c] unfolding sendCosmos_run [OF Inr]
    by (fastforce simp: localSend_Ok split: option.splits if_splits outcome.splits)
qed (use assms in \<open>auto simp: sendCoinToCosmosAccount_def bind_Ok\<close>)

lemma sendCosmos_Err:
  assumes "sendCoinToCosmosAccount k claim r coin c = Err e c'"
  shows "c' = c \<or> (\<exists>e. sendCoinToLocalAddress k claim r coin c = Err e c')"
proof (cases "GetPrefixFromBech32 (STC_CosmosReceiver claim)")
  case (Inr p)
  show ?thesis
    using assms queue_Err [of k r p coin _ claim c] unfolding sendCosmos_run [OF Inr]
    by (fastforce simp: localSend_Err split: option.splits if_splits outcome.splits)
qed (use assms in \<open>auto simp: sendCoinToCosmosAccount_def bind_Err\<close>)

lemma assertNothingSent_Ok:
  "assertNothingSent k pre d c = Ok u c' \<longleftrightarrow> c' = c \<and> pre = GetBalance k (others c) (GetModuleAddress k ModuleName) d"
  by (auto simp: assertNothingSent_def bind_Ok panicIf_Ok)

lemma assertSentAmount_Ok:
  "assertSentAmount k pre d n c = Ok u c' \<Longrightarrow>
     c' = c \<and> Coin_Amount pre - Coin_Amount (GetBalance k (others c) (GetModuleAddress k ModuleName) d) = n"
  by (auto simp: assertSentAmount_def Coin_Sub_def bind_Ok panicIf_Ok split: if_splits)

lemma deliverDeposit_unpledged:
  assumes laws: "coin_laws k" "bank_laws k" "bank_error_laws k" and coin: "Coin_IsValid k coin" "Coin_Amount coin = STC_Amount claim"
    and ok: "kv_ok (pendingIbcAutoForwards c)"
    and run: "deliverDeposit k claim r coin c = Ok invalid c'"
  shows "unpledged k c' d = unpledged k c d - (if invalid then 0 else amount_in [coin] d)"
proof -
  let ?bal = "GetBalance k (others c) (GetModuleAddress k ModuleName) (Coin_Denom coin)"
  consider (failed) e where "invalid" "sendCoinToCosmosAccount k claim r coin c = Err e c'"
    | (queued) "\<not> invalid" "sendCoinToCosmosAccount k claim r coin c = Ok True c'"
    | (sent) "\<not> invalid" "sendCoinToCosmosAccount k claim r coin c = Ok False c'"
        "Coin_Amount ?bal - module_balance k c' (Coin_Denom coin) = STC_Amount claim"
    using run unfolding deliverDeposit_def balance_def
    by (auto simp: bind_step [OF moduleBalance_run] bind_attempt bind_Ok assertNothingSent_Ok split: outcome.splits if_splits
        dest!: assertSentAmount_Ok)
  then show ?thesis
  proof cases
    case failed
    then consider "c' = c" | cs x e where "SendCoinsFromModuleToAccount k ModuleName r cs (others c) = Err e x" "c' = c\<lparr>others := x\<rparr>"
      using sendCosmos_Err [OF failed(2)] sendLocal_Err by blast
    then show ?thesis
    proof cases
      case 2
      then have "moved k (others c) x {} {} cs"
        using laws(3) unfolding bank_error_laws_def by blast
      then show ?thesis
        using failed(1) unpledged_moved 2(2) by fastforce
    qed (use failed(1) in simp)
  next
    case queued
    then show ?thesis
      using sendCosmos_Ok [OF queued(2)] unpledged_put [OF ok] by auto
  next
    case sent
    obtain cs x where cs: "NewCoins k [coin] = Some cs"
        and send: "SendCoinsFromModuleToAccount k ModuleName r cs (others c) = Ok () x" "c' = c\<lparr>others := x\<rparr>"
      using sendCosmos_Ok [OF sent(2)] sendLocal_Ok by (metis (full_types))
    have "moved k (others c) x {GetModuleAddress k ModuleName} {r} cs"
      using laws(2) send(1) by (rule bank_moves(2))
    then have "unpledged k c' d = unpledged k c d - amount_in [coin] d + (if GetModuleAddress k ModuleName = r then amount_in [coin] d else 0)" for d
      using unpledged_moved [of k c x] NewCoins_amount [OF laws(1) coin(1) cs] send(2) by simp
    moreover have "unpledged k c' (Coin_Denom coin) = unpledged k c (Coin_Denom coin) - Coin_Amount coin"
      using sent(3) coin(2) by (simp add: unpledged_def balance_def pending_value_def send(2))
    ultimately have "GetModuleAddress k ModuleName = r \<Longrightarrow> Coin_Amount coin = 0"
      and eq: "unpledged k c' d = unpledged k c d - amount_in [coin] d + (if GetModuleAddress k ModuleName = r then amount_in [coin] d else 0)"
      by (auto simp: amount_in_def)
    then show ?thesis
      using sent(1) by (auto simp: amount_in_def)
  qed
qed

lemma mint_unpledged:
  assumes laws: "coin_laws k" "bank_laws k" and coin: "Coin_IsValid k coin"
    and run: "mintEthereumOriginatedVouchers k claim coin c = Ok u c'"
  shows "unpledged k c' d = unpledged k c d + amount_in [coin] d \<and> (\<exists>x. c' = c\<lparr>others := x\<rparr>)"
proof -
  obtain cs x where "NewCoins k [coin] = Some cs" "MintCoins k ModuleName cs (others c) = Ok () x" "c' = c\<lparr>others := x\<rparr>"
    using run unfolding mintEthereumOriginatedVouchers_def sdk_NewCoins_def Coin_Sub_def
    by (auto simp: bind_step [OF moduleBalance_run] bind_Ok [of "failIf _ _"] failIf_Ok bind_attempt liftX_def bind_Ok panicIf_Ok
        split: option.splits outcome.splits if_splits)
  then show ?thesis
    using unpledged_moved [OF bank_moves(4) [OF laws(2)]] NewCoins_amount [OF laws(1) coin] by auto
qed

lemma SendToCommunityPool_unpledged:
  assumes laws: "bank_laws k" "bank_error_laws k" and run: "SendToCommunityPool k cs c = Ok u c'"
  shows "unpledged k c' d = unpledged k c d - amount_in cs d \<and> (\<exists>x. c' = c\<lparr>others := x\<rparr>)"
proof -
  obtain x x' p where send: "SendCoinsFromModuleToModule k ModuleName ''distribution'' cs (others c) = Ok () x"
      and set: "FeePool_Set k p x = Ok () x'" and c': "c' = c\<lparr>others := x'\<rparr>"
    using run unfolding SendToCommunityPool_def by (auto simp: bind_Ok wrapErr_Ok liftX_Ok lift_Ok)
  have "moved k x x' {} {} []"
    using laws(2) set by (auto simp: bank_error_laws_def)
  then have "unpledged k c' d = unpledged k (c\<lparr>others := x\<rparr>) d"
    using unpledged_moved [of k "c\<lparr>others := x\<rparr>" x'] by (simp add: c')
  then show ?thesis
    using unpledged_moved [OF bank_moves(3) [OF laws(1) send]] laws(2) c' by (auto simp: bank_error_laws_def)
qed

lemma depositToCommunityPool_Ok:
  "depositToCommunityPool k claim cs c = Ok u c' \<Longrightarrow> SendToCommunityPool k cs c = Ok () c'"
  by (auto simp: depositToCommunityPool_def bind_attempt bind_Ok split: outcome.splits)

lemma bind_log [simp]: "bind (if b then logClaim k claim else return ()) f c = f () c" "bind (logClaim k claim) f c = f () c"
  by (simp_all add: bind_def)

definition deposit_coin :: "AssetOrigin \<Rightarrow> MsgSendToCosmosClaim \<Rightarrow> Coin" where
  "deposit_coin origin claim = \<lparr>Coin_Denom = Denom origin, Coin_Amount = STC_Amount claim\<rparr>"

lemma handleSendToCosmos_Ok:
  assumes sender: "NewEthAddress k (STC_EthereumSender claim) = Inr sender"
    and run: "handleSendToCosmos k claim c = Ok u c'"
  shows "\<exists>token origin c1 invalid c2. NewEthAddress k (STC_TokenContract claim) = Inr token \<and>
    ClassifyERC20 k token c = Ok origin c \<and> Coin_IsValid k (deposit_coin origin claim) \<and>
    (if Origin origin = AssetOriginEthereum
     then mintEthereumOriginatedVouchers k claim (deposit_coin origin claim) c = Ok () c1 else c1 = c) \<and>
    (invalid \<and> c2 = c1 \<or> (\<exists>r. deliverDeposit k claim r (deposit_coin origin claim) c1 = Ok invalid c2)) \<and>
    (if invalid then depositToCommunityPool k claim [deposit_coin origin claim] c2 = Ok u c' else c' = c2)"
proof -
  obtain token where token: "NewEthAddress k (STC_TokenContract claim) = Inr token"
    using run by (cases "NewEthAddress k (STC_TokenContract claim)") (auto simp: handleSendToCosmos_def Let_def)
  let ?white = "\<lambda>origin. if Origin origin = AssetOriginCosmos
      then bind (wrapErr ''token not whitelisted for SendToCosmos'' (assertMetadataWhitelisted k (Denom origin))) (\<lambda>_. return ()) else return ()"
  have white: "keeps I (?white origin)" for I origin
    by (intro keeps_rules)
  obtain blacklisted origin w c1 invalid c2 where
      "ClassifyERC20 k token c = Ok origin c" "Coin_IsValid k (deposit_coin origin claim)"
      "(if Origin origin = AssetOriginEthereum
        then mintEthereumOriginatedVouchers k claim (deposit_coin origin claim) else return ()) c = Ok w c1"
      and deliver: "(case IBCAddressFromBech32 k (STC_CosmosReceiver claim) of
           Inr receiver \<Rightarrow> if blacklisted then return True else deliverDeposit k claim receiver (deposit_coin origin claim)
         | Inl _ \<Rightarrow> return True) c1 = Ok invalid c2"
      and "(if invalid then depositToCommunityPool k claim [deposit_coin origin claim] else return ()) c2 = Ok u c'"
    using run unfolding handleSendToCosmos_def Let_def bind_log token sender sum.case
      bind_readonly [OF keeps_IsOnBlacklist] bind_readonly [OF keeps_wrapErr [OF keeps_ClassifyERC20]]
      bind_readonly [OF keeps_check] bind_readonly [OF white] bind_readonly [OF keeps_coins(2)] wrapErr_Ok NewCoin_Ok
      bind_Ok [of "case_sum _ _ _"] bind_Ok [of "if _ = AssetOriginEthereum then _ else _"]
      deposit_coin_def [symmetric]
    by blast
  moreover have "invalid \<and> c2 = c1 \<or> (\<exists>r. deliverDeposit k claim r (deposit_coin origin claim) c1 = Ok invalid c2)"
    using deliver by (auto split: sum.splits if_splits)
  ultimately show ?thesis
    using token by (intro exI [of _ token] exI [of _ origin] exI [of _ c1] exI [of _ invalid] exI [of _ c2]) (simp split: if_splits)
qed

text \<open>
  C8: an applied deposit with a well-formed sender accounts for its whole amount: what the module account holds
  beyond the pending forwards stays the same for an Ethereum-originated token, whose minted vouchers leave
  the account or are pledged to forwards, and drops by exactly the deposited amount for a
  cosmos-originated one; it is unchanged for every other denom.
\<close>

theorem handleSendToCosmos_conserves:
  assumes laws: "coin_laws k" "bank_laws k" "bank_error_laws k" and ok: "kv_ok (pendingIbcAutoForwards c)"
    and sender: "NewEthAddress k (STC_EthereumSender claim) = Inr sender"
    and run: "handleSendToCosmos k claim c = Ok u c'"
  shows "\<exists>token origin. NewEthAddress k (STC_TokenContract claim) = Inr token \<and> ClassifyERC20 k token c = Ok origin c \<and>
    (\<forall>d. unpledged k c' d = unpledged k c d -
       (if d = Denom origin \<and> Origin origin \<noteq> AssetOriginEthereum then STC_Amount claim else 0))"
proof -
  obtain token origin c1 invalid c2 where token: "NewEthAddress k (STC_TokenContract claim) = Inr token"
      "ClassifyERC20 k token c = Ok origin c"
    and coin: "Coin_IsValid k (deposit_coin origin claim)"
    and mint: "if Origin origin = AssetOriginEthereum
       then mintEthereumOriginatedVouchers k claim (deposit_coin origin claim) c = Ok () c1 else c1 = c"
    and deliver: "invalid \<and> c2 = c1 \<or> (\<exists>r. deliverDeposit k claim r (deposit_coin origin claim) c1 = Ok invalid c2)"
    and rest: "if invalid then depositToCommunityPool k claim [deposit_coin origin claim] c2 = Ok u c' else c' = c2"
    using handleSendToCosmos_Ok [OF sender run] by blast
  let ?a = "amount_in [deposit_coin origin claim]"
  have c1: "kv_ok (pendingIbcAutoForwards c1)"
      "\<And>d. unpledged k c1 d = unpledged k c d + (if Origin origin = AssetOriginEthereum then ?a d else 0)"
    using mint mint_unpledged [OF laws(1,2) coin, of claim c "()" c1] ok by (fastforce split: if_splits)+
  have c2: "unpledged k c2 d = unpledged k c1 d - (if invalid then 0 else ?a d)" for d
    using deliver deliverDeposit_unpledged [OF laws coin _ c1(1)] by (auto simp: deposit_coin_def)
  have "unpledged k c' d = unpledged k c2 d - (if invalid then ?a d else 0)" for d
    using rest SendToCommunityPool_unpledged [OF laws(2,3) depositToCommunityPool_Ok] by (auto split: if_splits)
  then have "unpledged k c' d = unpledged k c d - (if Origin origin \<noteq> AssetOriginEthereum then ?a d else 0)" for d
    by (simp add: c2 c1(2))
  then have "unpledged k c' d = unpledged k c d -
       (if d = Denom origin \<and> Origin origin \<noteq> AssetOriginEthereum then STC_Amount claim else 0)" for d
    by (auto simp: amount_in_def deposit_coin_def)
  then show ?thesis
    using token by blast
qed

text \<open>A deposit whose sender is malformed is accepted and does nothing: the error returned is the nil error of the contract.\<close>

lemma malformed_sender_drops_deposit:
  assumes "NewEthAddress k (STC_TokenContract claim) = Inr token" "NewEthAddress k (STC_EthereumSender claim) = Inl e"
  shows "handleSendToCosmos k claim c = Ok () c"
  using assms by (simp add: handleSendToCosmos_def Let_def)

section \<open>Validator set updates\<close>

lemma BridgeValidators_Equal_iff: "BridgeValidators_Equal a b \<longleftrightarrow> a = b"
  by (induction a b rule: BridgeValidators_Equal.induct) auto

lemma Valset_Equal_iff: "Valset_Equal v w = (if v = w then Inr True else Valset_Equal v w)" "isl (Valset_Equal v w) \<longleftrightarrow> v \<noteq> w"
  by (auto simp: Valset_Equal_def BridgeValidators_Equal_iff)

text \<open>
  C10: an observed validator set becomes the last observed one only when the chain itself produced it: the stored set with
  that nonce agrees with the claim in members, powers, order and reward.  A claim that differs from the
  stored set stops the chain.
\<close>

theorem handleValsetUpdated_trusted:
  assumes "VU_ValsetNonce claim \<noteq> 0" "kv_get (valsetRequest c) (VU_ValsetNonce claim) = Some trusted"
    and "NewEthAddress k (VU_RewardToken claim) = Inr a"
  shows "if trusted = (claimSet claim)\<lparr>Valset_Height := Valset_Height trusted\<rparr>
    then handleValsetUpdated k claim c = rewardRelayer k claim a (c\<lparr>lastObservedValset := Some trusted\<rparr>)
    else \<exists>msg. handleValsetUpdated k claim c = Panic msg"
  using assms
  by (auto simp: handleValsetUpdated_def observeValset_def GetValset_def SetLastObservedValset_def Let_def Valset_Equal_iff(2) bind_def)

section \<open>Observed events\<close>

lemma TryAttestation_effect:
  assumes "staking_laws k" "oracle_ok k c" "kv_get (oracleAttestation c) (n, h) = Some att"
    and "TryAttestation k (Handle k) att c = Ok u c'"
  shows "oracle_ok k c'"
    and "\<not> quorum k c att \<Longrightarrow> c' = c"
    and "quorum k c att \<Longrightarrow> n = last_observed c + 1 \<and> last_observed c < n \<and> oracle_view c' = oracle_view (marked att h c)"
    and "quorum k c att \<Longrightarrow> last_observed c' = n \<and>
      oracleAttestation c' = kv_set (n, h) (att\<lparr>Observed := True\<rparr>) (oracleAttestation c)"
proof -
  have att: "attestation_ok k c n h att"
    using oracle_okD(1) [OF assms(2,3)] .
  show "oracle_ok k c'"
    using handler.oracle_ok_TryAttestation [OF assms(1,2,4,3)] .
  show "\<not> quorum k c att \<Longrightarrow> c' = c"
    using handler.TryAttestation_oracle [OF assms(1,4)] by auto
  show view: "n = last_observed c + 1 \<and> last_observed c < n \<and> oracle_view c' = oracle_view (marked att h c)" if "quorum k c att"
    using handler.TryAttestation_oracle [OF assms(1,4)] that att by (auto simp: attestation_ok_def)
  show "last_observed c' = n \<and> oracleAttestation c' = kv_set (n, h) (att\<lparr>Observed := True\<rparr>) (oracleAttestation c)"
    if "quorum k c att"
    using view [OF that] att by (simp add: oracle_view_def marked_def last_observed_def attestation_ok_def)
qed

text \<open>
  C1: an attestation that has not reached a quorum is left alone; one that has is observed exactly in turn:
  the observed nonce grows by one to the nonce of the claim, this attestation is marked, every other
  attestation and every validator's own nonce stay, and the invariant of the oracle is kept.
\<close>

theorem TryAttestation_correct:
  assumes "staking_laws k" "oracle_ok k c" "kv_get (oracleAttestation c) (n, h) = Some att"
    and "TryAttestation k (Handle k) att c = Ok u c'"
  shows "oracle_ok k c' \<and> (if quorum k c att
    then n = last_observed c + 1 \<and> last_observed c' = n \<and> last_observed c < n \<and>
      oracleAttestation c' = kv_set (n, h) (att\<lparr>Observed := True\<rparr>) (oracleAttestation c) \<and>
      lastEventNonceByValidator c' = lastEventNonceByValidator c
    else c' = c)"
  using TryAttestation_effect [OF assms] by (auto simp: oracle_view_def marked_def)

text \<open>
  C9: when the handler rejects an observed event, nothing of what it did remains: the state differs from the one before
  only by the observed mark, the observed nonce and the Ethereum height, so the oracle goes on.
\<close>

theorem rejected_event_leaves_no_trace:
  assumes "staking_laws k" "quorum k c att" "ClaimHash k (Claim att) = Inr h"
    and "TryAttestation k (Handle k) att c = Ok u c'"
    and "Handle k (att\<lparr>Observed := True\<rparr>) (Claim att) (marked att h c) = Err e d"
  shows "c' = marked att h c"
proof -
  have "observe k (Handle k) att (Claim att) h c = Ok u c'"
    using TryAttestation_Ok [OF assms(1,4)] assms(2,3) by auto
  then show ?thesis
    using observe_Ok [of k "Handle k" att h c u c'] assms(5) by auto
qed

end
