(* ===== verification/LogicCall.thy ===== *)
theory LogicCall
  imports Batch
begin

text \<open>
  Arbitrary logic calls (\<open>x/gravity/keeper/keeper_logic_call.go\<close>) and their slashing cursor
  (\<open>keeper.go\<close>).  Both stores are keyed by raw bytes, because an invalidation id has no fixed length.
\<close>

section \<open>Logic calls\<close>

definition logicCallKey :: "bytes \<Rightarrow> uint64 \<Rightarrow> bytes" where
  "logicCallKey invalidationId invalidationNonce = invalidationId @ UInt64Bytes invalidationNonce"

text \<open>
  A missing entry unmarshals to the preset value; a stored one keeps the preset of a field whose value
  is the default, because the encoding leaves such fields out.
\<close>

definition GetOutgoingLogicCall :: "bytes \<Rightarrow> uint64 \<Rightarrow> ('x, OutgoingLogicCall) gop" where
  "GetOutgoingLogicCall invalidationID invalidationNonce =
     reads (\<lambda>ctx. case kv_get (outgoingLogicCall ctx) (logicCallKey invalidationID invalidationNonce) of
       None \<Rightarrow> \<lparr>Transfers = [], Fees = [], LogicContractAddress = [], Payload = [], LogicTimeout = 0,
                InvalidationId = invalidationID, InvalidationNonce = invalidationNonce, LogicCosmosBlockCreated = 0\<rparr>
     | Some call \<Rightarrow> call\<lparr>
           InvalidationId := if InvalidationId call = [] then invalidationID else InvalidationId call,
           InvalidationNonce := if InvalidationNonce call = 0 then invalidationNonce else InvalidationNonce call\<rparr>)"

definition SetOutgoingLogicCall :: "'x Keeper \<Rightarrow> OutgoingLogicCall \<Rightarrow> ('x, unit) gop" where
  "SetOutgoingLogicCall k call =
     bind (GetGravityID k) (\<lambda>gravityID.
     bind (OutgoingLogicCall_GetCheckpoint k call gravityID) (\<lambda>checkpoint.
     bind (SetPastEthSignatureCheckpoint checkpoint) (\<lambda>_.
       let key = logicCallKey (InvalidationId call) (InvalidationNonce call)
       in bind (reads (\<lambda>ctx. kv_has (outgoingLogicCall ctx) key)) (\<lambda>has.
          bind (panicIf has ''Can not overwrite logic call'') (\<lambda>_.
            modify (\<lambda>ctx. ctx\<lparr>outgoingLogicCall := kv_set key call (outgoingLogicCall ctx)\<rparr>))))))"

definition DeleteOutgoingLogicCall :: "bytes \<Rightarrow> uint64 \<Rightarrow> ('x, unit) gop" where
  "DeleteOutgoingLogicCall invalidationID invalidationNonce =
     modify (\<lambda>ctx. ctx\<lparr>outgoingLogicCall :=
       kv_del (logicCallKey invalidationID invalidationNonce) (outgoingLogicCall ctx)\<rparr>)"

definition IterateOutgoingLogicCalls ::
  "(bytes \<Rightarrow> OutgoingLogicCall \<Rightarrow> 'b \<Rightarrow> ('x, bool \<times> 'b) gop) \<Rightarrow> 'b \<Rightarrow> ('x, 'b) gop" where
  "IterateOutgoingLogicCalls cb acc =
     bind (reads (\<lambda>ctx. kv_asc (outgoingLogicCall ctx))) (\<lambda>entries. iterM (\<lambda>(key, call). cb key call) entries acc)"

definition GetOutgoingLogicCalls :: "('x, OutgoingLogicCall list) gop" where
  "GetOutgoingLogicCalls = IterateOutgoingLogicCalls (\<lambda>_ call out. return (False, out @ [call])) []"

text \<open>The pointer \<open>GetOutgoingLogicCall\<close> returns is never nil, so the error branch is dead.\<close>

definition CancelOutgoingLogicCall :: "bytes \<Rightarrow> uint64 \<Rightarrow> ('x, unit) gop" where
  "CancelOutgoingLogicCall invalidationId invalidationNonce =
     bind (GetOutgoingLogicCall invalidationId invalidationNonce) (\<lambda>call.
       DeleteOutgoingLogicCall (InvalidationId call) (InvalidationNonce call))"

section \<open>Confirmations\<close>

definition logicConfirmKey :: "'a libs_scheme \<Rightarrow> bytes \<Rightarrow> uint64 \<Rightarrow> AccAddress \<Rightarrow> ('s, bytes) op" where
  "logicConfirmKey k invalidationId invalidationNonce validator =
     bind (panicIf (VerifyAddressFormat k validator \<noteq> None) ''invalid validator address'') (\<lambda>_.
       return (invalidationId @ UInt64Bytes invalidationNonce @ validator))"

definition SetLogicCallConfirm :: "'x Keeper \<Rightarrow> MsgConfirmLogicCall \<Rightarrow> ('x, unit) gop" where
  "SetLogicCallConfirm k msg =
     bind (panicIf (DecodeString (ConfirmLogic_InvalidationId msg) = None) ''invalid hex'') (\<lambda>_.
     bind (orPanic ''invalid orchestrator'' (lift (AccAddressFromBech32 k (ConfirmLogic_Orchestrator msg)))) (\<lambda>acc.
     bind (logicConfirmKey k (the (DecodeString (ConfirmLogic_InvalidationId msg))) (ConfirmLogic_InvalidationNonce msg) acc) (\<lambda>key.
       modify (\<lambda>ctx. ctx\<lparr>outgoingLogicConfirm := kv_set key msg (outgoingLogicConfirm ctx)\<rparr>))))"

definition GetLogicCallConfirm ::
  "'x Keeper \<Rightarrow> bytes \<Rightarrow> uint64 \<Rightarrow> AccAddress \<Rightarrow> ('x, MsgConfirmLogicCall option) gop" where
  "GetLogicCallConfirm k invalidationId invalidationNonce val =
     (if VerifyAddressFormat k val \<noteq> None then return None
      else bind (logicConfirmKey k invalidationId invalidationNonce val) (\<lambda>key.
        reads (\<lambda>ctx. map_option
          (\<lambda>out. out\<lparr>ConfirmLogic_InvalidationNonce :=
             if ConfirmLogic_InvalidationNonce out = 0 then invalidationNonce else ConfirmLogic_InvalidationNonce out\<rparr>)
          (kv_get (outgoingLogicConfirm ctx) key))))"

definition DeleteLogicCallConfirm :: "'x Keeper \<Rightarrow> bytes \<Rightarrow> uint64 \<Rightarrow> AccAddress \<Rightarrow> ('x, unit) gop" where
  "DeleteLogicCallConfirm k invalidationID invalidationNonce val =
     bind (logicConfirmKey k invalidationID invalidationNonce val) (\<lambda>key.
       modify (\<lambda>ctx. ctx\<lparr>outgoingLogicConfirm := kv_del key (outgoingLogicConfirm ctx)\<rparr>))"

text \<open>The range is taken on the full keys; the typed store holds what follows the store prefix.\<close>

definition iterateLogicConfirmsByPrefix ::
  "bytes \<Rightarrow> (bytes \<Rightarrow> MsgConfirmLogicCall \<Rightarrow> 'b \<Rightarrow> ('x, bool \<times> 'b) gop) \<Rightarrow> 'b \<Rightarrow> ('x, 'b) gop" where
  "iterateLogicConfirmsByPrefix pfx cb acc =
     bind (prefixRange (Some pfx)) (\<lambda>r.
     bind (reads (\<lambda>ctx. filter (\<lambda>e. inRange r (KeyOutgoingLogicConfirm @ fst e)) (kv_asc (outgoingLogicConfirm ctx)))) (\<lambda>entries.
       iterM (\<lambda>(key, confirm). cb (KeyOutgoingLogicConfirm @ key) confirm) entries acc))"

definition IterateLogicConfirmsByInvalidationIDAndNonce ::
  "bytes \<Rightarrow> uint64 \<Rightarrow> (bytes \<Rightarrow> MsgConfirmLogicCall \<Rightarrow> 'b \<Rightarrow> ('x, bool \<times> 'b) gop) \<Rightarrow> 'b \<Rightarrow> ('x, 'b) gop" where
  "IterateLogicConfirmsByInvalidationIDAndNonce invalidationID invalidationNonce cb acc =
     iterateLogicConfirmsByPrefix (GetLogicConfirmNonceInvalidationIdPrefix invalidationID invalidationNonce) cb acc"

definition IterateLogicConfirms ::
  "(bytes \<Rightarrow> MsgConfirmLogicCall \<Rightarrow> 'b \<Rightarrow> ('x, bool \<times> 'b) gop) \<Rightarrow> 'b \<Rightarrow> ('x, 'b) gop" where
  "IterateLogicConfirms cb acc = iterateLogicConfirmsByPrefix KeyOutgoingLogicConfirm cb acc"

definition GetLogicConfirmsByInvalidationIdAndNonce :: "bytes \<Rightarrow> uint64 \<Rightarrow> ('x, MsgConfirmLogicCall list) gop" where
  "GetLogicConfirmsByInvalidationIdAndNonce invalidationId invalidationNonce =
     IterateLogicConfirmsByInvalidationIDAndNonce invalidationId invalidationNonce
       (\<lambda>_ msg out. return (False, out @ [msg])) []"

section \<open>Slashing cursor\<close>

definition HasLastSlashedLogicCallBlock :: "('x, bool) gop" where
  "HasLastSlashedLogicCallBlock = reads (\<lambda>ctx. lastSlashedLogicCallBlock ctx \<noteq> None)"

definition GetLastSlashedLogicCallBlock :: "('x, uint64) gop" where
  "GetLastSlashedLogicCallBlock =
     bind (reads lastSlashedLogicCallBlock) (\<lambda>b.
       case b of None \<Rightarrow> panic ''Last slashed logic call block not initialized in genesis'' | Some h \<Rightarrow> return h)"

definition SetLastSlashedLogicCallBlock :: "uint64 \<Rightarrow> ('x, unit) gop" where
  "SetLastSlashedLogicCallBlock blockHeight =
     bind HasLastSlashedLogicCallBlock (\<lambda>has.
     bind (if has then bind GetLastSlashedLogicCallBlock (\<lambda>h. return (h > blockHeight)) else return False) (\<lambda>decrement.
     bind (panicIf decrement ''Attempted to decrement LastSlashedBatchBlock'') (\<lambda>_.
       modify (\<lambda>ctx. ctx\<lparr>lastSlashedLogicCallBlock := Some blockHeight\<rparr>))))"

definition GetUnSlashedLogicCalls :: "uint64 \<Rightarrow> ('x, OutgoingLogicCall list) gop" where
  "GetUnSlashedLogicCalls maxHeight =
     bind GetLastSlashedLogicCallBlock (\<lambda>lastSlashed.
     bind GetOutgoingLogicCalls (\<lambda>calls.
       return (filter (\<lambda>call. LogicCosmosBlockCreated call > lastSlashed) calls)))"

section \<open>Facts\<close>

lemma keeps_logic_readers [keeps_rules]:
  "keeps I (GetOutgoingLogicCall i n)" "keeps I GetOutgoingLogicCalls" "keeps I GetLastSlashedLogicCallBlock"
  "keeps I (GetUnSlashedLogicCalls m)" "keeps I (GetLogicConfirmsByInvalidationIdAndNonce i n)"
  "keeps I (logicConfirmKey k i n v)" "keeps I (GetLogicCallConfirm k i n v)"
  unfolding GetOutgoingLogicCall_def GetOutgoingLogicCalls_def IterateOutgoingLogicCalls_def GetLastSlashedLogicCallBlock_def
    GetUnSlashedLogicCalls_def GetLogicConfirmsByInvalidationIdAndNonce_def IterateLogicConfirmsByInvalidationIDAndNonce_def
    iterateLogicConfirmsByPrefix_def logicConfirmKey_def GetLogicCallConfirm_def prefixRange_def Let_def
  by (intro keeps_rules)+

lemma logicCallKey_inj [simp]: "logicCallKey i n = logicCallKey j m \<longleftrightarrow> i = j \<and> n = m"
  by (simp add: logicCallKey_def)

lemma CancelOutgoingLogicCall_total: "\<exists>c'. CancelOutgoingLogicCall i n c = Ok () c'"
  by (simp add: CancelOutgoingLogicCall_def GetOutgoingLogicCall_def DeleteOutgoingLogicCall_def)

text \<open>
  Two different confirmations can share a key, because the invalidation id in front has no fixed length.
\<close>

lemma logicConfirmKey_ambiguous:
  assumes "VerifyAddressFormat k [0, 1] = None" "VerifyAddressFormat k [1] = None"
  shows "logicConfirmKey k [] 0 [0, 1] s = logicConfirmKey k [0] 0 [1] s"
  using assms by (simp add: logicConfirmKey_def UInt64Bytes_def eval_nat_numeral)

text \<open>\<open>maxHeight\<close> plays no role.\<close>

lemma GetUnSlashedLogicCalls_ignores_maxHeight: "GetUnSlashedLogicCalls m c = GetUnSlashedLogicCalls m' c"
  by (simp add: GetUnSlashedLogicCalls_def)

lemma SetOutgoingLogicCall_Ok:
  "SetOutgoingLogicCall k call c = Ok u c' \<longleftrightarrow>
     (\<exists>g cp. GetGravityID k c = Ok g c \<and> OutgoingLogicCall_GetCheckpoint k call g c = Ok cp c \<and>
        kv_get (outgoingLogicCall c) (logicCallKey (InvalidationId call) (InvalidationNonce call)) = None \<and>
        c' = c\<lparr>pastEthSignatureCheckpoint := kv_set (convertByteArrToString cp) [1] (pastEthSignatureCheckpoint c),
               outgoingLogicCall := kv_set (logicCallKey (InvalidationId call) (InvalidationNonce call)) call (outgoingLogicCall c)\<rparr>)"
  unfolding SetOutgoingLogicCall_def bind_readonly [OF keeps_params(5)] bind_readonly [OF keeps_batch_types(4)]
  by (auto simp: bind_step [OF SetPast_run] bind_Ok [of "panicIf _ _"] panicIf_Ok kv_has_def Let_def)

text \<open>
  A stored logic call is read back, and no other logic call changes; a call that is stored already is
  never replaced.
\<close>

theorem SetOutgoingLogicCall_get:
  assumes "SetOutgoingLogicCall k call c = Ok u c'"
  shows "GetOutgoingLogicCall (InvalidationId call) (InvalidationNonce call) c' = Ok call c' \<and>
    kv_get (outgoingLogicCall c) (logicCallKey (InvalidationId call) (InvalidationNonce call)) = None \<and>
    (\<forall>i n. (i, n) \<noteq> (InvalidationId call, InvalidationNonce call) \<longrightarrow>
       kv_get (outgoingLogicCall c') (logicCallKey i n) = kv_get (outgoingLogicCall c) (logicCallKey i n))"
  using assms unfolding SetOutgoingLogicCall_Ok by (auto simp: GetOutgoingLogicCall_def)

end
