(* ===== verification/Evidence.thy ===== *)
theory Evidence
  imports Valset LogicCall
begin

text \<open>
  Evidence of bad signatures (\<open>x/gravity/keeper/evidence.go\<close>): a validator who signed a checkpoint that the
  chain never produced is jailed and slashed.  The theorems show that evidence over a checkpoint of
  the archive never has an effect, and that nothing but the staking module's state ever changes.
\<close>

datatype EthereumSigned =
    SignedBatch OutgoingTxBatch
  | SignedValset Valset
  | SignedLogicCall OutgoingLogicCall

text \<open>The subject is what \<open>UnpackAny\<close> makes of the message's \<open>Any\<close>; a nil \<open>Any\<close> unpacks to nil.\<close>

record MsgSubmitBadSignatureEvidence =
  Subject :: "error + EthereumSigned option"
  Evidence_Signature :: string

definition EthereumSigned_GetCheckpoint :: "'x Keeper \<Rightarrow> EthereumSigned \<Rightarrow> string \<Rightarrow> ('x, bytes) gop" where
  "EthereumSigned_GetCheckpoint k subject gravityID =
     (case subject of
        SignedBatch b \<Rightarrow> OutgoingTxBatch_GetCheckpoint k b gravityID
      | SignedValset v \<Rightarrow> Valset_GetCheckpoint k v gravityID
      | SignedLogicCall l \<Rightarrow> OutgoingLogicCall_GetCheckpoint k l gravityID)"

text \<open>The signer is jailed first and then slashed, unless the validator is jailed already.\<close>

definition punish :: "'x Keeper \<Rightarrow> Validator \<Rightarrow> ('x, unit) gop" where
  "punish k val =
     bind (wrapErr ''Could not get consensus key address for validator'' (lift (GetConsAddr val))) (\<lambda>cons.
     bind (wrapErr ''Could not get params for slashing'' (GetParams k)) (\<lambda>params.
       if \<not> IsJailed val then
         bind (wrapErr ''Could not jail validator'' (liftX (StakingJail k cons))) (\<lambda>_.
         bind (reads BlockHeight) (\<lambda>height.
           wrapErr ''Could not slash validator''
             (liftX (StakingSlash k cons height (ConsensusPower val) (SlashFractionBadEthSignature params)))))
       else return ()))"

definition decodeEvidence :: "string \<Rightarrow> ('s, bytes) op" where
  "decodeEvidence signature =
     bind (panicIf (length signature < 2) ''slice bounds out of range'') (\<lambda>_.
       let s = (if take 2 signature = ''0x'' then drop 2 signature else signature)
       in case DecodeString s of
            None \<Rightarrow> fail (Wrapped ErrInvalid ''signature decoding'')
          | Some sigBytes \<Rightarrow> return sigBytes)"

definition checkBadSignatureEvidenceInternal :: "'x Keeper \<Rightarrow> EthereumSigned \<Rightarrow> string \<Rightarrow> ('x, unit) gop" where
  "checkBadSignatureEvidenceInternal k subject signature =
     bind (GetGravityID k) (\<lambda>gravityID.
     bind (EthereumSigned_GetCheckpoint k subject gravityID) (\<lambda>checkpoint.
     bind (GetPastEthSignatureCheckpoint checkpoint) (\<lambda>known.
     bind (failIf known (Wrapped ErrInvalid ''Checkpoint exists, cannot slash'')) (\<lambda>_.
     bind (decodeEvidence signature) (\<lambda>sigBytes.
     bind (mapErr (\<lambda>_. Wrapped ErrInvalid ''signature to eth address failed'')
             (EthAddressFromSignature k checkpoint sigBytes)) (\<lambda>ethAddress.
     bind (GetValidatorByEthAddress k ethAddress) (\<lambda>found.
       case found of
         None \<Rightarrow> fail (Wrapped ErrInvalid ''Did not find validator for eth address'')
       | Some val \<Rightarrow> punish k val)))))))"

definition CheckBadSignatureEvidence :: "'x Keeper \<Rightarrow> MsgSubmitBadSignatureEvidence \<Rightarrow> ('x, unit) gop" where
  "CheckBadSignatureEvidence k msg =
     (case Subject msg of
        Inl _ \<Rightarrow> fail (Wrapped ErrInvalid ''Invalid Any encoded evidence'')
      | Inr None \<Rightarrow> fail (Wrapped ErrInvalid ''Bad signature must be over a batch, valset, or logic call'')
      | Inr (Some subject) \<Rightarrow> checkBadSignatureEvidenceInternal k subject (Evidence_Signature msg))"

section \<open>Facts\<close>

lemma keeps_EthereumSigned_GetCheckpoint [keeps_rules]: "keeps I (EthereumSigned_GetCheckpoint k s g)"
  unfolding EthereumSigned_GetCheckpoint_def
  by (cases s) (simp_all add: keeps_batch_types keeps_Valset_GetCheckpoint)

lemma keeps_decodeEvidence [keeps_rules]: "keeps I (decodeEvidence s)"
  unfolding decodeEvidence_def Let_def by (intro keeps_rules)

lemma keeps_GetPast [keeps_rules]: "keeps I (GetPastEthSignatureCheckpoint cp)"
  unfolding GetPastEthSignatureCheckpoint_def by (intro keeps_rules)

lemma keeps_punish: "keeps (same_gravity c) (punish k val)"
  unfolding punish_def by (intro keeps_rules keeps_liftX) auto

lemma keeps_evidence: "keeps (same_gravity c) (checkBadSignatureEvidenceInternal k s sig)"
  unfolding checkBadSignatureEvidenceInternal_def by (intro keeps_rules keeps_punish)

lemma evidence_Ok:
  assumes "checkBadSignatureEvidenceInternal k s sig c = Ok u c'"
  shows "\<exists>g cp sigBytes a val. GetGravityID k c = Ok g c \<and> EthereumSigned_GetCheckpoint k s g c = Ok cp c \<and>
    GetPastEthSignatureCheckpoint cp c = Ok False c \<and> decodeEvidence sig c = Ok sigBytes c \<and>
    EthAddressFromSignature k cp sigBytes c = Ok a c \<and> GetValidatorByEthAddress k a c = Ok (Some val) c \<and>
    punish k val c = Ok u c'"
proof -
  obtain g cp sigBytes a found where
    "GetGravityID k c = Ok g c" "EthereumSigned_GetCheckpoint k s g c = Ok cp c"
    "GetPastEthSignatureCheckpoint cp c = Ok False c" "decodeEvidence sig c = Ok sigBytes c"
    "EthAddressFromSignature k cp sigBytes c = Ok a c" "GetValidatorByEthAddress k a c = Ok found c"
    and rest: "(case found of
         None \<Rightarrow> fail (Wrapped ErrInvalid ''Did not find validator for eth address'')
       | Some val \<Rightarrow> punish k val) c = Ok u c'"
    using assms unfolding checkBadSignatureEvidenceInternal_def bind_readonly [OF keeps_params(5)]
      bind_readonly [OF keeps_EthereumSigned_GetCheckpoint] bind_readonly [OF keeps_GetPast] bind_readonly [OF keeps_failIf]
      bind_readonly [OF keeps_decodeEvidence] bind_readonly [OF keeps_mapErr [OF keeps_EthAddressFromSignature]]
      bind_readonly [OF keeps_delegate_readers(4)] mapErr_Ok failIf_Ok
    by (auto simp del: GetPast_run)
  moreover obtain val where "found = Some val"
    using rest by (cases found) auto
  ultimately show ?thesis
    by auto
qed

text \<open>
  C34: evidence has an effect only when the checkpoint of the signed subject is not in the archive, the
  submitted signature over it recovers a registered Ethereum key and the staking module knows its validator; then only the
  staking module's state changes.  In particular a checkpoint the chain itself produced never slashes.
\<close>

theorem CheckBadSignatureEvidence_sound:
  assumes "CheckBadSignatureEvidence k msg c = Ok u c'"
  shows "\<exists>subject g cp sigBytes a v val. Subject msg = Inr (Some subject) \<and>
    GetGravityID k c = Ok g c \<and> EthereumSigned_GetCheckpoint k subject g c = Ok cp c \<and>
    GetPastEthSignatureCheckpoint cp c = Ok False c \<and>
    decodeEvidence (Evidence_Signature msg) c = Ok sigBytes c \<and> EthAddressFromSignature k cp sigBytes c = Ok a c \<and>
    kv_get (validatorByEthAddress c) a = Some v \<and> GetValidator k (others c) v = Inr val \<and>
    c' = c\<lparr>others := others c'\<rparr> \<and> (IsJailed val \<longrightarrow> c' = c)"
proof -
  obtain s where s: "Subject msg = Inr (Some s)" "checkBadSignatureEvidenceInternal k s (Evidence_Signature msg) c = Ok u c'"
    using assms by (auto simp: CheckBadSignatureEvidence_def split: sum.splits option.splits)
  obtain g cp sigBytes a val where ev: "GetGravityID k c = Ok g c" "EthereumSigned_GetCheckpoint k s g c = Ok cp c"
      "GetPastEthSignatureCheckpoint cp c = Ok False c" "EthAddressFromSignature k cp sigBytes c = Ok a c"
      "GetValidatorByEthAddress k a c = Ok (Some val) c" "punish k val c = Ok u c'"
      "decodeEvidence (Evidence_Signature msg) c = Ok sigBytes c"
    using evidence_Ok [OF s(2)] by blast
  obtain v where v: "kv_get (validatorByEthAddress c) a = Some v" "GetValidator k (others c) v = Inr val"
    using ev(5) by (auto simp: GetValidatorByEthAddress_def split: option.splits sum.splits)
  obtain x where "c' = c\<lparr>others := x\<rparr>"
    using keeps_Ok [OF keeps_evidence [of c k s] same_gravity_refl s(2)] by blast
  moreover have "IsJailed val \<Longrightarrow> c' = c"
    using ev(6) by (auto simp: punish_def bind_Ok wrapErr_Ok lift_Ok GetParams_Ok)
  ultimately show ?thesis
    using s ev v by (intro exI) auto
qed

text \<open>
  As long as the archive keeps a checkpoint, evidence over a subject with that checkpoint is
  rejected and changes nothing.
\<close>

theorem archived_checkpoint_never_slashed:
  assumes "GetGravityID k c = Ok g c" "EthereumSigned_GetCheckpoint k s g c = Ok cp c"
    and "GetPastEthSignatureCheckpoint cp c = Ok True c"
  shows "checkBadSignatureEvidenceInternal k s sig c = Err (Wrapped ErrInvalid ''Checkpoint exists, cannot slash'') c"
  unfolding checkBadSignatureEvidenceInternal_def
  using assms by (simp add: bind_step [of "GetGravityID k"] bind_step [of "EthereumSigned_GetCheckpoint k s g"]
      bind_step [of "GetPastEthSignatureCheckpoint cp"])

end
