(* ===== verification/OracleWitnesses.thy ===== *)
theory OracleWitnesses
  imports Witnesses AttestationHandler Evidence
begin

text \<open>
  The theorems about logic calls, evidence, claims, attestations and their handler, applied to the concrete
  instance of \<open>DemoChain\<close>.
\<close>

section \<open>Laws\<close>

lemma staking_laws_demo [simp]: "staking_laws demo"
proof -
  have f: "validator_power demo x v = (if v = [1] then 10 else if v = [2] then 20 else if v = [3] then 30 else 0)" for x v
    by (simp add: validator_power_def demo_power_def)
  have "sum_list (map (validator_power demo x) vs) \<le> 60" if "distinct vs" for x vs
  proof -
    have "sum_list (map (validator_power demo x) vs) = sum (validator_power demo x) (set vs)"
      using that by (rule sum_list_distinct_conv_sum_set)
    also have "\<dots> \<le> sum (validator_power demo x) (set vs \<union> {[1], [2], [3]})"
      by (rule sum_mono2) (auto simp: f)
    also have "\<dots> = sum (validator_power demo x) {[1], [2], [3]}"
      by (rule sum.mono_neutral_right) (auto simp: f)
    also have "\<dots> = 60"
      by (simp add: f)
    finally show ?thesis .
  qed
  then show ?thesis
    by (auto simp: staking_laws_def demo_power_def)
qed

section \<open>Logic calls and evidence\<close>

definition demo_call :: OutgoingLogicCall where
  "demo_call = \<lparr>Transfers = [], Fees = [], LogicContractAddress = Hex demo 5, Payload = [1], LogicTimeout = 50,
     InvalidationId = [7], InvalidationNonce = 1, LogicCosmosBlockCreated = 15\<rparr>"

lemmas logic_eval = SetOutgoingLogicCall_def OutgoingLogicCall_GetCheckpoint_def SetPastEthSignatureCheckpoint_def
  GetGravityID_def strToFixByteArray_def GetOutgoingLogicCall_def Let_def

lemma SetOutgoingLogicCall_get_witness:
  "\<exists>u c'. SetOutgoingLogicCall demo demo_call demo_ctx = Ok u c' \<and> GetOutgoingLogicCall [7] 1 c' = Ok demo_call c'"
proof -
  have "is_Ok (SetOutgoingLogicCall demo demo_call demo_ctx)"
    by (simp add: demo_call_def demo_params_def logic_eval demo_exec)
  then obtain u c' where run: "SetOutgoingLogicCall demo demo_call demo_ctx = Ok u c'"
    by (rule is_OkE)
  with SetOutgoingLogicCall_get [OF run] show ?thesis
    by (auto simp: demo_call_def)
qed

text \<open>A signature over a validator set that the chain never produced, by the key of validator 1.\<close>

definition demo_forged :: Valset where
  "demo_forged = \<lparr>Valset_Nonce = 9, Valset_Members = [], Valset_Height = 0, Valset_RewardAmount = 0, Valset_RewardToken = Hex demo 0\<rparr>"

definition demo_signature :: bytes where
  "demo_signature = be_bytes 20 (11 :: EthAddress) @ replicate 45 0"

definition demo_evidence :: MsgSubmitBadSignatureEvidence where
  "demo_evidence = \<lparr>Subject = Inr (Some (SignedValset demo_forged)), Evidence_Signature = EncodeToString demo_signature\<rparr>"

lemma demo_crypto [simp]:
  "SigToPub demo h s = Inr s" "PubkeyToAddress demo p = BytesToAddress demo (take 20 p)" "ValidateSignatureValues demo v m n"
  "StakingJail demo a = return ()" "StakingSlash demo a height i j = return ()"
  by (simp_all add: demo_def)

lemma demo_signer: "EthAddressFromSignature demo h demo_signature c = Ok 11 c"
proof -
  have "BytesToAddress demo (take 20 demo_signature) = 11"
    using geth_laws_demo by (simp add: demo_signature_def geth_laws_def)
  moreover have "length demo_signature = 65" "demo_signature ! 64 = 0"
    by (simp_all add: demo_signature_def nth_append)
  ultimately show ?thesis
    by (simp add: EthAddressFromSignature_def decodeSignature_def Let_def bind_def wrapErr_def mapErr_def)
qed

lemma demo_decode: "decodeEvidence (EncodeToString demo_signature) c = Ok demo_signature c"
proof -
  have "length (EncodeToString demo_signature) = 130"
    by (simp add: length_EncodeToString demo_signature_def)
  moreover have "take 2 (EncodeToString demo_signature) \<noteq> ''0x''"
    using EncodeToString_hex [of demo_signature] hexDigit_not_x
    by (cases "EncodeToString demo_signature"; cases "tl (EncodeToString demo_signature)") auto
  ultimately show ?thesis
    by (simp add: decodeEvidence_def Let_def)
qed

lemma CheckBadSignatureEvidence_sound_witness:
  "\<exists>u c' v val. CheckBadSignatureEvidence demo demo_evidence registered = Ok u c' \<and> GetValidator demo (others registered) v = Inr val"
proof -
  have "is_Ok (CheckBadSignatureEvidence demo demo_evidence registered)"
    by (simp add: CheckBadSignatureEvidence_def demo_evidence_def checkBadSignatureEvidenceInternal_def registered_def
        EthereumSigned_GetCheckpoint_def Valset_GetCheckpoint_def demo_forged_def GetGravityID_def strToFixByteArray_def demo_params_def
        GetPastEthSignatureCheckpoint_def demo_decode demo_signer GetValidatorByEthAddress_def punish_def demo_validator_def demo_exec)
  then obtain u c' where run: "CheckBadSignatureEvidence demo demo_evidence registered = Ok u c'"
    by (rule is_OkE)
  with CheckBadSignatureEvidence_sound [OF run] show ?thesis
    by blast
qed

lemma archived_checkpoint_never_slashed_witness:
  "\<exists>c. checkBadSignatureEvidenceInternal demo (SignedLogicCall demo_call) [] c =
     Err (Wrapped ErrInvalid ''Checkpoint exists, cannot slash'') c"
proof -
  let ?c = "demo_ctx\<lparr>pastEthSignatureCheckpoint := [(convertByteArrToString (Keccak256Hash demo [11]), [1])]\<rparr>"
  have "checkBadSignatureEvidenceInternal demo (SignedLogicCall demo_call) [] ?c =
      Err (Wrapped ErrInvalid ''Checkpoint exists, cannot slash'') ?c"
    by (rule archived_checkpoint_never_slashed [where g = "''demo''" and cp = "Keccak256Hash demo [11]"])
      (simp_all add: EthereumSigned_GetCheckpoint_def demo_call_def demo_params_def logic_eval GetPastEthSignatureCheckpoint_def demo_exec)
  then show ?thesis
    by blast
qed

section \<open>Claims\<close>

definition demo_deposit :: "uint64 \<Rightarrow> AccAddress \<Rightarrow> MsgSendToCosmosClaim" where
  "demo_deposit height orch = \<lparr>STC_EventNonce = 1, STC_EthBlockHeight = height, STC_TokenContract = Hex demo 7, STC_Amount = 100,
     STC_EthereumSender = Hex demo 9, STC_CosmosReceiver = ''abc1qqqqqqqqq'', STC_Orchestrator = demo_print orch\<rparr>"

abbreviation demo_claim :: "uint64 \<Rightarrow> AccAddress \<Rightarrow> EthereumClaim" where
  "demo_claim height orch \<equiv> SendToCosmosClaim (demo_deposit height orch)"

lemma ComputeClaimHash_components_witness:
  "\<exists>cs. ExtractClaimHashComponents demo (demo_claim 8 [21]) = Inr cs \<and>
     ComputeClaimHash demo (Some cs) CLAIM_TYPE_SEND_TO_COSMOS = ClaimHash demo (demo_claim 8 [21])"
proof -
  let ?c = "demo_claim 8 [21]"
  obtain cs where cs: "ExtractClaimHashComponents demo ?c = Inr cs"
    by simp
  have "amounts_fit demo ?c"
    by (simp add: demo_deposit_def)
  then show ?thesis
    using ComputeClaimHash_components [OF _ _ _ cs, of CLAIM_TYPE_SEND_TO_COSMOS] cs by auto
qed

lemma demo_deposit_valid [simp]:
  "a \<noteq> [] \<Longrightarrow> length a \<le> 255 \<Longrightarrow> MsgSendToCosmosClaim_ValidateBasic demo (demo_deposit h a) = None"
  by (simp add: MsgSendToCosmosClaim_ValidateBasic_def demo_deposit_def Wrap_def badAddress_def ifError_def)

lemma claim_preimage_injective_witness:
  "ExtractClaimHashComponents demo (demo_claim 8 [21]) =
   ExtractClaimHashComponents demo (demo_claim 8 [22])"
  by (rule claim_preimage_injective [OF _ _ _ _ _ claimPath.simps(1) claimPath.simps(1)]) (simp_all, simp_all add: demo_deposit_def)

section \<open>Attestations\<close>

lemma demo_math [simp]: "\<bar>i\<bar> < 2 ^ 256 \<Longrightarrow> NewIntFromString demo (decInt i) = Some i"
  using math_laws_demo by (simp add: math_laws_def)

lemmas oracle_eval = Attest_def GetClaimer_def GetOrchestratorValidator_def GetOrchestratorValidatorAddr_def
  GetLastEventNonceByValidator_def GetLastObservedEventNonce_def GetAttestation_def newAttestation_def verifyComponents_def
  SetAttestation_def SetLastEventNonceByValidator_def ComputeClaimHash_def ReconstructClaim_def ClaimHash_def Let_def

lemma demo_oracle_ok [simp]: "oracle_ok demo registered"
  by (simp add: oracle_ok_def registered_def kv_eval)

lemma demo_deposit_fields [simp]:
  "STC_EventNonce (demo_deposit h a) = 1" "STC_EthBlockHeight (demo_deposit h a) = h" "STC_TokenContract (demo_deposit h a) = Hex demo 7"
  "STC_Amount (demo_deposit h a) = 100" "STC_EthereumSender (demo_deposit h a) = Hex demo 9"
  "STC_CosmosReceiver (demo_deposit h a) = ''abc1qqqqqqqqq''" "STC_Orchestrator (demo_deposit h a) = demo_print a"
  by (simp_all add: demo_deposit_def)

lemma demo_attest_run: "is_Ok (Attest demo (demo_claim 8 [21]) (demo_claim 8 [21]) registered)"
  by (simp add: oracle_eval registered_def demo_validator_def Wrap_def demo_exec)

lemma Attest_correct_witness:
  "\<exists>att c'. Attest demo (demo_claim 8 [21]) (demo_claim 8 [21]) registered = Ok att c' \<and> oracle_ok demo c'"
proof -
  obtain att c' where run: "Attest demo (demo_claim 8 [21]) (demo_claim 8 [21]) registered = Ok att c'"
    using demo_attest_run by (rule is_OkE)
  with Attest_correct [OF _ _ run] show ?thesis
    by simp
qed

text \<open>Validators 2 and 3 vote for one claim, validator 1 for a claim with the same nonce and another height.\<close>

definition demo_att :: "uint64 \<Rightarrow> ValAddress list \<Rightarrow> Attestation" where
  "demo_att height voters = \<lparr>Observed = False, Votes = map demo_print voters, Att_Height = 20, Claim = demo_claim height [21],
     Att_ClaimType = CLAIM_TYPE_SEND_TO_COSMOS,
     ClaimComponents = Some (Comp_SendToCosmos 1 height (Hex demo 7) (decInt 100) (Hex demo 9) ''abc1qqqqqqqqq'')\<rparr>"

definition demo_hash :: "uint64 \<Rightarrow> bytes" where
  "demo_hash height = bytes_of_string (joinFields [decUint (1 :: uint64), decUint height, Hex demo 7, decInt 100, Hex demo 9, ''abc1qqqqqqqqq''])"

definition disputed :: "bank ctx" where
  "disputed = demo_ctx\<lparr>oracleAttestation := [((1, demo_hash 8), demo_att 8 [[2], [3]]), ((1, demo_hash 9), demo_att 9 [[1]])],
     lastEventNonceByValidator := [([1], 1), ([2], 1), ([3], 1)]\<rparr>"

lemma ClaimHash_demo [simp]: "ClaimHash demo (demo_claim h a) = Inr (demo_hash h)"
  by (simp add: ClaimHash_def demo_hash_def) (simp add: demo_def)

lemma demo_hash_less: "demo_hash 8 < demo_hash 9"
proof -
  have common: "p @ x # s < p @ y # t \<longleftrightarrow> x < y \<or> x = y \<and> s < t" for p s t :: bytes and x y
    by (induction p) auto
  have "decUint (8 :: uint64) = ''8''" "decUint (9 :: uint64) = ''9''"
    by (simp_all add: decUint_def natString.simps digitChar_def)
  then show ?thesis
    by (simp add: demo_hash_def bytes_of_string_def common)
qed

lemma demo_print_inj [simp]: "demo_print a = demo_print b \<longleftrightarrow> a = b"
  unfolding demo_print_def by (metis DecodeString_EncodeToString option.inject)

lemma disputed_ok [simp]: "oracle_ok demo disputed"
  using demo_hash_less
  by (auto simp: oracle_ok_def attestation_ok_def disputed_def kv_eval kv_ok_def demo_att_def split: if_splits)

lemma demo_quorum [simp]: "quorum demo disputed (demo_att 8 [[2], [3]])" "\<not> quorum demo disputed (demo_att 9 [[1]])"
  by (simp_all add: quorum_def AttestationVotesPowerThreshold_def vote_power_def validator_power_def demo_att_def demo_power_def)

lemmas observe_eval = TryAttestation_def UnpackAttestationClaim_def AttestationVotesPowerThreshold_def Int_Mul_def Int_Quo_def
  observe_def GetLastObservedEventNonce_def setLastObservedEventNonce_def SetLastObservedEthereumBlockHeight_def
  GetLastObservedEthereumBlockHeight_def SetAttestation_def processAttestation_def emitObservedEvent_def Let_def

lemmas handler_eval = Handle_def validateERC20AddressField_def length_Hex ETHContractAddressLen_def handleSendToCosmos_def
  IBCAddressFromBech32_def IsOnBlacklist_def Wrap_def mintEthereumOriginatedVouchers_def Coin_Sub_def
  depositToCommunityPool_def SendToCommunityPool_def Let_def

lemma demo_fees [simp]:
  "FeePool_Get demo x = Inr []" "FeePool_Set demo p = return ()" "GetBalance demo x a d = \<lparr>Coin_Denom = d, Coin_Amount = demo_balance x a d\<rparr>"
  "DecodeAndConvert demo s = (case demo_parse s of Inl e \<Rightarrow> Inl e | Inr a \<Rightarrow> Inr (''gravity'', a))"
  "GetSupply demo x d = \<lparr>Coin_Denom = d, Coin_Amount = sum_list (map snd (filter (\<lambda>e. snd (fst e) = d) (kv_asc x)))\<rparr>"
  by (simp_all add: demo_def)

lemma demo_receiver [simp]: "demo_parse ''abc1qqqqqqqqq'' = Inl (ErrorMsg ''decoding bech32 failed'')"
proof -
  have "DecodeString ''abc1qqqqqqqqq'' = None"
    unfolding DecodeString_None_iff by simp
  then show ?thesis
    by (simp add: demo_parse_def)
qed

lemma demo_deposit_run: "is_Ok (handleSendToCosmos demo (demo_deposit 8 [21]) demo_ctx)"
  by (simp add: handler_eval demo_params_def demo_exec)

lemma handleSendToCosmos_conserves_witness:
  "\<exists>u c'. handleSendToCosmos demo (demo_deposit 8 [21]) demo_ctx = Ok u c' \<and>
     unpledged demo c' (GravityDenom demo 7) = unpledged demo demo_ctx (GravityDenom demo 7)"
proof -
  obtain u c' where run: "handleSendToCosmos demo (demo_deposit 8 [21]) demo_ctx = Ok u c'"
    using demo_deposit_run by (rule is_OkE)
  have "NewEthAddress demo (STC_EthereumSender (demo_deposit 8 [21])) = Inr 9"
    by simp
  then show ?thesis
    using handleSendToCosmos_conserves [OF _ _ _ _ _ run] run by (auto simp: kv_eval)
qed

lemma demo_try_run: "is_Ok (TryAttestation demo (Handle demo) (demo_att 8 [[2], [3]]) disputed)"
proof -
  have "GetEventNonce (Claim (demo_att 8 [[2], [3]])) = 1"
    by (simp add: demo_att_def)
  then show ?thesis
    by (simp add: observe_eval handler_eval demo_att_def demo_power_def disputed_def demo_params_def demo_exec)
qed

lemma disputed_entries [simp]:
  "kv_get (oracleAttestation disputed) (1, demo_hash 8) = Some (demo_att 8 [[2], [3]])"
  "kv_get (oracleAttestation disputed) (1, demo_hash 9) = Some (demo_att 9 [[1]])"
  using demo_hash_less by (auto simp: disputed_def kv_eval)

lemma TryAttestation_correct_witness:
  "\<exists>u c'. TryAttestation demo (Handle demo) (demo_att 8 [[2], [3]]) disputed = Ok u c' \<and> last_observed c' = 1"
proof -
  obtain u c' where run: "TryAttestation demo (Handle demo) (demo_att 8 [[2], [3]]) disputed = Ok u c'"
    using demo_try_run by (rule is_OkE)
  with TryAttestation_correct [OF _ _ disputed_entries(1) run] show ?thesis
    by simp
qed

lemma no_two_quorums_witness:
  "\<exists>u w c1 c2. TryAttestation demo (Handle demo) (demo_att 8 [[2], [3]]) disputed = Ok u c1 \<and>
     TryAttestation demo (Handle demo) (demo_att 9 [[1]]) disputed = Ok w c2 \<and> (c1 = disputed \<or> c2 = disputed)"
proof -
  have "is_Ok (TryAttestation demo (Handle demo) (demo_att 9 [[1]]) disputed)"
    by (simp add: observe_eval demo_att_def demo_power_def disputed_def demo_exec)
  then obtain w c2 where other: "TryAttestation demo (Handle demo) (demo_att 9 [[1]]) disputed = Ok w c2"
    by (rule is_OkE)
  obtain u c1 where run: "TryAttestation demo (Handle demo) (demo_att 8 [[2], [3]]) disputed = Ok u c1"
    using demo_try_run by (rule is_OkE)
  have "demo_hash 8 \<noteq> demo_hash 9"
    using demo_hash_less by simp
  then show ?thesis
    using no_two_quorums [OF _ _ _ disputed_entries _ run other] run other by auto
qed

section \<open>Validator set updates\<close>

definition demo_update :: MsgValsetUpdatedClaim where
  "demo_update = \<lparr>VU_EventNonce = 1, VU_ValsetNonce = 5, VU_EthBlockHeight = 8, VU_Members = [], VU_RewardAmount = 0,
     VU_RewardToken = Hex demo 0, VU_Orchestrator = demo_print [21]\<rparr>"

definition demo_known :: Valset where
  "demo_known = (claimSet demo_update)\<lparr>Valset_Height := 12\<rparr>"

lemma handleValsetUpdated_trusted_witness:
  "\<exists>c'. handleValsetUpdated demo demo_update (demo_ctx\<lparr>valsetRequest := [(5, demo_known)]\<rparr>) = Ok () c' \<and> lastObservedValset c' = Some demo_known"
proof -
  let ?c = "demo_ctx\<lparr>valsetRequest := [(5, demo_known)]\<rparr>"
  have "handleValsetUpdated demo demo_update ?c = rewardRelayer demo demo_update 0 (?c\<lparr>lastObservedValset := Some demo_known\<rparr>)"
    using handleValsetUpdated_trusted [of demo_update ?c demo_known demo 0]
    by (simp add: demo_update_def demo_known_def claimSet_def kv_eval)
  then show ?thesis
    by (simp add: rewardRelayer_def demo_update_def)
qed

lemma rejected_event_leaves_no_trace_witness:
  "\<exists>att u h. TryAttestation demo (Handle demo) att demo_ctx = Ok u (marked att h demo_ctx)"
proof -
  define att where "att = \<lparr>Observed = False, Votes = [demo_print [2], demo_print [3]], Att_Height = 20,
     Claim = ValsetUpdatedClaim demo_update, Att_ClaimType = CLAIM_TYPE_VALSET_UPDATED, ClaimComponents = None\<rparr>"
  obtain h where h: "ClaimHash demo (Claim att) = Inr h"
    by (simp add: att_def ClaimHash_def sortedMembers_def BridgeValidators_ToInternal_def demo_update_def)
  have q: "quorum demo demo_ctx att"
    by (simp add: quorum_def att_def AttestationVotesPowerThreshold_def vote_power_def validator_power_def demo_power_def)
  have reject: "\<exists>e. Handle demo (att\<lparr>Observed := True\<rparr>) (Claim att) (marked att h demo_ctx) = Err e (marked att h demo_ctx)"
    by (simp add: att_def handler_eval handleValsetUpdated_def observeValset_def GetValset_def demo_update_def marked_def demo_exec)
  have "is_Ok (TryAttestation demo (Handle demo) att demo_ctx)"
    using reject h
    by (auto simp: observe_eval att_def demo_power_def demo_params_def demo_update_def marked_def demo_exec)
  then obtain u c' where run: "TryAttestation demo (Handle demo) att demo_ctx = Ok u c'"
    by (rule is_OkE)
  obtain e where "Handle demo (att\<lparr>Observed := True\<rparr>) (Claim att) (marked att h demo_ctx) = Err e (marked att h demo_ctx)"
    using reject by blast
  from rejected_event_leaves_no_trace [OF staking_laws_demo q h run this] run show ?thesis
    by blast
qed

section \<open>The prefix registry\<close>

lemma bech32ibc_genesis_round_trip_witness:
  "\<exists>g c'. Bech32_ExportGenesis demo_ctx = Ok g c' \<and> Bech32_InitGenesis g demo_ctx = Ok () demo_ctx"
proof -
  let ?g = "\<lparr>NativeHRP = ''gravity'', HrpIBCRecords = []\<rparr>"
  have run: "Bech32_ExportGenesis demo_ctx = Ok ?g demo_ctx"
    by (simp add: Bech32_ExportGenesis_def GetHrpIbcRecords_def GetNativeHrp_def demo_exec)
  have "hrp_ok demo_ctx"
    by (simp add: hrp_ok_def ValidateHrp_def toLowerASCII_def less_eq_char_def kv_eval)
  from bech32ibc_genesis_round_trip [OF this run, of demo_ctx] run show ?thesis
    by (auto simp: demo_ctx_def)
qed

end
