(* ===== verification/Ledger.thy ===== *)
theory Ledger
  imports AttestationHandler
begin

text \<open>
  What the bridge promises about transfers to Ethereum, without stores, keys and encodings: a ledger of the
  transfers that wait, of the batches that are formed and of the events that were observed, and its steps.
  \<open>ledger_of\<close> reads it off the stores of \<open>pool.go\<close>, \<open>batch.go\<close> and \<open>attestation.go\<close>.  The
  theories \<open>EndBlocker\<close> and \<open>Bridge\<close> show that every step of the chain is a sequence of steps of the ledger.
\<close>

section \<open>The ledger\<close>

record ledger =
  waiting :: "OutgoingTransferTx multiset"
  formed :: "EthAddress \<times> uint64 \<Rightarrow> OutgoingTransferTx multiset option"
  last_id :: uint64
  events_seen :: uint64

definition merged :: "('k \<Rightarrow> 'a multiset option) \<Rightarrow> 'k set \<Rightarrow> 'a multiset" where
  "merged B K = (\<Sum>key \<in> K. the (B key))"

definition pending :: "ledger \<Rightarrow> OutgoingTransferTx multiset" where
  "pending L = waiting L + merged (formed L) (dom (formed L))"

text \<open>
  A transfer enters with the next id, leaves by a refund only while it waits, and leaves with its batch when
  the execution of the batch is observed; the execution also invalidates the earlier batches of the token,
  whose transfers wait again.
\<close>

inductive ledger_step :: "ledger \<Rightarrow> ledger \<Rightarrow> bool" where
  enter: "last_id L < last_id L + 1 \<Longrightarrow> ext_Id t = last_id L + 1 \<Longrightarrow>
    ledger_step L (L\<lparr>waiting := add_mset t (waiting L), last_id := last_id L + 1\<rparr>)"
| refund: "waiting L = add_mset t rest \<Longrightarrow> ledger_step L (L\<lparr>waiting := rest\<rparr>)"
| build: "formed L key = None \<Longrightarrow> waiting L = M + rest \<Longrightarrow>
    ledger_step L (L\<lparr>waiting := rest, formed := (formed L)(key \<mapsto> M)\<rparr>)"
| cancel: "K \<subseteq> dom (formed L) \<Longrightarrow>
    ledger_step L (L\<lparr>waiting := waiting L + merged (formed L) K, formed := formed L |` (- K)\<rparr>)"
| execute: "formed L (a, n) = Some M \<Longrightarrow>
    ledger_step L (L\<lparr>waiting := waiting L + merged (formed L) {key \<in> dom (formed L). fst key = a \<and> snd key < n},
      formed := formed L |` {key. \<not> (fst key = a \<and> snd key \<le> n)}, events_seen := events_seen L + 1\<rparr>)"
| observe: "ledger_step L (L\<lparr>events_seen := events_seen L + 1\<rparr>)"

inductive_cases ledger_stepE: "ledger_step L L'"

lemma merged_insert: "finite K \<Longrightarrow> key \<notin> K \<Longrightarrow> merged B (insert key K) = the (B key) + merged B K"
  by (simp add: merged_def)

lemma merged_split:
  assumes "finite (dom B)" "K \<subseteq> dom B"
  shows "merged B (dom B) = merged B K + merged (B |` (- K)) (dom (B |` (- K)))"
proof -
  have "merged (B |` (- K)) (dom (B |` (- K))) = merged B (dom B - K)"
    unfolding merged_def by (rule sum.cong) auto
  then show ?thesis
    using sum.subset_diff [OF assms(2,1), of "\<lambda>key. the (B key)"] by (simp add: merged_def add.commute)
qed

lemma merged_update: "finite (dom B) \<Longrightarrow> B key = None \<Longrightarrow> merged (B(key \<mapsto> M)) (dom (B(key \<mapsto> M))) = M + merged B (dom B)"
proof -
  assume "finite (dom B)" "B key = None"
  moreover from this have "key \<notin> dom B" and "(\<Sum>i \<in> dom B. the ((B(key \<mapsto> M)) i)) = (\<Sum>i \<in> dom B. the (B i))"
    by (auto intro!: sum.cong)
  ultimately show ?thesis
    by (simp add: merged_def)
qed

lemma merged_executed:
  fixes B :: "'a \<times> uint64 \<Rightarrow> 'b multiset option"
  assumes "finite (dom B)" "B (a, n) = Some M"
  shows "merged B (dom B) = M + merged B {key \<in> dom B. fst key = a \<and> snd key < n} +
    merged (B |` {key. \<not> (fst key = a \<and> snd key \<le> n)}) (dom (B |` {key. \<not> (fst key = a \<and> snd key \<le> n)}))"
proof -
  let ?older = "{key \<in> dom B. fst key = a \<and> snd key < n}"
  have gone: "{key \<in> dom B. fst key = a \<and> snd key \<le> n} = insert (a, n) ?older"
    using assms(2) by (auto simp: order_le_less)
  have "merged B (insert (a, n) ?older) = M + merged B ?older"
    using assms by (subst merged_insert) (auto intro: finite_subset [of _ "dom B"])
  moreover have "B |` (- insert (a, n) ?older) = B |` {key. \<not> (fst key = a \<and> snd key \<le> n)}"
    unfolding gone [symmetric] by (auto simp: restrict_map_def fun_eq_iff)
  moreover have "insert (a, n) ?older \<subseteq> dom B"
    using assms(2) by auto
  ultimately show ?thesis
    using merged_split [OF assms(1), of "insert (a, n) ?older"] by simp
qed

section \<open>Its invariant\<close>

text \<open>Every id in use was handed out, and only once.\<close>

definition ledger_ok :: "ledger \<Rightarrow> bool" where
  "ledger_ok L \<longleftrightarrow> finite (dom (formed L)) \<and> (\<forall>i. count (image_mset ext_Id (pending L)) i \<le> 1) \<and>
     (\<forall>t \<in># pending L. ext_Id t \<le> last_id L)"

text \<open>How a step changes the transfers that are pending.\<close>

lemma ledger_step_pending:
  assumes "ledger_step L L'" "finite (dom (formed L))"
  shows "finite (dom (formed L')) \<and>
    ((\<exists>M. pending L = M + pending L') \<and> last_id L' = last_id L \<or>
     (\<exists>t. pending L' = add_mset t (pending L) \<and> ext_Id t = last_id L' \<and> last_id L < last_id L'))"
  using assms
proof cases
  case (build key M rest)
  then show ?thesis
    using assms(2) merged_update [of "formed L" key M] by (simp add: pending_def ac_simps)
next
  case (cancel K)
  then show ?thesis
    using assms(2) merged_split [of "formed L" K] by (simp add: pending_def ac_simps)
next
  case (execute a n M)
  then show ?thesis
    using assms(2) merged_executed [of "formed L" a n M] by (auto simp: pending_def ac_simps)
qed (auto simp: pending_def)

lemma ledger_step_ok:
  assumes "ledger_step L L'" "ledger_ok L"
  shows "ledger_ok L'"
proof -
  have fin: "finite (dom (formed L))" and uniq: "\<And>i. count (image_mset ext_Id (pending L)) i \<le> 1"
    and le: "\<And>t. t \<in># pending L \<Longrightarrow> ext_Id t \<le> last_id L"
    using assms(2) by (simp_all add: ledger_ok_def)
  from ledger_step_pending [OF assms(1) fin] have fin': "finite (dom (formed L'))"
    and "(\<exists>M. pending L = M + pending L') \<and> last_id L' = last_id L \<or>
     (\<exists>t. pending L' = add_mset t (pending L) \<and> ext_Id t = last_id L' \<and> last_id L < last_id L')"
    by auto
  then consider M where "pending L = M + pending L'" "last_id L' = last_id L"
    | t where "pending L' = add_mset t (pending L)" "ext_Id t = last_id L'" "last_id L < last_id L'"
    by blast
  then show ?thesis
  proof cases
    case 1
    then show ?thesis
      using fin' uniq le by (auto simp: ledger_ok_def intro: add_leD2)
  next
    case 2
    have "last_id L' \<notin># image_mset ext_Id (pending L)"
      using le 2(3) by (force dest: leD)
    moreover have "ext_Id u \<le> last_id L'" if "u \<in># pending L" for u
      using le [OF that] 2(3) by simp
    ultimately show ?thesis
      using fin' uniq 2 by (auto simp: ledger_ok_def count_eq_zero_iff)
  qed
qed

text \<open>An id that was handed out and is not pending any more never comes back.\<close>

definition settled :: "uint64 \<Rightarrow> ledger \<Rightarrow> bool" where
  "settled i L \<longleftrightarrow> finite (dom (formed L)) \<and> i \<le> last_id L \<and> i \<notin># image_mset ext_Id (pending L)"

lemma ledger_step_settled:
  assumes "ledger_step L L'" "settled i L"
  shows "settled i L'"
  using ledger_step_pending [OF assms(1)] assms(2) by (auto simp: settled_def)

section \<open>The ledger of the chain\<close>

definition ledger_of :: "'x ctx \<Rightarrow> ledger" where
  "ledger_of c = \<lparr>waiting = pool_mset c,
     formed = (\<lambda>key. map_option (\<lambda>e. mset (ext_Transactions e)) (kv_get (outgoingTXBatch c) key)),
     last_id = (case lastTXPoolID c of None \<Rightarrow> 0 | Some n \<Rightarrow> n),
     events_seen = last_observed c\<rparr>"

lemma formed_dom: "dom (formed (ledger_of c)) = {key. kv_get (outgoingTXBatch c) key \<noteq> None}"
  by (auto simp: ledger_of_def)

lemma kv_dom: "kv_ok s \<Longrightarrow> {key. kv_get s key \<noteq> None} = fst ` set (kv_asc s)"
  by (force simp: kv.asc_get image_iff Bex_def)

lemma batch_mset_merged:
  assumes "kv_ok (outgoingTXBatch c)"
  shows "batch_mset c = merged (formed (ledger_of c)) (dom (formed (ledger_of c)))" "finite (dom (formed (ledger_of c)))"
proof -
  let ?s = "outgoingTXBatch c"
  have inj: "inj_on fst (set (kv_asc ?s))"
    using kv.asc_get [OF assms] by (intro inj_onI) auto
  have "batch_mset c = (\<Sum>e \<in> set (kv_asc ?s). mset (ext_Transactions (snd e)))"
    using assms by (simp add: batch_mset_def kv.mset_asc sum_unfold_sum_mset)
  also have "\<dots> = (\<Sum>e \<in> set (kv_asc ?s). the (formed (ledger_of c) (fst e)))"
    using assms by (intro sum.cong) (auto simp: ledger_of_def kv.asc_get)
  also have "\<dots> = (\<Sum>key \<in> fst ` set (kv_asc ?s). the (formed (ledger_of c) key))"
    using inj by (simp add: sum.reindex)
  finally show "batch_mset c = merged (formed (ledger_of c)) (dom (formed (ledger_of c)))" "finite (dom (formed (ledger_of c)))"
    unfolding merged_def formed_dom kv_dom [OF assms] by simp_all
qed

lemma pending_ledger: "outgoing_ok k c \<Longrightarrow> pending (ledger_of c) = outstanding c"
  using batch_mset_merged(1) [of c]
  by (simp add: pending_def outgoing_ok_def batches_ok_def outstanding_split) (simp add: ledger_of_def)

lemma ledger_start:
  assumes "outgoing_ok k c"
  shows "ledger_ok (ledger_of c)"
proof -
  have "distinct (map ext_Id (outstanding_list c))"
    using assms by (simp add: outgoing_ok_def ids_unique_def)
  then have "count (image_mset ext_Id (outstanding c)) i \<le> 1" for i
    unfolding outstanding_def mset_map [symmetric] by (simp add: distinct_count_atmost_1)
  moreover have "finite (dom (formed (ledger_of c)))"
    using assms batch_mset_merged(2) [of c] by (simp add: outgoing_ok_def batches_ok_def)
  moreover have "\<forall>t \<in># outstanding c. ext_Id t \<le> last_id (ledger_of c)"
    using assms by (auto simp: outgoing_ok_def counters_ok_alt ledger_of_def)
  ultimately show ?thesis
    using pending_ledger [OF assms] by (simp add: ledger_ok_def)
qed

lemma ledger_of_cong: "outgoing_view c' = outgoing_view c \<Longrightarrow> ledger_of c' = (ledger_of c)\<lparr>events_seen := last_observed c'\<rparr>"
  by (simp add: ledger_of_def outgoing_view_def pool_mset_def)

lemma last_observed_view: "oracle_view c' = oracle_view c \<Longrightarrow> last_observed c' = last_observed c"
  by (simp add: oracle_view_def last_observed_def)

text \<open>What the operations do to the stores, as steps of the ledger.\<close>

lemma executes_view:
  assumes "outgoing_view m = outgoing_view c"
  shows "executes m c' \<longleftrightarrow> executes c c'"
  using assms outgoing_view_cong(3) [OF assms] by (simp add: executes_def outgoing_view_def)

lemma waiting_of:
  "outgoing_ok k c \<Longrightarrow> outstanding c = pool_mset c + merged (formed (ledger_of c)) (dom (formed (ledger_of c)))"
  using batch_mset_merged(1) [of c] by (simp add: outgoing_ok_def batches_ok_def outstanding_split)

lemma formed_finite: "outgoing_ok k c \<Longrightarrow> finite (dom (formed (ledger_of c)))"
  using batch_mset_merged(2) [of c] by (simp add: outgoing_ok_def batches_ok_def)

lemma ledger_executes:
  assumes "outgoing_ok k c" "outgoing_ok k c'" "executes c c'" "last_observed c' = last_observed c + 1"
  shows "ledger_step (ledger_of c) (ledger_of c')"
proof -
  obtain a n e where e: "kv_get (outgoingTXBatch c) (a, n) = Some e"
      "outstanding c = mset (ext_Transactions e) + outstanding c'" "lastTXPoolID c' = lastTXPoolID c"
    and get: "\<And>key. kv_get (outgoingTXBatch c') key =
      (if fst key = a \<and> snd key \<le> n then None else kv_get (outgoingTXBatch c) key)"
    using assms(3) unfolding executes_def by blast
  let ?B = "formed (ledger_of c)" and ?older = "{key \<in> dom (formed (ledger_of c)). fst key = a \<and> snd key < n}"
  have hit: "?B (a, n) = Some (mset (ext_Transactions e))"
    using e(1) by (simp add: ledger_of_def)
  have B': "formed (ledger_of c') = ?B |` {key. \<not> (fst key = a \<and> snd key \<le> n)}"
    by (auto simp: ledger_of_def get restrict_map_def fun_eq_iff)
  have "pool_mset c' = pool_mset c + merged ?B ?older"
    using e(2) waiting_of [OF assms(1)] waiting_of [OF assms(2)] merged_executed [OF formed_finite [OF assms(1)] hit]
    by (simp add: B' ac_simps)
  then have "ledger_of c' = (ledger_of c)\<lparr>waiting := waiting (ledger_of c) + merged ?B ?older,
      formed := ?B |` {key. \<not> (fst key = a \<and> snd key \<le> n)}, events_seen := events_seen (ledger_of c) + 1\<rparr>"
    using B' e(3) assms(4) by (simp add: ledger_of_def)
  then show ?thesis
    using ledger_step.execute [OF hit] by simp
qed

lemma ledger_event:
  assumes "outgoing_ok k c" "outgoing_view c' = outgoing_view c \<or> outgoing_ok k c' \<and> executes c c'" "last_observed c' = last_observed c + 1"
  shows "ledger_step\<^sup>*\<^sup>* (ledger_of c) (ledger_of c')"
proof (cases "outgoing_view c' = outgoing_view c")
  case True
  then have "ledger_of c' = (ledger_of c)\<lparr>events_seen := events_seen (ledger_of c) + 1\<rparr>"
    using ledger_of_cong [OF True] assms(3) by (simp add: ledger_of_def)
  then show ?thesis
    using ledger_step.observe [of "ledger_of c"] by simp
next
  case False
  then show ?thesis
    using assms ledger_executes [of k c c'] by blast
qed

lemma ledger_cancel:
  assumes "outgoing_ok k c" "outgoing_ok k c'" "outstanding c' = outstanding c" "lastTXPoolID c' = lastTXPoolID c"
    and "last_observed c' = last_observed c"
    and "\<exists>K. \<forall>key. kv_get (outgoingTXBatch c') key = (if key \<in> K then None else kv_get (outgoingTXBatch c) key)"
  shows "ledger_step (ledger_of c) (ledger_of c')"
proof -
  obtain K where get: "\<And>key. kv_get (outgoingTXBatch c') key = (if key \<in> K then None else kv_get (outgoingTXBatch c) key)"
    using assms(6) by blast
  let ?B = "formed (ledger_of c)" and ?K = "K \<inter> dom (formed (ledger_of c))"
  have B': "formed (ledger_of c') = ?B |` (- ?K)"
    by (auto simp: ledger_of_def get restrict_map_def fun_eq_iff)
  have "pool_mset c' = pool_mset c + merged ?B ?K"
    using assms(3) waiting_of [OF assms(1)] waiting_of [OF assms(2)] merged_split [OF formed_finite [OF assms(1)], of ?K]
    by (simp add: B' ac_simps)
  then have "ledger_of c' = (ledger_of c)\<lparr>waiting := waiting (ledger_of c) + merged ?B ?K, formed := ?B |` (- ?K)\<rparr>"
    using B' assms(4,5) by (simp add: ledger_of_def)
  then show ?thesis
    using ledger_step.cancel [of ?K "ledger_of c"] by simp
qed

end
