(* ===== verification/EndBlocker.thy ===== *)
theory EndBlocker
  imports Ledger Evidence
begin

text \<open>
  The work at the end of every block (\<open>x/gravity/abci.go\<close>): slashing of validators that did not sign,
  the tally of the oracle, the clean-up of timed out batches and logic calls, the creation of
  validator set requests, and pruning.

  The three slashing loops of the source repeat the same statements to refresh, slash and jail a
  validator; here they share \<open>slashAndJail\<close>.  A Go map from operator addresses to confirmations is a
  \<open>kv\<close>, of which only the keys are read.
\<close>

section \<open>Slashing\<close>

definition updateValidator :: "'x Keeper \<Rightarrow> ValAddress \<Rightarrow> ('x, Validator) gop" where
  "updateValidator k val =
     bind (reads (\<lambda>ctx. GetValidator k (others ctx) val)) (\<lambda>r.
       orPanic ''Validator exited set during endblocker?'' (lift r))"

definition getUnbondingValidators :: "'x Keeper \<Rightarrow> ('x, string list) gop" where
  "getUnbondingValidators k =
     bind (reads (\<lambda>ctx. UnbondingTime k (others ctx))) (\<lambda>r.
     bind (orPanic ''Failed to get staking params'' (lift r)) (\<lambda>unbondingTime.
     bind (reads (\<lambda>ctx. ValidatorQueueIterator k (others ctx) (BlockTime ctx + unbondingTime) (BlockHeight ctx))) (\<lambda>r.
     bind (orPanic ''Failed to get unbonding validator iterator'' (lift r)) (\<lambda>groups.
       return (concat groups)))))"

text \<open>Confirmations by the operator address of the validator behind the orchestrator.\<close>

definition confirmsByOperator ::
  "'x Keeper \<Rightarrow> string \<Rightarrow> ('m \<Rightarrow> string) \<Rightarrow> 'm list \<Rightarrow> ('x, (string, 'm) kv) gop" where
  "confirmsByOperator k invalid orchestrator confirms =
     foldM (\<lambda>confirm ret.
       bind (orPanic invalid (lift (AccAddressFromBech32 k (orchestrator confirm)))) (\<lambda>confVal.
       bind (GetOrchestratorValidatorAddr k confVal) (\<lambda>r.
         case r of
           None \<Rightarrow> panic ''Confirm from validator we can't identify?''
         | Some val \<Rightarrow> return (kv_set (ValAddress_String k val) confirm ret)))) confirms []"

definition prepValsetConfirms :: "'x Keeper \<Rightarrow> uint64 \<Rightarrow> ('x, (string, MsgValsetConfirm) kv) gop" where
  "prepValsetConfirms k nonce =
     bind (GetValsetConfirms nonce) (confirmsByOperator k ''Invalid confirm in store'' ValsetConfirm_Orchestrator)"

definition prepBatchConfirms :: "'x Keeper \<Rightarrow> InternalOutgoingTxBatch \<Rightarrow> ('x, (string, MsgConfirmBatch) kv) gop" where
  "prepBatchConfirms k batch =
     bind (GetBatchConfirmByNonceAndTokenContract k (BatchNonce batch) (TokenContract batch))
       (confirmsByOperator k ''invalid orchestrator'' ConfirmBatch_Orchestrator)"

definition prepLogicCallConfirms :: "'x Keeper \<Rightarrow> OutgoingLogicCall \<Rightarrow> ('x, (string, MsgConfirmLogicCall) kv) gop" where
  "prepLogicCallConfirms k call =
     bind (GetLogicConfirmsByInvalidationIdAndNonce (InvalidationId call) (InvalidationNonce call))
       (confirmsByOperator k ''invalid orchestrator'' ConfirmLogic_Orchestrator)"

text \<open>The validator is read again first, so that it is not slashed twice in a block.\<close>

definition slashAndJail :: "'x Keeper \<Rightarrow> string \<Rightarrow> bytes \<Rightarrow> int \<Rightarrow> ('x, unit) gop" where
  "slashAndJail k operator consAddr fraction =
     bind (orPanic ''Failed to parse validator operator address'' (lift (ValAddressFromBech32 k operator))) (\<lambda>addr.
     bind (updateValidator k addr) (\<lambda>val.
       if \<not> IsJailed val then
         bind (reads BlockHeight) (\<lambda>height.
         bind (orPanic ''Failed to slash validator'' (liftX (StakingSlash k consAddr height (ConsensusPower val) fraction))) (\<lambda>_.
           orPanic ''Failed to jail validator'' (liftX (StakingJail k consAddr))))
       else return ()))"

text \<open>Heights are compared as signed numbers, as \<open>int64\<close> in the source.\<close>

definition slashBonded ::
  "'x Keeper \<Rightarrow> uint64 \<Rightarrow> (string, 'm) kv \<Rightarrow> int \<Rightarrow> Validator \<Rightarrow> ('x, unit) gop" where
  "slashBonded k created confirms fraction val =
     bind (orPanic ''Failed to get validator consensus addr'' (lift (GetConsAddr val))) (\<lambda>consAddr.
     bind (reads (\<lambda>ctx. SigningInfo_StartHeight k (others ctx) consAddr)) (\<lambda>r.
     bind (orPanic ''Failed to get validator signing info'' (lift r)) (\<lambda>startHeight.
       if sint startHeight < sint created \<and> \<not> kv_has confirms (Operator val)
       then slashAndJail k (Operator val) consAddr fraction
       else return ())))"

definition slashUnbonding ::
  "'x Keeper \<Rightarrow> Params \<Rightarrow> Valset \<Rightarrow> (string, MsgValsetConfirm) kv \<Rightarrow> string \<Rightarrow> ('x, unit) gop" where
  "slashUnbonding k params vs confirms valAddr =
     bind (orPanic ''invalid validator address'' (lift (ValAddressFromBech32 k valAddr))) (\<lambda>addr.
     bind (reads (\<lambda>ctx. GetValidator k (others ctx) addr)) (\<lambda>r.
     bind (orPanic ''Unable to find validator!'' (lift r)) (\<lambda>validator.
     bind (orPanic ''Failed to get validator consensus addr'' (lift (GetConsAddr validator))) (\<lambda>valConsAddr.
     bind (reads (\<lambda>ctx. SigningInfo_StartHeight k (others ctx) valConsAddr)) (\<lambda>r.
     bind (orPanic ''Failed to get validator signing info'' (lift r)) (\<lambda>startHeight.
       if sint startHeight < sint (Valset_Height vs) \<and> IsUnbonding validator \<and>
          Valset_Height vs < UnbondingHeight validator + UnbondSlashingValsetsWindow params \<and>
          \<not> kv_has confirms (Operator validator)
       then slashAndJail k (Operator validator) valConsAddr (SlashFractionValset params)
       else return ()))))))"

definition bondedValidators :: "'x Keeper \<Rightarrow> ('x, Validator list) gop" where
  "bondedValidators k =
     bind (reads (\<lambda>ctx. GetBondedValidatorsByPower k (others ctx))) (\<lambda>r.
       orPanic ''Failed to get bonded validators'' (lift r))"

definition valsetSlashing :: "'x Keeper \<Rightarrow> Params \<Rightarrow> ('x, unit) gop" where
  "valsetSlashing k params =
     bind (reads BlockHeight) (\<lambda>height.
       if height \<le> SignedValsetsWindow params then return ()
       else
         bind (GetUnSlashedValsets (SignedValsetsWindow params)) (\<lambda>unslashedValsets.
         bind (bondedValidators k) (\<lambda>currentBondedSet.
         bind (getUnbondingValidators k) (\<lambda>unbondingValidators.
           forM unslashedValsets (\<lambda>vs.
             bind (prepValsetConfirms k (Valset_Nonce vs)) (\<lambda>confirms.
             bind (forM currentBondedSet (slashBonded k (Valset_Height vs) confirms (SlashFractionValset params))) (\<lambda>_.
             bind (forM unbondingValidators (slashUnbonding k params vs confirms)) (\<lambda>_.
               SetLastSlashedValsetNonce (Valset_Nonce vs)))))))))"

definition batchSlashing :: "'x Keeper \<Rightarrow> Params \<Rightarrow> ('x, unit) gop" where
  "batchSlashing k params =
     bind (reads BlockHeight) (\<lambda>height.
       if height > SignedBatchesWindow params then
         bind (bondedValidators k) (\<lambda>currentBondedSet.
         bind (GetUnSlashedBatches k (height - SignedBatchesWindow params)) (\<lambda>unslashedBatches.
           forM unslashedBatches (\<lambda>batch.
             bind (prepBatchConfirms k batch) (\<lambda>confirms.
             bind (forM currentBondedSet (slashBonded k (CosmosBlockCreated batch) confirms (SlashFractionBatch params))) (\<lambda>_.
               SetLastSlashedBatchBlock (CosmosBlockCreated batch))))))
       else return ())"

definition logicCallSlashing :: "'x Keeper \<Rightarrow> Params \<Rightarrow> ('x, unit) gop" where
  "logicCallSlashing k params =
     bind (reads BlockHeight) (\<lambda>height.
       if height > SignedLogicCallsWindow params then
         bind (bondedValidators k) (\<lambda>currentBondedSet.
         bind (GetUnSlashedLogicCalls (height - SignedLogicCallsWindow params)) (\<lambda>unslashedLogicCalls.
           forM unslashedLogicCalls (\<lambda>call.
             bind (prepLogicCallConfirms k call) (\<lambda>confirms.
             bind (forM currentBondedSet
                    (slashBonded k (LogicCosmosBlockCreated call) confirms (SlashFractionLogicCall params))) (\<lambda>_.
               SetLastSlashedLogicCallBlock (LogicCosmosBlockCreated call))))))
       else return ())"

definition slashing :: "'x Keeper \<Rightarrow> ('x, unit) gop" where
  "slashing k =
     bind (MustGetParams k) (\<lambda>params.
     bind (valsetSlashing k params) (\<lambda>_.
     bind (batchSlashing k params) (\<lambda>_.
       logicCallSlashing k params)))"

section \<open>The tally\<close>

definition tallyStep :: "'x Keeper \<Rightarrow> uint64 \<Rightarrow> Attestation \<Rightarrow> ('x, unit) gop" where
  "tallyStep k nonce att =
     bind GetLastObservedEventNonce (\<lambda>lastNonce.
       if nonce = lastNonce + 1 then TryAttestation k (Handle k) att else return ())"

definition attestationTally :: "'x Keeper \<Rightarrow> ('x, unit) gop" where
  "attestationTally k =
     bind (attempt (RequireBridgeActive k)) (\<lambda>active.
       case active of
         Inl _ \<Rightarrow> return ()
       | Inr _ \<Rightarrow>
           bind GetAttestationMapping (\<lambda>attmap.
             forM (kv_asc attmap) (\<lambda>(nonce, atts). forM atts (tallyStep k nonce))))"

definition eventsToKeep :: uint64 where
  "eventsToKeep = 1000"

definition pruneAttestations :: "'x Keeper \<Rightarrow> ('x, unit) gop" where
  "pruneAttestations k =
     bind GetAttestationMapping (\<lambda>attmap.
     bind GetLastObservedEventNonce (\<lambda>lastNonce.
       if lastNonce \<le> eventsToKeep then return ()
       else let cutoff = lastNonce - eventsToKeep
            in forM (kv_asc attmap) (\<lambda>(nonce, atts).
                 forM atts (\<lambda>att. if nonce < cutoff then DeleteAttestation k att else return ()))))"

section \<open>Batches, logic calls and validator sets\<close>

definition cancelTimedOut :: "'x Keeper \<Rightarrow> uint64 \<Rightarrow> InternalOutgoingTxBatch \<Rightarrow> ('x, unit) gop" where
  "cancelTimedOut k ethereumHeight batch =
     (if BatchTimeout batch < ethereumHeight
      then orPanic ''Failed to cancel outgoing txbatch!'' (CancelOutgoingTXBatch k (TokenContract batch) (BatchNonce batch))
      else return ())"

definition cleanupTimedOutBatches :: "'x Keeper \<Rightarrow> ('x, unit) gop" where
  "cleanupTimedOutBatches k =
     bind GetLastObservedEthereumBlockHeight (\<lambda>heights.
     bind (GetOutgoingTxBatches k) (\<lambda>batches.
       forM batches (cancelTimedOut k (EthereumBlockHeight heights))))"

definition cleanupTimedOutLogicCalls :: "'x Keeper \<Rightarrow> ('x, unit) gop" where
  "cleanupTimedOutLogicCalls k =
     bind GetLastObservedEthereumBlockHeight (\<lambda>heights.
     bind GetOutgoingLogicCalls (\<lambda>calls.
       forM calls (\<lambda>call.
         if LogicTimeout call < EthereumBlockHeight heights
         then orPanic ''Failed to cancel outgoing logic call!''
                (CancelOutgoingLogicCall (InvalidationId call) (InvalidationNonce call))
         else return ())))"

text \<open>
  The difference in power is compared with 5%.  No sum of integers comes close enough to 5% of
  \<open>math.MaxUint32\<close> for the rounding of \<open>float64\<close> to change the result.
\<close>

definition createValsets :: "'x Keeper \<Rightarrow> ('x, unit) gop" where
  "createValsets k =
     bind GetLatestValset (\<lambda>latestValset.
     bind GetLastUnBondingBlockHeight (\<lambda>lastUnbondingHeight.
     bind (case latestValset of
             None \<Rightarrow> return (Some False)
           | Some latest \<Rightarrow>
               bind (attempt (GetCurrentValset k)) (\<lambda>r.
                 case r of
                   Inl e \<Rightarrow> if e = ErrNoValidators then return None else panic ''failed to get the current valset''
                 | Inr vs \<Rightarrow>
                     bind (orPanic ''invalid current valset members''
                            (lift (BridgeValidators_ToInternal k (Valset_Members vs)))) (\<lambda>intCurrMembers.
                     bind (orPanic ''invalid latest valset members''
                            (lift (BridgeValidators_ToInternal k (Valset_Members latest)))) (\<lambda>intLatestMembers.
                       return (Some (PowerDiff k intCurrMembers intLatestMembers > 1 / 20)))))) (\<lambda>r.
       case r of
         None \<Rightarrow> return ()
       | Some significantPowerDiff \<Rightarrow>
           bind (reads BlockHeight) (\<lambda>height.
             if latestValset = None \<or> lastUnbondingHeight = height \<or> significantPowerDiff
             then bind (SetValsetRequest k) (\<lambda>_. return ())
             else return ()))))"

definition pruneValset :: "'x Keeper \<Rightarrow> uint64 \<Rightarrow> uint64 \<Rightarrow> Valset \<Rightarrow> ('x, unit) gop" where
  "pruneValset k lastObservedNonce earliestToPrune vs =
     (if Valset_Nonce vs < lastObservedNonce \<and> Valset_Height vs < earliestToPrune
      then bind (DeleteValset (Valset_Nonce vs)) (\<lambda>_. DeleteValsetConfirms k (Valset_Nonce vs))
      else return ())"

definition pruneValsets :: "'x Keeper \<Rightarrow> Params \<Rightarrow> ('x, unit) gop" where
  "pruneValsets k params =
     bind GetLastObservedValset (\<lambda>lastObserved.
     bind (reads BlockHeight) (\<lambda>currentBlock.
       case lastObserved of
         None \<Rightarrow> return ()
       | Some observed \<Rightarrow>
           if currentBlock < SignedValsetsWindow params then return ()
           else bind GetValsets (\<lambda>sets.
                  forM sets (pruneValset k (Valset_Nonce observed) (currentBlock - SignedValsetsWindow params)))))"

definition EndBlocker :: "'x Keeper \<Rightarrow> ('x, unit) gop" where
  "EndBlocker k =
     bind (MustGetParams k) (\<lambda>params.
     bind (slashing k) (\<lambda>_.
     bind (attestationTally k) (\<lambda>_.
     bind (cleanupTimedOutBatches k) (\<lambda>_.
     bind (cleanupTimedOutLogicCalls k) (\<lambda>_.
     bind (createValsets k) (\<lambda>_.
     bind (pruneValsets k params) (\<lambda>_.
       pruneAttestations k)))))))"

section \<open>The attestations by nonce\<close>

definition add_attestation :: "(uint64 \<times> bytes) \<times> Attestation \<Rightarrow> (uint64, Attestation list) kv \<Rightarrow> (uint64, Attestation list) kv" where
  "add_attestation e m = (let n = GetEventNonce (Claim (snd e)) in
     case kv_get m n of None \<Rightarrow> kv_set n [snd e] m | Some val \<Rightarrow> kv_set n (val @ [snd e]) m)"

definition attmap :: "'x ctx \<Rightarrow> (uint64, Attestation list) kv" where
  "attmap c = fold add_attestation (kv_asc (oracleAttestation c)) []"

lemma GetAttestationMapping_run: "GetAttestationMapping c = Ok (attmap c) c"
  unfolding GetAttestationMapping_def IterateAttestations_def bind_reads attmap_def if_False
  by (rule iterM_pure) (auto simp: UnpackAttestationClaim_def add_attestation_def Let_def split: prod.split option.split)

lemma fold_add_attestation:
  "kv_ok m \<Longrightarrow> kv_ok (fold add_attestation es m) \<and>
   (case kv_get (fold add_attestation es m) n of None \<Rightarrow> [] | Some l \<Rightarrow> l) =
     (case kv_get m n of None \<Rightarrow> [] | Some l \<Rightarrow> l) @ map snd (filter (\<lambda>e. GetEventNonce (Claim (snd e)) = n) es)"
proof (induction es arbitrary: m)
  case (Cons e es)
  have "kv_ok (add_attestation e m)"
    using Cons.prems by (simp add: add_attestation_def Let_def split: option.split)
  then show ?case
    using Cons.IH [of "add_attestation e m"] by (simp add: add_attestation_def Let_def split: option.splits)
qed simp

text \<open>The tally visits each stored attestation with its nonce.\<close>

definition tally_list :: "'x ctx \<Rightarrow> (uint64 \<times> Attestation) list" where
  "tally_list c = concat (map (\<lambda>(n, atts). map (Pair n) atts) (kv_asc (attmap c)))"

lemma tally_list_iff:
  "(n, att) \<in> set (tally_list c) \<longleftrightarrow> att \<in> snd ` set (kv_asc (oracleAttestation c)) \<and> GetEventNonce (Claim att) = n"
proof -
  have ok: "kv_ok (attmap c)"
    and get: "(case kv_get (attmap c) n of None \<Rightarrow> [] | Some l \<Rightarrow> l) =
      map snd (filter (\<lambda>e. GetEventNonce (Claim (snd e)) = n) (kv_asc (oracleAttestation c)))"
    using fold_add_attestation [of "[]" "kv_asc (oracleAttestation c)" n] by (simp_all add: attmap_def kv_get_def)
  have "(n, att) \<in> set (tally_list c) \<longleftrightarrow> (\<exists>l. kv_get (attmap c) n = Some l \<and> att \<in> set l)"
    by (force simp: tally_list_def kv.asc_get [OF ok])
  also have "\<dots> \<longleftrightarrow> att \<in> set (map snd (filter (\<lambda>e. GetEventNonce (Claim (snd e)) = n) (kv_asc (oracleAttestation c))))"
    unfolding get [symmetric] by (cases "kv_get (attmap c) n") auto
  also have "\<dots> \<longleftrightarrow> att \<in> snd ` set (kv_asc (oracleAttestation c)) \<and> GetEventNonce (Claim att) = n"
    by auto
  finally show ?thesis .
qed

lemma tally_list_stored:
  assumes "oracle_ok k c"
  shows "(n, att) \<in> set (tally_list c) \<longleftrightarrow> (\<exists>h. kv_get (oracleAttestation c) (n, h) = Some att)"
proof -
  have ok: "kv_ok (oracleAttestation c)"
    using assms by (simp add: oracle_ok_def)
  have nonce: "GetEventNonce (Claim att) = m" if "kv_get (oracleAttestation c) (m, h) = Some att" for m h
    using oracle_okD(1) [OF assms that] by (simp add: attestation_ok_def)
  have "att \<in> snd ` set (kv_asc (oracleAttestation c)) \<longleftrightarrow> (\<exists>m h. kv_get (oracleAttestation c) (m, h) = Some att)"
    unfolding kv.asc_get [OF ok, symmetric] by force
  then show ?thesis
    unfolding tally_list_iff using nonce by blast
qed

section \<open>The tally observes in turn\<close>

text \<open>What the tally has done so far, from \<open>c\<close> to \<open>d\<close>.\<close>

definition tallied :: "'x Keeper \<Rightarrow> 'x ctx \<Rightarrow> 'x ctx \<Rightarrow> bool" where
  "tallied k c d \<longleftrightarrow> oracle_ok k d \<and> last_observed c \<le> last_observed d \<and>
     (\<forall>n h. \<not> (last_observed c < n \<and> n \<le> last_observed d) \<longrightarrow>
        kv_get (oracleAttestation d) (n, h) = kv_get (oracleAttestation c) (n, h)) \<and>
     (\<forall>n. last_observed c < n \<and> n \<le> last_observed d \<longrightarrow>
        (\<exists>!h. \<exists>att. kv_get (oracleAttestation d) (n, h) = Some att \<and> Observed att))"

lemma tallied_D:
  assumes "tallied k c d"
  shows "oracle_ok k d" "last_observed c \<le> last_observed d"
    and "\<forall>n h. kv_get (oracleAttestation d) (n, h) \<noteq> kv_get (oracleAttestation c) (n, h) \<longrightarrow>
      last_observed c < n \<and> n \<le> last_observed d"
    and "\<forall>n. last_observed c < n \<and> n \<le> last_observed d \<longrightarrow>
      (\<exists>!h. \<exists>att. kv_get (oracleAttestation d) (n, h) = Some att \<and> Observed att)"
  using assms unfolding tallied_def by blast+

lemma tallied_refl: "oracle_ok k c \<Longrightarrow> tallied k c c"
  by (auto simp: tallied_def)

lemma tallied_step:
  assumes laws: "staking_laws k" and ok: "oracle_ok k c" and inv: "tallied k c d"
    and stored: "kv_get (oracleAttestation c) (n, h) = Some att"
    and run: "tallyStep k n att d = Ok u d'"
  shows "tallied k c d'" and "d' = d \<or> last_observed d < last_observed d'"
    and "n = last_observed d + 1 \<Longrightarrow> quorum k d att \<Longrightarrow> last_observed d < last_observed d'"
proof -
  have "tallied k c d' \<and> (d' = d \<or> last_observed d < last_observed d') \<and>
    (n = last_observed d + 1 \<longrightarrow> quorum k d att \<longrightarrow> last_observed d < last_observed d')"
  proof (cases "n = last_observed d + 1")
    case False
    then show ?thesis
      using run inv by (simp add: tallyStep_def bind_step [OF GetLastObservedEventNonce_run])
  next
    case True
    have "n \<noteq> 0"
      using oracle_okD(1) [OF ok stored] by (simp add: attestation_ok_def)
    then have less: "last_observed d < n"
      using True word_inc_less by metis
    then have "\<not> n \<le> last_observed d"
      by simp
    then have okd: "oracle_ok k d" and same: "kv_get (oracleAttestation d) (n, h) = Some att"
      using inv stored unfolding tallied_def by metis+
    have trial: "TryAttestation k (Handle k) att d = Ok u d'"
      using run True by (simp add: tallyStep_def bind_step [OF GetLastObservedEventNonce_run])
    note effect = TryAttestation_effect [OF laws okd same trial]
    show ?thesis
    proof (cases "quorum k d att")
      case False
      then show ?thesis
        using effect(2) inv by simp
    next
      case True
      then have new: "last_observed d' = n"
          "oracleAttestation d' = kv_set (n, h) (att\<lparr>Observed := True\<rparr>) (oracleAttestation d)"
        using effect(4) by simp_all
      have turn: "m \<le> n \<longleftrightarrow> m = n \<or> m \<le> last_observed d" for m
        using less \<open>n = last_observed d + 1\<close> word_less_inc_le [of "last_observed d" m] by (auto simp: order_le_less)
      have unobserved: "\<not> Observed a" if "kv_get (oracleAttestation d) (n, h') = Some a" for h' a
        using oracle_okD(1) [OF okd that] less by (auto simp: attestation_ok_def)
      have get: "kv_get (oracleAttestation d') (m, h') =
          (if m = n \<and> h' = h then Some (att\<lparr>Observed := True\<rparr>) else kv_get (oracleAttestation d) (m, h'))" for m h'
        by (simp add: new(2))
      have now: "\<exists>!h'. \<exists>a. kv_get (oracleAttestation d') (n, h') = Some a \<and> Observed a"
        using unobserved by (intro ex1I [of _ h]) (auto simp: get split: if_splits)
      have "last_observed c < n"
        using inv less unfolding tallied_def by (meson order_le_less_trans)
      have "tallied k c d'"
        unfolding tallied_def new(1)
      proof (intro conjI allI impI)
        show "oracle_ok k d'" "last_observed c \<le> n"
          using effect(1) \<open>last_observed c < n\<close> by simp_all
        show "kv_get (oracleAttestation d') (m, h') = kv_get (oracleAttestation c) (m, h')"
          if "\<not> (last_observed c < m \<and> m \<le> n)" for m h'
          using that inv \<open>last_observed c < n\<close> unfolding tallied_def turn get by auto
        show "\<exists>!h'. \<exists>a. kv_get (oracleAttestation d') (m, h') = Some a \<and> Observed a"
          if "last_observed c < m \<and> m \<le> n" for m
        proof (cases "m = n")
          case False
          then have "kv_get (oracleAttestation d') (m, h') = kv_get (oracleAttestation d) (m, h')" for h'
            by (simp add: get)
          then show ?thesis
            using that False inv unfolding tallied_def turn by simp
        qed (use now in simp)
      qed
      then show ?thesis
        using less unfolding new(1) by blast
    qed
  qed
  then show "tallied k c d'" "d' = d \<or> last_observed d < last_observed d'"
    "n = last_observed d + 1 \<Longrightarrow> quorum k d att \<Longrightarrow> last_observed d < last_observed d'"
    by auto
qed

lemma tallied_entry:
  assumes "staking_laws k" "oracle_ok k c" "e \<in> set (tally_list c)" "tallied k c d"
    and "(case e of (n, att) \<Rightarrow> tallyStep k n att) d = Ok u d'"
  shows "tallied k c d' \<and> (d' = d \<or> last_observed d < last_observed d')"
proof -
  obtain n att where e: "e = (n, att)"
    by (rule prod.exhaust)
  then obtain h where "kv_get (oracleAttestation c) (n, h) = Some att"
    using assms(3) tally_list_stored [OF assms(2)] by auto
  moreover have "tallyStep k n att d = Ok u d'"
    using assms(5) e by simp
  ultimately show ?thesis
    using tallied_step(1,2) [OF assms(1,2,4)] by blast
qed

lemma RequireBridgeActive_run:
  "paramsStore c = Some p \<Longrightarrow>
   RequireBridgeActive k c = (if BridgeActive p then Ok () c else Err (Wrapped ErrInvalid ''bridge paused'') c)"
  by (simp add: RequireBridgeActive_def bind_run wrapErr_def mapErr_def GetParams_def)

lemma attestationTally_run:
  assumes "paramsStore c = Some p"
  shows "attestationTally k c =
    (if BridgeActive p then forM (tally_list c) (\<lambda>(n, att). tallyStep k n att) c else Ok () c)"
  using assms
  by (simp add: attestationTally_def bind_attempt RequireBridgeActive_run forM_nested tally_list_def
      bind_step [OF GetAttestationMapping_run])

lemma attestationTally_no_params: "paramsStore c = None \<Longrightarrow> attestationTally k c = Ok () c"
proof -
  assume "paramsStore c = None"
  then have "RequireBridgeActive k c = Err (Wrapped ErrParamsNotFound ''failed to get params'') c"
    by (simp add: RequireBridgeActive_def bind_run wrapErr_def mapErr_def GetParams_def)
  then show ?thesis
    by (simp add: attestationTally_def bind_attempt)
qed

lemma attestationTally_paused:
  assumes "\<forall>p. paramsStore c = Some p \<longrightarrow> \<not> BridgeActive p"
  shows "attestationTally k c = Ok () c"
  using assms by (cases "paramsStore c") (simp_all add: attestationTally_run attestationTally_no_params)

lemma tally_tallied:
  assumes "staking_laws k" "oracle_ok k c" "attestationTally k c = Ok u c'"
  shows "tallied k c c'"
proof (cases "\<exists>p. paramsStore c = Some p \<and> BridgeActive p")
  case True
  then have run: "forM (tally_list c) (\<lambda>(n, att). tallyStep k n att) c = Ok u c'"
    using assms(3) by (auto simp: attestationTally_run)
  show ?thesis
    by (rule forM_inv [where P = "tallied k c", OF run tallied_refl [OF assms(2)]])
      (rule tallied_entry [OF assms(1,2), THEN conjunct1])
next
  case False
  then show ?thesis
    using assms(3) tallied_refl [OF assms(2)] attestationTally_paused [of c k] by simp
qed

text \<open>
  C4: the tally of a block observes events without gaps and each at most once: the observed nonce never
  falls, every nonce it passes has exactly one observed attestation, no attestation outside those nonces
  changes, and the invariant of the oracle is kept.  While the bridge is paused nothing is observed.
\<close>

theorem attestationTally_in_order:
  assumes "staking_laws k" "oracle_ok k c" "attestationTally k c = Ok u c'"
  shows "oracle_ok k c' \<and> last_observed c \<le> last_observed c' \<and>
    (\<forall>n h. kv_get (oracleAttestation c') (n, h) \<noteq> kv_get (oracleAttestation c) (n, h) \<longrightarrow>
       last_observed c < n \<and> n \<le> last_observed c') \<and>
    (\<forall>n. last_observed c < n \<and> n \<le> last_observed c' \<longrightarrow>
       (\<exists>!h. \<exists>att. kv_get (oracleAttestation c') (n, h) = Some att \<and> Observed att)) \<and>
    ((\<forall>p. paramsStore c = Some p \<longrightarrow> \<not> BridgeActive p) \<longrightarrow> c' = c)"
proof -
  have "c' = c" if "\<forall>p. paramsStore c = Some p \<longrightarrow> \<not> BridgeActive p"
    using assms(3) attestationTally_paused [OF that] by simp
  then show ?thesis
    using tallied_D [OF tally_tallied [OF assms]] by blast
qed


section \<open>Timed out batches\<close>

definition observed_height :: "'x ctx \<Rightarrow> uint64" where
  "observed_height c = (case lastObservedEthereumBlockHeight c of None \<Rightarrow> 0 | Some h \<Rightarrow> EthereumBlockHeight h)"

lemma cleanup_run:
  assumes "batches_ok k c"
  shows "cleanupTimedOutBatches k c = forM (batch_list k c) (cancelTimedOut k (observed_height c)) c"
  using assms by (cases "lastObservedEthereumBlockHeight c")
    (simp_all add: cleanupTimedOutBatches_def GetLastObservedEthereumBlockHeight_def observed_height_def
      bind_step [OF GetOutgoingTxBatches_run])

lemma ToExternal_timeout: "ext_BatchTimeout (InternalOutgoingTxBatch_ToExternal k b) = BatchTimeout b"
  by (simp add: InternalOutgoingTxBatch_ToExternal_def)

lemma cleanup_loop:
  assumes "geth_laws k" "bech32_laws k" "outgoing_ok k c" "params_ok k c"
  shows "\<exists>c'. cleanupTimedOutBatches k c = Ok () c' \<and> outgoing_ok k c' \<and> params_ok k c' \<and>
    outstanding c' = outstanding c \<and> others c' = others c \<and>
    (\<forall>key. kv_get (outgoingTXBatch c') key =
      (if key \<in> batch_key ` {b \<in> set (batch_list k c). BatchTimeout b < observed_height c} then None
       else kv_get (outgoingTXBatch c) key))"
proof -
  have ok: "batches_ok k c"
    using assms(3) by (simp add: outgoing_ok_def)
  show ?thesis
    using cancel_iterates [OF assms batch_list_distinct [OF ok] batch_list_get [OF ok],
        of "\<lambda>b. BatchTimeout b < observed_height c" "''Failed to cancel outgoing txbatch!''"]
    unfolding cleanup_run [OF ok] cancelTimedOut_def [abs_def] .
qed


section \<open>Pruning\<close>

lemma DeleteAttestation_run:
  "attestation_ok k c n h att \<Longrightarrow>
   DeleteAttestation k att d = Ok () (d\<lparr>oracleAttestation := kv_del (n, h) (oracleAttestation d)\<rparr>)"
  by (simp add: DeleteAttestation_def UnpackAttestationClaim_def attestation_ok_def)

lemma prune_loop:
  assumes "oracle_ok k c" "set es \<subseteq> set (tally_list c)"
  shows "\<exists>store. forM es (\<lambda>(nonce, att). if doomed nonce then DeleteAttestation k att else return ()) d =
      Ok () (d\<lparr>oracleAttestation := store\<rparr>) \<and> (kv_ok (oracleAttestation d) \<longrightarrow> kv_ok store) \<and>
    (\<forall>n h. kv_get store (n, h) = (if doomed n \<and> (\<exists>att. kv_get (oracleAttestation c) (n, h) = Some att \<and> (n, att) \<in> set es)
       then None else kv_get (oracleAttestation d) (n, h)))"
  using assms(2)
proof (induction es arbitrary: d)
  case Nil
  show ?case
    by (rule exI [of _ "oracleAttestation d"]) simp
next
  case (Cons e es)
  obtain n att where e: "e = (n, att)"
    by (rule prod.exhaust)
  then obtain h where h: "kv_get (oracleAttestation c) (n, h) = Some att"
    using Cons.prems tally_list_stored [OF assms(1)] by auto
  have hash: "h' = h" if "kv_get (oracleAttestation c) (n, h') = Some att" for h'
    using oracle_okD(1) [OF assms(1) that] oracle_okD(1) [OF assms(1) h] by (simp add: attestation_ok_def)
  let ?d = "if doomed n then d\<lparr>oracleAttestation := kv_del (n, h) (oracleAttestation d)\<rparr> else d"
  have step: "(if doomed n then DeleteAttestation k att else return ()) d = Ok () ?d"
    using DeleteAttestation_run [OF oracle_okD(1) [OF assms(1) h]] by simp
  obtain store where store: "forM es (\<lambda>(nonce, att). if doomed nonce then DeleteAttestation k att else return ()) ?d =
      Ok () (?d\<lparr>oracleAttestation := store\<rparr>)" "kv_ok (oracleAttestation ?d) \<longrightarrow> kv_ok store"
    "\<And>n h. kv_get store (n, h) = (if doomed n \<and> (\<exists>att. kv_get (oracleAttestation c) (n, h) = Some att \<and> (n, att) \<in> set es)
       then None else kv_get (oracleAttestation ?d) (n, h))"
    using Cons.IH [of ?d] Cons.prems by auto
  have "?d\<lparr>oracleAttestation := store\<rparr> = d\<lparr>oracleAttestation := store\<rparr>"
    by simp
  moreover have "kv_get store (m, h') = (if doomed m \<and>
      (\<exists>att. kv_get (oracleAttestation c) (m, h') = Some att \<and> (m, att) \<in> set (e # es))
      then None else kv_get (oracleAttestation d) (m, h'))" for m h'
  proof (cases "m = n \<and> h' = h")
    case True
    then show ?thesis
      using h by (simp add: store(3) e)
  next
    case False
    then have "(m, att') \<in> set (e # es) \<longleftrightarrow> (m, att') \<in> set es" if "kv_get (oracleAttestation c) (m, h') = Some att'" for att'
      using that hash by (auto simp: e)
    then show ?thesis
      using False unfolding store(3) by (auto split: if_splits)
  qed
  ultimately show ?case
    using step store(1,2) by (intro exI [of _ store]) (simp add: e bind_step)
qed

lemma prune_run:
  assumes "oracle_ok k c"
  shows "\<exists>store. pruneAttestations k c = Ok () (c\<lparr>oracleAttestation := store\<rparr>) \<and> oracle_ok k (c\<lparr>oracleAttestation := store\<rparr>) \<and>
    (\<forall>n h. kv_get store (n, h) = (if eventsToKeep < last_observed c \<and> n < last_observed c - eventsToKeep then None
       else kv_get (oracleAttestation c) (n, h)))"
proof (cases "last_observed c \<le> eventsToKeep")
  case True
  then show ?thesis
    using assms by (intro exI [of _ "oracleAttestation c"])
      (auto simp: pruneAttestations_def bind_step [OF GetAttestationMapping_run] bind_step [OF GetLastObservedEventNonce_run])
next
  case False
  let ?cut = "last_observed c - eventsToKeep"
  obtain store where store: "forM (tally_list c) (\<lambda>(nonce, att). if nonce < ?cut then DeleteAttestation k att else return ()) c =
      Ok () (c\<lparr>oracleAttestation := store\<rparr>)" "kv_ok store"
    "\<And>n h. kv_get store (n, h) = (if n < ?cut \<and> (\<exists>att. kv_get (oracleAttestation c) (n, h) = Some att \<and> (n, att) \<in> set (tally_list c))
       then None else kv_get (oracleAttestation c) (n, h))"
    using prune_loop [OF assms order_refl, of "\<lambda>n. n < ?cut" c] assms by (auto simp: oracle_ok_def)
  have get: "kv_get store (n, h) = (if n < ?cut then None else kv_get (oracleAttestation c) (n, h))" for n h
    using store(3) [of n h] tally_list_stored [OF assms] by (cases "kv_get (oracleAttestation c) (n, h)") auto
  have "oracle_ok k (c\<lparr>oracleAttestation := store\<rparr>)"
    using assms store(2) unfolding oracle_ok_def attestation_ok_def last_observed_def by (simp add: get)
  moreover have "pruneAttestations k c = Ok () (c\<lparr>oracleAttestation := store\<rparr>)"
    using False store(1) by (simp add: pruneAttestations_def bind_step [OF GetAttestationMapping_run]
        bind_step [OF GetLastObservedEventNonce_run] forM_nested tally_list_def Let_def)
  ultimately show ?thesis
    using False by (intro exI [of _ store]) (simp add: get)
qed

text \<open>
  C30: pruning always succeeds and removes exactly the attestations more than 1000 events below the last
  observed one; everything that can still be voted on or observed stays, and the invariant is kept.
\<close>

theorem pruneAttestations_correct:
  assumes "oracle_ok k c"
  shows "\<exists>c'. pruneAttestations k c = Ok () c' \<and> oracle_ok k c' \<and> last_observed c' = last_observed c \<and>
    (\<forall>n h. kv_get (oracleAttestation c') (n, h) =
       (if eventsToKeep < last_observed c \<and> n < last_observed c - eventsToKeep then None
        else kv_get (oracleAttestation c) (n, h)))"
proof -
  obtain store where "pruneAttestations k c = Ok () (c\<lparr>oracleAttestation := store\<rparr>)" "oracle_ok k (c\<lparr>oracleAttestation := store\<rparr>)"
    "\<forall>n h. kv_get store (n, h) = (if eventsToKeep < last_observed c \<and> n < last_observed c - eventsToKeep then None
       else kv_get (oracleAttestation c) (n, h))"
    using prune_run [OF assms] by blast
  then show ?thesis
    by (intro exI [of _ "c\<lparr>oracleAttestation := store\<rparr>"]) (simp add: last_observed_def)
qed

section \<open>Frames of the other steps\<close>

lemma keeps_confirmsByOperator [keeps_rules]: "keeps I (confirmsByOperator k m g cs)"
  unfolding confirmsByOperator_def by (intro keeps_rules)

lemma keeps_slashing_readers [keeps_rules]:
  "keeps I (updateValidator k v)" "keeps I (getUnbondingValidators k)" "keeps I (bondedValidators k)"
  "keeps I (prepValsetConfirms k n)" "keeps I (prepBatchConfirms k b)" "keeps I (prepLogicCallConfirms k call)"
  unfolding updateValidator_def getUnbondingValidators_def bondedValidators_def
    prepValsetConfirms_def prepBatchConfirms_def prepLogicCallConfirms_def
  by (intro keeps_rules)+

text \<open>Slashing writes to the staking module only.\<close>

context module_frame
begin

lemma frame_slash: "keeps (\<lambda>c. view c = s) (slashBonded k h confirms f v)"
  "keeps (\<lambda>c. view c = s) (slashUnbonding k params vs confs a)"
  unfolding slashBonded_def slashUnbonding_def slashAndJail_def by (intro keeps_rules frame_liftX)+

end

text \<open>A view that excludes the markers of slashing, the validator sets and the logic calls.\<close>

locale block_frame = module_frame +
  assumes view_markers: "view (c\<lparr>lastSlashedValsetNonce := n\<rparr>) = view c" "view (c\<lparr>lastSlashedBatchBlock := n\<rparr>) = view c"
      "view (c\<lparr>lastSlashedLogicCallBlock := n\<rparr>) = view c"
    and view_valsets: "view (c\<lparr>valsetRequest := vs\<rparr>) = view c" "view (c\<lparr>latestValsetNonce := n\<rparr>) = view c"
      "view (c\<lparr>valsetConfirm := vc\<rparr>) = view c" "view (c\<lparr>pastEthSignatureCheckpoint := cp\<rparr>) = view c"
    and view_calls: "view (c\<lparr>outgoingLogicCall := lc\<rparr>) = view c"
begin

lemma frame_slashing: "keeps (\<lambda>c. view c = s) (slashing k)"
  unfolding slashing_def valsetSlashing_def batchSlashing_def logicCallSlashing_def SetLastSlashedValsetNonce_def
    SetLastSlashedBatchBlock_def SetLastSlashedLogicCallBlock_def HasLastSlashedBatchBlock_def HasLastSlashedLogicCallBlock_def
  by (intro keeps_rules frame_slash frame_modify) (simp_all add: view_markers)

lemma frame_createValsets: "keeps (\<lambda>c. view c = s) (createValsets k)"
  unfolding createValsets_def SetValsetRequest_def StoreValset_def SetLatestValsetNonce_def SetPastEthSignatureCheckpoint_def
    GetLastUnBondingBlockHeight_def
  by (intro keeps_rules frame_modify) (simp_all add: view_valsets)

lemma frame_pruneValsets: "keeps (\<lambda>c. view c = s) (pruneValsets k params)"
  unfolding pruneValsets_def pruneValset_def DeleteValset_def DeleteValsetConfirms_def GetLastObservedValset_def valsetConfirmKey_def
  by (intro keeps_rules frame_modify) (simp_all add: view_valsets)

lemma frame_cleanupLogicCalls: "keeps (\<lambda>c. view c = s) (cleanupTimedOutLogicCalls k)"
  unfolding cleanupTimedOutLogicCalls_def CancelOutgoingLogicCall_def DeleteOutgoingLogicCall_def
  by (intro keeps_rules frame_modify) (simp_all add: view_calls)

end

interpretation outgoing_block: block_frame outgoing_view
  by unfold_locales (simp_all add: outgoing_view_def)

interpretation oracle_block: block_frame oracle_view
  by unfold_locales (simp_all add: oracle_view_def)

section \<open>The whole block\<close>

text \<open>The invariants of the outgoing transfers and of the oracle together, with valid parameters.\<close>

definition bridge_ok :: "'x Keeper \<Rightarrow> 'x ctx \<Rightarrow> bool" where
  "bridge_ok k c \<longleftrightarrow> outgoing_ok k c \<and> params_ok k c \<and> oracle_ok k c"

lemma bridge_ok_view:
  "outgoing_view d = outgoing_view c \<Longrightarrow> oracle_view d = oracle_view c \<Longrightarrow> bridge_ok k d \<longleftrightarrow> bridge_ok k c"
  using outgoing_view_cong(1,2) [of d c k] oracle_ok_cong [of d c k] by (simp add: bridge_ok_def)

lemma bridge_ok_frame:
  assumes "\<And>s. keeps (\<lambda>c. outgoing_view c = s) m" "\<And>s. keeps (\<lambda>c. oracle_view c = s) m" "m c = Ok u d" "bridge_ok k c"
  shows "bridge_ok k d \<and> ledger_of d = ledger_of c"
proof -
  have view: "outgoing_view d = outgoing_view c" "oracle_view d = oracle_view c"
    using keeps_Ok [OF assms(1) refl assms(3)] keeps_Ok [OF assms(2) refl assms(3)] .
  then have "ledger_of d = ledger_of c"
    using ledger_of_cong [OF view(1)] last_observed_view [OF view(2)] by (simp add: ledger_of_def)
  then show ?thesis
    using bridge_ok_view [OF view] assms(4) by blast
qed

lemma outgoing_ok_TryAttestation:
  assumes laws: "geth_laws k" "bech32_laws k" "staking_laws k" and ok: "outgoing_ok k c" "params_ok k c"
    and run: "TryAttestation k (Handle k) att c = Ok u c'"
  shows "outgoing_ok k c' \<and> params_ok k c' \<and> ledger_step\<^sup>*\<^sup>* (ledger_of c) (ledger_of c')"
proof (cases "quorum k c att")
  case True
  then obtain hash where "observe k (Handle k) att (Claim att) hash c = Ok u c'"
    using TryAttestation_Ok [OF laws(3) run] by auto
  note seen = observe_Ok [OF this]
  let ?m = "marked att hash c"
  have view: "outgoing_view ?m = outgoing_view c"
    by (simp add: marked_def outgoing_view_def)
  then have m: "outgoing_ok k ?m" "params_ok k ?m"
    using ok outgoing_view_cong(1,2) [of ?m c k] by simp_all
  have events: "last_observed ?m = last_observed c + 1"
    using seen by (simp add: marked_def last_observed_def)
  from seen consider "Handle k (att\<lparr>Observed := True\<rparr>) (Claim att) ?m = Ok () c'" | "c' = ?m"
    by blast
  then show ?thesis
  proof cases
    case 1
    note out = outgoing_ok_Handle [OF laws(1,2) m 1]
    have "last_observed c' = last_observed ?m"
      using last_observed_view [OF keeps_Ok [OF oracle_part.frame_Handle refl 1]] .
    then show ?thesis
      using out ledger_event [OF ok(1), of c'] executes_view [OF view, of c'] view events by auto
  next
    case 2
    then show ?thesis
      using m ledger_event [OF ok(1), of ?m] view events by simp
  qed
qed (use TryAttestation_Ok [OF laws(3) run] ok in auto)

lemma bridge_ok_tally:
  assumes laws: "geth_laws k" "bech32_laws k" "staking_laws k" and ok: "bridge_ok k c"
    and run: "attestationTally k c = Ok u c'"
  shows "bridge_ok k c' \<and> ledger_step\<^sup>*\<^sup>* (ledger_of c) (ledger_of c')"
proof (cases "\<exists>p. paramsStore c = Some p \<and> BridgeActive p")
  case True
  have voted: "oracle_ok k c"
    using ok by (simp add: bridge_ok_def)
  define I where "I d \<longleftrightarrow> tallied k c d \<and> outgoing_ok k d \<and> params_ok k d \<and> ledger_step\<^sup>*\<^sup>* (ledger_of c) (ledger_of d)" for d
  from True have run: "forM (tally_list c) (\<lambda>(n, att). tallyStep k n att) c = Ok u c'"
    using run by (auto simp: attestationTally_run)
  have "I c'"
  proof (rule forM_inv [where P = I, OF run])
    show "I c"
      using ok tallied_refl [OF voted] by (simp add: I_def bridge_ok_def)
    fix e d d' assume e: "e \<in> set (tally_list c)" "I d" "(case e of (n, att) \<Rightarrow> tallyStep k n att) d = Ok () d'"
    then have "outgoing_ok k d' \<and> params_ok k d' \<and> ledger_step\<^sup>*\<^sup>* (ledger_of d) (ledger_of d')"
      using outgoing_ok_TryAttestation [OF laws, of d _ "()" d']
      by (auto simp: I_def tallyStep_def bind_step [OF GetLastObservedEventNonce_run] split: prod.splits if_splits)
    then have "outgoing_ok k d' \<and> params_ok k d' \<and> ledger_step\<^sup>*\<^sup>* (ledger_of c) (ledger_of d')"
      using e(2) by (auto simp: I_def)
    then show "I d'"
      using tallied_entry [OF laws(3) voted e(1) _ e(3)] e(2) by (simp add: I_def)
  qed
  then show ?thesis
    using tallied_D(1) [of k c c'] by (simp add: I_def bridge_ok_def)
next
  case False
  then show ?thesis
    using ok run attestationTally_paused [of c k] by simp
qed

lemma cleanup_bridge:
  assumes laws: "geth_laws k" "bech32_laws k" and ok: "bridge_ok k c" and run: "cleanupTimedOutBatches k c = Ok u c'"
  shows "bridge_ok k c'" "oracle_view c' = oracle_view c" "ledger_step (ledger_of c) (ledger_of c')"
proof -
  have "keeps (\<lambda>d. oracle_view d = oracle_view c) (cleanupTimedOutBatches k)"
    unfolding cleanupTimedOutBatches_def cancelTimedOut_def by (intro keeps_rules oracle_part.frame_cancel)
  from keeps_Ok [OF this refl run] show view: "oracle_view c' = oracle_view c" .
  then show "bridge_ok k c'"
    using cleanup_loop [OF laws, of c] ok run oracle_ok_cong [of c' c k] by (auto simp: bridge_ok_def)
  have "keeps (\<lambda>d. lastTXPoolID d = lastTXPoolID c) (cleanupTimedOutBatches k)"
    unfolding cleanupTimedOutBatches_def cancelTimedOut_def by (intro keeps_rules pool_counter.frame_cancel)
  from keeps_Ok [OF this refl run] have "lastTXPoolID c' = lastTXPoolID c" .
  then show "ledger_step (ledger_of c) (ledger_of c')"
    using cleanup_loop [OF laws, of c] ok run last_observed_view [OF view]
    by (intro ledger_cancel [of k]) (auto simp: bridge_ok_def)
qed

lemma prune_bridge:
  assumes "bridge_ok k c" "pruneAttestations k c = Ok u c'"
  shows "bridge_ok k c'" "ledger_of c' = ledger_of c"
proof -
  obtain store where c': "c' = c\<lparr>oracleAttestation := store\<rparr>" "oracle_ok k c'"
    using prune_run [of k c] assms by (auto simp: bridge_ok_def)
  then have view: "outgoing_view c' = outgoing_view c"
    by (simp add: outgoing_view_def)
  then show "bridge_ok k c'"
    using assms(1) c' outgoing_view_cong(1,2) [of c' c k] by (simp add: bridge_ok_def)
  show "ledger_of c' = ledger_of c"
    using ledger_of_cong [OF view] by (simp add: c' ledger_of_def last_observed_def)
qed

lemma EndBlocker_refines:
  assumes laws: "geth_laws k" "bech32_laws k" "staking_laws k" and ok: "bridge_ok k c"
    and run: "EndBlocker k c = Ok u c'"
  shows "bridge_ok k c' \<and> ledger_step\<^sup>*\<^sup>* (ledger_of c) (ledger_of c') \<and> last_observed c \<le> last_observed c'"
proof -
  obtain params c1 c2 c3 c4 c5 c6 where slash: "slashing k c = Ok () c1" and tally: "attestationTally k c1 = Ok () c2"
    and cleanup: "cleanupTimedOutBatches k c2 = Ok () c3" and calls: "cleanupTimedOutLogicCalls k c3 = Ok () c4"
    and create: "createValsets k c4 = Ok () c5" and sets: "pruneValsets k params c5 = Ok () c6"
    and prune: "pruneAttestations k c6 = Ok u c'"
    using run unfolding EndBlocker_def bind_Ok MustGetParams_Ok by auto
  have c1: "bridge_ok k c1" "ledger_of c1 = ledger_of c"
    using bridge_ok_frame [OF outgoing_block.frame_slashing oracle_block.frame_slashing slash ok] by auto
  have c2: "bridge_ok k c2" and steps: "ledger_step\<^sup>*\<^sup>* (ledger_of c1) (ledger_of c2)"
    using bridge_ok_tally [OF laws c1(1) tally] by auto
  have c3: "bridge_ok k c3" and seen: "oracle_view c3 = oracle_view c2" and cancel: "ledger_step (ledger_of c2) (ledger_of c3)"
    using cleanup_bridge [OF laws(1,2) c2 cleanup] by auto
  have c4: "bridge_ok k c4" "ledger_of c4 = ledger_of c3"
    using bridge_ok_frame [OF outgoing_block.frame_cleanupLogicCalls oracle_block.frame_cleanupLogicCalls calls c3] by auto
  have c5: "bridge_ok k c5" "ledger_of c5 = ledger_of c3"
    using bridge_ok_frame [OF outgoing_block.frame_createValsets oracle_block.frame_createValsets create c4(1)] c4(2) by auto
  have c6: "bridge_ok k c6" "ledger_of c6 = ledger_of c3"
    using bridge_ok_frame [OF outgoing_block.frame_pruneValsets oracle_block.frame_pruneValsets sets c5(1)] c5(2) by auto
  have c': "bridge_ok k c'" "ledger_of c' = ledger_of c3"
    using prune_bridge [OF c6(1) prune] c6(2) by auto
  have "last_observed c1 \<le> last_observed c2"
    using tallied_D(2) [OF tally_tallied [OF laws(3) _ tally]] c1(1) by (simp add: bridge_ok_def)
  moreover have "last_observed c1 = last_observed c" "last_observed c' = last_observed c3"
    using c1(2) c'(2) by (simp_all add: ledger_of_def)
  ultimately show ?thesis
    using c' steps cancel c1(2) last_observed_view [OF seen] by (simp add: rtranclp.rtrancl_into_rtrancl)
qed

text \<open>
  C6: a whole block keeps the invariants of the bridge: whatever is slashed, observed, executed, cancelled,
  requested or pruned at the end of the block, the outgoing transfers and the oracle stay consistent.
\<close>

theorem EndBlocker_keeps_bridge_ok:
  assumes laws: "geth_laws k" "bech32_laws k" "staking_laws k" and ok: "bridge_ok k c"
    and run: "EndBlocker k c = Ok u c'"
  shows "bridge_ok k c' \<and> last_observed c \<le> last_observed c'"
  using EndBlocker_refines [OF assms] by blast

section \<open>Who is slashed\<close>


text \<open>The marker of slashed batches moves only at the end of each round.\<close>

interpretation slashed_batches: module_frame lastSlashedBatchBlock
  by unfold_locales simp

lemma SetLastSlashedBatchBlock_Ok:
  "SetLastSlashedBatchBlock h c = Ok u c' \<longleftrightarrow>
     (\<forall>l. lastSlashedBatchBlock c = Some l \<longrightarrow> l \<le> h) \<and> c' = c\<lparr>lastSlashedBatchBlock := Some h\<rparr>"
  by (cases "lastSlashedBatchBlock c") (auto simp: SetLastSlashedBatchBlock_def HasLastSlashedBatchBlock_def
      GetLastSlashedBatchBlock_def panicIf_def bind_assoc)

lemma slash_rounds_ordered:
  assumes "forM bs (\<lambda>b. bind (prepBatchConfirms k b) (\<lambda>confirms.
      bind (forM vals (slashBonded k (CosmosBlockCreated b) confirms f)) (\<lambda>_.
        SetLastSlashedBatchBlock (CosmosBlockCreated b)))) c = Ok u c'" "lastSlashedBatchBlock c = Some l"
  shows "sorted (l # map CosmosBlockCreated bs)"
  using assms
proof (induction bs arbitrary: c l)
  case (Cons b bs)
  then obtain confirms :: "(string, MsgConfirmBatch) kv" and d e where slash: "forM vals (slashBonded k (CosmosBlockCreated b) confirms f) c = Ok () d"
      and mark: "SetLastSlashedBatchBlock (CosmosBlockCreated b) d = Ok () e"
      and rest: "forM bs (\<lambda>b. bind (prepBatchConfirms k b) (\<lambda>confirms.
        bind (forM vals (slashBonded k (CosmosBlockCreated b) confirms f)) (\<lambda>_.
          SetLastSlashedBatchBlock (CosmosBlockCreated b)))) e = Ok u c'"
    by (auto simp: bind_assoc bind_readonly [OF keeps_slashing_readers(5)] bind_Ok [of "forM _ _"]
        bind_Ok [of "SetLastSlashedBatchBlock _"])
  have "lastSlashedBatchBlock d = Some l"
    using keeps_Ok [OF keeps_forM [OF slashed_batches.frame_slash(1)] Cons.prems(2) slash] .
  then have "l \<le> CosmosBlockCreated b" "lastSlashedBatchBlock e = Some (CosmosBlockCreated b)"
    using mark by (simp_all add: SetLastSlashedBatchBlock_Ok)
  then show ?case
    using Cons.IH [OF rest] by auto
qed simp

text \<open>
  C29: when two batches of one token wait to be slashed for and the newer one was created at a greater height,
  the end of the block cannot succeed: batches are visited newest first and the marker may not go back.
\<close>

theorem batchSlashing_stops_on_backlog:
  assumes ok: "batches_ok k c" and window: "SignedBatchesWindow params < BlockHeight c"
    and older: "kv_get (outgoingTXBatch c) (a, n) = Some e" and newer: "kv_get (outgoingTXBatch c) (a, m) = Some f" and "n < m"
    and marker: "lastSlashedBatchBlock c = Some l" "l < ext_CosmosBlockCreated e"
    and heights: "ext_CosmosBlockCreated e < ext_CosmosBlockCreated f"
      "ext_CosmosBlockCreated f < BlockHeight c - SignedBatchesWindow params"
  shows "batchSlashing k params c \<noteq> Ok u c'"
proof
  assume run: "batchSlashing k params c = Ok u c'"
  let ?P = "\<lambda>b. l < CosmosBlockCreated b \<and> CosmosBlockCreated b < BlockHeight c - SignedBatchesWindow params"
  let ?key = "\<lambda>b. (TokenContract b, BatchNonce b)"
  let ?bs = "filter ?P (batch_list k c)"
  have "GetUnSlashedBatches k (BlockHeight c - SignedBatchesWindow params) c = Ok ?bs c"
    using ok marker by (simp add: GetUnSlashedBatches_def GetLastSlashedBatchBlock_def bind_assoc bind_step [OF GetOutgoingTxBatches_run])
  then obtain vals where "forM ?bs (\<lambda>b. bind (prepBatchConfirms k b) (\<lambda>confirms.
      bind (forM vals (slashBonded k (CosmosBlockCreated b) confirms (SlashFractionBatch params))) (\<lambda>_.
        SetLastSlashedBatchBlock (CosmosBlockCreated b)))) c = Ok u c'"
    using run window by (auto simp: batchSlashing_def bind_readonly [OF keeps_slashing_readers(3)] bind_step)
  from slash_rounds_ordered [OF this marker(1)]
  have asc: "sorted_wrt (\<lambda>x y. CosmosBlockCreated x \<le> CosmosBlockCreated y) ?bs"
    by (simp add: sorted_wrt_map)
  have "sorted_wrt (\<lambda>x y. y < x) (map ?key (batch_list k c))"
    using kv_desc_sorted [of "outgoingTXBatch c"] ok unfolding batch_list_keys [OF ok] by (simp add: batches_ok_def)
  then have desc: "sorted_wrt (\<lambda>x y. ?key y < ?key x) ?bs"
    by (simp add: sorted_wrt_map sorted_wrt_filter)
  have entry: "batch_internal k b \<in> set (batch_list k c)" "?key (batch_internal k b) = (a, i)"
      "CosmosBlockCreated (batch_internal k b) = ext_CosmosBlockCreated b"
    if "kv_get (outgoingTXBatch c) (a, i) = Some b" for i b
    using batch_list_mem [OF ok that] batch_entry_okD(3) [OF batches_okD [OF ok that]]
      arg_cong [OF batch_entry_okD(2) [OF batches_okD [OF ok that]], of ext_CosmosBlockCreated]
    by (simp_all add: InternalOutgoingTxBatch_ToExternal_def)
  have "batch_internal k e \<in> set ?bs" "batch_internal k f \<in> set ?bs"
    using entry [OF older] entry [OF newer] marker(2) heights by simp_all
  then obtain i j where ij: "i < length ?bs" "j < length ?bs" "?bs ! i = batch_internal k e" "?bs ! j = batch_internal k f"
    unfolding in_set_conv_nth by blast
  consider "i < j" | "j < i" | "i = j"
    by linarith
  then show False
  proof cases
    case 1
    then have "?key (batch_internal k f) < ?key (batch_internal k e)"
      using sorted_wrt_nth_less [OF desc 1 ij(2)] ij by simp
    then show ?thesis
      using entry(2) [OF older] entry(2) [OF newer] \<open>n < m\<close> by simp
  next
    case 2
    then have "CosmosBlockCreated (batch_internal k f) \<le> CosmosBlockCreated (batch_internal k e)"
      using sorted_wrt_nth_less [OF asc 2 ij(1)] ij by simp
    then show ?thesis
      using entry(3) [OF older] entry(3) [OF newer] heights(1) by simp
  next
    case 3
    then show ?thesis
      using ij(3,4) entry(2) [OF older] entry(2) [OF newer] \<open>n < m\<close> by simp
  qed
qed

section \<open>Pruning of validator sets\<close>

lemma GetValsets_run: "GetValsets c = Ok (sortSlice Valsets_Less (map snd (kv_desc (valsetRequest c)))) c"
proof -
  have "iterM (\<lambda>(key, val) out. return (False, out @ [val])) es acc c = Ok (acc @ map snd es) c" for es :: "(uint64 \<times> Valset) list" and acc
    by (induction es arbitrary: acc) auto
  then show ?thesis
    by (simp add: GetValsets_def IterateValsets_def bind_assoc bind_run)
qed

lemma pruneValset_store:
  assumes "pruneValset k n h vs c = Ok u c'"
  shows "valsetRequest c' = (if Valset_Nonce vs < n \<and> Valset_Height vs < h then kv_del (Valset_Nonce vs) (valsetRequest c)
    else valsetRequest c)"
proof -
  have confirms: "keeps (\<lambda>d. valsetRequest d = s) (DeleteValsetConfirms k m)" for s m
    unfolding DeleteValsetConfirms_def valsetConfirmKey_def by (intro keeps_rules keeps_modify) simp_all
  show ?thesis
  proof (cases "Valset_Nonce vs < n \<and> Valset_Height vs < h")
    case True
    then have "DeleteValsetConfirms k (Valset_Nonce vs) (c\<lparr>valsetRequest := kv_del (Valset_Nonce vs) (valsetRequest c)\<rparr>) = Ok u c'"
      using assms by (simp add: pruneValset_def DeleteValset_def)
    from keeps_Ok [OF confirms refl this] True show ?thesis
      by simp
  qed (use assms in \<open>auto simp: pruneValset_def split: if_splits\<close>)
qed

lemma prune_sets:
  assumes "forM sets (pruneValset k n h) c = Ok u c'"
  shows "kv_get (valsetRequest c') m =
    (if m \<in> Valset_Nonce ` {v \<in> set sets. Valset_Nonce v < n \<and> Valset_Height v < h} then None else kv_get (valsetRequest c) m)"
  using assms
proof (induction sets arbitrary: c)
  case (Cons v sets)
  then obtain d where "pruneValset k n h v c = Ok () d" "forM sets (pruneValset k n h) d = Ok u c'"
    by (auto simp: bind_Ok)
  then have "kv_get (valsetRequest c') m =
      (if m \<in> Valset_Nonce ` {v \<in> set sets. Valset_Nonce v < n \<and> Valset_Height v < h} then None
       else if Valset_Nonce v < n \<and> Valset_Height v < h \<and> m = Valset_Nonce v then None else kv_get (valsetRequest c) m)"
    using Cons.IH [of d] pruneValset_store [of k n h v c "()" d] by simp
  moreover have "{w \<in> set (v # sets). P w} = (if P v then insert v {w \<in> set sets. P w} else {w \<in> set sets. P w})" for P
    by auto
  ultimately show ?case
    by simp
qed simp

text \<open>
  C31: pruning removes exactly the validator sets below the last observed one that are older than the signing
  window; the observed set, every newer set and every set that can still be slashed for stay.
\<close>

theorem pruneValsets_correct:
  assumes "kv_ok (valsetRequest c)" "\<forall>n v. kv_get (valsetRequest c) n = Some v \<longrightarrow> Valset_Nonce v = n"
    and "lastObservedValset c = Some observed" "SignedValsetsWindow params \<le> BlockHeight c"
    and "pruneValsets k params c = Ok u c'"
  shows "kv_get (valsetRequest c') n = (case kv_get (valsetRequest c) n of
    Some v \<Rightarrow> if n < Valset_Nonce observed \<and> Valset_Height v < BlockHeight c - SignedValsetsWindow params then None else Some v
  | None \<Rightarrow> None)"
proof -
  let ?sets = "sortSlice Valsets_Less (map snd (kv_desc (valsetRequest c)))"
  have run: "forM ?sets (pruneValset k (Valset_Nonce observed) (BlockHeight c - SignedValsetsWindow params)) c = Ok u c'"
    using assms(3-5) by (simp add: pruneValsets_def GetLastObservedValset_def bind_step [OF GetValsets_run] split: if_splits)
  have mem: "v \<in> set ?sets \<longleftrightarrow> kv_get (valsetRequest c) (Valset_Nonce v) = Some v" for v
  proof -
    have "v \<in> set ?sets \<longleftrightarrow> (\<exists>m. (m, v) \<in> set (kv_asc (valsetRequest c)))"
      by force
    then show ?thesis
      unfolding kv.asc_get [OF assms(1)] using assms(2) by metis
  qed
  show ?thesis
  proof (cases "kv_get (valsetRequest c) n")
    case None
    then show ?thesis
      unfolding prune_sets [OF run] by simp
  next
    case (Some v)
    then have v: "v \<in> set ?sets" "n = Valset_Nonce v"
      using assms(2) unfolding mem by auto
    have only: "w = v" if "w \<in> set ?sets" "n = Valset_Nonce w" for w
      using that Some unfolding mem by simp
    have "n \<in> Valset_Nonce ` {w \<in> set ?sets. P w} \<longleftrightarrow> P v" for P
    proof
      assume "n \<in> Valset_Nonce ` {w \<in> set ?sets. P w}"
      then show "P v"
        using only by auto
    next
      assume "P v"
      with v show "n \<in> Valset_Nonce ` {w \<in> set ?sets. P w}"
        by (intro image_eqI [of _ _ v]) simp_all
    qed
    then show ?thesis
      unfolding prune_sets [OF run] using Some assms(2) by simp
  qed
qed

end
