(* ===== verification/BlockWitnesses.thy ===== *)
theory BlockWitnesses
  imports OracleWitnesses EndBlocker
begin

text \<open>The theorems about the end of a block, applied to the concrete instance of \<open>DemoChain\<close>.\<close>

section \<open>The tally\<close>

lemma disputed_list [simp]: "tally_list disputed = [(1, demo_att 8 [[2], [3]]), (1, demo_att 9 [[1]])]"
  by (simp add: tally_list_def attmap_def add_attestation_def disputed_def demo_att_def Let_def kv_eval)

lemma disputed_start [simp]: "last_observed disputed = 0" "paramsStore disputed = Some demo_params" "BridgeActive demo_params"
  by (simp_all add: last_observed_def disputed_def demo_params_def)

lemma demo_tally_run: "is_Ok (attestationTally demo disputed)"
proof -
  obtain u c1 where run: "TryAttestation demo (Handle demo) (demo_att 8 [[2], [3]]) disputed = Ok u c1"
    using demo_try_run by (rule is_OkE)
  then have "last_observed c1 = 1"
    using TryAttestation_effect(4) [OF staking_laws_demo disputed_ok disputed_entries(1) run] by simp
  then show ?thesis
    using run by (simp add: attestationTally_run tallyStep_def bind_step [OF GetLastObservedEventNonce_run] bind_run)
qed

lemma attestationTally_in_order_witness:
  "\<exists>u c'. attestationTally demo disputed = Ok u c' \<and> oracle_ok demo c' \<and> last_observed disputed \<le> last_observed c'"
proof -
  obtain u c' where run: "attestationTally demo disputed = Ok u c'"
    using demo_tally_run by (rule is_OkE)
  with attestationTally_in_order [OF _ _ run] show ?thesis
    by simp
qed


lemma pruneAttestations_correct_witness: "\<exists>c'. pruneAttestations demo disputed = Ok () c' \<and> oracle_ok demo c'"
  using pruneAttestations_correct [OF disputed_ok] by blast

section \<open>Clean-up and slashing\<close>

lemma params_ok_demo [simp]: "paramsStore c = Some demo_params \<Longrightarrow> params_ok demo c"
  by (simp add: params_ok_def demo_params_def)

text \<open>The observed Ethereum height has passed the timeouts.\<close>

definition overdue :: "bank ctx" where
  "overdue = batched\<lparr>lastObservedEthereumBlockHeight := Some \<lparr>CosmosBlockHeight = 10, EthereumBlockHeight = 60\<rparr>\<rparr>"


text \<open>A staking module that leaves a trace of each validator it jails.\<close>

definition strict :: "bank Keeper" where
  "strict = demo\<lparr>StakingJail := (\<lambda>a. modify (\<lambda>x. ((a, ''jailed''), 1) # x))\<rparr>"

lemma demo_staking [simp]:
  "SigningInfo_StartHeight demo x a = Inr 0" "UnbondingTime demo x = Inr 0" "ValidatorQueueIterator demo x t h = Inr []"
  by (simp_all add: demo_def)

lemma strict_simps [simp]:
  "StakingJail strict = (\<lambda>a. modify (\<lambda>x. ((a, ''jailed''), 1) # x))" "StakingSlash strict = StakingSlash demo"
  "SigningInfo_StartHeight strict = SigningInfo_StartHeight demo" "GetValidator strict = GetValidator demo"
  "ValAddressFromBech32 strict = demo_parse"
  by (simp_all add: strict_def)


definition backlog_batch :: "uint64 \<Rightarrow> OutgoingTxBatch" where
  "backlog_batch n = InternalOutgoingTxBatch_ToExternal demo ((demo_batch n 5)\<lparr>CosmosBlockCreated := 3 + n\<rparr>)"

definition backlog :: "bank ctx" where
  "backlog = demo_ctx\<lparr>lastSlashedBatchBlock := Some 0, outgoingTXBatch := [((7, 1), backlog_batch 1), ((7, 2), backlog_batch 2)]\<rparr>"

lemma backlog_ToInternal [simp]:
  "OutgoingTxBatch_ToInternal demo (backlog_batch n) = Inr ((demo_batch n 5)\<lparr>CosmosBlockCreated := 3 + n\<rparr>)"
  unfolding backlog_batch_def by (rule batch_round_trip) (simp_all add: demo_batch_def)

lemma backlog_ok: "batches_ok demo backlog"
proof -
  have "batch_entry_ok demo ((7, n), backlog_batch n)" for n
    by (simp add: batch_entry_ok_def) (simp add: backlog_batch_def demo_batch_def new_tx_def demo_exec)
  then show ?thesis
    by (simp add: batches_ok_def backlog_def kv_ok_def kv_simps)
qed

lemma batchSlashing_stops_on_backlog_witness: "\<forall>c'. batchSlashing demo demo_params backlog \<noteq> Ok () c'"
proof -
  have created: "ext_CosmosBlockCreated (backlog_batch 1) = 4" "ext_CosmosBlockCreated (backlog_batch 2) = 5"
    by (simp_all add: backlog_batch_def InternalOutgoingTxBatch_ToExternal_def)
  have "batchSlashing demo demo_params backlog \<noteq> Ok () c'" for c'
    by (rule batchSlashing_stops_on_backlog [OF backlog_ok, where a = 7 and n = 1 and m = 2 and l = 0 and e = "backlog_batch 1" and f = "backlog_batch 2"])
      (simp_all add: backlog_def demo_params_def kv_eval created)
  then show ?thesis
    by blast
qed

section \<open>Validator sets\<close>

definition superseded :: "bank ctx" where
  "superseded = demo_ctx\<lparr>valsetRequest := [(1, demo_forged\<lparr>Valset_Nonce := 1\<rparr>), (2, demo_forged\<lparr>Valset_Nonce := 2\<rparr>)],
     lastObservedValset := Some (demo_forged\<lparr>Valset_Nonce := 2\<rparr>)\<rparr>"

lemma demo_params_fields [simp]:
  "SignedValsetsWindow demo_params = 10" "SignedBatchesWindow demo_params = 10" "SignedLogicCallsWindow demo_params = 10"
  "BridgeActive demo_params"
  by (simp_all add: demo_params_def)

lemma pruneValsets_correct_witness:
  "\<exists>u c'. pruneValsets demo demo_params superseded = Ok u c' \<and> kv_get (valsetRequest c') 1 = None \<and>
     kv_get (valsetRequest c') 2 = Some (demo_forged\<lparr>Valset_Nonce := 2\<rparr>)"
proof -
  have "is_Ok (forM sets (pruneValset demo n h) c)" if "valsetConfirm c = []" for sets n h and c :: "bank ctx"
    using that by (induction sets arbitrary: c)
      (simp_all add: pruneValset_def DeleteValset_def DeleteValsetConfirms_def GetValsetConfirms_def demo_exec)
  then have "is_Ok (pruneValsets demo demo_params superseded)"
    by (simp add: pruneValsets_def GetLastObservedValset_def bind_step [OF GetValsets_run] superseded_def)
  then obtain u c' where run: "pruneValsets demo demo_params superseded = Ok u c'"
    by (rule is_OkE)
  have ok: "kv_ok (valsetRequest superseded)"
    and nonces: "\<forall>n v. kv_get (valsetRequest superseded) n = Some v \<longrightarrow> Valset_Nonce v = n"
    by (auto simp: superseded_def kv_ok_def kv_eval split: if_splits)
  have observed: "lastObservedValset superseded = Some (demo_forged\<lparr>Valset_Nonce := 2\<rparr>)"
    and window: "SignedValsetsWindow demo_params \<le> BlockHeight superseded"
    by (simp_all add: superseded_def)
  have "kv_get (valsetRequest superseded) 1 = Some (demo_forged\<lparr>Valset_Nonce := 1\<rparr>)"
    "kv_get (valsetRequest superseded) 2 = Some (demo_forged\<lparr>Valset_Nonce := 2\<rparr>)"
    by (simp_all add: superseded_def kv_eval)
  then have "kv_get (valsetRequest c') 1 = None" "kv_get (valsetRequest c') 2 = Some (demo_forged\<lparr>Valset_Nonce := 2\<rparr>)"
    using pruneValsets_correct [OF ok nonces observed window run, of 1] pruneValsets_correct [OF ok nonces observed window run, of 2]
    by (simp_all add: superseded_def demo_forged_def)
  with run show ?thesis
    by blast
qed

section \<open>A whole block\<close>

definition started :: "bank ctx" where
  "started = registered\<lparr>lastSlashedBatchBlock := Some 0, lastSlashedLogicCallBlock := Some 0\<rparr>"

lemma started_ok: "bridge_ok demo started"
proof -
  have "outgoing_view started = outgoing_view demo_ctx" "oracle_view started = oracle_view registered"
    by (simp_all add: started_def registered_def outgoing_view_def oracle_view_def)
  then show ?thesis
    using outgoing_view_cong(1,2) [of started demo_ctx demo] oracle_ok_cong [of started registered demo]
    by (simp add: bridge_ok_def)
qed

lemma started_fields [simp]:
  "BlockHeight started = 20" "paramsStore started = Some demo_params" "latestValsetNonce started = Some 0" "valsetRequest started = []"
  "lastSlashedValsetNonce started = None" "outgoingTXBatch started = []" "lastSlashedBatchBlock started = Some 0"
  "outgoingLogicCall started = []" "lastSlashedLogicCallBlock started = Some 0" "oracleAttestation started = []"
  by (simp_all add: started_def registered_def)

lemma started_slashing: "slashing demo started = Ok () started"
  by (simp add: slashing_def valsetSlashing_def batchSlashing_def logicCallSlashing_def bondedValidators_def
      getUnbondingValidators_def GetUnSlashedValsets_def GetLastSlashedValsetNonce_def IterateValsetBySlashedValsetNonce_def
      GetUnSlashedBatches_def GetLastSlashedBatchBlock_def GetOutgoingTxBatches_def IterateOutgoingTxBatches_def
      GetUnSlashedLogicCalls_def GetLastSlashedLogicCallBlock_def GetOutgoingLogicCalls_def IterateOutgoingLogicCalls_def GetLatestValsetNonce_def
      demo_exec)

lemma started_tally: "attestationTally demo started = Ok () started"
  by (simp add: attestationTally_run tally_list_def attmap_def RequireBridgeActive_def demo_exec)

lemma started_cleanup: "cleanupTimedOutBatches demo started = Ok () started" "cleanupTimedOutLogicCalls demo started = Ok () started"
  by (simp_all add: cleanupTimedOutBatches_def cleanupTimedOutLogicCalls_def GetLastObservedEthereumBlockHeight_def
      GetOutgoingTxBatches_def IterateOutgoingTxBatches_def GetOutgoingLogicCalls_def IterateOutgoingLogicCalls_def
      demo_exec)

interpretation observed_valset: block_frame "\<lambda>c. (lastObservedValset c, lastObservedEventNonce c)"
  by unfold_locales simp_all

lemma started_valset:
  "\<exists>c. createValsets demo started = Ok () c \<and> lastObservedValset c = None \<and> lastObservedEventNonce c = None"
proof -
  have "is_Ok (SetValsetRequest demo started)"
    by (simp add: started_def registered_def demo_params_def valset_eval demo_denom_def demo_exec)
  then obtain v c where "SetValsetRequest demo started = Ok v c"
    by (rule is_OkE)
  then have run: "createValsets demo started = Ok () c"
    by (simp add: createValsets_def GetLatestValset_def GetValset_def GetLatestValsetNonce_def GetLastUnBondingBlockHeight_def
        demo_exec)
  have "lastObservedValset c = None \<and> lastObservedEventNonce c = None"
    using keeps_Ok [OF observed_valset.frame_createValsets refl run] by (simp add: started_def registered_def)
  with run show ?thesis
    by blast
qed

lemma EndBlocker_keeps_bridge_ok_witness: "\<exists>u c'. EndBlocker demo started = Ok u c' \<and> bridge_ok demo c'"
proof -
  obtain c where "createValsets demo started = Ok () c" "lastObservedValset c = None" "lastObservedEventNonce c = None"
    using started_valset by blast
  then have run: "EndBlocker demo started = Ok () c"
    by (simp add: EndBlocker_def pruneValsets_def GetLastObservedValset_def pruneAttestations_def GetLastObservedEventNonce_def
        eventsToKeep_def GetAttestationMapping_run MustGetParams_def GetParams_def started_slashing started_tally started_cleanup
        bind_def orPanic_def)
  with EndBlocker_keeps_bridge_ok [OF _ _ _ started_ok run] show ?thesis
    by auto
qed

end
