(* ===== verification/Auction.thy ===== *)
theory Auction
  imports Escrow
begin

text \<open>
  The auction module (\<open>x/auction\<close>): the collected fees in the auction pool are auctioned for the native
  token, period after period.  The module's own account holds the coins under auction and the highest bids.

  The auction store is part of the chain state: parameters, the current period, the auctions by id and the
  last id.  The sections follow \<open>types/\<close>, \<open>keeper/keeper.go\<close>, \<open>keeper/auction.go\<close>,
  \<open>keeper/auction_period.go\<close>, \<open>keeper/msg_server.go\<close>, \<open>abci.go\<close>, \<open>keeper/invariants.go\<close> and
  \<open>keeper/genesis.go\<close>.
\<close>

section \<open>Types and validation\<close>

definition NativeTokenDenom :: string where
  "NativeTokenDenom = ''ugraviton''"

definition AuctionModuleName :: string where
  "AuctionModuleName = ''auction''"

definition AuctionPoolAccountName :: string where
  "AuctionPoolAccountName = ''auction_pool''"

definition AuctionPeriod_ValidateBasic :: "AuctionPeriod \<Rightarrow> error option" where
  "AuctionPeriod_ValidateBasic a =
     (if EndBlockHeight a \<le> StartBlockHeight a
      then Some (Wrapped (SdkErr ''ErrInvalidAuctionPeriod'') ''end block height must be after start block height'')
      else if StartBlockHeight a = 0
      then Some (Wrapped (SdkErr ''ErrInvalidAuctionPeriod'') ''start block height must be positive'')
      else None)"

definition NewAuction :: "uint64 \<Rightarrow> Coin \<Rightarrow> Auction" where
  "NewAuction i amount = \<lparr>Auction_Id = i, Auction_Amount = amount, HighestBid = None\<rparr>"

definition Bid_ValidateBasic :: "'a libs_scheme \<Rightarrow> Bid \<Rightarrow> error option" where
  "Bid_ValidateBasic k b =
     (if BidAmount b = 0 then Some (Wrapped (SdkErr ''ErrInvalidBid'') ''bid amount must be positive'')
      else case AccAddressFromBech32 k (BidderAddress b) of
        Inl _ \<Rightarrow> Some (Wrapped (SdkErr ''ErrInvalidBid'') ''invalid bidder'')
      | Inr _ \<Rightarrow> None)"

definition Auction_ValidateBasic :: "'a libs_scheme \<Rightarrow> Auction \<Rightarrow> error option" where
  "Auction_ValidateBasic k a =
     (if \<not> Coin_IsValid k (Auction_Amount a) then Some (Wrapped (SdkErr ''ErrInvalidAuction'') ''invalid amount'')
      else case HighestBid a of
        None \<Rightarrow> None
      | Some b \<Rightarrow> (case Bid_ValidateBasic k b of
          Some _ \<Rightarrow> Some (Wrapped (SdkErr ''ErrInvalidAuction'') ''invalid bid'')
        | None \<Rightarrow> None))"

definition validNonAuctionableDenoms :: "'a libs_scheme \<Rightarrow> string list \<Rightarrow> error option" where
  "validNonAuctionableDenoms k tokens =
     (if list_ex (\<lambda>s. ValidateDenom k s \<noteq> None) tokens
      then Some (Wrapped (SdkErr ''ErrInvalidParams'') ''string is invalid'')
      else if NativeTokenDenom \<notin> set tokens
      then Some (Wrapped (SdkErr ''ErrInvalidParams'') ''non auctionable tokens must contain the native token'')
      else None)"

definition AuctionParams_ValidateBasic :: "'a libs_scheme \<Rightarrow> AuctionParams \<Rightarrow> error option" where
  "AuctionParams_ValidateBasic k p =
     (if AuctionLength p = 0 then Some (Wrapped (SdkErr ''ErrInvalidParams'') ''auction length must be positive'')
      else validNonAuctionableDenoms k (NonAuctionableTokens p))"

definition DefaultAuctionParams :: AuctionParams where
  "DefaultAuctionParams = \<lparr>AuctionLength = 85600, MinBidFee = 3110, NonAuctionableTokens = [''ugraviton''],
     BurnWinningBids = True, Enabled = True\<rparr>"

record MsgBid =
  MsgBid_AuctionId :: uint64
  MsgBid_Bidder :: string
  MsgBid_Amount :: uint64
  MsgBid_BidFee :: uint64

definition MsgBid_ValidateBasic :: "'a libs_scheme \<Rightarrow> MsgBid \<Rightarrow> error option" where
  "MsgBid_ValidateBasic k msg =
     (case AccAddressFromBech32 k (MsgBid_Bidder msg) of
        Inl _ \<Rightarrow> Some (Wrapped (SdkErr ''ErrInvalidBid'') ''invalid bidder'')
      | Inr _ \<Rightarrow> if MsgBid_Amount msg = 0
          then Some (Wrapped (SdkErr ''ErrInvalidBid'') ''bid amount must be positive'') else None)"

section \<open>Keeper\<close>

definition Auction_GetParams :: "('x, AuctionParams) gop" where
  "Auction_GetParams = bind (reads auctionParams) (\<lambda>bz.
     case bz of None \<Rightarrow> fail (SdkErr ''ErrParamsNotFound'') | Some params \<Rightarrow> return params)"

definition Auction_SetParams :: "'x Keeper \<Rightarrow> AuctionParams \<Rightarrow> ('x, unit) gop" where
  "Auction_SetParams k params =
     bind (check (AuctionParams_ValidateBasic k params)) (\<lambda>_. modify (\<lambda>ctx. ctx\<lparr>auctionParams := Some params\<rparr>))"

definition Auction_GetAuthority :: "'x Keeper \<Rightarrow> ('x, string) gop" where
  "Auction_GetAuthority k =
     (if auctionAuthority k = [] then panic ''authority is not set for auction keeper'' else return (auctionAuthority k))"

definition GetAuctionPoolBalances :: "'x Keeper \<Rightarrow> ('x, Coin list) gop" where
  "GetAuctionPoolBalances k = reads (\<lambda>ctx. GetAllBalances k (others ctx) (GetModuleAddress k AuctionPoolAccountName))"

definition ModuleEnabled :: "('x, bool) gop" where
  "ModuleEnabled = bind (orPanic ''failed to get auction params'' Auction_GetParams) (\<lambda>params. return (Enabled params))"

definition requireEnabled :: "error \<Rightarrow> ('x, unit) gop" where
  "requireEnabled e = bind ModuleEnabled (\<lambda>enabled. failIf (\<not> enabled) e)"

definition SendToAuctionPool :: "'x Keeper \<Rightarrow> Coin list \<Rightarrow> ('x, unit) gop" where
  "SendToAuctionPool k coins =
     bind (requireEnabled (SdkErr ''ErrDisabledModule'')) (\<lambda>_.
       wrapErr ''Failure to transfer tokens from auction module to auction pool''
         (liftX (SendCoinsFromModuleToModule k AuctionModuleName AuctionPoolAccountName coins)))"

definition RemoveFromAuctionPool :: "'x Keeper \<Rightarrow> Coin \<Rightarrow> ('x, unit) gop" where
  "RemoveFromAuctionPool k coin =
     bind (failIf (Coin_Denom coin = NativeTokenDenom)
             (Wrapped (SdkErr ''ErrInvalidAuction'') ''not allowed to collect community pool native token balance'')) (\<lambda>_.
     bind (requireEnabled (SdkErr ''ErrDisabledModule'')) (\<lambda>_.
     bind (sdk_NewCoins k [coin]) (\<lambda>coins.
       wrapErr ''Failure to transfer tokens from auction pool to auction module''
         (liftX (SendCoinsFromModuleToModule k AuctionPoolAccountName AuctionModuleName coins)))))"

definition ReturnPreviousBidAmount :: "'x Keeper \<Rightarrow> AccAddress \<Rightarrow> Coin \<Rightarrow> ('x, unit) gop" where
  "ReturnPreviousBidAmount k recipient amount =
     bind (requireEnabled (SdkErr ''ErrDisabledModule'')) (\<lambda>_.
     bind (sdk_NewCoins k [amount]) (\<lambda>coins.
       wrapErr ''Failed to return funds to bidder'' (liftX (SendCoinsFromModuleToAccount k AuctionModuleName recipient coins))))"

definition LockBidAmount :: "'x Keeper \<Rightarrow> AccAddress \<Rightarrow> Coin \<Rightarrow> ('x, unit) gop" where
  "LockBidAmount k sender amount =
     bind (requireEnabled (SdkErr ''ErrDisabledModule'')) (\<lambda>_.
     bind (sdk_NewCoins k [amount]) (\<lambda>coins.
       wrapErr ''Failed to collect bid'' (liftX (SendCoinsFromAccountToModule k sender AuctionModuleName coins))))"

definition AwardAuction :: "'x Keeper \<Rightarrow> AccAddress \<Rightarrow> Coin \<Rightarrow> ('x, unit) gop" where
  "AwardAuction k bidder amount =
     bind (requireEnabled (SdkErr ''ErrDisabledModule'')) (\<lambda>_.
     bind (sdk_NewCoins k [amount]) (\<lambda>coins.
       wrapErr ''Failed to award auction to highest bidder''
         (liftX (SendCoinsFromModuleToAccount k AuctionModuleName bidder coins))))"

definition GetMintDenom :: "'x Keeper \<Rightarrow> ('x, string) gop" where
  "GetMintDenom k = bind (reads (\<lambda>ctx. MintDenom k (others ctx))) lift"

definition IsDenomAuctionable :: "'x Keeper \<Rightarrow> string \<Rightarrow> ('x, bool) gop" where
  "IsDenomAuctionable k denom =
     bind (orPanic ''failed to get mint params'' (GetMintDenom k)) (\<lambda>mintDenom.
       if denom = mintDenom then return False
       else bind (orPanic ''failed to get auction params'' Auction_GetParams) (\<lambda>params.
              return (denom \<notin> set (NonAuctionableTokens params))))"

definition sendFromModuleAccountToCommunityPool :: "'x Keeper \<Rightarrow> Coin \<Rightarrow> string \<Rightarrow> ('x, unit) gop" where
  "sendFromModuleAccountToCommunityPool k coin moduleName =
     bind (sdk_NewCoins k [coin]) (\<lambda>coins.
     bind (wrapErr ''Failure to transfer tokens from auction pool to community pool''
             (liftX (SendCoinsFromModuleToModule k moduleName ''distribution'' coins))) (\<lambda>_.
     bind (reads (\<lambda>ctx. FeePool_Get k (others ctx))) (\<lambda>r.
     bind (wrapErr ''Failed to get fee pool'' (lift r)) (\<lambda>communityPool.
       wrapErr ''Failed to set fee pool''
         (liftX (FeePool_Set k (DecCoins_Add k communityPool (NewDecCoinsFromCoins k coins))))))))"

section \<open>Auctions\<close>

definition IterateAuctions :: "(uint64 \<Rightarrow> Auction \<Rightarrow> 'b \<Rightarrow> ('x, bool \<times> 'b) gop) \<Rightarrow> 'b \<Rightarrow> ('x, 'b) gop" where
  "IterateAuctions cb acc =
     bind (reads (\<lambda>ctx. kv_asc (auctionStore ctx))) (\<lambda>entries. iterM (\<lambda>(key, auction). cb key auction) entries acc)"

definition GetAllAuctions :: "('x, Auction list) gop" where
  "GetAllAuctions = IterateAuctions (\<lambda>_ auction auctions. return (False, auctions @ [auction])) []"

definition GetAuctionById :: "uint64 \<Rightarrow> ('x, Auction option) gop" where
  "GetAuctionById i = reads (\<lambda>ctx. kv_get (auctionStore ctx) i)"

definition GetAuctionByDenom :: "string \<Rightarrow> ('x, Auction option) gop" where
  "GetAuctionByDenom denom =
     IterateAuctions (\<lambda>_ auction foundAuction.
       if Coin_Denom (Auction_Amount auction) = denom then return (True, Some auction) else return (False, foundAuction)) None"

definition GetAllAuctionsByBidder :: "string \<Rightarrow> ('x, Auction list) gop" where
  "GetAllAuctionsByBidder bidder =
     IterateAuctions (\<lambda>_ auction auctions.
       return (False, if (case HighestBid auction of None \<Rightarrow> False | Some b \<Rightarrow> BidderAddress b = bidder)
                      then auctions @ [auction] else auctions)) []"

definition GetAuctionNonce :: "('x, uint64) gop" where
  "GetAuctionNonce = reads (\<lambda>ctx. case auctionNonce ctx of None \<Rightarrow> 0 | Some n \<Rightarrow> n)"

definition GetNextAuctionId :: "('x, uint64) gop" where
  "GetNextAuctionId = bind GetAuctionNonce (\<lambda>nonce. return (nonce + 1))"

definition unsafeSetAuctionNonce :: "uint64 \<Rightarrow> ('x, unit) gop" where
  "unsafeSetAuctionNonce nonce = modify (\<lambda>ctx. ctx\<lparr>auctionNonce := Some nonce\<rparr>)"

definition IncrementAuctionNonce :: "('x, uint64) gop" where
  "IncrementAuctionNonce =
     bind GetAuctionNonce (\<lambda>nonce. bind (unsafeSetAuctionNonce (nonce + 1)) (\<lambda>_. return nonce))"

definition UpdateAuction :: "'x Keeper \<Rightarrow> Auction \<Rightarrow> ('x, unit) gop" where
  "UpdateAuction k auction =
     bind (check (Auction_ValidateBasic k auction)) (\<lambda>_.
     bind (requireEnabled (SdkErr ''ErrDisabledModule'')) (\<lambda>_.
     bind (GetAuctionById (Auction_Id auction)) (\<lambda>previousAuction.
       case previousAuction of
         None \<Rightarrow> fail (Wrapped (SdkErr ''ErrAuctionNotFound'') ''could not find auction to update'')
       | Some previous \<Rightarrow>
           if Auction_Amount previous \<noteq> Auction_Amount auction
           then fail (Wrapped (SdkErr ''ErrInvalidAuction'') ''cannot update auction amount or denom'')
           else modify (\<lambda>ctx. ctx\<lparr>auctionStore := kv_set (Auction_Id auction) auction (auctionStore ctx)\<rparr>))))"

definition UpdateHighestBidder :: "'x Keeper \<Rightarrow> uint64 \<Rightarrow> Bid \<Rightarrow> ('x, unit) gop" where
  "UpdateHighestBidder k auctionid highestBidder =
     bind (GetAuctionById auctionid) (\<lambda>auction.
       case auction of
         None \<Rightarrow> fail (SdkErr ''ErrAuctionNotFound'')
       | Some a \<Rightarrow> UpdateAuction k (a\<lparr>HighestBid := Some highestBidder\<rparr>))"

definition GetAuctionPeriod :: "('x, AuctionPeriod option) gop" where
  "GetAuctionPeriod = reads auctionPeriod"

definition DeleteAllAuctions :: "('x, unit) gop" where
  "DeleteAllAuctions =
     bind ModuleEnabled (\<lambda>enabled.
     bind (panicIf (\<not> enabled) ''cannot delete auctions while the module is disabled'') (\<lambda>_.
     bind GetAuctionPeriod (\<lambda>period.
     bind (reads BlockHeight) (\<lambda>height.
     bind (panicIf (case period of None \<Rightarrow> False | Some p \<Rightarrow> EndBlockHeight p > height)
             ''attempted to delete all auctions during active auction period'') (\<lambda>_.
     bind (IterateAuctions (\<lambda>key _ keys. return (False, keys @ [key])) []) (\<lambda>keys.
       forM keys (\<lambda>key. modify (\<lambda>ctx. ctx\<lparr>auctionStore := kv_del key (auctionStore ctx)\<rparr>))))))))"

definition StoreAuction :: "'x Keeper \<Rightarrow> Auction \<Rightarrow> ('x, unit) gop" where
  "StoreAuction k auction =
     bind (check (Auction_ValidateBasic k auction)) (\<lambda>_.
     bind GetNextAuctionId (\<lambda>expectedId.
     bind (failIf (Auction_Id auction \<noteq> expectedId)
             (Wrapped (SdkErr ''ErrInvalidAuction'') ''expected next auction to have another id'')) (\<lambda>_.
     bind (IsDenomAuctionable k (Coin_Denom (Auction_Amount auction))) (\<lambda>auctionable.
     bind (failIf (\<not> auctionable) (Wrapped (SdkErr ''ErrInvalidAuction'') ''denom is on the NonAuctionableTokens list'')) (\<lambda>_.
     bind (reads (\<lambda>ctx. kv_has (auctionStore ctx) (Auction_Id auction))) (\<lambda>has.
     bind (failIf has (SdkErr ''ErrDuplicateAuction'')) (\<lambda>_.
     bind (modify (\<lambda>ctx. ctx\<lparr>auctionStore := kv_set (Auction_Id auction) auction (auctionStore ctx)\<rparr>)) (\<lambda>_.
     bind IncrementAuctionNonce (\<lambda>_. return ())))))))))"

definition takeHighestBid :: "'x Keeper \<Rightarrow> AuctionParams \<Rightarrow> Coin \<Rightarrow> ('x, unit) gop" where
  "takeHighestBid k params highestBidCoin =
     (if BurnWinningBids params
      then bind (sdk_NewCoins k [highestBidCoin]) (\<lambda>coins.
             wrapErr ''unable to burn highest bid'' (liftX (BurnCoins k AuctionModuleName coins)))
      else wrapErr ''unable to send highest bid to community pool''
             (sendFromModuleAccountToCommunityPool k highestBidCoin AuctionModuleName))"

definition CloseAuctionWithWinner :: "'x Keeper \<Rightarrow> uint64 \<Rightarrow> ('x, unit) gop" where
  "CloseAuctionWithWinner k auction_id =
     bind (wrapErr ''failed to get auction params'' Auction_GetParams) (\<lambda>params.
     bind (failIf (\<not> Enabled params)
             (Wrapped (SdkErr ''ErrDisabledModule'') ''unable to close an auction when the module is not enabled'')) (\<lambda>_.
     bind (GetAuctionById auction_id) (\<lambda>auction.
       case auction of
         None \<Rightarrow> fail (SdkErr ''ErrAuctionNotFound'')
       | Some a \<Rightarrow>
           (case HighestBid a of
              None \<Rightarrow> panic ''unexpected unsuccessful auction''
            | Some highestBid \<Rightarrow>
                bind (orPanic ''failed to get mint params'' (GetMintDenom k)) (\<lambda>bidToken.
                bind (NewCoin k bidToken (uint (BidAmount highestBid))) (\<lambda>highestBidCoin.
                bind (orPanic ''MustAccAddressFromBech32'' (lift (AccAddressFromBech32 k (BidderAddress highestBid)))) (\<lambda>highestBidder.
                bind (takeHighestBid k params highestBidCoin) (\<lambda>_.
                  wrapErr ''unable to award auction to highest bidder'' (AwardAuction k highestBidder (Auction_Amount a))))))))))"

definition CloseAuctionNoWinner :: "'x Keeper \<Rightarrow> uint64 \<Rightarrow> ('x, unit) gop" where
  "CloseAuctionNoWinner k auction_id =
     bind (requireEnabled (Wrapped (SdkErr ''ErrDisabledModule'') ''unable to close an auction when the module is not enabled'')) (\<lambda>_.
     bind (GetAuctionById auction_id) (\<lambda>auction.
       case auction of
         None \<Rightarrow> fail (SdkErr ''ErrAuctionNotFound'')
       | Some a \<Rightarrow>
           bind (panicIf (HighestBid a \<noteq> None) ''unexpected successful auction'') (\<lambda>_.
           bind (sdk_NewCoins k [Auction_Amount a]) (\<lambda>coins.
             wrapErr ''unable to send auction amount to auction pool'' (SendToAuctionPool k coins)))))"

section \<open>Periods\<close>

definition updateAuctionPeriodUnsafe :: "AuctionPeriod \<Rightarrow> ('x, unit) gop" where
  "updateAuctionPeriodUnsafe p =
     bind (reads BlockHeight) (\<lambda>height.
     bind (panicIf (StartBlockHeight p > height + 1) ''cannot update auction end to start after the next block'') (\<lambda>_.
     bind (panicIf (EndBlockHeight p < height) ''cannot update auction end to be in the past'') (\<lambda>_.
       modify (\<lambda>ctx. ctx\<lparr>auctionPeriod := Some p\<rparr>))))"

definition UpdateAuctionPeriod :: "AuctionPeriod \<Rightarrow> ('x, unit) gop" where
  "UpdateAuctionPeriod p =
     bind (requireEnabled (SdkErr ''ErrDisabledModule'')) (\<lambda>_.
     bind GetAuctionPeriod (\<lambda>lastPeriod.
     bind (reads BlockHeight) (\<lambda>height.
     bind (failIf (case lastPeriod of None \<Rightarrow> False | Some l \<Rightarrow> EndBlockHeight l > height)
             (Wrapped (SdkErr ''ErrInvalidAuctionPeriod'') ''cannot update auction period during the current auction period'')) (\<lambda>_.
     bind (failIf (case lastPeriod of None \<Rightarrow> False
                   | Some l \<Rightarrow> EndBlockHeight l > StartBlockHeight p \<or> EndBlockHeight l \<ge> EndBlockHeight p)
             (Wrapped (SdkErr ''ErrInvalidAuctionPeriod'') ''new auction period conflicts with the last one'')) (\<lambda>_.
       updateAuctionPeriodUnsafe p)))))"

definition initializeAuctionPeriodFromParams :: "uint64 \<Rightarrow> AuctionParams \<Rightarrow> AuctionPeriod" where
  "initializeAuctionPeriodFromParams startBlock params =
     \<lparr>StartBlockHeight = startBlock, EndBlockHeight = startBlock + AuctionLength params\<rparr>"

definition CreateNewAuctionPeriod :: "('x, AuctionPeriod) gop" where
  "CreateNewAuctionPeriod =
     bind (wrapErr ''failed to get auction params'' Auction_GetParams) (\<lambda>params.
     bind (reads BlockHeight) (\<lambda>height.
     (let p = initializeAuctionPeriodFromParams (height + 1) params
      in bind (wrapErr ''unable to create new auction period'' (UpdateAuctionPeriod p)) (\<lambda>_. return p))))"

text \<open>One turn of the loop over the balances of the auction pool.\<close>

definition auctionPoolCoin :: "'x Keeper \<Rightarrow> string list \<Rightarrow> Coin \<Rightarrow> ('x, unit) gop" where
  "auctionPoolCoin k auctionBlacklist poolCoin =
     (if Coin_Denom poolCoin \<in> set auctionBlacklist
      then wrapErr ''unable to transfer non auctionable balance to community pool''
             (sendFromModuleAccountToCommunityPool k poolCoin AuctionPoolAccountName)
      else bind GetNextAuctionId (\<lambda>i.
           bind (wrapErr ''unable to take auction amount out of pool'' (RemoveFromAuctionPool k poolCoin)) (\<lambda>_.
             wrapErr ''unable to store auction'' (StoreAuction k (NewAuction i poolCoin)))))"

definition CreateAuctionsForAuctionPeriod :: "'x Keeper \<Rightarrow> ('x, unit) gop" where
  "CreateAuctionsForAuctionPeriod k =
     bind (wrapErr ''failed to get auction params'' Auction_GetParams) (\<lambda>params.
     bind (failIf (\<not> Enabled params) (SdkErr ''ErrDisabledModule'')) (\<lambda>_.
     bind (IterateAuctions (\<lambda>_ _ _. return (True, True)) False) (\<lambda>foundAuctions.
     bind (failIf foundAuctions
             (Wrapped (SdkErr ''ErrInvalidAuction'') ''attempted to create auctions without removing old auctions from store'')) (\<lambda>_.
     bind GetAuctionPeriod (\<lambda>period.
     bind (reads BlockHeight) (\<lambda>height.
     bind (case period of
             None \<Rightarrow> panic ''nil pointer dereference''
           | Some p \<Rightarrow> failIf (StartBlockHeight p \<noteq> height + 1 \<or> EndBlockHeight p \<le> height + 1)
               (Wrapped (SdkErr ''ErrInvalidAuction'') ''attempted to create auctions in the middle of an active period'')) (\<lambda>_.
     bind (GetAuctionPoolBalances k) (\<lambda>auctionPool.
       forM auctionPool (auctionPoolCoin k (NonAuctionableTokens params))))))))))"

section \<open>Messages\<close>

text \<open>
  The balance checks that run when \<open>Bid\<close> returns without an error.  Differences of coins panic when they
  are negative; an absent old bidder is the empty address.
\<close>

definition assertBidBalanceChanges ::
  "'x Keeper \<Rightarrow> bool \<Rightarrow> Coin \<Rightarrow> Coin \<Rightarrow> AccAddress \<Rightarrow> Coin \<Rightarrow> Coin \<Rightarrow> Coin \<Rightarrow> Coin \<Rightarrow> Coin \<Rightarrow> Coin \<Rightarrow> Coin \<Rightarrow>
     ('x, unit) gop" where
  "assertBidBalanceChanges k successfulBid modStart modEnd oldBidderAcc oldStart oldEnd newStart newEnd oldBid newBid bidFee =
     (if \<not> successfulBid then
        bind (panicIf (modStart \<noteq> modEnd) ''Unexpected module balance change with unsuccessful bid'') (\<lambda>_.
        bind (panicIf (oldBidderAcc \<noteq> [] \<and> oldStart \<noteq> oldEnd) ''Unexpected old bidder balance change with unsuccessful bid'') (\<lambda>_.
          panicIf (newStart \<noteq> newEnd) ''Unexpected new bidder balance change with unsuccessful bid''))
      else
        bind (Coin_Sub modEnd modStart) (\<lambda>modDiff.
        bind (if oldBidderAcc \<noteq> [] then
                bind (Coin_Sub oldEnd oldStart) (\<lambda>oldBidderDiff.
                bind (panicIf (oldBidderDiff \<noteq> oldBid) ''Expected old bidder to receive their locked Grav'') (\<lambda>_.
                bind (Coin_Sub newBid oldBid) (\<lambda>outbidAmount.
                  panicIf (modDiff \<noteq> outbidAmount) ''Expected module Grav balance to increase by (new bid - old bid)'')))
              else panicIf (modDiff \<noteq> newBid) ''Expected module Grav balance to increase by new bid'') (\<lambda>_.
        bind (Coin_Sub newStart newEnd) (\<lambda>newBidderDiff.
        bind (Coin_Add k newBid bidFee) (\<lambda>total.
          panicIf (newBidderDiff \<noteq> total) ''Expected new bidder Grav balance to decrease by bid + fee amount'')))))"

definition nativeBalance :: "'x Keeper \<Rightarrow> AccAddress \<Rightarrow> ('x, Coin) gop" where
  "nativeBalance k a = reads (\<lambda>ctx. GetBalance k (others ctx) a NativeTokenDenom)"

text \<open>The previous highest bid, if any, is checked first and paid back once the fee has been taken.\<close>

definition outbids :: "'x Keeper \<Rightarrow> MsgBid \<Rightarrow> Auction \<Rightarrow> ('x, (Bid \<times> AccAddress) option) gop" where
  "outbids k msg currentAuction =
     (case HighestBid currentAuction of
        None \<Rightarrow> return None
      | Some highestBid \<Rightarrow>
          bind (failIf (uint (MsgBid_Amount msg) < uint (BidAmount highestBid))
                  (Wrapped (SdkErr ''ErrBidTooLow'') ''bid must surpass current highest'')) (\<lambda>_.
          bind (failIf (MsgBid_Bidder msg = BidderAddress highestBid)
                  (Wrapped (SdkErr ''ErrInvalidBid'') ''bidding again as the current highest bidder is not allowed'')) (\<lambda>_.
          bind (orPanic ''MustAccAddressFromBech32'' (lift (AccAddressFromBech32 k (BidderAddress highestBid)))) (\<lambda>oldBidderAcc.
            return (Some (highestBid, oldBidderAcc))))))"

definition oldBidderOf :: "(Bid \<times> AccAddress) option \<Rightarrow> AccAddress" where
  "oldBidderOf old = (case old of None \<Rightarrow> [] | Some (_, acc) \<Rightarrow> acc)"

definition releaseOldBid :: "'x Keeper \<Rightarrow> string \<Rightarrow> (Bid \<times> AccAddress) option \<Rightarrow> ('x, Coin) gop" where
  "releaseOldBid k bidToken old =
     (case old of
        None \<Rightarrow> return \<lparr>Coin_Denom = [], Coin_Amount = 0\<rparr>
      | Some (highestBid, oldBidder) \<Rightarrow>
          bind (NewCoin k bidToken (uint (BidAmount highestBid))) (\<lambda>oldBid.
          bind (ReturnPreviousBidAmount k oldBidder oldBid) (\<lambda>_. return oldBid)))"

definition placeBid :: "'x Keeper \<Rightarrow> MsgBid \<Rightarrow> ('x, unit) gop" where
  "placeBid k msg =
     (let moduleAddress = GetModuleAddress k AuctionModuleName in
     bind (nativeBalance k moduleAddress) (\<lambda>modStart.
     bind (wrapErr ''failed to get auction params'' Auction_GetParams) (\<lambda>params.
     bind (failIf (\<not> Enabled params) (SdkErr ''ErrDisabledModule'')) (\<lambda>_.
     bind (wrapErr ''failed to get mint params'' (GetMintDenom k)) (\<lambda>bidToken.
     bind (wrapErr ''invalid bidder'' (lift (AccAddressFromBech32 k (MsgBid_Bidder msg)))) (\<lambda>newBidderAcc.
     bind (nativeBalance k newBidderAcc) (\<lambda>newStart.
     (let bidAmount = uint (MsgBid_Amount msg); feeInt = uint (MsgBid_BidFee msg) in
     bind (failIf (feeInt < uint (MinBidFee params)) (Wrapped (SdkErr ''ErrInvalidBid'') ''bid fee must be at least the minimum'')) (\<lambda>_.
     bind (GetAuctionById (MsgBid_AuctionId msg)) (\<lambda>found.
       case found of
         None \<Rightarrow> fail (Wrapped (SdkErr ''ErrAuctionNotFound'') ''no active auction with id'')
       | Some currentAuction \<Rightarrow>
           bind (panicIf (Coin_Denom (Auction_Amount currentAuction) = bidToken) ''Bid for auction of the native token'') (\<lambda>_.
           bind (outbids k msg currentAuction) (\<lambda>old.
           (let oldBidderAcc = oldBidderOf old in
           bind (nativeBalance k oldBidderAcc) (\<lambda>oldStart.
           bind (Int_Add k bidAmount feeInt) (\<lambda>totalValue.
           bind (reads (\<lambda>ctx. GetBalance k (others ctx) newBidderAcc bidToken)) (\<lambda>bidderBalance.
           bind (failIf (Coin_Amount bidderBalance < totalValue) (Wrapped (SdkErr ''ErrInsufficientFunds'') ''insufficient balance'')) (\<lambda>_.
           bind (NewCoin k bidToken feeInt) (\<lambda>bidFee.
           bind (sdk_NewCoins k [bidFee]) (\<lambda>transferToStakers.
           bind (NewCoin k bidToken bidAmount) (\<lambda>transferToModule.
           bind (liftX (DeductFees k newBidderAcc transferToStakers)) (\<lambda>_.
           bind (releaseOldBid k bidToken old) (\<lambda>oldBid.
           bind (wrapErr ''unable to lock bid amount'' (LockBidAmount k newBidderAcc transferToModule)) (\<lambda>_.
           bind (wrapErr ''unable to update highest bidder''
                   (UpdateHighestBidder k (Auction_Id currentAuction)
                     \<lparr>BidAmount = MsgBid_Amount msg, BidderAddress = MsgBid_Bidder msg\<rparr>)) (\<lambda>_.
           bind (NewCoin k NativeTokenDenom bidAmount) (\<lambda>newBid.
           bind (nativeBalance k newBidderAcc) (\<lambda>newEnd.
           bind (nativeBalance k oldBidderAcc) (\<lambda>oldEnd.
           bind (nativeBalance k moduleAddress) (\<lambda>modEnd.
             assertBidBalanceChanges k True modStart modEnd oldBidderAcc oldStart oldEnd newStart newEnd
               oldBid newBid bidFee))))))))))))))))))))))))))))"

record ParamUpdate =
  Update_Key :: string
  Update_Value :: string

record MsgUpdateParamsProposal =
  Proposal_Authority :: string
  ParamUpdates :: "ParamUpdate list"

definition invalidValue :: "string \<Rightarrow> string \<Rightarrow> error + 'v \<Rightarrow> error + 'v" where
  "invalidValue e msg r = (case r of Inl _ \<Rightarrow> Inl (Wrapped (SdkErr e) msg) | Inr v \<Rightarrow> Inr v)"

definition updateAuctionParam :: "'x Keeper \<Rightarrow> ParamUpdate \<Rightarrow> AuctionParams \<Rightarrow> error + AuctionParams" where
  "updateAuctionParam k param p =
     (let v = Update_Value param; key = Update_Key param in
      if key = ''AuctionLength'' then
        bindE (invalidValue ''ErrInvalidRequest'' ''invalid auction length'' (ParseUint64 v)) (\<lambda>n. Inr (p\<lparr>AuctionLength := n\<rparr>))
      else if key = ''MinBidFee'' then
        bindE (invalidValue ''ErrInvalidRequest'' ''invalid min bid fee'' (ParseUint64 v)) (\<lambda>n. Inr (p\<lparr>MinBidFee := n\<rparr>))
      else if key = ''NonAuctionableTokens'' then
        bindE (invalidValue ''ErrInvalidRequest'' ''invalid non-auctionable tokens'' (json_Strings k v)) (\<lambda>ts.
          Inr (p\<lparr>NonAuctionableTokens := ts\<rparr>))
      else if key = ''BurnWinningBids'' then
        bindE (invalidValue ''ErrInvalidRequest'' ''invalid burn winning bids'' (ParseBool v)) (\<lambda>b. Inr (p\<lparr>BurnWinningBids := b\<rparr>))
      else if key = ''Enabled'' then
        bindE (invalidValue ''ErrInvalidRequest'' ''invalid enabled status'' (ParseBool v)) (\<lambda>b. Inr (p\<lparr>Enabled := b\<rparr>))
      else Inl (Wrapped (SdkErr ''ErrUnknownRequest'') ''unknown parameter key''))"

fun updateAuctionParams :: "'x Keeper \<Rightarrow> ParamUpdate list \<Rightarrow> AuctionParams \<Rightarrow> error + AuctionParams" where
  "updateAuctionParams k [] p = Inr p"
| "updateAuctionParams k (u # us) p = bindE (updateAuctionParam k u p) (updateAuctionParams k us)"

definition Auction_UpdateParamsProposal :: "'x Keeper \<Rightarrow> MsgUpdateParamsProposal \<Rightarrow> ('x, unit) gop" where
  "Auction_UpdateParamsProposal k msg =
     bind (Auction_GetAuthority k) (\<lambda>authority.
     bind (failIf (authority \<noteq> Proposal_Authority msg) (Wrapped (SdkErr ''ErrInvalidSigner'') ''invalid authority'')) (\<lambda>_.
     bind (wrapErr ''failed to get auction params'' Auction_GetParams) (\<lambda>params.
     bind (lift (updateAuctionParams k (ParamUpdates msg) params)) (\<lambda>updatedParams.
       wrapErr ''failed to set auction params'' (Auction_SetParams k updatedParams)))))"

section \<open>End of block\<close>

definition closeAuction :: "'x Keeper \<Rightarrow> Auction \<Rightarrow> ('x, unit) gop" where
  "closeAuction k auction =
     orPanic ''unable to close auction''
       (if HighestBid auction \<noteq> None then CloseAuctionWithWinner k (Auction_Id auction)
        else CloseAuctionNoWinner k (Auction_Id auction))"

definition endAuctionPeriod :: "'x Keeper \<Rightarrow> ('x, unit) gop" where
  "endAuctionPeriod k =
     bind GetAuctionPeriod (\<lambda>endingPeriod.
     bind (IterateAuctions (\<lambda>_ auction _. bind (closeAuction k auction) (\<lambda>_. return (False, ()))) ()) (\<lambda>_.
     bind DeleteAllAuctions (\<lambda>_.
       panicIf (endingPeriod = None) ''nil pointer dereference'')))"

definition scheduleNextAuctionPeriod :: "'x Keeper \<Rightarrow> ('x, unit) gop" where
  "scheduleNextAuctionPeriod k =
     bind (orPanic ''unable to create new auction period'' CreateNewAuctionPeriod) (\<lambda>_.
       orPanic ''unable to create auctions for new auction period'' (CreateAuctionsForAuctionPeriod k))"

definition coinsOr :: "Coin list option \<Rightarrow> ('s, Coin list) op" where
  "coinsOr r = (case r of None \<Rightarrow> panic ''invalid coins'' | Some cs \<Rightarrow> return cs)"

definition getBankSupplies :: "'x Keeper \<Rightarrow> ('x, Coin list) gop" where
  "getBankSupplies k =
     bind (reads (\<lambda>ctx. TotalSupply k (others ctx))) (\<lambda>supply.
       foldM (\<lambda>c coins. coinsOr (Coins_Add k coins [c])) supply [])"

definition Coins_IsZero :: "Coin list \<Rightarrow> bool" where
  "Coins_IsZero cs \<longleftrightarrow> list_all (\<lambda>c. Coin_Amount c = 0) cs"

definition assertSupplyIntegrity :: "'x Keeper \<Rightarrow> Coin list \<Rightarrow> Coin list \<Rightarrow> bool \<Rightarrow> ('x, unit) gop" where
  "assertSupplyIntegrity k startSupplies endSupplies periodEnded =
     (if \<not> periodEnded then panicIf (\<not> Coins_Equal k startSupplies endSupplies) ''unexpected supply change''
      else
        bind (orPanic ''failed to get auction params'' Auction_GetParams) (\<lambda>params.
        bind (coinsOr (Coins_Sub k startSupplies endSupplies)) (\<lambda>difference.
          if Coins_IsZero difference then return ()
          else
            bind (panicIf (length difference \<noteq> 1) ''auction close changed the supply of more than just the native token'') (\<lambda>_.
            bind (panicIf (Coin_Denom (hd difference) \<noteq> NativeTokenDenom) ''auction close affected a token which is NOT the native token'') (\<lambda>_.
              panicIf (\<not> BurnWinningBids params) ''BurnWinningBids is false but the auction close affected native token supply'')))))"

definition assertClosed ::
  "'x Keeper \<Rightarrow> (string, Coin list) kv \<Rightarrow> Coin list \<Rightarrow> Coin list \<Rightarrow> Coin list \<Rightarrow> Auction \<Rightarrow> int \<Rightarrow> ('x, int) gop" where
  "assertClosed k affectedAccs startModule startPool endModule auction bidAmounts =
     (let denom = Coin_Denom (Auction_Amount auction);
          startModAmount = Coins_AmountOf k startModule denom;
          endModAmount = Coins_AmountOf k endModule denom;
          startPoolAmount = Coins_AmountOf k startPool denom in
      bind (panicIf (startModAmount \<noteq> Coin_Amount (Auction_Amount auction))
              ''Expected auction module account to only hold the closing auction amount'') (\<lambda>_.
      case HighestBid auction of
        Some bid \<Rightarrow>
          (let startBidderBals = (case kv_get affectedAccs (BidderAddress bid) of None \<Rightarrow> [] | Some cs \<Rightarrow> cs) in
          bind (orPanic ''MustAccAddressFromBech32'' (lift (AccAddressFromBech32 k (BidderAddress bid)))) (\<lambda>bidder.
          bind (nativeBalance k bidder) (\<lambda>endBidderGrav.
          bind (panicIf (Coin_Amount endBidderGrav \<noteq> Coins_AmountOf k startBidderBals NativeTokenDenom) ''Unexpected change to bidder's GRAV'') (\<lambda>_.
          bind (NewCoin k denom (Coins_AmountOf k startBidderBals denom)) (\<lambda>startBidderAmount.
          bind (reads (\<lambda>ctx. GetBalance k (others ctx) bidder denom)) (\<lambda>endBidderAmount.
          bind (Coin_Sub endBidderAmount startBidderAmount) (\<lambda>bidderAmountDiff.
          bind (panicIf (bidderAmountDiff \<noteq> Auction_Amount auction) ''Bidder gained another amount than expected'') (\<lambda>_.
          bind (panicIf (endModAmount \<noteq> startPoolAmount) ''Expected auction module to receive auction pool balance'') (\<lambda>_.
            Int_Add k bidAmounts (uint (BidAmount bid)))))))))))
      | None \<Rightarrow>
          bind (Int_Add k startModAmount startPoolAmount) (\<lambda>expectedModAmount.
          bind (panicIf (endModAmount \<noteq> expectedModAmount) ''Expected module account to add the pool balance to its own balance'') (\<lambda>_.
            return bidAmounts))))"

definition assertAuctionBalanceChanges ::
  "'x Keeper \<Rightarrow> bool \<Rightarrow> Auction list \<Rightarrow> (string, Coin list) kv \<Rightarrow> Coin list \<Rightarrow> Coin list \<Rightarrow> Coin list \<Rightarrow> Coin list \<Rightarrow>
     ('x, unit) gop" where
  "assertAuctionBalanceChanges k periodEnded auctions affectedAccs startModule startPool endModule endPool =
     (if \<not> periodEnded then
        bind (panicIf (affectedAccs \<noteq> []) ''No auctions closed but there were user accounts affected'') (\<lambda>_.
        bind (panicIf (\<not> Coins_Equal k startModule endModule) ''No auctions closed but the module balance changed'') (\<lambda>_.
          panicIf (\<not> Coins_Equal k startPool endPool) ''No auctions closed but the pool balance changed''))
      else
        bind (foldM (assertClosed k affectedAccs startModule startPool endModule) auctions 0) (\<lambda>bidAmounts.
        bind (panicIf (\<not> Coins_IsZero endPool) ''Expected auction pool to lose all balances'') (\<lambda>_.
        bind (panicIf (Coins_AmountOf k endModule NativeTokenDenom \<noteq> 0) ''Expected module to lose its balance of Grav'') (\<lambda>_.
        bind (panicIf (Coins_AmountOf k startModule NativeTokenDenom \<noteq> bidAmounts) ''Expected the module account to hold only the bid amounts'') (\<lambda>_.
          IterateAuctions (\<lambda>_ auction _.
            bind (panicIf (Coins_AmountOf k endModule (Coin_Denom (Auction_Amount auction)) \<noteq> Coin_Amount (Auction_Amount auction))
                    ''Expected module account to hold the new auction amount'') (\<lambda>_. return (False, ()))) ())))))"

definition winnerBalances :: "'x Keeper \<Rightarrow> ('x, (string, Coin list) kv) gop" where
  "winnerBalances k =
     IterateAuctions (\<lambda>_ auction affectedAccs.
       case HighestBid auction of
         None \<Rightarrow> return (False, affectedAccs)
       | Some bid \<Rightarrow>
           bind (orPanic ''MustAccAddressFromBech32'' (lift (AccAddressFromBech32 k (BidderAddress bid)))) (\<lambda>acc.
           bind (reads (\<lambda>ctx. GetAllBalances k (others ctx) acc)) (\<lambda>balances.
             return (False, kv_set (BidderAddress bid) balances affectedAccs)))) []"

definition Auction_EndBlocker :: "'x Keeper \<Rightarrow> ('x, unit) gop" where
  "Auction_EndBlocker k =
     (let moduleBalances = reads (\<lambda>ctx. GetAllBalances k (others ctx) (GetModuleAddress k AuctionModuleName));
          poolBalances = reads (\<lambda>ctx. GetAllBalances k (others ctx) (GetModuleAddress k AuctionPoolAccountName)) in
     bind (getBankSupplies k) (\<lambda>startSupplies.
     bind moduleBalances (\<lambda>startModule.
     bind poolBalances (\<lambda>startPool.
     bind (bind ModuleEnabled (\<lambda>enabled.
             if \<not> enabled then return (False, [], [])
             else
               bind GetAuctionPeriod (\<lambda>period.
                 case period of
                   None \<Rightarrow> panic ''nil auction period discovered in EndBlocker''
                 | Some p \<Rightarrow>
                     bind (reads BlockHeight) (\<lambda>height.
                       if EndBlockHeight p \<le> height then
                         bind GetAllAuctions (\<lambda>closingAuctions.
                         bind (winnerBalances k) (\<lambda>affectedAccs.
                         bind (endAuctionPeriod k) (\<lambda>_.
                         bind (scheduleNextAuctionPeriod k) (\<lambda>_.
                           return (True, closingAuctions, affectedAccs)))))
                       else return (False, [], []))))) (\<lambda>(periodEnded, closingAuctions, affectedAccs).
     bind (getBankSupplies k) (\<lambda>endSupplies.
     bind moduleBalances (\<lambda>endModule.
     bind poolBalances (\<lambda>endPool.
     bind (assertSupplyIntegrity k startSupplies endSupplies periodEnded) (\<lambda>_.
       assertAuctionBalanceChanges k periodEnded closingAuctions affectedAccs startModule startPool endModule endPool)))))))))"

section \<open>Invariants and genesis\<close>

text \<open>An invariant reports whether the state is invalid.\<close>

definition ExpectedAuctionModuleBalances :: "'x Keeper \<Rightarrow> ('x, Coin list) gop" where
  "ExpectedAuctionModuleBalances k =
     bind (orPanic ''failed to get mint params'' (GetMintDenom k)) (\<lambda>bidToken.
     bind (IterateAuctions (\<lambda>_ auction (highestBids, awardAmounts).
             bind (panicIf (Coins_AmountOf k awardAmounts (Coin_Denom (Auction_Amount auction)) \<noteq> 0)
                     ''tallied awards already contain auction token'') (\<lambda>_.
             bind (case HighestBid auction of
                     None \<Rightarrow> return highestBids
                   | Some bid \<Rightarrow> Int_Add k highestBids (uint (BidAmount bid))) (\<lambda>bids.
               return (False, (bids, awardAmounts @ [Auction_Amount auction]))))) (0, [])) (\<lambda>(highestBids, awardAmounts).
     bind (NewCoin k bidToken highestBids) (\<lambda>bids.
       coinsOr (Coins_Add k awardAmounts [bids]))))"

definition Auction_ModuleBalanceInvariant :: "'x Keeper \<Rightarrow> ('x, bool) gop" where
  "Auction_ModuleBalanceInvariant k =
     bind (liftX (GetModuleAccount k AuctionModuleName)) (\<lambda>moduleAccount.
     bind (reads (\<lambda>ctx. GetAllBalances k (others ctx) moduleAccount)) (\<lambda>accountBalances.
     bind (ExpectedAuctionModuleBalances k) (\<lambda>expectedBalances.
       return (\<not> Coins_Equal k accountBalances expectedBalances))))"

definition ValidAuctionsInvariant :: "'x Keeper \<Rightarrow> ('x, bool) gop" where
  "ValidAuctionsInvariant k =
     bind (orPanic ''failed to get mint params'' (GetMintDenom k)) (\<lambda>nativeToken.
       IterateAuctions (\<lambda>_ auc invalid.
         if Coin_Denom (Auction_Amount auc) = nativeToken then return (True, True) else return (False, invalid)) False)"

definition Auction_AllInvariants :: "'x Keeper \<Rightarrow> ('x, bool) gop" where
  "Auction_AllInvariants k =
     bind (Auction_ModuleBalanceInvariant k) (\<lambda>stop. if stop then return stop else ValidAuctionsInvariant k)"

record AuctionGenesisState =
  Genesis_AuctionParams :: AuctionParams
  ActivePeriod :: "AuctionPeriod option"
  ActiveAuctions :: "Auction list"

definition Auction_InitGenesis :: "'x Keeper \<Rightarrow> AuctionGenesisState \<Rightarrow> ('x, unit) gop" where
  "Auction_InitGenesis k genState =
     bind (liftX (GetModuleAccount k AuctionPoolAccountName)) (\<lambda>_.
     bind (orPanic ''failed to set params'' (Auction_SetParams k (Genesis_AuctionParams genState))) (\<lambda>_.
     bind (case ActivePeriod genState of
             Some p \<Rightarrow>
               bind (updateAuctionPeriodUnsafe p) (\<lambda>_.
                 forM (ActiveAuctions genState) (\<lambda>auction. orPanic ''Unable to store auction'' (StoreAuction k auction)))
           | None \<Rightarrow>
               bind (orPanic ''Unable to create a new auction period'' CreateNewAuctionPeriod) (\<lambda>_.
                 if Enabled (Genesis_AuctionParams genState)
                 then orPanic ''unable to create auctions for genesis auction period'' (CreateAuctionsForAuctionPeriod k)
                 else return ())) (\<lambda>_.
     bind (Auction_AllInvariants k) (\<lambda>failure.
       panicIf failure ''Invariant failure after auction init genesis''))))"

definition Auction_ExportGenesis :: "('x, AuctionGenesisState) gop" where
  "Auction_ExportGenesis =
     bind (orPanic ''failed to get auction params'' Auction_GetParams) (\<lambda>params.
     bind GetAuctionPeriod (\<lambda>period.
     bind GetAllAuctions (\<lambda>auctions.
       return \<lparr>Genesis_AuctionParams = params, ActivePeriod = period, ActiveAuctions = auctions\<rparr>)))"

definition AuctionGenesisState_ValidateBasic :: "'a libs_scheme \<Rightarrow> AuctionGenesisState \<Rightarrow> error option" where
  "AuctionGenesisState_ValidateBasic k s =
     (case Wrap (AuctionParams_ValidateBasic k (Genesis_AuctionParams s)) ''invalid params'' of
        Some e \<Rightarrow> Some e
      | None \<Rightarrow>
          (case (case ActivePeriod s of None \<Rightarrow> None | Some p \<Rightarrow> Wrap (AuctionPeriod_ValidateBasic p) ''invalid auction period'') of
             Some e \<Rightarrow> Some e
           | None \<Rightarrow> Wrap (List.find (\<lambda>_. True) (List.map_filter (Auction_ValidateBasic k) (ActiveAuctions s))) ''auction is invalid''))"

end
