(* ===== verification/AuctionFunds.thy ===== *)
theory AuctionFunds
  imports Auction
begin

text \<open>
  The funds of the auction module.  Its account holds the coins under auction and the highest bids: the
  balance beyond these does not change when a bid is placed, and does not change at the end of a period,
  when auctions are paid out or returned to the pool and new ones are opened.  These are the statements that
  \<open>x/auction/keeper/invariants.go\<close> checks at run time.
\<close>

section \<open>Transfers\<close>

definition fee_laws :: "'x Keeper \<Rightarrow> bool" where
  "fee_laws k \<longleftrightarrow>
     (\<forall>a cs x x'. DeductFees k a cs x = Ok () x' \<longrightarrow> moved k x x' {a} {GetModuleAddress k ''fee_collector''} cs)"

text \<open>
  The mint denom is the native token in every state, the bank lists valid coins, and the module accounts are
  different.
\<close>

definition auction_laws :: "'x Keeper \<Rightarrow> bool" where
  "auction_laws k \<longleftrightarrow> coin_laws k \<and> bank_laws k \<and> bank_error_laws k \<and> fee_laws k \<and>
     (\<forall>x. MintDenom k x = Inr NativeTokenDenom) \<and> (\<forall>x a. list_all (Coin_IsValid k) (GetAllBalances k x a)) \<and>
     GetModuleAddress k AuctionModuleName \<notin> GetModuleAddress k ` {AuctionPoolAccountName, ''fee_collector'', ''distribution''}"

definition moves :: "'x Keeper \<Rightarrow> 'x ctx \<Rightarrow> 'x ctx \<Rightarrow> AccAddress set \<Rightarrow> AccAddress set \<Rightarrow> Coin \<Rightarrow> bool" where
  "moves k c c' src dst coin \<longleftrightarrow> (\<exists>x. c' = c\<lparr>others := x\<rparr> \<and> moved k (others c) x src dst [coin])"

abbreviation auction_account :: "'x Keeper \<Rightarrow> AccAddress" where
  "auction_account k \<equiv> GetModuleAddress k AuctionModuleName"

lemma moves_balance:
  "moves k c c' src dst coin \<Longrightarrow> balance k c' a d = balance k c a d
     - (if a \<in> src \<and> d = Coin_Denom coin then Coin_Amount coin else 0)
     + (if a \<in> dst \<and> d = Coin_Denom coin then Coin_Amount coin else 0)"
  by (auto simp: moves_def moved_def balance_def amount_in_def)

lemma moves_store: "moves k c c' src dst coin \<Longrightarrow> \<exists>x. c' = c\<lparr>others := x\<rparr>"
  by (auto simp: moves_def)

lemma moved_NewCoins:
  assumes "auction_laws k" "Coin_IsValid k coin" "NewCoins k [coin] = Some cs" "moved k x x' src dst cs"
  shows "moved k x x' src dst [coin]"
  using assms NewCoins_amount [of k coin cs] by (simp add: auction_laws_def moved_def)

lemma requireEnabled_Ok: "requireEnabled e c = Ok u c' \<longleftrightarrow> c' = c \<and> (\<exists>p. auctionParams c = Some p \<and> Enabled p)"
  by (auto simp: requireEnabled_def ModuleEnabled_def Auction_GetParams_def bind_Ok orPanic_Ok failIf_Ok split: option.splits)

lemma Auction_GetParams_Ok: "Auction_GetParams c = Ok p c' \<longleftrightarrow> c' = c \<and> auctionParams c = Some p"
  by (auto simp: Auction_GetParams_def split: option.splits)

lemma keeps_auction_readers [keeps_rules]:
  "keeps I Auction_GetParams" "keeps I ModuleEnabled" "keeps I (requireEnabled e)" "keeps I (GetMintDenom k)"
  "keeps I (GetAuctionById i)" "keeps I GetAuctionPeriod" "keeps I GetNextAuctionId" "keeps I GetAllAuctions"
  "keeps I (nativeBalance k a)" "keeps I (IsDenomAuctionable k d)" "keeps I (outbids k msg auction)" "keeps I (GetAuctionPoolBalances k)"
  "keeps I (Coin_Sub coin1 coin2)" "keeps I (Coin_Add k coin1 coin2)" "keeps I (coinsOr r)"
  unfolding Auction_GetParams_def ModuleEnabled_def requireEnabled_def GetMintDenom_def GetAuctionById_def GetAuctionPeriod_def
    GetNextAuctionId_def GetAuctionNonce_def GetAllAuctions_def IterateAuctions_def nativeBalance_def IsDenomAuctionable_def
    outbids_def GetAuctionPoolBalances_def Coin_Sub_def Coin_Add_def coinsOr_def
  by (intro keeps_rules)+

lemma auction_transfers:
  assumes laws: "auction_laws k" and valid: "Coin_IsValid k coin"
  shows "ReturnPreviousBidAmount k a coin c = Ok u c' \<Longrightarrow> moves k c c' {auction_account k} {a} coin"
    and "LockBidAmount k a coin c = Ok u c' \<Longrightarrow> moves k c c' {a} {auction_account k} coin"
    and "AwardAuction k a coin c = Ok u c' \<Longrightarrow> moves k c c' {auction_account k} {a} coin"
    and "RemoveFromAuctionPool k coin c = Ok u c' \<Longrightarrow>
      moves k c c' {GetModuleAddress k AuctionPoolAccountName} {auction_account k} coin"
    and "NewCoins k [coin] = Some cs \<Longrightarrow> SendToAuctionPool k cs c = Ok u c' \<Longrightarrow>
      moves k c c' {auction_account k} {GetModuleAddress k AuctionPoolAccountName} coin"
proof -
  have bank: "bank_laws k"
    using laws by (simp add: auction_laws_def)
  note run = bind_Ok requireEnabled_Ok sdk_NewCoins_Ok wrapErr_Ok liftX_Ok failIf_Ok
  note moved = moved_NewCoins [OF laws valid]
  show "ReturnPreviousBidAmount k a coin c = Ok u c' \<Longrightarrow> moves k c c' {auction_account k} {a} coin"
    unfolding ReturnPreviousBidAmount_def moves_def by (auto simp: run intro: moved bank_moves(2) [OF bank])
  show "LockBidAmount k a coin c = Ok u c' \<Longrightarrow> moves k c c' {a} {auction_account k} coin"
    unfolding LockBidAmount_def moves_def by (auto simp: run intro: moved bank_moves(1) [OF bank])
  show "AwardAuction k a coin c = Ok u c' \<Longrightarrow> moves k c c' {auction_account k} {a} coin"
    unfolding AwardAuction_def moves_def by (auto simp: run intro: moved bank_moves(2) [OF bank])
  show "RemoveFromAuctionPool k coin c = Ok u c' \<Longrightarrow>
      moves k c c' {GetModuleAddress k AuctionPoolAccountName} {auction_account k} coin"
    unfolding RemoveFromAuctionPool_def moves_def by (auto simp: run intro: moved bank_moves(3) [OF bank])
  show "NewCoins k [coin] = Some cs \<Longrightarrow> SendToAuctionPool k cs c = Ok u c' \<Longrightarrow>
      moves k c c' {auction_account k} {GetModuleAddress k AuctionPoolAccountName} coin"
    unfolding SendToAuctionPool_def moves_def by (auto simp: run intro: moved bank_moves(3) [OF bank])
qed

lemma community_transfer:
  assumes laws: "auction_laws k" and valid: "Coin_IsValid k coin"
    and run: "sendFromModuleAccountToCommunityPool k coin m c = Ok u c'"
  shows "moves k c c' {GetModuleAddress k m} {GetModuleAddress k ''distribution''} coin"
proof -
  have bank: "bank_laws k" "bank_error_laws k"
    using laws by (simp_all add: auction_laws_def)
  obtain cs x x' p where cs: "NewCoins k [coin] = Some cs"
      and send: "SendCoinsFromModuleToModule k m ''distribution'' cs (others c) = Ok () x"
      and pool: "FeePool_Set k p x = Ok () x'" and c': "c' = c\<lparr>others := x'\<rparr>"
    using run unfolding sendFromModuleAccountToCommunityPool_def
    by (auto simp: bind_Ok wrapErr_Ok liftX_Ok lift_Ok sdk_NewCoins_Ok)
  have "moved k x x' {} {} []"
    using bank(2) pool by (simp add: bank_error_laws_def)
  with moved_NewCoins [OF laws valid cs bank_moves(3) [OF bank(1) send]] show ?thesis
    unfolding moves_def by (intro exI [of _ x']) (simp add: c' moved_def amount_in_def)
qed

section \<open>What the module owes\<close>

definition bid_value :: "Auction \<Rightarrow> int" where
  "bid_value a = (case HighestBid a of None \<Rightarrow> 0 | Some b \<Rightarrow> uint (BidAmount b))"

definition locked :: "string \<Rightarrow> Auction \<Rightarrow> int" where
  "locked d a = (if d = Coin_Denom (Auction_Amount a) then Coin_Amount (Auction_Amount a) else 0)
     + (if d = NativeTokenDenom then bid_value a else 0)"

definition owed :: "'x ctx \<Rightarrow> string \<Rightarrow> int" where
  "owed c d = sum_mset (image_mset (\<lambda>e. locked d (snd e)) (mset (kv_asc (auctionStore c))))"

definition surplus :: "'x Keeper \<Rightarrow> 'x ctx \<Rightarrow> string \<Rightarrow> int" where
  "surplus k c d = balance k c (auction_account k) d - owed c d"

definition auction_ok :: "'x Keeper \<Rightarrow> uint64 \<Rightarrow> Auction \<Rightarrow> bool" where
  "auction_ok k i a \<longleftrightarrow> Auction_Id a = i \<and> Auction_ValidateBasic k a = None \<and>
     (\<forall>b. HighestBid a = Some b \<longrightarrow> AccAddressFromBech32 k (BidderAddress b) \<noteq> Inr (auction_account k))"

definition auctions_ok :: "'x Keeper \<Rightarrow> 'x ctx \<Rightarrow> bool" where
  "auctions_ok k c \<longleftrightarrow> kv_ok (auctionStore c) \<and> (\<forall>i a. kv_get (auctionStore c) i = Some a \<longrightarrow> auction_ok k i a)"

lemma owed_others [simp]: "owed (c\<lparr>others := x\<rparr>) d = owed c d"
  by (simp add: owed_def)

lemma auctions_ok_others [simp]: "auctions_ok k (c\<lparr>others := x\<rparr>) \<longleftrightarrow> auctions_ok k c"
  by (simp add: auctions_ok_def)

lemma owed_fresh:
  assumes "kv_ok (auctionStore c)" "kv_get (auctionStore c) i = None"
  shows "owed (c\<lparr>auctionStore := kv_set i a (auctionStore c)\<rparr>) d = owed c d + locked d a"
  using kv.mset_put_fresh [OF assms] by (simp add: owed_def)

lemma owed_update:
  assumes "kv_ok (auctionStore c)" "kv_get (auctionStore c) i = Some old"
  shows "owed (c\<lparr>auctionStore := kv_set i a (auctionStore c)\<rparr>) d = owed c d - locked d old + locked d a"
  using arg_cong [OF kv.mset_put_present [OF assms, of a], where f = "\<lambda>M. sum_mset (image_mset (\<lambda>e. locked d (snd e)) M)"]
  by (simp add: owed_def)

section \<open>Bids\<close>

lemma GetMintDenom_Ok: "auction_laws k \<Longrightarrow> GetMintDenom k c = Ok d c' \<longleftrightarrow> c' = c \<and> d = NativeTokenDenom"
  by (auto simp: GetMintDenom_def auction_laws_def)

lemma keeps_assertBid: "keeps I (assertBidBalanceChanges k b ms me oa os oe ns ne ob nb fee)"
  unfolding assertBidBalanceChanges_def by (intro keeps_rules)

lemma UpdateHighestBidder_Ok:
  "UpdateHighestBidder k i b c = Ok u c' \<longleftrightarrow> (\<exists>a old. kv_get (auctionStore c) i = Some a \<and>
     Auction_ValidateBasic k (a\<lparr>HighestBid := Some b\<rparr>) = None \<and> (\<exists>p. auctionParams c = Some p \<and> Enabled p) \<and>
     kv_get (auctionStore c) (Auction_Id a) = Some old \<and> Auction_Amount old = Auction_Amount a \<and>
     c' = c\<lparr>auctionStore := kv_set (Auction_Id a) (a\<lparr>HighestBid := Some b\<rparr>) (auctionStore c)\<rparr>)"
  by (auto simp: UpdateHighestBidder_def UpdateAuction_def GetAuctionById_def bind_Ok check_Ok requireEnabled_Ok
      split: option.splits if_splits)

lemma outbids_Ok:
  assumes "outbids k msg a c = Ok old c'"
  shows "c' = c" "old = None \<Longrightarrow> HighestBid a = None"
    and "old = Some (b, acc) \<Longrightarrow> HighestBid a = Some b \<and> BidAmount b \<le> MsgBid_Amount msg \<and>
      MsgBid_Bidder msg \<noteq> BidderAddress b \<and> AccAddressFromBech32 k (BidderAddress b) = Inr acc"
  using assms
  by (auto simp: outbids_def bind_Ok failIf_Ok orPanic_Ok lift_Ok word_le_def split: option.splits)

lemma placeBid_Ok:
  assumes laws: "auction_laws k" and run: "placeBid k msg c = Ok u c'"
  shows "\<exists>a old bidder fee c1 c2 c3. kv_get (auctionStore c) (MsgBid_AuctionId msg) = Some a \<and>
     AccAddressFromBech32 k (MsgBid_Bidder msg) = Inr bidder \<and> outbids k msg a c = Ok old c \<and>
     Coin_IsValid k \<lparr>Coin_Denom = NativeTokenDenom, Coin_Amount = uint (MsgBid_Amount msg)\<rparr> \<and>
     Coin_Denom fee = NativeTokenDenom \<and> Coin_Amount fee = uint (MsgBid_BidFee msg) \<and>
     moves k c c1 {bidder} {GetModuleAddress k ''fee_collector''} fee \<and>
     (\<exists>coin. releaseOldBid k NativeTokenDenom old c1 = Ok coin c2) \<and>
     LockBidAmount k bidder \<lparr>Coin_Denom = NativeTokenDenom, Coin_Amount = uint (MsgBid_Amount msg)\<rparr> c2 = Ok () c3 \<and>
     UpdateHighestBidder k (Auction_Id a) \<lparr>BidAmount = MsgBid_Amount msg, BidderAddress = MsgBid_Bidder msg\<rparr> c3 = Ok () c'"
proof -
  obtain a old bidder fee coins bid c1 c2 c3 c4 coin where a: "kv_get (auctionStore c) (MsgBid_AuctionId msg) = Some a"
      "AccAddressFromBech32 k (MsgBid_Bidder msg) = Inr bidder" "outbids k msg a c = Ok old c"
    and fee: "NewCoin k NativeTokenDenom (uint (MsgBid_BidFee msg)) c = Ok fee c" "sdk_NewCoins k [fee] c = Ok coins c"
    and bid: "NewCoin k NativeTokenDenom (uint (MsgBid_Amount msg)) c = Ok bid c"
    and steps: "liftX (DeductFees k bidder coins) c = Ok () c1" "releaseOldBid k NativeTokenDenom old c1 = Ok coin c2"
      "LockBidAmount k bidder bid c2 = Ok () c3"
      "UpdateHighestBidder k (Auction_Id a) \<lparr>BidAmount = MsgBid_Amount msg, BidderAddress = MsgBid_Bidder msg\<rparr> c3 = Ok () c4"
    and c': "c' = c4"
    using run unfolding placeBid_def Let_def
    by (auto simp: bind_readonly [OF keeps_auction_readers(9)] bind_readonly [OF keeps_wrapErr [OF keeps_auction_readers(1)]]
        bind_readonly [OF keeps_failIf] bind_readonly [OF keeps_wrapErr [OF keeps_auction_readers(4)]]
        bind_readonly [OF keeps_wrapErr [OF keeps_lift]] bind_readonly [OF keeps_auction_readers(5)] bind_readonly [OF keeps_panicIf]
        bind_readonly [OF keeps_auction_readers(11)] bind_readonly [OF keeps_coins(1)] bind_readonly [OF keeps_coins(2)]
        bind_readonly [OF keeps_coins(3)] bind_Ok [of "liftX _"] bind_Ok [of "releaseOldBid _ _ _"] bind_Ok [of "wrapErr _ _"]
        wrapErr_Ok GetMintDenom_Ok [OF laws] Auction_GetParams_Ok lift_Ok GetAuctionById_def nativeBalance_def
        dest!: readonly_Ok [OF keeps_assertBid] split: option.splits)
  have "Coin_IsValid k fee" "Coin_Denom fee = NativeTokenDenom" "Coin_Amount fee = uint (MsgBid_BidFee msg)"
    using fee(1) by (auto simp: NewCoin_Ok)
  moreover obtain x where "DeductFees k bidder coins (others c) = Ok () x" "c1 = c\<lparr>others := x\<rparr>"
    using steps(1) by (auto simp: liftX_Ok)
  moreover from this have "moved k (others c) x {bidder} {GetModuleAddress k ''fee_collector''} coins"
    using laws by (simp add: auction_laws_def fee_laws_def)
  ultimately have "moves k c c1 {bidder} {GetModuleAddress k ''fee_collector''} fee"
    using fee(2) moved_NewCoins [OF laws] by (auto simp: moves_def sdk_NewCoins_Ok)
  with \<open>Coin_Denom fee = _\<close> \<open>Coin_Amount fee = _\<close> show ?thesis
    using a bid steps(2-4) c' by (auto simp: NewCoin_Ok)
qed

lemma released:
  assumes laws: "auction_laws k" and ok: "auction_ok k i a" and old: "outbids k msg a c = Ok old d"
    and run: "releaseOldBid k NativeTokenDenom old c1 = Ok coin c2"
  shows "balance k c2 (auction_account k) e = balance k c1 (auction_account k) e - (if e = NativeTokenDenom then bid_value a else 0) \<and>
    (\<exists>x. c2 = c1\<lparr>others := x\<rparr>)"
proof (cases old)
  case None
  then show ?thesis
    using run outbids_Ok(2) [OF old] by (auto simp: releaseOldBid_def bid_value_def intro: exI [of _ "others c1"])
next
  case (Some p)
  obtain b acc where p: "p = (b, acc)"
    by (rule prod.exhaust)
  have b: "HighestBid a = Some b" "AccAddressFromBech32 k (BidderAddress b) = Inr acc"
    using outbids_Ok(3) [OF old] Some p by auto
  obtain oldBid where coin: "oldBid = \<lparr>Coin_Denom = NativeTokenDenom, Coin_Amount = uint (BidAmount b)\<rparr>" "Coin_IsValid k oldBid"
    and ret: "ReturnPreviousBidAmount k acc oldBid c1 = Ok () c2"
    using run Some p by (auto simp: releaseOldBid_def bind_Ok NewCoin_Ok)
  note moves = auction_transfers(1) [OF laws coin(2) ret]
  have "acc \<noteq> auction_account k"
    using ok b by (auto simp: auction_ok_def)
  then show ?thesis
    using moves_balance [OF moves, of "auction_account k" e] moves_store [OF moves] b(1) coin(1) by (simp add: bid_value_def)
qed


section \<open>The end of a period\<close>

lemma iterM_close:
  "iterM (\<lambda>(key, a) _. bind (closeAuction k a) (\<lambda>_. return (False, ()))) es u = forM es (\<lambda>(key, a). closeAuction k a)"
  by (induction es) (auto simp: bind_assoc)

lemma closeAuction_pays:
  assumes laws: "auction_laws k" and ok: "auctions_ok k c" and a: "kv_get (auctionStore c) i = Some a"
    and run: "closeAuction k a c = Ok u c'"
  shows "(\<exists>x. c' = c\<lparr>others := x\<rparr>) \<and> balance k c' (auction_account k) d = balance k c (auction_account k) d - locked d a"
proof -
  let ?M = "auction_account k"
  have aok: "auction_ok k i a"
    using ok a by (simp add: auctions_ok_def)
  then have get: "kv_get (auctionStore c) (Auction_Id a) = Some a" and valid: "Coin_IsValid k (Auction_Amount a)"
    using a by (auto simp: auction_ok_def Auction_ValidateBasic_def split: if_splits)
  have bank: "bank_laws k"
    using laws by (simp add: auction_laws_def)
  have other: "GetModuleAddress k ''distribution'' \<noteq> ?M" "GetModuleAddress k AuctionPoolAccountName \<noteq> ?M"
    using laws by (auto simp: auction_laws_def)
  show ?thesis
  proof (cases "HighestBid a")
    case None
    then obtain cs where cs: "NewCoins k [Auction_Amount a] = Some cs" "SendToAuctionPool k cs c = Ok () c'"
      using run get by (auto simp: closeAuction_def CloseAuctionNoWinner_def GetAuctionById_def bind_Ok requireEnabled_Ok
          orPanic_Ok wrapErr_Ok sdk_NewCoins_Ok)
    note m = auction_transfers(5) [OF laws valid cs]
    show ?thesis
      using moves_store [OF m] moves_balance [OF m, of ?M d] other None by (simp add: locked_def bid_value_def)
  next
    case (Some b)
    let ?coin = "\<lparr>Coin_Denom = NativeTokenDenom, Coin_Amount = uint (BidAmount b)\<rparr>"
    obtain params acc c1 where bidder: "AccAddressFromBech32 k (BidderAddress b) = Inr acc" and coin: "Coin_IsValid k ?coin"
      and pay: "takeHighestBid k params ?coin c = Ok () c1"
      and award: "AwardAuction k acc (Auction_Amount a) c1 = Ok () c'"
      using run get Some
      by (auto simp: closeAuction_def CloseAuctionWithWinner_def GetAuctionById_def orPanic_Ok wrapErr_Ok
          bind_readonly [OF keeps_wrapErr [OF keeps_auction_readers(1)]] bind_readonly [OF keeps_failIf]
          bind_readonly [OF keeps_orPanic [OF keeps_auction_readers(4)]] GetMintDenom_Ok [OF laws]
          bind_readonly [OF keeps_coins(2)] NewCoin_Ok bind_readonly [OF keeps_orPanic [OF keeps_lift]] lift_Ok
          bind_Ok [of "takeHighestBid _ _ _"])
    have "acc \<noteq> ?M"
      using aok Some bidder by (auto simp: auction_ok_def)
    obtain dst where dst: "?M \<notin> dst" and m1: "moves k c c1 {?M} dst ?coin"
    proof (cases "BurnWinningBids params")
      case True
      then have "moves k c c1 {?M} {} ?coin"
        using pay by (auto simp: takeHighestBid_def bind_Ok sdk_NewCoins_Ok wrapErr_Ok liftX_Ok moves_def
            intro: moved_NewCoins [OF laws coin] bank_moves(5) [OF bank])
      then show ?thesis
        by (intro that [of "{}"]) simp_all
    next
      case False
      then have "sendFromModuleAccountToCommunityPool k ?coin AuctionModuleName c = Ok () c1"
        using pay by (simp add: takeHighestBid_def wrapErr_Ok)
      from community_transfer [OF laws coin this] show ?thesis
        using other by (intro that [of "{GetModuleAddress k ''distribution''}"]) simp_all
    qed
    note m2 = auction_transfers(3) [OF laws valid award]
    have "\<exists>x. c' = c\<lparr>others := x\<rparr>"
      using moves_store [OF m1] moves_store [OF m2] by auto
    then show ?thesis
      using moves_balance [OF m1, of ?M d] moves_balance [OF m2, of ?M d] dst \<open>acc \<noteq> ?M\<close> Some
      by (simp add: locked_def bid_value_def)
  qed
qed

lemma closeAll_pays:
  assumes laws: "auction_laws k"
  shows "auctions_ok k c \<Longrightarrow> \<forall>e \<in> set es. kv_get (auctionStore c) (fst e) = Some (snd e) \<Longrightarrow>
    forM es (\<lambda>(key, a). closeAuction k a) c = Ok u c' \<Longrightarrow>
    (\<exists>x. c' = c\<lparr>others := x\<rparr>) \<and>
    balance k c' (auction_account k) d = balance k c (auction_account k) d - sum_list (map (\<lambda>e. locked d (snd e)) es)"
proof (induction es arbitrary: c)
  case Nil
  then have "c' = c"
    by simp
  then show ?case
    by (simp only: list.map sum_list.Nil diff_zero same_gravity_refl)
next
  case (Cons e es)
  obtain i a where e: "e = (i, a)"
    by (rule prod.exhaust)
  obtain c1 where c1: "closeAuction k a c = Ok () c1" and rest: "forM es (\<lambda>(key, a). closeAuction k a) c1 = Ok u c'"
    using Cons.prems(3) by (auto simp: e bind_Ok)
  have "kv_get (auctionStore c) i = Some a"
    using Cons.prems(2) by (simp add: e)
  from closeAuction_pays [OF laws Cons.prems(1) this c1, of d] obtain x where x: "c1 = c\<lparr>others := x\<rparr>"
    and bal: "balance k c1 (auction_account k) d = balance k c (auction_account k) d - locked d a"
    by blast
  have "auctions_ok k c1" "\<forall>e \<in> set es. kv_get (auctionStore c1) (fst e) = Some (snd e)"
    using Cons.prems(1,2) by (simp_all add: x)
  from Cons.IH [OF this rest] obtain x' where x': "c' = c1\<lparr>others := x'\<rparr>"
    and bal': "balance k c' (auction_account k) d = balance k c1 (auction_account k) d - sum_list (map (\<lambda>e. locked d (snd e)) es)"
    by blast
  have "c' = c\<lparr>others := x'\<rparr>"
    by (simp add: x x')
  moreover have "balance k c' (auction_account k) d =
      balance k c (auction_account k) d - sum_list (map (\<lambda>e. locked d (snd e)) (e # es))"
    unfolding bal' bal by (simp add: e)
  ultimately show ?case
    by blast
qed

lemma fold_kv_del: "fold kv_del ks s = filter (\<lambda>p. fst p \<notin> set ks) s"
  by (induction ks arbitrary: s) (auto simp: kv_del_def intro!: filter_cong)

lemma DeleteAllAuctions_Ok: "DeleteAllAuctions c = Ok u c' \<Longrightarrow> c' = c\<lparr>auctionStore := []\<rparr>"
proof -
  assume run: "DeleteAllAuctions c = Ok u c'"
  have del: "forM ks (\<lambda>key. modify (\<lambda>ctx. ctx\<lparr>auctionStore := kv_del key (auctionStore ctx)\<rparr>)) d =
      Ok () (d\<lparr>auctionStore := fold kv_del ks (auctionStore d)\<rparr>)" for ks and d :: "'a ctx"
    by (induction ks arbitrary: d) simp_all
  have keys: "iterM (\<lambda>(key, _) keys. return (False, keys @ [key])) es ks d = Ok (ks @ map fst es) d"
    for es :: "(uint64 \<times> Auction) list" and ks and d :: "'a ctx"
    by (induction es arbitrary: ks) auto
  have "c' = c\<lparr>auctionStore := fold kv_del (map fst (auctionStore c)) (auctionStore c)\<rparr>"
    using run unfolding DeleteAllAuctions_def IterateAuctions_def
    by (auto simp: bind_readonly [OF keeps_auction_readers(2)] bind_readonly [OF keeps_panicIf] bind_readonly [OF keeps_auction_readers(6)]
        bind_assoc bind_step [OF keys] del kv_asc_def)
  also have "fold kv_del (map fst (auctionStore c)) (auctionStore c) = []"
    by (auto simp: fold_kv_del filter_empty_conv)
  finally show ?thesis .
qed

lemma endAuctionPeriod_conserves:
  assumes laws: "auction_laws k" and ok: "auctions_ok k c" and run: "endAuctionPeriod k c = Ok u c'"
  shows "surplus k c' d = surplus k c d \<and> (\<exists>x. c' = c\<lparr>others := x, auctionStore := []\<rparr>)"
proof -
  obtain c1 where close: "forM (kv_asc (auctionStore c)) (\<lambda>(key, a). closeAuction k a) c = Ok () c1"
    and del: "DeleteAllAuctions c1 = Ok () c'"
    using run unfolding endAuctionPeriod_def IterateAuctions_def iterM_close
    by (auto simp: GetAuctionPeriod_def bind_assoc bind_Ok panicIf_Ok)
  have "\<forall>e \<in> set (kv_asc (auctionStore c)). kv_get (auctionStore c) (fst e) = Some (snd e)"
    using ok by (auto simp: auctions_ok_def kv.asc_get)
  from closeAll_pays [OF laws ok this close] obtain x where x: "c1 = c\<lparr>others := x\<rparr>"
    and bal: "balance k c1 (auction_account k) d = balance k c (auction_account k) d -
      sum_list (map (\<lambda>e. locked d (snd e)) (kv_asc (auctionStore c)))"
    by blast
  have c': "c' = c\<lparr>others := x, auctionStore := []\<rparr>"
    using DeleteAllAuctions_Ok [OF del] by (simp add: x)
  have "owed c d = sum_list (map (\<lambda>e. locked d (snd e)) (kv_asc (auctionStore c)))"
    unfolding owed_def mset_map [symmetric] sum_mset_sum_list ..
  then have "surplus k c' d = surplus k c d"
    using bal by (simp add: surplus_def c' x balance_def owed_def kv_asc_def)
  then show ?thesis
    using c' by blast
qed

lemma CreateNewAuctionPeriod_Ok:
  assumes "CreateNewAuctionPeriod c = Ok p c'"
  shows "c' = c\<lparr>auctionPeriod := Some p\<rparr> \<and> (\<exists>params. auctionParams c = Some params \<and>
    p = \<lparr>StartBlockHeight = BlockHeight c + 1, EndBlockHeight = BlockHeight c + 1 + AuctionLength params\<rparr>)"
  using assms unfolding CreateNewAuctionPeriod_def UpdateAuctionPeriod_def updateAuctionPeriodUnsafe_def Let_def
  by (auto simp: bind_Ok wrapErr_Ok Auction_GetParams_Ok requireEnabled_Ok GetAuctionPeriod_def failIf_Ok panicIf_Ok
      initializeAuctionPeriodFromParams_def)

lemma StoreAuction_Ok:
  assumes "StoreAuction k a c = Ok u c'"
  shows "Auction_ValidateBasic k a = None \<and> kv_get (auctionStore c) (Auction_Id a) = None \<and>
    (\<exists>n. c' = c\<lparr>auctionStore := kv_set (Auction_Id a) a (auctionStore c), auctionNonce := Some n\<rparr>)"
  using assms unfolding StoreAuction_def
  by (auto simp: bind_readonly [OF keeps_check] check_Ok bind_readonly [OF keeps_auction_readers(7)] bind_readonly [OF keeps_failIf]
      failIf_Ok bind_readonly [OF keeps_auction_readers(10)] IncrementAuctionNonce_def GetAuctionNonce_def unsafeSetAuctionNonce_def
      bind_assoc kv_has_def)

text \<open>What opening the auctions of a period keeps.\<close>

definition opened :: "'x Keeper \<Rightarrow> (string \<Rightarrow> int) \<Rightarrow> 'x ctx \<Rightarrow> bool" where
  "opened k s c \<longleftrightarrow> auctions_ok k c \<and> (\<forall>d. surplus k c d = s d) \<and>
     (\<forall>i a. kv_get (auctionStore c) i = Some a \<longrightarrow> HighestBid a = None)"

lemma auctionPoolCoin_opening:
  assumes laws: "auction_laws k" and valid: "Coin_IsValid k coin" and inv: "opened k s c"
    and run: "auctionPoolCoin k tokens coin c = Ok u c'"
  shows "opened k s c'"
proof (cases "Coin_Denom coin \<in> set tokens")
  case True
  then have send: "sendFromModuleAccountToCommunityPool k coin AuctionPoolAccountName c = Ok () c'"
    using run by (simp add: auctionPoolCoin_def wrapErr_Ok)
  note m = community_transfer [OF laws valid send]
  obtain x where x: "c' = c\<lparr>others := x\<rparr>"
    using moves_store [OF m] by blast
  have "auction_account k \<notin> GetModuleAddress k ` {AuctionPoolAccountName, ''distribution''}"
    using laws by (simp add: auction_laws_def)
  then have "balance k c' (auction_account k) d = balance k c (auction_account k) d" for d
    using moves_balance [OF m, of "auction_account k" d] by simp
  then show ?thesis
    using inv by (simp add: opened_def surplus_def x)
next
  case False
  then obtain i c1 where remove: "RemoveFromAuctionPool k coin c = Ok () c1" and store: "StoreAuction k (NewAuction i coin) c1 = Ok () c'"
    using run by (auto simp: auctionPoolCoin_def bind_readonly [OF keeps_auction_readers(7)] bind_Ok [of "wrapErr _ _"] wrapErr_Ok)
  note m = auction_transfers(4) [OF laws valid remove]
  obtain x where x: "c1 = c\<lparr>others := x\<rparr>"
    using moves_store [OF m] by blast
  obtain n where new: "Auction_ValidateBasic k (NewAuction i coin) = None" "kv_get (auctionStore c) i = None"
    and c': "c' = c1\<lparr>auctionStore := kv_set i (NewAuction i coin) (auctionStore c), auctionNonce := Some n\<rparr>"
    using StoreAuction_Ok [OF store] by (auto simp: x NewAuction_def)
  have kv: "kv_ok (auctionStore c)"
    using inv by (simp add: opened_def auctions_ok_def)
  have "auction_account k \<noteq> GetModuleAddress k AuctionPoolAccountName"
    using laws by (simp add: auction_laws_def)
  then have "balance k c1 (auction_account k) d = balance k c (auction_account k) d + locked d (NewAuction i coin)" for d
    using moves_balance [OF m, of "auction_account k" d] by (simp add: locked_def NewAuction_def bid_value_def)
  then have "surplus k c' d = surplus k c d" for d
    using owed_fresh [OF kv new(2), of "NewAuction i coin" d] by (simp add: surplus_def c' x balance_def owed_def)
  moreover have "auctions_ok k c'"
    using inv new(1) by (auto simp: opened_def auctions_ok_def auction_ok_def c' x NewAuction_def)
  ultimately show ?thesis
    using inv by (simp add: opened_def c' x NewAuction_def)
qed

lemma CreateAuctions_opening:
  assumes laws: "auction_laws k" and inv: "opened k s c" and run: "CreateAuctionsForAuctionPeriod k c = Ok u c'"
  shows "opened k s c'"
proof -
  have found: "iterM (\<lambda>(_, _) _. return (True, True)) es b d = Ok (es \<noteq> [] \<or> b) d"
    for es :: "(uint64 \<times> Auction) list" and b and d :: "'a ctx"
    by (cases es) auto
  obtain params where "auctionParams c = Some params" and forM: "forM (GetAllBalances k (others c) (GetModuleAddress k AuctionPoolAccountName))
      (auctionPoolCoin k (NonAuctionableTokens params)) c = Ok u c'"
    using run unfolding CreateAuctionsForAuctionPeriod_def IterateAuctions_def
    by (auto simp: bind_readonly [OF keeps_wrapErr [OF keeps_auction_readers(1)]] bind_readonly [OF keeps_failIf] bind_assoc
        bind_step [OF found] GetAuctionPeriod_def GetAuctionPoolBalances_def wrapErr_Ok Auction_GetParams_Ok split: option.splits)
  have valid: "Coin_IsValid k coin" if "coin \<in> set (GetAllBalances k (others c) (GetModuleAddress k AuctionPoolAccountName))" for coin
    using laws that by (auto simp: auction_laws_def list_all_iff)
  show ?thesis
    by (rule forM_inv [where P = "opened k s", OF forM inv])
      (rule auctionPoolCoin_opening [OF laws valid])
qed

lemma keeps_endblock_readers [keeps_rules]:
  "keeps I (getBankSupplies k)" "keeps I (winnerBalances k)" "keeps I (assertSupplyIntegrity k cs1 cs2 b)"
  "keeps I (assertAuctionBalanceChanges k b auctions accs cs1 cs2 cs3 cs4)"
  unfolding getBankSupplies_def winnerBalances_def assertSupplyIntegrity_def assertAuctionBalanceChanges_def IterateAuctions_def
    assertClosed_def
  by (intro keeps_rules)+

lemma Auction_EndBlocker_cases:
  assumes run: "Auction_EndBlocker k c = Ok u c'"
  shows "c' = c \<or> (\<exists>p following c1 c2. auctionPeriod c = Some p \<and> EndBlockHeight p \<le> BlockHeight c \<and>
    endAuctionPeriod k c = Ok () c1 \<and> CreateNewAuctionPeriod c1 = Ok following c2 \<and> CreateAuctionsForAuctionPeriod k c2 = Ok () c')"
proof -
  have readers: "bind (getBankSupplies k) f d = Ok v e \<longleftrightarrow> (\<exists>a. getBankSupplies k d = Ok a d \<and> f a d = Ok v e)" for f d v e
    by (rule bind_readonly) (rule keeps_endblock_readers)
  show ?thesis
    using run unfolding Auction_EndBlocker_def Let_def scheduleNextAuctionPeriod_def
    by (auto simp: readers bind_assoc bind_readonly [OF keeps_auction_readers(2)] GetAuctionPeriod_def
        bind_readonly [OF keeps_auction_readers(8)] bind_readonly [OF keeps_endblock_readers(2)] bind_readonly [OF keeps_endblock_readers(3)]
        bind_Ok [of "endAuctionPeriod k"] bind_Ok [of "orPanic _ _"] orPanic_Ok
        dest!: readonly_Ok [OF keeps_endblock_readers(4)] split: if_splits option.splits)
qed

text \<open>
  C12: the end of a block conserves the funds of the auction module: what its account holds beyond the coins
  under auction and the highest bids is unchanged in every denom.  When the period is over, the next period starts
  with the next block and has the length the parameters give, and every auction in the store is a new one without a bid.
\<close>

theorem Auction_EndBlocker_conserves:
  assumes laws: "auction_laws k" and ok: "auctions_ok k c" and run: "Auction_EndBlocker k c = Ok u c'"
  shows "auctions_ok k c' \<and> surplus k c' d = surplus k c d \<and>
    (c' = c \<or> (\<exists>p params. auctionPeriod c = Some p \<and> EndBlockHeight p \<le> BlockHeight c \<and> auctionParams c = Some params \<and>
       auctionPeriod c' = Some \<lparr>StartBlockHeight = BlockHeight c + 1, EndBlockHeight = BlockHeight c + 1 + AuctionLength params\<rparr> \<and>
       (\<forall>i a. kv_get (auctionStore c') i = Some a \<longrightarrow> HighestBid a = None)))"
  using Auction_EndBlocker_cases [OF run]
proof
  assume "c' = c"
  then show ?thesis
    using ok by simp
next
  assume "\<exists>p following c1 c2. auctionPeriod c = Some p \<and> EndBlockHeight p \<le> BlockHeight c \<and>
    endAuctionPeriod k c = Ok () c1 \<and> CreateNewAuctionPeriod c1 = Ok following c2 \<and> CreateAuctionsForAuctionPeriod k c2 = Ok () c'"
  then obtain p following c1 c2 where p: "auctionPeriod c = Some p" "EndBlockHeight p \<le> BlockHeight c"
    and close: "endAuctionPeriod k c = Ok () c1" and period: "CreateNewAuctionPeriod c1 = Ok following c2"
    and create: "CreateAuctionsForAuctionPeriod k c2 = Ok () c'"
    by blast
  obtain x where c1: "c1 = c\<lparr>others := x, auctionStore := []\<rparr>"
    using endAuctionPeriod_conserves [OF laws ok close] by blast
  have s1: "surplus k c1 e = surplus k c e" for e
    using endAuctionPeriod_conserves [OF laws ok close] by blast
  obtain params where params: "auctionParams c = Some params"
    and following: "following = \<lparr>StartBlockHeight = BlockHeight c + 1, EndBlockHeight = BlockHeight c + 1 + AuctionLength params\<rparr>"
    and c2: "c2 = c1\<lparr>auctionPeriod := Some following\<rparr>"
    using CreateNewAuctionPeriod_Ok [OF period] by (auto simp: c1)
  have "opened k (surplus k c) c2"
    using s1 by (simp add: opened_def auctions_ok_def surplus_def balance_def owed_def c2 c1 kv_get_def)
  from CreateAuctions_opening [OF laws this create] have o: "opened k (surplus k c) c'" .
  have "keeps (\<lambda>d. auctionPeriod d = s) (CreateAuctionsForAuctionPeriod k)" for s
    unfolding CreateAuctionsForAuctionPeriod_def auctionPoolCoin_def sendFromModuleAccountToCommunityPool_def RemoveFromAuctionPool_def
      StoreAuction_def IncrementAuctionNonce_def unsafeSetAuctionNonce_def GetAuctionNonce_def IterateAuctions_def
    by (intro keeps_rules keeps_modify keeps_liftX) simp_all
  from keeps_Ok [OF this refl create] have "auctionPeriod c' = Some following"
    by (simp add: c2)
  then show ?thesis
    using o p params by (auto simp: opened_def following)
qed

section \<open>Genesis\<close>

lemma GetAllAuctions_run: "GetAllAuctions c = Ok (map snd (kv_asc (auctionStore c))) c"
proof -
  have "iterM (\<lambda>(_, auction) auctions. return (False, auctions @ [auction])) es acc c = Ok (acc @ map snd es) c"
    for es :: "(uint64 \<times> Auction) list" and acc
    by (induction es arbitrary: acc) auto
  then show ?thesis
    by (simp add: GetAllAuctions_def IterateAuctions_def)
qed

text \<open>
  C13: the exported genesis leaves out the last auction id, so the import expects the ids to start at 1
  again: an export whose oldest auction has another id cannot be imported into a fresh store.
\<close>

theorem auction_genesis_rejects_own_export:
  assumes ok: "auctions_ok k c" and oldest: "kv_asc (auctionStore c) = (i, a) # rest" "i \<noteq> 1"
    and period: "auctionPeriod c \<noteq> None" and fresh: "auctionNonce f = None"
    and exported: "Auction_ExportGenesis c = Ok g c"
  shows "Auction_InitGenesis k g f \<noteq> Ok u f'"
proof
  assume run: "Auction_InitGenesis k g f = Ok u f'"
  obtain p where g: "ActivePeriod g = Some p" "ActiveAuctions g = a # map snd rest"
    using exported period oldest by (auto simp: Auction_ExportGenesis_def GetAllAuctions_run bind_Ok orPanic_Ok GetAuctionPeriod_def
        Auction_GetParams_Ok)
  have "kv_get (auctionStore c) i = Some a"
    using ok oldest kv.asc_get [of "auctionStore c" i a] by (simp add: auctions_ok_def)
  then have i: "Auction_Id a = i"
    using ok by (auto simp: auctions_ok_def auction_ok_def)
  obtain f1 f2 where f1: "bind (liftX (GetModuleAccount k AuctionPoolAccountName)) (\<lambda>_.
      bind (orPanic ''failed to set params'' (Auction_SetParams k (Genesis_AuctionParams g))) (\<lambda>_.
        updateAuctionPeriodUnsafe p)) f = Ok () f1"
    and store: "StoreAuction k a f1 = Ok () f2"
    using run by (auto simp: Auction_InitGenesis_def g bind_Ok orPanic_Ok)
  have "keeps (\<lambda>d. auctionNonce d = None) (bind (liftX (GetModuleAccount k AuctionPoolAccountName)) (\<lambda>_.
      bind (orPanic ''failed to set params'' (Auction_SetParams k (Genesis_AuctionParams g))) (\<lambda>_.
        updateAuctionPeriodUnsafe p)))"
    unfolding Auction_SetParams_def updateAuctionPeriodUnsafe_def
    by (intro keeps_rules keeps_modify keeps_liftX) simp_all
  from keeps_Ok [OF this fresh f1] have "auctionNonce f1 = None" .
  then have "Auction_Id a = 1"
    using store by (auto simp: StoreAuction_def bind_readonly [OF keeps_check] GetNextAuctionId_def GetAuctionNonce_def
        bind_assoc bind_readonly [OF keeps_failIf] failIf_Ok)
  with i oldest(2) show False
    by simp
qed

text \<open>A genesis that starts with the module disabled and without a period cannot be imported either.\<close>

lemma auction_genesis_disabled:
  assumes "ActivePeriod g = None" "\<not> Enabled (Genesis_AuctionParams g)"
  shows "Auction_InitGenesis k g f \<noteq> Ok u f'"
  using assms by (auto simp: Auction_InitGenesis_def bind_Ok orPanic_Ok Auction_SetParams_def check_Ok liftX_Ok
      CreateNewAuctionPeriod_def UpdateAuctionPeriod_def Let_def wrapErr_Ok Auction_GetParams_Ok requireEnabled_Ok)

end
