(* ===== verification/AuctionWitnesses.thy ===== *)
theory AuctionWitnesses
  imports Witnesses AuctionFunds
begin

text \<open>The theorems about the auction module, applied to the concrete instance.\<close>

section \<open>The laws hold\<close>

lemma demo_auction_params [simp]:
  "AuctionLength demo_auction = 10" "MinBidFee demo_auction = 5" "NonAuctionableTokens demo_auction = [''ugraviton'']"
  "BurnWinningBids demo_auction" "Enabled demo_auction"
  by (simp_all add: demo_auction_def)

lemma demo_auction_ops [simp]:
  "DeductFees demo a = demo_move (Some a) (Some (demo_module ''fee_collector''))" "MintDenom demo x = Inr ''ugraviton''"
  "GetAllBalances demo x a = map (\<lambda>e. \<lparr>Coin_Denom = snd (fst e), Coin_Amount = snd e\<rparr>)
     (filter (\<lambda>e. fst (fst e) = a \<and> 0 < snd e \<and> demo_denom (snd (fst e)) = None) (kv_asc x))"
  "GetModuleAccount demo m = return (demo_module m)" "GetBalance demo x a d = \<lparr>Coin_Denom = d, Coin_Amount = demo_balance x a d\<rparr>"
  by (simp_all add: demo_def)

lemma auction_laws_demo [simp]: "auction_laws demo"
proof -
  have "fee_laws demo"
    by (auto simp: fee_laws_def dest!: demo_move_moved)
  moreover have "list_all (Coin_IsValid demo) (GetAllBalances demo x a)" for x a
    by (auto simp: list_all_iff demo_valid_def)
  ultimately show ?thesis
    by (simp add: auction_laws_def NativeTokenDenom_def AuctionModuleName_def AuctionPoolAccountName_def demo_module_def
        bytes_of_string_def)
qed

section \<open>A bid\<close>

definition auctioned :: "bank ctx" where
  "auctioned = demo_ctx\<lparr>others := [(([1], ''ugraviton''), 1000), (([2], ''ugraviton''), 100),
       ((demo_module ''auction'', ''uatom''), 50), ((demo_module ''auction'', ''ugraviton''), 20)],
     auctionStore := [(4, \<lparr>Auction_Id = 4, Auction_Amount = \<lparr>Coin_Denom = ''uatom'', Coin_Amount = 50\<rparr>,
       HighestBid = Some \<lparr>BidAmount = 20, BidderAddress = demo_print [2]\<rparr>\<rparr>)], auctionNonce := Some 4\<rparr>"

definition demo_bid :: MsgBid where
  "demo_bid = \<lparr>MsgBid_AuctionId = 4, MsgBid_Bidder = demo_print [1], MsgBid_Amount = 30, MsgBid_BidFee = 5\<rparr>"

lemmas auction_names = AuctionModuleName_def AuctionPoolAccountName_def NativeTokenDenom_def demo_module_def bytes_of_string_def

lemmas auction_eval = Auction_GetParams_def ModuleEnabled_def requireEnabled_def GetMintDenom_def GetAuctionById_def
  nativeBalance_def Coin_Sub_def Coin_Add_def sdk_NewCoins_def Auction_ValidateBasic_def Bid_ValidateBasic_def

lemma auctioned_ok [simp]: "auctions_ok demo auctioned"
  by (simp add: auctions_ok_def auctioned_def auction_ok_def auction_eval auction_names demo_denom_def demo_exec kv_ok_def)

lemma demo_print_inject [simp]: "a \<noteq> [] \<Longrightarrow> length a \<le> 255 \<Longrightarrow> b \<noteq> [] \<Longrightarrow> length b \<le> 255 \<Longrightarrow>
    demo_print a = demo_print b \<longleftrightarrow> a = b"
  by (metis demo_parse_print sum.inject(2))


section \<open>The end of a period\<close>

definition closing :: "bank ctx" where
  "closing = auctioned\<lparr>auctionPeriod := Some \<lparr>StartBlockHeight = 10, EndBlockHeight = 20\<rparr>\<rparr>"

lemma demo_coins [simp]:
  "Coins_AmountOf demo cs d = sum_list (map Coin_Amount (filter (\<lambda>c. Coin_Denom c = d) cs))" "Coins_Equal demo = (=)"
  "Coins_Add demo a b = Some (foldr demo_add b a)"
  "Coins_Sub demo a b = (let r = foldr demo_add (map (\<lambda>c. c\<lparr>Coin_Amount := - Coin_Amount c\<rparr>) b) a
     in if list_ex (\<lambda>c. Coin_Amount c < 0) r then None else Some (filter (\<lambda>c. Coin_Amount c \<noteq> 0) r))"
  "TotalSupply demo x = map (\<lambda>d. \<lparr>Coin_Denom = d, Coin_Amount = sum_list (map snd (filter (\<lambda>e. snd (fst e) = d) x))\<rparr>)
     (remdups (map (\<lambda>e. snd (fst e)) x))"
  by (simp_all add: demo_def)

lemma Auction_EndBlocker_conserves_witness:
  "\<exists>u c'. Auction_EndBlocker demo closing = Ok u c' \<and> surplus demo c' ''uatom'' = surplus demo closing ''uatom''"
proof -
  have ok: "auctions_ok demo closing"
    using auctioned_ok by (simp add: auctions_ok_def closing_def)
  have "is_Ok (Auction_EndBlocker demo closing)"
    by (simp add: Auction_EndBlocker_def Let_def closing_def auctioned_def getBankSupplies_def GetAuctionPeriod_def GetAllAuctions_def
        IterateAuctions_def winnerBalances_def endAuctionPeriod_def closeAuction_def CloseAuctionWithWinner_def takeHighestBid_def
        AwardAuction_def DeleteAllAuctions_def scheduleNextAuctionPeriod_def CreateNewAuctionPeriod_def UpdateAuctionPeriod_def
        updateAuctionPeriodUnsafe_def initializeAuctionPeriodFromParams_def CreateAuctionsForAuctionPeriod_def
        GetAuctionPoolBalances_def assertSupplyIntegrity_def assertAuctionBalanceChanges_def assertClosed_def Coins_IsZero_def
        coinsOr_def auction_eval auction_names demo_denom_def demo_exec kv_del_def credit_def debit_def)
  then obtain u c' where run: "Auction_EndBlocker demo closing = Ok u c'"
    by (rule is_OkE)
  from Auction_EndBlocker_conserves [OF auction_laws_demo ok run] run show ?thesis
    by blast
qed

section \<open>Genesis\<close>

lemma auction_genesis_rejects_own_export_witness:
  "\<exists>g. Auction_ExportGenesis auctioned = Ok g auctioned \<and> (\<forall>f'. Auction_InitGenesis demo g demo_ctx \<noteq> Ok () f')"
proof -
  obtain g where g: "Auction_ExportGenesis auctioned = Ok g auctioned"
    by (simp add: Auction_ExportGenesis_def GetAllAuctions_run bind_run orPanic_def Auction_GetParams_def GetAuctionPeriod_def auctioned_def)
  have "Auction_InitGenesis demo g demo_ctx \<noteq> Ok () f'" for f'
    by (rule auction_genesis_rejects_own_export [OF auctioned_ok _ _ _ _ g, where i = 4])
      (simp_all add: auctioned_def kv_asc_def)
  with g show ?thesis
    by blast
qed

end
