(* ===== verification/Governance.thy ===== *)
theory Governance
  imports EndBlocker
begin

text \<open>
  Governance: the validation and update of the module's parameters (\<open>types/genesis.go\<close>,
  \<open>keeper_params.go\<close>, \<open>msg_server.go\<close>) and the proposals that roll the oracle back, pay an airdrop out of
  the community pool and maintain the list of bridgeable tokens (\<open>governance_proposals.go\<close>).  The
  theorems: an unhalt keeps the invariant of the oracle and lets every affected validator vote again, an
  airdrop pays every recipient exactly its amount, and the token proposals keep the list well-formed.
\<close>

section \<open>Parameters\<close>

definition validateGravityID :: "string \<Rightarrow> error option" where
  "validateGravityID v = (case strToFixByteArray v of Inl e \<Rightarrow> Some e | Inr _ \<Rightarrow> None)"

definition validateTargetBatchTimeout :: "uint64 \<Rightarrow> error option" where
  "validateTargetBatchTimeout v =
     ifError (v < 60000) ''invalid target batch timeout, less than 60 seconds is too short''"

definition validateAverageBlockTime :: "uint64 \<Rightarrow> error option" where
  "validateAverageBlockTime v =
     ifError (v < 100) ''invalid average Cosmos block time, too short for latency limitations''"

definition validateAverageEthereumBlockTime :: "uint64 \<Rightarrow> error option" where
  "validateAverageEthereumBlockTime v =
     ifError (v < 100) ''invalid average Ethereum block time, too short for latency limitations''"

text \<open>Of the errors of \<open>ValidateEthAddress\<close> only the one for the empty string mentions the word looked for.\<close>

definition validateBridgeContractAddress :: "'a libs_scheme \<Rightarrow> string \<Rightarrow> error option" where
  "validateBridgeContractAddress k v =
     (case ValidateEthAddress k v of
        None \<Rightarrow> None
      | Some e \<Rightarrow> if e = ErrorMsg ''empty'' then None else Some e)"

definition validateValsetRewardAmount :: "'a libs_scheme \<Rightarrow> Coin \<Rightarrow> error option" where
  "validateValsetRewardAmount k v =
     (if Coin_Denom v = [] \<and> Coin_Amount v = 0 then None
      else firstError [
        Wrap (ValidateDenom k (Coin_Denom v)) ''invalid denom in ValsetReward'',
        Wrap (ValidateStrictDenom k (Coin_Denom v)) ''invalid denom in ValsetReward''])"

text \<open>The text searched for in the error is never part of one, so every invalid address is an error.\<close>

fun validateEthereumBlacklistAddresses :: "'a libs_scheme \<Rightarrow> string list \<Rightarrow> error option" where
  "validateEthereumBlacklistAddresses k [] = None"
| "validateEthereumBlacklistAddresses k (value # strArr) =
     (case ValidateEthAddress k value of
        Some e \<Rightarrow> Some e
      | None \<Rightarrow> validateEthereumBlacklistAddresses k strArr)"

definition validateMinChainFeeBasisPoints :: "uint64 \<Rightarrow> error option" where
  "validateMinChainFeeBasisPoints v =
     ifError (v > 10000) ''MinChainFeeBasisPoints is set to over 10000, this is an unreasonable fee amount''"

definition validateChainFeeAuctionPoolFraction :: "int \<Rightarrow> error option" where
  "validateChainFeeAuctionPoolFraction v = firstError [
     ifError (v < 0) ''chain fee auction pool fraction must be non-negative'',
     ifError (v > Dec_one) ''chain fee auction pool fraction too large'']"

text \<open>The remaining parameters are only checked for their type.\<close>

definition Params_ValidateBasic :: "'a libs_scheme \<Rightarrow> Params \<Rightarrow> error option" where
  "Params_ValidateBasic k p = firstError [
     Wrap (validateGravityID (GravityId p)) ''gravity id'',
     Wrap (validateBridgeContractAddress k (BridgeEthereumAddress p)) ''bridge contract address'',
     Wrap (validateTargetBatchTimeout (TargetBatchTimeout p)) ''Batch timeout'',
     Wrap (validateAverageBlockTime (AverageBlockTime p)) ''Block time'',
     Wrap (validateAverageEthereumBlockTime (AverageEthereumBlockTime p)) ''Ethereum block time'',
     Wrap (validateValsetRewardAmount k (ValsetReward p)) ''ValsetReward amount'',
     Wrap (validateEthereumBlacklistAddresses k (EthereumBlacklist p)) ''ethereum blacklist parameter'',
     Wrap (validateMinChainFeeBasisPoints (MinChainFeeBasisPoints p)) ''min chain fee basis points parameter'',
     Wrap (validateChainFeeAuctionPoolFraction (ChainFeeAuctionPoolFraction p)) ''chain fee auction pool fraction parameter'']"

definition DefaultParams :: Params where
  "DefaultParams =
     \<lparr>GravityId = ''defaultgravityid'', ContractSourceHash = [],
      BridgeEthereumAddress = ZeroAddressString, BridgeChainId = 0,
      SignedValsetsWindow = 10000, SignedBatchesWindow = 10000, SignedLogicCallsWindow = 10000,
      TargetBatchTimeout = 43200000, AverageBlockTime = 5000, AverageEthereumBlockTime = 15000,
      SlashFractionValset = Dec_one div 1000, SlashFractionBatch = Dec_one div 1000,
      SlashFractionLogicCall = Dec_one div 1000, UnbondSlashingValsetsWindow = 10000,
      SlashFractionBadEthSignature = Dec_one div 1000,
      ValsetReward = \<lparr>Coin_Denom = [], Coin_Amount = 0\<rparr>, BridgeActive = True, EthereumBlacklist = [],
      MinChainFeeBasisPoints = 2, ChainFeeAuctionPoolFraction = Dec_one div 2\<rparr>"

definition SetParams :: "'x Keeper \<Rightarrow> Params \<Rightarrow> ('x, unit) gop" where
  "SetParams k params =
     bind (check (Params_ValidateBasic k params)) (\<lambda>_. modify (\<lambda>ctx. ctx\<lparr>paramsStore := Some params\<rparr>))"

record Param =
  Param_Key :: string
  Param_Value :: string

definition invalidType :: "string \<Rightarrow> error + 'v \<Rightarrow> error + 'v" where
  "invalidType msg r = (case r of Inl _ \<Rightarrow> Inl (Wrapped (SdkErr ''ErrInvalidType'') msg) | Inr v \<Rightarrow> Inr v)"

definition updateParam :: "'x Keeper \<Rightarrow> Param \<Rightarrow> Params \<Rightarrow> error + Params" where
  "updateParam k param p =
     (let key = Param_Key param; v = Param_Value param in
      if key = ''GravityId'' then Inr (p\<lparr>GravityId := v\<rparr>)
      else if key = ''ContractSourceHash'' then Inr (p\<lparr>ContractSourceHash := v\<rparr>)
      else if key = ''BridgeEthereumAddress'' then Inr (p\<lparr>BridgeEthereumAddress := v\<rparr>)
      else if key = ''BridgeChainId'' then
        bindE (invalidType ''invalid BridgeChainId'' (ParseUint64 v)) (\<lambda>n. Inr (p\<lparr>BridgeChainId := n\<rparr>))
      else if key = ''SignedValsetsWindow'' then
        bindE (invalidType ''invalid SignedValsetsWindow'' (ParseUint64 v)) (\<lambda>n. Inr (p\<lparr>SignedValsetsWindow := n\<rparr>))
      else if key = ''SignedBatchesWindow'' then
        bindE (invalidType ''invalid SignedBatchesWindow'' (ParseUint64 v)) (\<lambda>n. Inr (p\<lparr>SignedBatchesWindow := n\<rparr>))
      else if key = ''SignedLogicCallsWindow'' then
        bindE (invalidType ''invalid SignedLogicCallsWindow'' (ParseUint64 v)) (\<lambda>n. Inr (p\<lparr>SignedLogicCallsWindow := n\<rparr>))
      else if key = ''TargetBatchTimeout'' then
        bindE (invalidType ''invalid TargetBatchTimeout'' (ParseUint64 v)) (\<lambda>n. Inr (p\<lparr>TargetBatchTimeout := n\<rparr>))
      else if key = ''AverageBlockTime'' then
        bindE (invalidType ''invalid AverageBlockTime'' (ParseUint64 v)) (\<lambda>n. Inr (p\<lparr>AverageBlockTime := n\<rparr>))
      else if key = ''AverageEthereumBlockTime'' then
        bindE (invalidType ''invalid AverageEthereumBlockTime'' (ParseUint64 v)) (\<lambda>n.
          Inr (p\<lparr>AverageEthereumBlockTime := n\<rparr>))
      else if key = ''SlashFractionValset'' then
        bindE (invalidType ''invalid SlashFractionValset'' (LegacyNewDecFromStr k v)) (\<lambda>d. Inr (p\<lparr>SlashFractionValset := d\<rparr>))
      else if key = ''SlashFractionBatch'' then
        bindE (invalidType ''invalid SlashFractionBatch'' (LegacyNewDecFromStr k v)) (\<lambda>d. Inr (p\<lparr>SlashFractionBatch := d\<rparr>))
      else if key = ''SlashFractionLogicCall'' then
        bindE (invalidType ''invalid SlashFractionLogicCall'' (LegacyNewDecFromStr k v)) (\<lambda>d.
          Inr (p\<lparr>SlashFractionLogicCall := d\<rparr>))
      else if key = ''UnbondSlashingValsetsWindow'' then
        bindE (invalidType ''invalid UnbondSlashingValsetsWindow'' (ParseUint64 v)) (\<lambda>n.
          Inr (p\<lparr>UnbondSlashingValsetsWindow := n\<rparr>))
      else if key = ''SlashFractionBadEthSignature'' then
        bindE (invalidType ''invalid SlashFractionBadEthSignature'' (LegacyNewDecFromStr k v)) (\<lambda>d.
          Inr (p\<lparr>SlashFractionBadEthSignature := d\<rparr>))
      else if key = ''ValsetReward'' then
        bindE (invalidType ''invalid ValsetReward'' (ParseCoinNormalized k v)) (\<lambda>coin.
          case ValidateStrictDenom k (Coin_Denom coin) of
            Some e \<Rightarrow> Inl (Wrapped e ''invalid valset reward denom'')
          | None \<Rightarrow> Inr (p\<lparr>ValsetReward := coin\<rparr>))
      else if key = ''BridgeActive'' then
        bindE (invalidType ''invalid BridgeActive'' (ParseBool v)) (\<lambda>b. Inr (p\<lparr>BridgeActive := b\<rparr>))
      else if key = ''EthereumBlacklist'' then
        (case json_Strings k v of
           Inl _ \<Rightarrow> Inl (Wrapped (SdkErr ''ErrJSONUnmarshal'') ''invalid EthereumBlacklist'')
         | Inr blacklist \<Rightarrow> Inr (p\<lparr>EthereumBlacklist := blacklist\<rparr>))
      else if key = ''MinChainFeeBasisPoints'' then
        bindE (invalidType ''invalid MinChainFeeBasisPoints'' (ParseUint64 v)) (\<lambda>n. Inr (p\<lparr>MinChainFeeBasisPoints := n\<rparr>))
      else if key = ''ChainFeeAuctionPoolFraction'' then
        bindE (invalidType ''invalid ChainFeeAuctionPoolFraction'' (LegacyNewDecFromStr k v)) (\<lambda>d.
          Inr (p\<lparr>ChainFeeAuctionPoolFraction := d\<rparr>))
      else Inl (Wrapped (SdkErr ''ErrUnknownRequest'') ''unknown parameter key''))"

fun updateParams :: "'x Keeper \<Rightarrow> Param list \<Rightarrow> Params \<Rightarrow> error + Params" where
  "updateParams k [] p = Inr p"
| "updateParams k (u # us) p = bindE (updateParam k u p) (updateParams k us)"

definition GetAuthority :: "'x Keeper \<Rightarrow> string" where
  "GetAuthority k = proposalAuthority k"

text \<open>The guard at the head of every proposal handler of the message server.\<close>

definition requireAuthority :: "'x Keeper \<Rightarrow> string \<Rightarrow> ('x, unit) gop" where
  "requireAuthority k authority =
     failIf (GetAuthority k \<noteq> authority) (Wrapped (SdkErr ''ErrInvalidSigner'') ''invalid authority'')"

definition UpdateParamsProposal :: "'x Keeper \<Rightarrow> string \<Rightarrow> Param list \<Rightarrow> ('x, unit) gop" where
  "UpdateParamsProposal k authority paramUpdates =
     bind (requireAuthority k authority) (\<lambda>_.
     bind (wrapErr ''could not get current params'' (GetParams k)) (\<lambda>params.
     bind (lift (updateParams k paramUpdates params)) (\<lambda>updatedParams.
       SetParams k updatedParams)))"

section \<open>Rolling the oracle back\<close>

definition addVotes :: "string list \<Rightarrow> string list \<Rightarrow> string list" where
  "addVotes votes affected = fold (\<lambda>vote s. if vote \<in> set s then s else s @ [vote]) votes affected"

definition resetVoter :: "'x Keeper \<Rightarrow> uint64 \<Rightarrow> string \<Rightarrow> ('x, unit) gop" where
  "resetVoter k nonceCutoff vote =
     bind (orPanic ''invalid validator address affected by bridge reset'' (lift (ValAddressFromBech32 k vote))) (\<lambda>val.
     bind (GetLastEventNonceByValidator k val) (\<lambda>valLastNonce.
       if valLastNonce > nonceCutoff then SetLastEventNonceByValidator k val nonceCutoff else return ()))"

text \<open>
  The set of affected validators is a Go map, ranged over in an unspecified order; the resets touch
  one validator each, and the model visits them in the order of their votes.
\<close>

definition pruneAttestationsAfterNonce :: "'x Keeper \<Rightarrow> uint64 \<Rightarrow> ('x, unit) gop" where
  "pruneAttestationsAfterNonce k nonceCutoff =
     bind GetLastObservedEventNonce (\<lambda>lastObserved.
       if nonceCutoff < lastObserved \<or> nonceCutoff = 0 then return ()
       else
         bind GetAttestationMapping (\<lambda>attmap.
         bind (reads (\<lambda>ctx. GetBondedValidatorsByPower k (others ctx))) (\<lambda>validators.
           case validators of
             Inl _ \<Rightarrow> return ()
           | Inr _ \<Rightarrow>
               bind (foldM (\<lambda>(nonce, atts) affected.
                       foldM (\<lambda>att affected.
                           if nonce > nonceCutoff
                           then bind (DeleteAttestation k att) (\<lambda>_. return (addVotes (Votes att) affected))
                           else return affected)
                         atts affected)
                     (kv_asc attmap) []) (\<lambda>affectedValidatorsSet.
                 forM affectedValidatorsSet (resetVoter k nonceCutoff)))))"

record UnhaltBridgeProposal =
  TargetNonce :: uint64

definition HandleUnhaltBridgeProposal :: "'x Keeper \<Rightarrow> UnhaltBridgeProposal \<Rightarrow> ('x, unit) gop" where
  "HandleUnhaltBridgeProposal k p = pruneAttestationsAfterNonce k (TargetNonce p)"

section \<open>Airdrops\<close>

record AirdropProposal =
  Airdrop_Denom :: string
  Recipients :: bytes
  Amounts :: "uint64 list"

fun parseRecipients :: "nat \<Rightarrow> bytes \<Rightarrow> AccAddress list" where
  "parseRecipients 0 bz = []"
| "parseRecipients (Suc n) bz = take 20 bz # parseRecipients n (drop 20 bz)"

definition Dec_Add :: "'a libs_scheme \<Rightarrow> int \<Rightarrow> int \<Rightarrow> ('s, int) op" where
  "Dec_Add k a b = (if DecFits k (a + b) then return (a + b) else panic ''Int overflow'')"

definition sendAirdrop :: "'x Keeper \<Rightarrow> string \<Rightarrow> AccAddress \<times> uint64 \<Rightarrow> int \<Rightarrow> ('x, int) gop" where
  "sendAirdrop k denom entry totalSent =
     (let usersIntAmount = uint (snd entry); usersDecAmount = Dec_FromInt usersIntAmount in
      bind (NewCoin k denom usersIntAmount) (\<lambda>coin.
      bind (sdk_NewCoins k [coin]) (\<lambda>coins.
      bind (liftX (SendCoinsFromModuleToAccount k ''distribution'' (fst entry) coins)) (\<lambda>_.
        Dec_Add k totalSent usersDecAmount))))"

definition HandleAirdropProposal :: "'x Keeper \<Rightarrow> AirdropProposal \<Rightarrow> ('x, unit) gop" where
  "HandleAirdropProposal k p =
     (let denom = Airdrop_Denom p; numRecipients = length (Recipients p) div 20 in
     bind (check (Wrap (ValidateStrictDenom k denom) ''invalid airdrop denom'')) (\<lambda>_.
     bind (reads (\<lambda>ctx. GetSupply k (others ctx) denom)) (\<lambda>startingSupply.
     bind (failIf (ValidateDenom k denom \<noteq> None) (Wrapped ErrInvalid ''Invalid airdrop denom'')) (\<lambda>_.
     bind (reads (\<lambda>ctx. FeePool_Get k (others ctx))) (\<lambda>r.
     bind (wrapErr ''Error getting fee pool'' (lift r)) (\<lambda>feePool.
     bind (foldM (\<lambda>v total. Int_Add k total (uint v)) (Amounts p) 0) (\<lambda>airdropTotal.
     bind (NewCoin k denom airdropTotal) (\<lambda>totalRequired.
     (let totalRequiredDec = Dec_FromInt airdropTotal in
     bind (failIf (totalRequiredDec > DecCoins_AmountOf k feePool denom)
             (Wrapped ErrInvalid ''Insufficient tokens in community pool'')) (\<lambda>_.
     bind (failIf (length (Recipients p) mod 20 \<noteq> 0 \<or> numRecipients \<noteq> length (Amounts p))
             (Wrapped ErrInvalid ''Invalid recipients'')) (\<lambda>_.
     (let parsedRecipients = parseRecipients numRecipients (Recipients p) in
     bind (failIf (length parsedRecipients \<noteq> length (Amounts p)) (Wrapped ErrInvalid ''Invalid recipients'')) (\<lambda>_.
     bind (foldM (sendAirdrop k denom) (zip parsedRecipients (Amounts p)) 0) (\<lambda>totalSent.
     bind (failIf (totalRequiredDec \<noteq> totalSent) (Wrapped ErrInvalid ''Invalid amount sent'')) (\<lambda>_.
     (let (newCoins, invalidModuleBalance) = DecCoins_SafeSub k feePool (NewDecCoinsFromCoins k [totalRequired]) in
     bind (failIf invalidModuleBalance (Wrapped ErrInvalid ''internal error!'')) (\<lambda>_.
     bind (wrapErr ''failed to set fee pool'' (liftX (FeePool_Set k newCoins))) (\<lambda>_.
     bind (reads (\<lambda>ctx. GetSupply k (others ctx) denom)) (\<lambda>endingSupply.
       failIf (startingSupply \<noteq> endingSupply) (Wrapped ErrInvalid ''total chain supply has changed!''))))))))))))))))))))"

section \<open>Bridgeable tokens\<close>

definition metadataEqual :: "Metadata \<Rightarrow> Metadata \<Rightarrow> bool" where
  "metadataEqual a b \<longleftrightarrow> a = b"

fun duplicateBase :: "string list \<Rightarrow> Metadata list \<Rightarrow> bool" where
  "duplicateBase seen [] \<longleftrightarrow> False"
| "duplicateBase seen (m # ms) \<longleftrightarrow> Base m \<in> set seen \<or> duplicateBase (Base m # seen) ms"

definition setBridgeableToken :: "'x Keeper \<Rightarrow> Metadata \<Rightarrow> ('x, unit) gop" where
  "setBridgeableToken k metadata =
     bind (check (Wrap (Metadata_Validate k metadata) ''invalid metadata'')) (\<lambda>_.
     bind (check (Wrap (ValidateStrictDenom k (Base metadata)) ''invalid denom'')) (\<lambda>_.
     bind (failIf (HasPrefix (Base metadata) GravityDenomPrefix)
             (Wrapped ErrInvalid ''CosmosBridgeableTokens must not contain gravity-prefixed denoms'')) (\<lambda>_.
     bind (reads (\<lambda>ctx. GetSupply k (others ctx) (Base metadata))) (\<lambda>supply.
     bind (failIf (Coin_Amount supply = 0) (Wrapped ErrInvalid ''denom has zero on-chain supply'')) (\<lambda>_.
     bind (GetCosmosBridgeableToken (Base metadata)) (\<lambda>existing.
     bind (getCosmosOriginatedERC20ForDenom k (Base metadata)) (\<lambda>erc20.
     bind (failIf (existing \<noteq> None \<and> erc20 \<noteq> None)
             (Wrapped ErrInvalid ''an ERC20 representation already exists for this denom'')) (\<lambda>_.
     bind (liftX (SetDenomMetaData k metadata)) (\<lambda>_.
     bind (SetCosmosBridgeableToken metadata) (\<lambda>_.
     bind (reads (\<lambda>ctx. GetDenomMetaData k (others ctx) (Base metadata))) (\<lambda>writtenBank.
     bind (failIf (case writtenBank of None \<Rightarrow> True | Some m \<Rightarrow> \<not> metadataEqual metadata m)
             (Wrapped ErrInvalid ''bank metadata failed to update?'')) (\<lambda>_.
     bind (GetCosmosBridgeableToken (Base metadata)) (\<lambda>writtenAllowlist.
       failIf (case writtenAllowlist of None \<Rightarrow> True | Some m \<Rightarrow> \<not> metadataEqual metadata m)
         (Wrapped ErrInvalid ''CosmosBridgeableTokens entry failed to update?''))))))))))))))"

fun inconsistentTokens :: "'a libs_scheme \<Rightarrow> string list \<Rightarrow> Metadata list \<Rightarrow> error option" where
  "inconsistentTokens k seen [] = None"
| "inconsistentTokens k seen (m # ms) =
     (if ContainsEthAddress k (Base m) then Some (Wrapped ErrInvalid ''denom embeds an Ethereum address'')
      else if Base m \<in> set seen then Some (Wrapped ErrDuplicate ''duplicate base denom'')
      else if HasPrefix (Base m) GravityDenomPrefix then Some (Wrapped ErrInvalid ''gravity-prefixed denom'')
      else inconsistentTokens k (Base m # seen) ms)"

definition assertCosmosBridgeableTokensConsistent :: "'x Keeper \<Rightarrow> ('x, unit) gop" where
  "assertCosmosBridgeableTokensConsistent k =
     bind GetAllCosmosBridgeableTokens (\<lambda>tokens. check (inconsistentTokens k [] tokens))"

definition HandleSetCosmosBridgeableTokensProposal :: "'x Keeper \<Rightarrow> Metadata list \<Rightarrow> ('x, unit) gop" where
  "HandleSetCosmosBridgeableTokensProposal k metadatas =
     bind (failIf (duplicateBase [] metadatas) (Wrapped ErrDuplicate ''duplicate base denom'')) (\<lambda>_.
     bind (forM metadatas (setBridgeableToken k)) (\<lambda>_.
       wrapErr ''CosmosBridgeableTokens invalid after proposal?'' (assertCosmosBridgeableTokensConsistent k)))"

definition deleteBridgeableToken :: "Metadata \<Rightarrow> ('x, unit) gop" where
  "deleteBridgeableToken metadata =
     bind (GetCosmosBridgeableToken (Base metadata)) (\<lambda>existing.
     bind (failIf (existing = None) (Wrapped ErrInvalid ''denom not found in current list'')) (\<lambda>_.
     bind (failIf (case existing of None \<Rightarrow> False | Some m \<Rightarrow> \<not> metadataEqual metadata m)
             (Wrapped ErrInvalid ''metadata does not match existing metadata'')) (\<lambda>_.
     bind (DeleteCosmosBridgeableToken (Base metadata)) (\<lambda>_.
     bind (GetCosmosBridgeableToken (Base metadata)) (\<lambda>stillPresent.
       failIf (stillPresent \<noteq> None) (Wrapped ErrInvalid ''entry failed to delete?''))))))"

definition HandleDeleteCosmosBridgeableTokensProposal :: "'x Keeper \<Rightarrow> Metadata list \<Rightarrow> ('x, unit) gop" where
  "HandleDeleteCosmosBridgeableTokensProposal k metadatas =
     bind (failIf (duplicateBase [] metadatas) (Wrapped ErrDuplicate ''duplicate base denom'')) (\<lambda>_.
     bind (forM metadatas deleteBridgeableToken) (\<lambda>_.
       wrapErr ''CosmosBridgeableTokens invalid after proposal?'' (assertCosmosBridgeableTokensConsistent k)))"

definition validateGenesisCosmosBridgeableTokens :: "'x Keeper \<Rightarrow> Metadata list \<Rightarrow> error option" where
  "validateGenesisCosmosBridgeableTokens k entries =
     fst (fold (\<lambda>m (r, seen).
       if r \<noteq> None then (r, seen)
       else (firstError [
         Wrap (Metadata_Validate k m) ''invalid metadata'',
         Wrap (ValidateStrictDenom k (Base m)) ''invalid base denom in CosmosBridgeableTokens'',
         ifError (HasPrefix (Base m) GravityDenomPrefix) ''CosmosBridgeableTokens must not contain gravity-prefixed denoms'',
         ifError (Base m \<in> set seen) ''duplicate base denom in CosmosBridgeableTokens''], Base m # seen))
       entries (None, []))"

text \<open>\<open>abstract\<close> is the result of the SDK's check of the title and the description.\<close>

definition bridgeableTokens_ValidateBasic :: "'x Keeper \<Rightarrow> error option \<Rightarrow> Metadata list \<Rightarrow> error option" where
  "bridgeableTokens_ValidateBasic k abstract metadatas =
     (if abstract \<noteq> None then abstract
      else if metadatas = [] then Some (ErrorMsg ''proposal must contain at least one metadata entry'')
      else fst (fold (\<lambda>m (r, seen).
        if r \<noteq> None then (r, seen)
        else (firstError [Wrap (Metadata_Validate k m) ''invalid metadata for denom'',
                          ifError (Base m \<in> set seen) ''duplicate base denom''], Base m # seen))
        metadatas (None, [])))"

section \<open>The proposal handlers\<close>

datatype GravityProposal =
    UnhaltBridge UnhaltBridgeProposal
  | Airdrop AirdropProposal
  | SetCosmosBridgeableTokens "Metadata list"
  | DeleteCosmosBridgeableTokens "Metadata list"
  | OtherProposal

definition GravityProposalHandler :: "'x Keeper \<Rightarrow> GravityProposal \<Rightarrow> ('x, unit) gop" where
  "GravityProposalHandler k content =
     (case content of
        UnhaltBridge p \<Rightarrow> HandleUnhaltBridgeProposal k p
      | Airdrop p \<Rightarrow> HandleAirdropProposal k p
      | SetCosmosBridgeableTokens ms \<Rightarrow> HandleSetCosmosBridgeableTokensProposal k ms
      | DeleteCosmosBridgeableTokens ms \<Rightarrow> HandleDeleteCosmosBridgeableTokensProposal k ms
      | OtherProposal \<Rightarrow> fail (Wrapped (SdkErr ''ErrUnknownRequest'') ''unrecognized Gravity proposal content type''))"

text \<open>The proposal of a message is a pointer; handling a missing one dereferences it.\<close>

definition withProposal :: "'p option \<Rightarrow> ('p \<Rightarrow> ('x, unit) gop) \<Rightarrow> ('x, unit) gop" where
  "withProposal proposal handle =
     (case proposal of None \<Rightarrow> panic ''nil pointer dereference'' | Some p \<Rightarrow> handle p)"

definition msg_AirdropProposal :: "'x Keeper \<Rightarrow> string \<Rightarrow> AirdropProposal option \<Rightarrow> ('x, unit) gop" where
  "msg_AirdropProposal k authority proposal =
     bind (requireAuthority k authority) (\<lambda>_. withProposal proposal (HandleAirdropProposal k))"

definition msg_UnhaltBridgeProposal :: "'x Keeper \<Rightarrow> string \<Rightarrow> UnhaltBridgeProposal option \<Rightarrow> ('x, unit) gop" where
  "msg_UnhaltBridgeProposal k authority proposal =
     bind (requireAuthority k authority) (\<lambda>_. withProposal proposal (HandleUnhaltBridgeProposal k))"

definition msg_SetCosmosBridgeableTokensProposal :: "'x Keeper \<Rightarrow> string \<Rightarrow> Metadata list option \<Rightarrow> ('x, unit) gop" where
  "msg_SetCosmosBridgeableTokensProposal k authority proposal =
     bind (requireAuthority k authority) (\<lambda>_. withProposal proposal (HandleSetCosmosBridgeableTokensProposal k))"

definition msg_DeleteCosmosBridgeableTokensProposal :: "'x Keeper \<Rightarrow> string \<Rightarrow> Metadata list option \<Rightarrow> ('x, unit) gop" where
  "msg_DeleteCosmosBridgeableTokensProposal k authority proposal =
     bind (requireAuthority k authority) (\<lambda>_. withProposal proposal (HandleDeleteCosmosBridgeableTokensProposal k))"

section \<open>Unhalting\<close>

text \<open>The validators whose votes a roll back to a nonce removes.\<close>

definition rolled_back :: "'x Keeper \<Rightarrow> 'x ctx \<Rightarrow> uint64 \<Rightarrow> ValAddress \<Rightarrow> bool" where
  "rolled_back k c cutoff v \<longleftrightarrow> VerifyAddressFormat k v = None \<and>
     (\<exists>n h att. kv_get (oracleAttestation c) (n, h) = Some att \<and> cutoff < n \<and> ValAddress_String k v \<in> set (Votes att))"

lemma set_addVotes: "set (addVotes votes affected) = set votes \<union> set affected"
  unfolding addVotes_def by (induction votes arbitrary: affected) auto

lemma set_fold_addVotes:
  "set (fold (\<lambda>(n, att) s. if cutoff < n then addVotes (Votes att) s else s) es acc) =
     set acc \<union> (\<Union>(n, att) \<in> set es. if cutoff < n then set (Votes att) else {})"
  by (induction es arbitrary: acc) (auto simp: set_addVotes split: if_splits)

lemma fold_nested:
  "fold (\<lambda>(n, xs) s. fold (g n) xs s) es acc = fold (\<lambda>(n, x). g n x) (concat (map (\<lambda>(n, xs). map (Pair n) xs) es)) acc"
proof (induction es arbitrary: acc)
  case (Cons e es)
  have "fold (\<lambda>(n, x). g n x) (map (Pair n) xs) a = fold (g n) xs a" for n xs a
    by (induction xs arbitrary: a) simp_all
  with Cons show ?case
    by (simp split: prod.split)
qed simp

lemma resetVoter_run:
  assumes "ValAddressFromBech32 k s = Inr v" "VerifyAddressFormat k v = None"
    and "kv_get (lastEventNonceByValidator d) v = Some m"
  shows "resetVoter k cutoff s d =
    Ok () (if cutoff < m then d\<lparr>lastEventNonceByValidator := kv_set v cutoff (lastEventNonceByValidator d)\<rparr> else d)"
proof -
  have "GetLastEventNonceByValidator k v d = Ok m d"
    using assms(2,3) by (simp add: GetLastEventNonceByValidator_def)
  then show ?thesis
    using assms(1,2) by (simp add: resetVoter_def bind_step SetLastEventNonceByValidator_def)
qed

lemma resetVoters_run:
  assumes "\<And>s. s \<in> set votes \<Longrightarrow> \<exists>v m. ValAddressFromBech32 k s = Inr v \<and> VerifyAddressFormat k v = None \<and>
      kv_get (lastEventNonceByValidator d) v = Some m"
  shows "\<exists>store. forM votes (resetVoter k cutoff) d = Ok () (d\<lparr>lastEventNonceByValidator := store\<rparr>) \<and>
    (\<forall>v. kv_get store v = (if \<exists>s \<in> set votes. ValAddressFromBech32 k s = Inr v
       then map_option (min cutoff) (kv_get (lastEventNonceByValidator d) v) else kv_get (lastEventNonceByValidator d) v))"
  using assms
proof (induction votes arbitrary: d)
  case Nil
  show ?case
    by (rule exI [of _ "lastEventNonceByValidator d"]) simp
next
  case (Cons s votes)
  obtain v m where v: "ValAddressFromBech32 k s = Inr v" "VerifyAddressFormat k v = None"
      "kv_get (lastEventNonceByValidator d) v = Some m"
    using Cons.prems by (meson list.set_intros(1))
  let ?d = "if cutoff < m then d\<lparr>lastEventNonceByValidator := kv_set v cutoff (lastEventNonceByValidator d)\<rparr> else d"
  have get: "kv_get (lastEventNonceByValidator ?d) w =
      (if w = v then Some (min cutoff m) else kv_get (lastEventNonceByValidator d) w)" for w
    using v(3) by (auto simp: min_def kv_get_set)
  have "\<exists>w m. ValAddressFromBech32 k t = Inr w \<and> VerifyAddressFormat k w = None \<and>
      kv_get (lastEventNonceByValidator ?d) w = Some m" if "t \<in> set votes" for t
    unfolding get using Cons.prems [of t] that by (metis list.set_intros(2))
  then obtain store where store: "forM votes (resetVoter k cutoff) ?d = Ok () (?d\<lparr>lastEventNonceByValidator := store\<rparr>)"
    "\<And>w. kv_get store w = (if \<exists>s \<in> set votes. ValAddressFromBech32 k s = Inr w
       then map_option (min cutoff) (kv_get (lastEventNonceByValidator ?d) w) else kv_get (lastEventNonceByValidator ?d) w)"
    using Cons.IH [of ?d] by blast
  have step: "resetVoter k cutoff s d = Ok () ?d"
    by (rule resetVoter_run [OF v])
  have "forM (s # votes) (resetVoter k cutoff) d = Ok () (?d\<lparr>lastEventNonceByValidator := store\<rparr>)"
    by (simp only: forM.simps bind_step [where m = "resetVoter k cutoff s" and s = d, OF step] store(1))
  then have "forM (s # votes) (resetVoter k cutoff) d = Ok () (d\<lparr>lastEventNonceByValidator := store\<rparr>)"
    by simp
  moreover have "kv_get store w = (if \<exists>s \<in> set (s # votes). ValAddressFromBech32 k s = Inr w
       then map_option (min cutoff) (kv_get (lastEventNonceByValidator d) w) else kv_get (lastEventNonceByValidator d) w)" for w
    unfolding store(2) get using v by (auto simp: min_def)
  ultimately show ?case
    by blast
qed

text \<open>The two loops of a roll back: the deletions, and the votes they collect.\<close>

lemma rollback_loop:
  assumes "oracle_ok k c"
  shows "\<exists>store votes. foldM (\<lambda>(nonce, atts) affected.
      foldM (\<lambda>att affected. if nonce > cutoff
          then bind (DeleteAttestation k att) (\<lambda>_. return (addVotes (Votes att) affected)) else return affected)
        atts affected) (kv_asc (attmap c)) [] c = Ok votes (c\<lparr>oracleAttestation := store\<rparr>) \<and> kv_ok store \<and>
    (\<forall>n h. kv_get store (n, h) = (if cutoff < n then None else kv_get (oracleAttestation c) (n, h))) \<and>
    (\<forall>s. s \<in> set votes \<longleftrightarrow> (\<exists>n h att. kv_get (oracleAttestation c) (n, h) = Some att \<and> cutoff < n \<and> s \<in> set (Votes att)))"
proof -
  let ?g = "\<lambda>n att. if n > cutoff then DeleteAttestation k att else return ()"
  let ?h = "\<lambda>n att affected. if n > cutoff then addVotes (Votes att) affected else affected"
  let ?votes = "fold (\<lambda>(n, att). ?h n att) (tally_list c) []"
  have inner: "foldM (\<lambda>att affected. if n > cutoff
        then bind (DeleteAttestation k att) (\<lambda>_. return (addVotes (Votes att) affected)) else return affected) atts acc =
      bind (forM atts (?g n)) (\<lambda>_. return (fold (?h n) atts acc))" for n atts acc
    by (rule foldM_forM) (simp add: return_def)
  have "foldM (\<lambda>(nonce, atts) affected.
      foldM (\<lambda>att affected. if nonce > cutoff
          then bind (DeleteAttestation k att) (\<lambda>_. return (addVotes (Votes att) affected)) else return affected)
        atts affected) (kv_asc (attmap c)) [] =
      bind (forM (kv_asc (attmap c)) (\<lambda>(n, atts). forM atts (?g n)))
        (\<lambda>_. return (fold (\<lambda>(n, atts) s. fold (?h n) atts s) (kv_asc (attmap c)) []))"
    by (rule foldM_forM) (simp add: inner split: prod.split)
  also have "\<dots> = bind (forM (tally_list c) (\<lambda>(n, att). ?g n att)) (\<lambda>_. return ?votes)"
    by (simp only: forM_nested fold_nested tally_list_def)
  finally have run: "foldM (\<lambda>(nonce, atts) affected.
      foldM (\<lambda>att affected. if nonce > cutoff
          then bind (DeleteAttestation k att) (\<lambda>_. return (addVotes (Votes att) affected)) else return affected)
        atts affected) (kv_asc (attmap c)) [] = \<dots>" .
  obtain store where store: "forM (tally_list c) (\<lambda>(n, att). ?g n att) c = Ok () (c\<lparr>oracleAttestation := store\<rparr>)" "kv_ok store"
    "\<And>n h. kv_get store (n, h) = (if cutoff < n \<and> (\<exists>att. kv_get (oracleAttestation c) (n, h) = Some att \<and> (n, att) \<in> set (tally_list c))
       then None else kv_get (oracleAttestation c) (n, h))"
    using prune_loop [OF assms order_refl, of "\<lambda>n. cutoff < n" c] assms by (auto simp: oracle_ok_def)
  have get: "kv_get store (n, h) = (if cutoff < n then None else kv_get (oracleAttestation c) (n, h))" for n h
    using store(3) [of n h] tally_list_stored [OF assms] by (cases "kv_get (oracleAttestation c) (n, h)") auto
  have "s \<in> set ?votes \<longleftrightarrow> (\<exists>n h att. kv_get (oracleAttestation c) (n, h) = Some att \<and> cutoff < n \<and> s \<in> set (Votes att))" for s
    using tally_list_stored [OF assms] by (force simp: set_fold_addVotes split: if_splits)
  then show ?thesis
    unfolding run using store(1,2) get
    by (intro exI [of _ store] exI [of _ ?votes]) (simp add: bind_step)
qed

lemma unhalt_effect:
  assumes "bech32_laws k" "oracle_ok k c"
  shows "\<exists>c'. HandleUnhaltBridgeProposal k p c = Ok () c' \<and> oracle_ok k c' \<and> last_observed c' = last_observed c \<and>
    (if TargetNonce p < last_observed c \<or> TargetNonce p = 0 \<or> (\<exists>e. GetBondedValidatorsByPower k (others c) = Inl e) then c' = c
     else (\<forall>n h. kv_get (oracleAttestation c') (n, h) =
             (if TargetNonce p < n then None else kv_get (oracleAttestation c) (n, h))) \<and>
       (\<forall>v. next_nonce c' v = (if rolled_back k c (TargetNonce p) v then TargetNonce p + 1 else next_nonce c v)))"
proof (cases "TargetNonce p < last_observed c \<or> TargetNonce p = 0 \<or> (\<exists>e. GetBondedValidatorsByPower k (others c) = Inl e)")
  case True
  then have "HandleUnhaltBridgeProposal k p c = Ok () c"
    by (auto simp: HandleUnhaltBridgeProposal_def pruneAttestationsAfterNonce_def
        bind_step [OF GetLastObservedEventNonce_run] bind_step [OF GetAttestationMapping_run])
  with True assms(2) show ?thesis
    by simp
next
  case False
  let ?cut = "TargetNonce p"
  obtain store votes where del: "foldM (\<lambda>(nonce, atts) affected.
      foldM (\<lambda>att affected. if nonce > ?cut
          then bind (DeleteAttestation k att) (\<lambda>_. return (addVotes (Votes att) affected)) else return affected)
        atts affected) (kv_asc (attmap c)) [] c = Ok votes (c\<lparr>oracleAttestation := store\<rparr>)" "kv_ok store"
      "\<And>n h. kv_get store (n, h) = (if ?cut < n then None else kv_get (oracleAttestation c) (n, h))"
    and votes: "\<And>s. s \<in> set votes \<longleftrightarrow>
      (\<exists>n h att. kv_get (oracleAttestation c) (n, h) = Some att \<and> ?cut < n \<and> s \<in> set (Votes att))"
    using rollback_loop [OF assms(2), of ?cut] by blast
  have voter: "\<exists>v m. s = ValAddress_String k v \<and> ValAddressFromBech32 k s = Inr v \<and> VerifyAddressFormat k v = None \<and>
      kv_get (lastEventNonceByValidator c) v = Some m \<and> ?cut < m" if "s \<in> set votes" for s
  proof -
    from that obtain n h att where a: "kv_get (oracleAttestation c) (n, h) = Some att" "?cut < n" "s \<in> set (Votes att)"
      by (auto simp: votes)
    with oracle_okD(1) [OF assms(2) a(1)] obtain v m where "s = ValAddress_String k v" "VerifyAddressFormat k v = None"
        "kv_get (lastEventNonceByValidator c) v = Some m" "n \<le> m"
      unfolding attestation_ok_def by blast
    with a(2) assms(1) show ?thesis
      unfolding bech32_laws_def by (metis order_less_le_trans)
  qed
  have "\<exists>v m. ValAddressFromBech32 k s = Inr v \<and> VerifyAddressFormat k v = None \<and>
      kv_get (lastEventNonceByValidator (c\<lparr>oracleAttestation := store\<rparr>)) v = Some m" if "s \<in> set votes" for s
    using voter [OF that] by (simp; blast)
  from resetVoters_run [OF this] obtain nonces where
    reset: "forM votes (resetVoter k ?cut) (c\<lparr>oracleAttestation := store\<rparr>) =
      Ok () (c\<lparr>oracleAttestation := store, lastEventNonceByValidator := nonces\<rparr>)"
    and nonces: "\<And>v. kv_get nonces v = (if \<exists>s \<in> set votes. ValAddressFromBech32 k s = Inr v
       then map_option (min ?cut) (kv_get (lastEventNonceByValidator (c\<lparr>oracleAttestation := store\<rparr>)) v)
       else kv_get (lastEventNonceByValidator (c\<lparr>oracleAttestation := store\<rparr>)) v)"
    by blast
  let ?c = "c\<lparr>oracleAttestation := store, lastEventNonceByValidator := nonces\<rparr>"
  obtain vs where "\<not> ?cut < last_observed c" "?cut \<noteq> 0" "GetBondedValidatorsByPower k (others c) = Inr vs"
    using False by (cases "GetBondedValidatorsByPower k (others c)") auto
  then have run: "HandleUnhaltBridgeProposal k p c = Ok () ?c"
    by (simp add: HandleUnhaltBridgeProposal_def pruneAttestationsAfterNonce_def reset
        bind_step [OF GetLastObservedEventNonce_run] bind_step [OF GetAttestationMapping_run] bind_step del(1))
  have rolled: "(\<exists>s \<in> set votes. ValAddressFromBech32 k s = Inr v) \<longleftrightarrow> rolled_back k c ?cut v" for v
  proof
    assume "\<exists>s \<in> set votes. ValAddressFromBech32 k s = Inr v"
    then obtain s where s: "s \<in> set votes" "ValAddressFromBech32 k s = Inr v"
      by blast
    with voter [OF s(1)] have "s = ValAddress_String k v" "VerifyAddressFormat k v = None"
      by auto
    with s(1) show "rolled_back k c ?cut v"
      by (simp add: rolled_back_def votes)
  next
    assume "rolled_back k c ?cut v"
    then have "ValAddress_String k v \<in> set votes" "ValAddressFromBech32 k (ValAddress_String k v) = Inr v"
      using assms(1) by (simp_all add: rolled_back_def votes bech32_laws_def)
    then show "\<exists>s \<in> set votes. ValAddressFromBech32 k s = Inr v"
      by blast
  qed
  have after: "\<exists>m. kv_get (lastEventNonceByValidator c) v = Some m \<and> ?cut < m" if "rolled_back k c ?cut v" for v
    using that voter unfolding rolled [symmetric] by fastforce
  have nonces: "kv_get nonces v = (if rolled_back k c ?cut v then Some ?cut else kv_get (lastEventNonceByValidator c) v)" for v
  proof (cases "rolled_back k c ?cut v")
    case True
    with after obtain m where "kv_get (lastEventNonceByValidator c) v = Some m" "?cut < m"
      by blast
    with True show ?thesis
      using nonces [of v] by (simp add: rolled)
  qed (simp add: nonces rolled)
  have observed: "last_observed ?c = last_observed c"
    by (simp add: last_observed_def)
  have "attestation_ok k ?c n h att" if "attestation_ok k c n h att" "n \<le> ?cut" for n h att
  proof -
    have "\<exists>m'. kv_get nonces v = Some m' \<and> n \<le> m'" if "kv_get (lastEventNonceByValidator c) v = Some m" "n \<le> m" for v m
      using that \<open>n \<le> ?cut\<close> by (simp add: nonces)
    then show ?thesis
      using that unfolding attestation_ok_def observed by (simp; blast)
  qed
  then have "oracle_ok k ?c"
    using assms(2) del(2) unfolding oracle_ok_def by (simp add: del(3) not_less)
  moreover have "next_nonce ?c v = (if rolled_back k c ?cut v then ?cut + 1 else next_nonce c v)" for v
    by (simp add: next_nonce_def nonces observed split: option.split)
  ultimately show ?thesis
    using False run del(3) observed by (intro exI [of _ ?c]) simp
qed

text \<open>
  C23: an unhalt proposal always returns and keeps the invariant of the oracle.  A target before the last observed
  event changes nothing; otherwise exactly the attestations after the target are gone, nothing that was
  observed is undone, and the next nonce of every validator that had voted on one of them is the one after
  the target, while nobody else's changes.
\<close>

theorem HandleUnhaltBridgeProposal_correct:
  assumes "bech32_laws k" "oracle_ok k c"
  shows "\<exists>c'. HandleUnhaltBridgeProposal k p c = Ok () c' \<and> oracle_ok k c' \<and> last_observed c' = last_observed c \<and>
    (if TargetNonce p < last_observed c \<or> TargetNonce p = 0 \<or> (\<exists>e. GetBondedValidatorsByPower k (others c) = Inl e) then c' = c
     else (\<forall>n h. kv_get (oracleAttestation c') (n, h) =
             (if TargetNonce p < n then None else kv_get (oracleAttestation c) (n, h))) \<and>
       (\<forall>v. next_nonce c' v = (if rolled_back k c (TargetNonce p) v then TargetNonce p + 1 else next_nonce c v)))"
  using unhalt_effect [OF assms] .

section \<open>Paying an airdrop\<close>

text \<open>What the recipient list assigns to an account.\<close>

definition airdrop_share :: "AirdropProposal \<Rightarrow> AccAddress \<Rightarrow> int" where
  "airdrop_share p a = sum_list (map (\<lambda>i. if take 20 (drop (20 * i) (Recipients p)) = a then uint (Amounts p ! i) else 0)
     [0..<length (Amounts p)])"

definition airdrop_total :: "AirdropProposal \<Rightarrow> int" where
  "airdrop_total p = sum_list (map uint (Amounts p))"

lemma parseRecipients_chunks: "parseRecipients n bz = map (\<lambda>i. take 20 (drop (20 * i) bz)) [0..<n]"
proof (induction n arbitrary: bz)
  case (Suc n)
  have "[0..<Suc n] = 0 # map Suc [0..<n]"
    by (simp add: map_Suc_upt upt_conv_Cons del: upt_Suc)
  then show ?case
    by (simp add: Suc add.commute del: upt_Suc)
qed simp

lemma Dec_Add_Ok: "Dec_Add k a b s = Ok r t \<longleftrightarrow> t = s \<and> r = a + b \<and> DecFits k (a + b)"
  by (auto simp: Dec_Add_def)

text \<open>One payment, and all of them.\<close>

lemma sendAirdrop_pays:
  assumes laws: "bank_laws k" "coin_laws k"
    and run: "sendAirdrop k denom e t0 c = Ok t c'"
  shows "same_gravity c c' \<and> t = t0 + Dec_FromInt (uint (snd e)) \<and>
    (\<forall>a d. balance k c' a d = balance k c a d + (if d = denom then (if a = fst e then uint (snd e) else 0) -
       (if a = GetModuleAddress k ''distribution'' then uint (snd e) else 0) else 0))"
proof -
  let ?coin = "\<lparr>Coin_Denom = denom, Coin_Amount = uint (snd e)\<rparr>"
  obtain cs x where valid: "Coin_IsValid k ?coin" and cs: "NewCoins k [?coin] = Some cs"
      and send: "SendCoinsFromModuleToAccount k ''distribution'' (fst e) cs (others c) = Ok () x"
      and c': "c' = c\<lparr>others := x\<rparr>" "t = t0 + Dec_FromInt (uint (snd e))"
    using run unfolding sendAirdrop_def
    by (auto simp: bind_Ok liftX_Ok sdk_NewCoins_Ok NewCoin_Ok Dec_Add_Ok Let_def)
  have "moved k (others c) x {GetModuleAddress k ''distribution''} {fst e} [?coin]"
    using bank_moves(2) [OF laws(1) send] NewCoins_amount [OF laws(2) valid cs] by (simp add: moved_def)
  then show ?thesis
    using c' by (auto simp: balance_def moved_def amount_in_def)
qed

lemma sendAirdrops_pay:
  assumes laws: "bank_laws k" "coin_laws k"
  shows "foldM (sendAirdrop k denom) es t0 c = Ok t c' \<Longrightarrow>
    same_gravity c c' \<and> t = t0 + Dec_FromInt (sum_list (map (\<lambda>e. uint (snd e)) es)) \<and>
    (\<forall>a d. balance k c' a d = balance k c a d + (if d = denom
       then sum_list (map (\<lambda>e. if fst e = a then uint (snd e) else 0) es) -
         (if a = GetModuleAddress k ''distribution'' then sum_list (map (\<lambda>e. uint (snd e)) es) else 0) else 0))"
proof (induction es arbitrary: t0 c)
  case Nil
  then show ?case
    by (simp only: foldM.simps return_run outcome.inject) (simp add: same_gravity_refl Dec_FromInt_def)
next
  case (Cons e es)
  from Cons.prems obtain t1 d where step: "sendAirdrop k denom e t0 c = Ok t1 d"
      and rest: "foldM (sendAirdrop k denom) es t1 d = Ok t c'"
    by (auto simp: bind_Ok)
  from sendAirdrop_pays [OF laws step] obtain x where x: "d = c\<lparr>others := x\<rparr>" "t1 = t0 + Dec_FromInt (uint (snd e))"
      and first: "\<And>a d'. balance k d a d' = balance k c a d' + (if d' = denom then (if a = fst e then uint (snd e) else 0) -
       (if a = GetModuleAddress k ''distribution'' then uint (snd e) else 0) else 0)"
    by blast
  from Cons.IH [OF rest] obtain y where y: "c' = d\<lparr>others := y\<rparr>" "t = t1 + Dec_FromInt (sum_list (map (\<lambda>e. uint (snd e)) es))"
      and later: "\<And>a d'. balance k c' a d' = balance k d a d' + (if d' = denom
       then sum_list (map (\<lambda>e. if fst e = a then uint (snd e) else 0) es) -
         (if a = GetModuleAddress k ''distribution'' then sum_list (map (\<lambda>e. uint (snd e)) es) else 0) else 0)"
    by blast
  have "c' = c\<lparr>others := y\<rparr>"
    using x(1) y(1) by simp
  moreover have "t = t0 + Dec_FromInt (sum_list (map (\<lambda>e. uint (snd e)) (e # es)))"
    using x(2) y(2) by (simp add: Dec_FromInt_def algebra_simps)
  moreover have "balance k c' a d' = balance k c a d' + (if d' = denom
       then sum_list (map (\<lambda>e. if fst e = a then uint (snd e) else 0) (e # es)) -
         (if a = GetModuleAddress k ''distribution'' then sum_list (map (\<lambda>e. uint (snd e)) (e # es)) else 0) else 0)" for a d'
    using first [of a d'] later [of a d'] by simp
  ultimately show ?case
    by blast
qed

lemma foldM_sum:
  "foldM (\<lambda>v total. Int_Add k total (uint v)) vs t0 c = Ok t c' \<Longrightarrow> c' = c \<and> t = t0 + sum_list (map uint vs)"
proof (induction vs arbitrary: t0)
  case (Cons v vs)
  then have "foldM (\<lambda>v total. Int_Add k total (uint v)) vs (t0 + uint v) c = Ok t c'"
    by (auto simp: bind_Ok Int_Add_Ok)
  from Cons.IH [OF this] show ?case
    by simp
qed simp

text \<open>
  C24: an airdrop that succeeds has one address of 20 bytes for every amount and pays each account exactly what the list
  assigns to it, out of the account of the distribution module; nothing else of the module's state changes, the
  supply stays, and the total is taken off the record of the community pool, which covered it.
\<close>

theorem HandleAirdropProposal_pays:
  assumes "bank_laws k" "bank_error_laws k" "coin_laws k"
    and "HandleAirdropProposal k p c = Ok u c'"
  shows "length (Recipients p) = 20 * length (Amounts p) \<and> same_gravity c c' \<and>
    (\<forall>a d. balance k c' a d = balance k c a d + (if d = Airdrop_Denom p
       then airdrop_share p a - (if a = GetModuleAddress k ''distribution'' then airdrop_total p else 0) else 0)) \<and>
    GetSupply k (others c') (Airdrop_Denom p) = GetSupply k (others c) (Airdrop_Denom p) \<and>
    (\<exists>pool x. FeePool_Get k (others c) = Inr pool \<and>
       Dec_FromInt (airdrop_total p) \<le> DecCoins_AmountOf k pool (Airdrop_Denom p) \<and>
       FeePool_Set k (fst (DecCoins_SafeSub k pool
         (NewDecCoinsFromCoins k [\<lparr>Coin_Denom = Airdrop_Denom p, Coin_Amount = airdrop_total p\<rparr>]))) x = Ok () (others c'))"
proof -
  let ?es = "zip (parseRecipients (length (Recipients p) div 20) (Recipients p)) (Amounts p)"
  obtain pool t d x where
      pool: "FeePool_Get k (others c) = Inr pool" "Dec_FromInt (airdrop_total p) \<le> DecCoins_AmountOf k pool (Airdrop_Denom p)"
      and len: "length (Recipients p) mod 20 = 0" "length (Recipients p) div 20 = length (Amounts p)"
      and pay: "foldM (sendAirdrop k (Airdrop_Denom p)) ?es 0 c = Ok t d"
      and written: "FeePool_Set k (fst (DecCoins_SafeSub k pool
         (NewDecCoinsFromCoins k [\<lparr>Coin_Denom = Airdrop_Denom p, Coin_Amount = airdrop_total p\<rparr>]))) (others d) = Ok () x"
      and c': "c' = d\<lparr>others := x\<rparr>"
      and total: "GetSupply k x (Airdrop_Denom p) = GetSupply k (others c) (Airdrop_Denom p)"
    using assms(4) unfolding HandleAirdropProposal_def airdrop_total_def
    by (auto simp: bind_Ok check_Ok failIf_Ok wrapErr_Ok lift_Ok liftX_Ok NewCoin_Ok Let_def not_less case_prod_beta
        dest!: foldM_sum)
  have "length (Recipients p) = 20 * length (Amounts p)"
    using len by presburger
  moreover from sendAirdrops_pay [OF assms(1,3) pay] obtain y where d: "d = c\<lparr>others := y\<rparr>"
      and paid: "\<And>a e. balance k d a e = balance k c a e + (if e = Airdrop_Denom p
         then sum_list (map (\<lambda>e. if fst e = a then uint (snd e) else 0) ?es) -
         (if a = GetModuleAddress k ''distribution'' then sum_list (map (\<lambda>e. uint (snd e)) ?es) else 0) else 0)"
    by blast
  moreover have "balance k c' a e = balance k d a e" for a e
    using assms(2) written by (simp add: bank_error_laws_def moved_def balance_def c' amount_in_def)
  moreover have "sum_list (map (\<lambda>e. if fst e = a then uint (snd e) else 0) ?es) = airdrop_share p a" for a
    unfolding airdrop_share_def len(2) parseRecipients_chunks
    by (rule arg_cong [of _ _ sum_list], rule nth_equalityI) simp_all
  moreover have "sum_list (map (\<lambda>e. uint (snd e)) ?es) = airdrop_total p"
    unfolding airdrop_total_def len(2) parseRecipients_chunks
    by (rule arg_cong [of _ _ sum_list], rule nth_equalityI) simp_all
  ultimately show ?thesis
    using pool written total by (auto simp: c')
qed

section \<open>The list of bridgeable tokens\<close>

text \<open>
  Every entry of the list is stored under its own base denom, which is strict, carries no gravity prefix and
  embeds no Ethereum address, and its metadata is valid.
\<close>

definition allowlist_ok :: "'x Keeper \<Rightarrow> 'x ctx \<Rightarrow> bool" where
  "allowlist_ok k c \<longleftrightarrow> kv_ok (cosmosBridgeableTokens c) \<and>
     (\<forall>d m. kv_get (cosmosBridgeableTokens c) d = Some m \<longrightarrow> Base m = d \<and> Metadata_Validate k m = None \<and>
        ValidateStrictDenom k d = None \<and> \<not> HasPrefix d GravityDenomPrefix \<and> \<not> ContainsEthAddress k d)"

text \<open>The bank module stores the metadata of a denom under its base.\<close>

definition metadata_laws :: "'x Keeper \<Rightarrow> bool" where
  "metadata_laws k \<longleftrightarrow> (\<forall>m x u x'. SetDenomMetaData k m x = Ok u x' \<longrightarrow>
     (\<forall>d. GetDenomMetaData k x' d = (if d = Base m then Some m else GetDenomMetaData k x d)))"

definition whitelisted :: "'x Keeper \<Rightarrow> 'x ctx \<Rightarrow> Metadata \<Rightarrow> bool" where
  "whitelisted k c m \<longleftrightarrow> kv_get (cosmosBridgeableTokens c) (Base m) = Some m \<and> GetDenomMetaData k (others c) (Base m) = Some m"

lemma assertMetadataWhitelisted_iff:
  "assertMetadataWhitelisted k d c = Ok m c' \<longleftrightarrow> c' = c \<and> kv_get (cosmosBridgeableTokens c) d = Some m \<and>
     GetDenomMetaData k (others c) d = Some m"
  by (auto simp: assertMetadataWhitelisted_def GetCosmosBridgeableToken_def split: option.splits)

lemma duplicateBase_iff: "\<not> duplicateBase seen ms \<longleftrightarrow> distinct (map Base ms) \<and> set (map Base ms) \<inter> set seen = {}"
  by (induction ms arbitrary: seen) auto

lemma inconsistentTokens_None:
  "inconsistentTokens k seen ms = None \<Longrightarrow> m \<in> set ms \<Longrightarrow> \<not> ContainsEthAddress k (Base m)"
  by (induction ms arbitrary: seen) (auto split: if_splits)

lemma GetAllTokens_run:
  fixes c :: "'x ctx"
  shows "GetAllCosmosBridgeableTokens c = Ok (map snd (kv_asc (cosmosBridgeableTokens c))) c"
proof -
  have "iterM (\<lambda>(_, metadata) tokens. return (False, tokens @ [metadata])) es acc s =
      Ok (fold (\<lambda>e acc. acc @ [snd e]) es acc) s" for es :: "(string \<times> Metadata) list" and acc and s :: "'x ctx"
    by (rule iterM_pure) (simp split: prod.split)
  moreover have "fold (\<lambda>e acc. acc @ [snd e]) es acc = acc @ map snd es" for es :: "(string \<times> Metadata) list" and acc
    by (induction es arbitrary: acc) simp_all
  ultimately show ?thesis
    by (simp add: GetAllCosmosBridgeableTokens_def IterateCosmosBridgeableTokens_def)
qed

lemma tokens_consistent:
  assumes "kv_ok (cosmosBridgeableTokens c)" "assertCosmosBridgeableTokensConsistent k c = Ok u c'"
    and "kv_get (cosmosBridgeableTokens c) d = Some m"
  shows "c' = c \<and> \<not> ContainsEthAddress k (Base m)"
proof -
  have "m \<in> set (map snd (kv_asc (cosmosBridgeableTokens c)))"
    using assms(1,3) kv.asc_get by force
  moreover have "c' = c" "inconsistentTokens k [] (map snd (kv_asc (cosmosBridgeableTokens c))) = None"
    using assms(2) by (simp_all add: assertCosmosBridgeableTokensConsistent_def bind_step [OF GetAllTokens_run] check_Ok)
  ultimately show ?thesis
    using inconsistentTokens_None by blast
qed

lemma setBridgeableToken_Ok:
  assumes "setBridgeableToken k m c = Ok u c'"
  shows "Metadata_Validate k m = None \<and> ValidateStrictDenom k (Base m) = None \<and> \<not> HasPrefix (Base m) GravityDenomPrefix \<and>
    (\<exists>x. SetDenomMetaData k m (others c) = Ok () x \<and>
      c' = c\<lparr>cosmosBridgeableTokens := kv_set (Base m) m (cosmosBridgeableTokens c), others := x\<rparr>)"
  using assms unfolding setBridgeableToken_def SetCosmosBridgeableToken_def GetCosmosBridgeableToken_def
  by (auto simp: bind_Ok check_Ok failIf_Ok liftX_Ok getERC20_Ok Wrap_def)

lemma setTokens_Ok:
  assumes "metadata_laws k"
  shows "forM ms (setBridgeableToken k) c = Ok u c' \<Longrightarrow> distinct (map Base ms) \<Longrightarrow>
    (\<forall>m \<in> set ms. whitelisted k c' m \<and> Metadata_Validate k m = None \<and> ValidateStrictDenom k (Base m) = None \<and>
       \<not> HasPrefix (Base m) GravityDenomPrefix) \<and>
    (\<forall>d. d \<notin> Base ` set ms \<longrightarrow> kv_get (cosmosBridgeableTokens c') d = kv_get (cosmosBridgeableTokens c) d \<and>
       GetDenomMetaData k (others c') d = GetDenomMetaData k (others c) d) \<and>
    (kv_ok (cosmosBridgeableTokens c) \<longrightarrow> kv_ok (cosmosBridgeableTokens c'))"
proof (induction ms arbitrary: c)
  case (Cons m ms)
  from Cons.prems(1) obtain d where step: "setBridgeableToken k m c = Ok () d" and rest: "forM ms (setBridgeableToken k) d = Ok u c'"
    by (auto simp: bind_Ok)
  from setBridgeableToken_Ok [OF step] obtain x where x: "SetDenomMetaData k m (others c) = Ok () x"
      "d = c\<lparr>cosmosBridgeableTokens := kv_set (Base m) m (cosmosBridgeableTokens c), others := x\<rparr>"
      and valid: "Metadata_Validate k m = None" "ValidateStrictDenom k (Base m) = None" "\<not> HasPrefix (Base m) GravityDenomPrefix"
    by blast
  have bank: "GetDenomMetaData k x e = (if e = Base m then Some m else GetDenomMetaData k (others c) e)" for e
    using assms x(1) by (simp add: metadata_laws_def)
  note IH = Cons.IH [OF rest]
  have "Base m \<notin> Base ` set ms" "distinct (map Base ms)"
    using Cons.prems(2) by simp_all
  then show ?case
    using IH valid by (auto simp: x(2) bank whitelisted_def kv_get_set)
qed simp

lemma deleteToken_Ok:
  "deleteBridgeableToken m c = Ok u c' \<longleftrightarrow> kv_get (cosmosBridgeableTokens c) (Base m) = Some m \<and>
     c' = c\<lparr>cosmosBridgeableTokens := kv_del (Base m) (cosmosBridgeableTokens c)\<rparr>"
  by (auto simp: deleteBridgeableToken_def GetCosmosBridgeableToken_def DeleteCosmosBridgeableToken_def metadataEqual_def
      bind_Ok failIf_Ok kv_get_del)

lemma deleteTokens_Ok:
  "forM ms deleteBridgeableToken c = Ok u c' \<Longrightarrow> (\<forall>m \<in> set ms. kv_get (cosmosBridgeableTokens c) (Base m) = Some m) \<and>
     (\<forall>d. kv_get (cosmosBridgeableTokens c') d = (if d \<in> Base ` set ms then None else kv_get (cosmosBridgeableTokens c) d)) \<and>
     (kv_ok (cosmosBridgeableTokens c) \<longrightarrow> kv_ok (cosmosBridgeableTokens c'))"
proof (induction ms arbitrary: c)
  case (Cons m ms)
  let ?d = "c\<lparr>cosmosBridgeableTokens := kv_del (Base m) (cosmosBridgeableTokens c)\<rparr>"
  from Cons.prems have "kv_get (cosmosBridgeableTokens c) (Base m) = Some m" "forM ms deleteBridgeableToken ?d = Ok u c'"
    by (auto simp: bind_Ok deleteToken_Ok)
  with Cons.IH [of ?d] show ?case
    by (auto simp: kv_get_del split: if_splits)
qed simp

lemma keeps_tokens_steps:
  "keeps (\<lambda>c. cosmosBridgeableTokens c = ts) (resetVoter k n s)"
  "keeps (\<lambda>c. cosmosBridgeableTokens c = ts) (DeleteAttestation k att)"
  "keeps (\<lambda>c. cosmosBridgeableTokens c = ts) (sendAirdrop k d e t)"
  "keeps (\<lambda>c. cosmosBridgeableTokens c = ts) (liftX m)"
  unfolding resetVoter_def DeleteAttestation_def SetLastEventNonceByValidator_def sendAirdrop_def Dec_Add_def
  by (intro keeps_rules keeps_modify keeps_liftX; simp)+

lemma keeps_tokens_other:
  "keeps (\<lambda>c. cosmosBridgeableTokens c = ts) (HandleUnhaltBridgeProposal k p)"
  "keeps (\<lambda>c. cosmosBridgeableTokens c = ts) (HandleAirdropProposal k a)"
  unfolding HandleUnhaltBridgeProposal_def pruneAttestationsAfterNonce_def HandleAirdropProposal_def
  by (intro keeps_rules keeps_tokens_steps)+

text \<open>
  C25: every proposal that passes keeps the list of bridgeable tokens well-formed.  After a set proposal each proposed
  token passes the check made before a token crosses the bridge; a delete proposal removes exactly the
  proposed tokens, which were listed with the same metadata; no proposal touches any other entry.
\<close>

theorem bridgeable_token_proposals:
  assumes "metadata_laws k" "allowlist_ok k c" "GravityProposalHandler k content c = Ok u c'"
  shows "allowlist_ok k c' \<and>
    (case content of
       SetCosmosBridgeableTokens ms \<Rightarrow> (\<forall>m \<in> set ms. assertMetadataWhitelisted k (Base m) c' = Ok m c') \<and>
         (\<forall>d. d \<notin> Base ` set ms \<longrightarrow> kv_get (cosmosBridgeableTokens c') d = kv_get (cosmosBridgeableTokens c) d)
     | DeleteCosmosBridgeableTokens ms \<Rightarrow> (\<forall>m \<in> set ms. kv_get (cosmosBridgeableTokens c) (Base m) = Some m) \<and>
         (\<forall>d. kv_get (cosmosBridgeableTokens c') d = (if d \<in> Base ` set ms then None else kv_get (cosmosBridgeableTokens c) d))
     | _ \<Rightarrow> cosmosBridgeableTokens c' = cosmosBridgeableTokens c)"
proof (cases content)
  case (SetCosmosBridgeableTokens ms)
  with assms(3) obtain d where run: "forM ms (setBridgeableToken k) c = Ok () d" "distinct (map Base ms)"
      and final: "assertCosmosBridgeableTokensConsistent k d = Ok () c'"
    by (auto simp: GravityProposalHandler_def HandleSetCosmosBridgeableTokensProposal_def bind_Ok failIf_Ok wrapErr_Ok
        duplicateBase_iff)
  note eff = setTokens_Ok [OF assms(1) run]
  have ok: "kv_ok (cosmosBridgeableTokens d)"
    using eff assms(2) by (simp add: allowlist_ok_def)
  have [simp]: "c' = d"
    using final by (auto simp: assertCosmosBridgeableTokensConsistent_def bind_step [OF GetAllTokens_run] check_Ok)
  have "Base m = e \<and> Metadata_Validate k m = None \<and> ValidateStrictDenom k e = None \<and> \<not> HasPrefix e GravityDenomPrefix \<and>
      \<not> ContainsEthAddress k e" if "kv_get (cosmosBridgeableTokens d) e = Some m" for e m
  proof (cases "e \<in> Base ` set ms")
    case True
    then obtain m' where m': "m' \<in> set ms" "Base m' = e"
      by blast
    with eff that have "m' = m"
      by (force simp: whitelisted_def)
    then have "m \<in> set ms" "Base m = e"
      using m' by simp_all
    moreover from this(1) eff have "Metadata_Validate k m = None" "ValidateStrictDenom k (Base m) = None"
        "\<not> HasPrefix (Base m) GravityDenomPrefix"
      by blast+
    ultimately show ?thesis
      using tokens_consistent [OF ok final that] by simp
  next
    case False
    with eff that have "kv_get (cosmosBridgeableTokens c) e = Some m"
      by metis
    with assms(2) show ?thesis
      by (simp add: allowlist_ok_def)
  qed
  then have "allowlist_ok k d"
    using ok by (simp only: allowlist_ok_def) blast
  moreover have "\<forall>m \<in> set ms. assertMetadataWhitelisted k (Base m) d = Ok m d"
    using eff unfolding assertMetadataWhitelisted_iff whitelisted_def by blast
  ultimately show ?thesis
    using eff by (simp only: SetCosmosBridgeableTokens GravityProposal.case \<open>c' = d\<close>) blast
next
  case (DeleteCosmosBridgeableTokens ms)
  with assms(3) obtain d where run: "forM ms deleteBridgeableToken c = Ok () d"
      and final: "assertCosmosBridgeableTokensConsistent k d = Ok () c'"
    by (auto simp: GravityProposalHandler_def HandleDeleteCosmosBridgeableTokensProposal_def bind_Ok failIf_Ok wrapErr_Ok)
  have [simp]: "c' = d"
    using final by (auto simp: assertCosmosBridgeableTokensConsistent_def bind_step [OF GetAllTokens_run] check_Ok)
  from deleteTokens_Ok [OF run] assms(2) show ?thesis
    by (simp add: DeleteCosmosBridgeableTokens allowlist_ok_def)
next
  case (UnhaltBridge p)
  with assms(3) have "HandleUnhaltBridgeProposal k p c = Ok u c'"
    by (simp add: GravityProposalHandler_def)
  from keeps_Ok [OF keeps_tokens_other(1) refl this] show ?thesis
    using assms(2) UnhaltBridge by (simp add: allowlist_ok_def)
next
  case (Airdrop p)
  with assms(3) have "HandleAirdropProposal k p c = Ok u c'"
    by (simp add: GravityProposalHandler_def)
  from keeps_Ok [OF keeps_tokens_other(2) refl this] show ?thesis
    using assms(2) Airdrop by (simp add: allowlist_ok_def)
next
  case OtherProposal
  with assms(3) show ?thesis
    by (simp add: GravityProposalHandler_def)
qed

section \<open>The parameters stay valid\<close>

lemma Params_ValidateBasic_None:
  assumes "Params_ValidateBasic k p = None"
  shows "validateBridgeContractAddress k (BridgeEthereumAddress p) = None"
    and "validateEthereumBlacklistAddresses k (EthereumBlacklist p) = None"
    and "60000 \<le> TargetBatchTimeout p" "100 \<le> AverageBlockTime p" "100 \<le> AverageEthereumBlockTime p"
    and "MinChainFeeBasisPoints p \<le> 10000" "0 \<le> ChainFeeAuctionPoolFraction p" "ChainFeeAuctionPoolFraction p \<le> Dec_one"
    and "length (GravityId p) \<le> 32"
  using assms unfolding Params_ValidateBasic_def firstError_None
  by (auto simp: Wrap_None validateTargetBatchTimeout_def validateAverageBlockTime_def validateAverageEthereumBlockTime_def
      validateMinChainFeeBasisPoints_def validateChainFeeAuctionPoolFraction_def validateGravityID_def strToFixByteArray_def
      ifError_def firstError_None not_less split: if_splits)

lemma blacklist_valid:
  "validateEthereumBlacklistAddresses k ss = None \<Longrightarrow> list_all (\<lambda>s. \<not> isl (NewEthAddress k s)) ss"
  by (induction ss) (auto simp: NewEthAddress_def split: option.splits)

lemma ValidateEthAddress_empty: "ValidateEthAddress k a = Some (ErrorMsg ''empty'') \<longleftrightarrow> a = []"
  by (simp add: ValidateEthAddress_def Let_def)

lemma updated_params:
  assumes "UpdateParamsProposal k authority us c = Ok u c'"
  obtains p p' where "authority = GetAuthority k" "paramsStore c = Some p" "updateParams k us p = Inr p'"
    "c' = c\<lparr>paramsStore := Some p'\<rparr>" "Params_ValidateBasic k p' = None" "params_ok k c' \<or> BridgeEthereumAddress p' = []"
proof -
  obtain p p' where run: "authority = GetAuthority k" "paramsStore c = Some p" "updateParams k us p = Inr p'"
      "c' = c\<lparr>paramsStore := Some p'\<rparr>" and valid: "Params_ValidateBasic k p' = None"
    using assms unfolding UpdateParamsProposal_def requireAuthority_def SetParams_def
    by (auto simp: bind_Ok failIf_Ok wrapErr_Ok lift_Ok check_Ok GetParams_Ok)
  note checks = Params_ValidateBasic_None [OF valid]
  have "\<not> isl (NewEthAddress k (BridgeEthereumAddress p')) \<or> BridgeEthereumAddress p' = []"
    using checks(1) ValidateEthAddress_empty
    by (auto simp: validateBridgeContractAddress_def NewEthAddress_def split: option.splits if_splits)
  then have "params_ok k c' \<or> BridgeEthereumAddress p' = []"
    using blacklist_valid [OF checks(2)] by (auto simp: params_ok_def run(4))
  with run valid that show ?thesis
    by blast
qed


text \<open>
  An operation that cannot succeed from any state in \<open>I\<close>.
\<close>

definition stuck :: "('s \<Rightarrow> bool) \<Rightarrow> ('s, 'a) op \<Rightarrow> bool" where
  "stuck I m \<longleftrightarrow> (\<forall>s a t. I s \<longrightarrow> m s \<noteq> Ok a t)"

lemma stuck_bind:
  assumes "keeps I m" "\<And>a. stuck I (f a)"
  shows "stuck I (bind m f)"
  unfolding stuck_def
proof (intro allI impI notI)
  fix s b u assume "I s" "bind m f s = Ok b u"
  then obtain a t where "m s = Ok a t" "f a t = Ok b u"
    by (auto simp: bind_Ok)
  with keeps_Ok [OF assms(1) \<open>I s\<close>] assms(2) [of a] show False
    by (simp add: stuck_def)
qed

lemma stuck_fail: "stuck I (fail e)"
  by (simp add: stuck_def)

lemma stuck_case_option: "stuck I n \<Longrightarrow> (\<And>a. stuck I (f a)) \<Longrightarrow> stuck I (case x of None \<Rightarrow> n | Some a \<Rightarrow> f a)"
  by (simp split: option.split)

definition no_bridge_address :: "'x ctx \<Rightarrow> bool" where
  "no_bridge_address c \<longleftrightarrow> (\<exists>p. paramsStore c = Some p \<and> BridgeEthereumAddress p = [])"

lemma stuck_emit: "stuck no_bridge_address (emitBridgeEvent k)"
  by (auto simp: stuck_def no_bridge_address_def emitBridgeEvent_Ok NewEthAddress_def ValidateEthAddress_def)

lemmas stuck_rules = stuck_bind stuck_case_option stuck_fail stuck_emit

lemma keeps_no_bridge_address:
  "keeps no_bridge_address (addUnbatchedTX k tx)" "keeps no_bridge_address (removeUnbatchedTX fee i)"
  "keeps no_bridge_address (DeleteBatch k b)" "keeps no_bridge_address (DeleteBatchConfirms k b)"
  "keeps no_bridge_address (liftX m)"
  unfolding addUnbatchedTX_def removeUnbatchedTX_def DeleteBatch_def DeleteBatchConfirms_def batchConfirmKey_def
  by (intro keeps_rules keeps_modify keeps_liftX; simp add: no_bridge_address_def)+

lemma no_cancel_no_refund:
  "stuck no_bridge_address (CancelOutgoingTXBatch k contract n)"
  "stuck no_bridge_address (RemoveFromOutgoingPoolAndRefund k i sender)"
  unfolding CancelOutgoingTXBatch_def RemoveFromOutgoingPoolAndRefund_def
  by (intro stuck_rules keeps_rules keeps_no_bridge_address)+

text \<open>
  C27: the validation accepts an empty address of the bridge contract, which the update stores; every later read of
  the address panics, so no batch can be cancelled and no transfer refunded.
\<close>

theorem empty_bridge_address_accepted:
  assumes "paramsStore c = Some p" "Params_ValidateBasic k p = None"
  shows "\<exists>c'. UpdateParamsProposal k (GetAuthority k) [\<lparr>Param_Key = ''BridgeEthereumAddress'', Param_Value = []\<rparr>] c = Ok () c' \<and>
    GetBridgeContractAddress k c' = Panic ''failed to parse bridge ethereum address'' \<and>
    (\<forall>contract n u d. CancelOutgoingTXBatch k contract n c' \<noteq> Ok u d) \<and>
    (\<forall>i sender u d. RemoveFromOutgoingPoolAndRefund k i sender c' \<noteq> Ok u d)"
proof -
  let ?p = "p\<lparr>BridgeEthereumAddress := []\<rparr>"
  let ?c = "c\<lparr>paramsStore := Some ?p\<rparr>"
  have "Params_ValidateBasic k ?p = None"
    using assms(2) unfolding Params_ValidateBasic_def firstError_None
    by (simp add: validateBridgeContractAddress_def ValidateEthAddress_def)
  moreover have params: "wrapErr ''could not get current params'' (GetParams k) c = Ok p c"
    by (simp add: wrapErr_Ok GetParams_Ok assms(1))
  ultimately have run: "UpdateParamsProposal k (GetAuthority k) [\<lparr>Param_Key = ''BridgeEthereumAddress'', Param_Value = []\<rparr>] c = Ok () ?c"
    by (simp add: UpdateParamsProposal_def requireAuthority_def updateParam_def SetParams_def
        bind_step [where m = "wrapErr ''could not get current params'' (GetParams k)" and s = c, OF params])
  have params: "MustGetParams k ?c = Ok ?p ?c"
    by (simp add: MustGetParams_Ok)
  have "GetBridgeContractAddress k ?c = Panic ''failed to parse bridge ethereum address''"
    by (simp add: GetBridgeContractAddress_def bind_step [where m = "MustGetParams k" and s = ?c, OF params] NewEthAddress_def ValidateEthAddress_def)
  moreover have "no_bridge_address ?c"
    by (simp add: no_bridge_address_def)
  then have "CancelOutgoingTXBatch k contract n ?c \<noteq> Ok u d" "RemoveFromOutgoingPoolAndRefund k i sender ?c \<noteq> Ok u d"
    for contract n i sender u d
    using no_cancel_no_refund unfolding stuck_def by blast+
  ultimately show ?thesis
    using run by (intro exI [of _ ?c]) simp
qed

end
