(* ===== verification/MsgServer.thy ===== *)
theory MsgServer
  imports Governance AuctionFunds
begin

text \<open>
  The message server (\<open>x/gravity/keeper/msg_server.go\<close>) and the stateless checks of its messages
  (\<open>x/gravity/types/msgs.go\<close>): delegate keys, confirmations, transfers to Ethereum and their fees, batch
  requests, claims, forwards, refunds and evidence.  The theorems: delegate keys stay a bijection, a confirmation
  is stored only under a valid signature over the stored object, a transfer to Ethereum escrows its amount
  and collects the required fee.  Logging and events are left out; a protobuf \<open>Any\<close> holds the message itself.
\<close>

section \<open>Messages\<close>

record MsgSendToEth =
  STE_Sender :: string
  EthDest :: string
  STE_Amount :: Coin
  BridgeFee :: Coin
  ChainFee :: Coin

definition MsgSetOrchestratorAddress_ValidateBasic :: "'a libs_scheme \<Rightarrow> MsgSetOrchestratorAddress \<Rightarrow> error option" where
  "MsgSetOrchestratorAddress_ValidateBasic k msg = firstError [
     badAddress (AccAddressFromBech32 k (SOA_Validator msg)),
     badAddress (AccAddressFromBech32 k (SOA_Orchestrator msg)),
     Wrap (ValidateEthAddress k (SOA_EthAddress msg)) ''ethereum address'']"

definition MsgValsetConfirm_ValidateBasic :: "'a libs_scheme \<Rightarrow> MsgValsetConfirm \<Rightarrow> error option" where
  "MsgValsetConfirm_ValidateBasic k msg = firstError [
     badAddress (AccAddressFromBech32 k (ValsetConfirm_Orchestrator msg)),
     Wrap (ValidateEthAddress k (ValsetConfirm_EthAddress msg)) ''ethereum address'']"

definition invalidCoins :: "bool \<Rightarrow> string \<Rightarrow> error option" where
  "invalidCoins b msg = (if b then Some (Wrapped (SdkErr ''ErrInvalidCoins'') msg) else None)"

definition MsgSendToEth_ValidateBasic :: "'a libs_scheme \<Rightarrow> MsgSendToEth \<Rightarrow> error option" where
  "MsgSendToEth_ValidateBasic k msg = firstError [
     Wrap (ValidateStrictDenom k (Coin_Denom (STE_Amount msg))) ''amount denom'',
     Wrap (ValidateStrictDenom k (Coin_Denom (BridgeFee msg))) ''bridge fee denom'',
     Wrap (ValidateStrictDenom k (Coin_Denom (ChainFee msg))) ''chain fee denom'',
     badAddress (AccAddressFromBech32 k (STE_Sender msg)),
     invalidCoins (Coin_Denom (STE_Amount msg) \<noteq> Coin_Denom (BridgeFee msg)) ''bridge fee and amount must be the same type'',
     invalidCoins (Coin_Denom (STE_Amount msg) \<noteq> Coin_Denom (ChainFee msg)) ''chain fee and amount must be the same type'',
     invalidCoins (\<not> Coin_IsValid k (STE_Amount msg) \<or> Coin_Amount (STE_Amount msg) = 0) ''amount'',
     invalidCoins (\<not> Coin_IsValid k (BridgeFee msg)) ''bridge fee'',
     invalidCoins (\<not> Coin_IsValid k (ChainFee msg)) ''chain fee'',
     Wrap (ValidateEthAddress k (EthDest msg)) ''ethereum address'']"

record MsgRequestBatch =
  RB_Sender :: string
  RB_Denom :: string

definition MsgRequestBatch_ValidateBasic :: "'a libs_scheme \<Rightarrow> MsgRequestBatch \<Rightarrow> error option" where
  "MsgRequestBatch_ValidateBasic k msg = firstError [
     badAddress (AccAddressFromBech32 k (RB_Sender msg)),
     Wrap (ValidateStrictDenom k (RB_Denom msg)) ''denom'']"

definition MsgConfirmBatch_ValidateBasic :: "'a libs_scheme \<Rightarrow> MsgConfirmBatch \<Rightarrow> error option" where
  "MsgConfirmBatch_ValidateBasic k msg = firstError [
     badAddress (AccAddressFromBech32 k (ConfirmBatch_Orchestrator msg)),
     Wrap (ValidateEthAddress k (ConfirmBatch_EthSigner msg)) ''eth signer'',
     Wrap (ValidateEthAddress k (ConfirmBatch_TokenContract msg)) ''token contract'',
     (if DecodeString (ConfirmBatch_Signature msg) = None then Some (Wrapped ErrInvalidClaim ''could not decode hex string'') else None)]"

definition badHex :: "string \<Rightarrow> error option" where
  "badHex s = (if DecodeString s = None then Some (Wrapped (SdkErr ''ErrUnknownRequest'') ''Could not decode hex string'') else None)"

definition MsgConfirmLogicCall_ValidateBasic :: "'a libs_scheme \<Rightarrow> MsgConfirmLogicCall \<Rightarrow> error option" where
  "MsgConfirmLogicCall_ValidateBasic k msg = firstError [
     badAddress (AccAddressFromBech32 k (ConfirmLogic_Orchestrator msg)),
     Wrap (ValidateEthAddress k (ConfirmLogic_EthSigner msg)) ''eth signer'',
     badHex (ConfirmLogic_Signature msg), badHex (ConfirmLogic_InvalidationId msg)]"

definition errorOf :: "error + 'v \<Rightarrow> error option" where
  "errorOf r = (case r of Inl e \<Rightarrow> Some e | Inr _ \<Rightarrow> None)"

record MsgExecuteIbcAutoForwards =
  ForwardsToClear :: uint64
  Executor :: string

definition MsgExecuteIbcAutoForwards_ValidateBasic :: "'a libs_scheme \<Rightarrow> MsgExecuteIbcAutoForwards \<Rightarrow> error option" where
  "MsgExecuteIbcAutoForwards_ValidateBasic k msg =
     Wrap (errorOf (AccAddressFromBech32 k (Executor msg))) ''Unable to parse executor as a valid bech32 address''"

record MsgCancelSendToEth =
  TransactionId :: uint64
  Cancel_Sender :: string

definition MsgCancelSendToEth_ValidateBasic :: "'a libs_scheme \<Rightarrow> MsgCancelSendToEth \<Rightarrow> error option" where
  "MsgCancelSendToEth_ValidateBasic k msg = errorOf (AccAddressFromBech32 k (Cancel_Sender msg))"

section \<open>Delegate keys\<close>

fun checkDuplicateKeys :: "'x Keeper \<Rightarrow> EthAddress \<Rightarrow> AccAddress \<Rightarrow> MsgSetOrchestratorAddress list \<Rightarrow> ('x, unit) gop" where
  "checkDuplicateKeys k ethAddr orch [] = return ()"
| "checkDuplicateKeys k ethAddr orch (key # delegateKeys) =
     (if SOA_EthAddress key = Hex k ethAddr then fail ErrDuplicateEthereumKey
      else if SOA_Orchestrator key = AccAddress_String k orch then fail ErrDuplicateOrchestratorKey
      else checkDuplicateKeys k ethAddr orch delegateKeys)"

text \<open>An address that does not parse after validation makes the handler wrap the nil error of the validation: success.\<close>

definition SetOrchestratorAddress :: "'x Keeper \<Rightarrow> MsgSetOrchestratorAddress \<Rightarrow> ('x, unit) gop" where
  "SetOrchestratorAddress k msg =
     bind (check (Wrap (MsgSetOrchestratorAddress_ValidateBasic k msg) ''Key not valid'')) (\<lambda>_.
       case (AccAddressFromBech32 k (SOA_Validator msg), AccAddressFromBech32 k (SOA_Orchestrator msg), NewEthAddress k (SOA_EthAddress msg)) of
         (Inr val, Inr orch, Inr ethAddr) \<Rightarrow>
           bind (reads (\<lambda>ctx. StakingValidator k (others ctx) val)) (\<lambda>validator.
           bind (failIf (case validator of Inl _ \<Rightarrow> True | Inr v \<Rightarrow> v = None)
                   (Wrapped (SdkErr ''ErrNoValidatorFound'') (ValAddress_String k val))) (\<lambda>_.
           bind (GetOrchestratorValidator k orch) (\<lambda>existingOrchestratorKey.
           bind (GetEthAddressByValidator k val) (\<lambda>existingEthAddress.
           bind (failIf (existingOrchestratorKey \<noteq> None \<or> existingEthAddress \<noteq> None)
                   (Wrapped ErrResetDelegateKeys (ValAddress_String k val))) (\<lambda>_.
           bind (GetDelegateKeys k) (\<lambda>delegateKeys.
           bind (checkDuplicateKeys k ethAddr orch delegateKeys) (\<lambda>_.
           bind (SetOrchestratorValidator k val orch) (\<lambda>_.
             SetEthAddressForValidator k val ethAddr))))))))
       | _ \<Rightarrow> return ())"

section \<open>Confirmations\<close>

definition confirmHandlerCommon ::
  "'x Keeper \<Rightarrow> string \<Rightarrow> AccAddress \<Rightarrow> string \<Rightarrow> bytes \<Rightarrow> ('x, unit) gop" where
  "confirmHandlerCommon k ethAddress orchestrator signature checkpoint =
     (case DecodeString signature of
        None \<Rightarrow> fail (Wrapped ErrInvalid ''signature decoding'')
      | Some sigBytes \<Rightarrow>
          bind (mapErr (\<lambda>_. Wrapped ErrInvalid ''invalid eth address'') (lift (NewEthAddress k ethAddress))) (\<lambda>submittedEthAddress.
          bind (GetOrchestratorValidator k orchestrator) (\<lambda>found.
            case found of
              None \<Rightarrow> fail (Wrapped ErrUnknown ''validator'')
            | Some validator \<Rightarrow>
                bind (failIf (\<not> IsBonded validator \<and> \<not> IsUnbonding validator) (Wrapped ErrInvalid ''validator is unbonded'')) (\<lambda>_.
                bind (mapErr (\<lambda>_. Wrapped (SdkErr ''ErrInvalidAddress'') ''operator address'')
                        (lift (ValAddressFromBech32 k (Operator validator)))) (\<lambda>operator.
                bind (check (Wrap (VerifyAddressFormat k operator) ''discovered invalid validator address for orchestrator'')) (\<lambda>_.
                bind (GetEthAddressByValidator k operator) (\<lambda>stored.
                  case stored of
                    None \<Rightarrow> fail (Wrapped ErrEmpty ''no eth address set for validator'')
                  | Some ethAddressFromStore \<Rightarrow>
                      bind (failIf (ethAddressFromStore \<noteq> submittedEthAddress)
                              (Wrapped ErrInvalid ''submitted eth address does not match delegate eth address'')) (\<lambda>_.
                        mapErr (\<lambda>_. Wrapped ErrInvalid ''signature verification failed'')
                          (ValidateEthereumSignature k checkpoint sigBytes ethAddressFromStore)))))))))"

definition accAddress :: "'x Keeper \<Rightarrow> string \<Rightarrow> ('x, AccAddress) gop" where
  "accAddress k s = mapErr (\<lambda>_. Wrapped ErrInvalid ''acc address invalid'') (lift (AccAddressFromBech32 k s))"

definition ValsetConfirm :: "'x Keeper \<Rightarrow> MsgValsetConfirm \<Rightarrow> ('x, unit) gop" where
  "ValsetConfirm k msg =
     bind (GetValset (ValsetConfirm_Nonce msg)) (\<lambda>found.
       case found of
         None \<Rightarrow> fail (Wrapped ErrInvalid ''couldn't find valset'')
       | Some valset \<Rightarrow>
           bind (GetGravityID k) (\<lambda>gravityID.
           bind (Valset_GetCheckpoint k valset gravityID) (\<lambda>checkpoint.
           bind (accAddress k (ValsetConfirm_Orchestrator msg)) (\<lambda>orchaddr.
           bind (confirmHandlerCommon k (ValsetConfirm_EthAddress msg) orchaddr (ValsetConfirm_Signature msg) checkpoint) (\<lambda>_.
           bind (GetValsetConfirm k (ValsetConfirm_Nonce msg) orchaddr) (\<lambda>existing.
           bind (failIf (existing \<noteq> None) (Wrapped ErrDuplicate ''signature duplicate'')) (\<lambda>_.
           bind (SetValsetConfirm k msg) (\<lambda>_. return ()))))))))"

text \<open>The check that a cosmos-originated asset is on the list of bridgeable tokens.\<close>

definition requireWhitelisted :: "'x Keeper \<Rightarrow> AssetOrigin \<Rightarrow> string \<Rightarrow> string \<Rightarrow> ('x, unit) gop" where
  "requireWhitelisted k origin denom msg =
     (if Origin origin = AssetOriginCosmos
      then bind (wrapErr msg (assertMetadataWhitelisted k denom)) (\<lambda>_. return ())
      else return ())"

definition ethContract :: "'x Keeper \<Rightarrow> string \<Rightarrow> ('x, EthAddress) gop" where
  "ethContract k s = mapErr (\<lambda>_. Wrapped ErrInvalid ''eth address invalid'') (lift (NewEthAddress k s))"

definition ConfirmBatch :: "'x Keeper \<Rightarrow> MsgConfirmBatch \<Rightarrow> ('x, unit) gop" where
  "ConfirmBatch k msg =
     bind (check (Wrap (MsgConfirmBatch_ValidateBasic k msg) ''invalid MsgConfirmBatch'')) (\<lambda>_.
     bind (ethContract k (ConfirmBatch_TokenContract msg)) (\<lambda>contract.
     bind (wrapErr ''failed to classify ERC20 in ConfirmBatch'' (ClassifyERC20 k contract)) (\<lambda>contractOrigin.
     bind (requireWhitelisted k contractOrigin (Denom contractOrigin) ''token not whitelisted for ConfirmBatch'') (\<lambda>_.
     bind (GetOutgoingTXBatch k contract (ConfirmBatch_Nonce msg)) (\<lambda>found.
       case found of
         None \<Rightarrow> fail (Wrapped ErrInvalid ''couldn't find batch'')
       | Some batch \<Rightarrow>
           bind (GetGravityID k) (\<lambda>gravityID.
           bind (InternalOutgoingTxBatch_GetCheckpoint k batch gravityID) (\<lambda>checkpoint.
           bind (accAddress k (ConfirmBatch_Orchestrator msg)) (\<lambda>orchaddr.
           bind (confirmHandlerCommon k (ConfirmBatch_EthSigner msg) orchaddr (ConfirmBatch_Signature msg) checkpoint) (\<lambda>_.
           bind (GetBatchConfirm k (ConfirmBatch_Nonce msg) contract orchaddr) (\<lambda>existing.
           bind (failIf (existing \<noteq> None) (Wrapped ErrDuplicate ''duplicate signature'')) (\<lambda>_.
           bind (SetBatchConfirm k msg) (\<lambda>_. return ()))))))))))))"

text \<open>\<open>GetOutgoingLogicCall\<close> never returns nil, so the branch for a missing call is dead.\<close>

definition ConfirmLogicCall :: "'x Keeper \<Rightarrow> MsgConfirmLogicCall \<Rightarrow> ('x, unit) gop" where
  "ConfirmLogicCall k msg =
     bind (RequireBridgeActive k) (\<lambda>_.
       case DecodeString (ConfirmLogic_InvalidationId msg) of
         None \<Rightarrow> fail (Wrapped ErrInvalid ''invalidation id encoding'')
       | Some invalidationId \<Rightarrow>
           bind (GetOutgoingLogicCall invalidationId (ConfirmLogic_InvalidationNonce msg)) (\<lambda>logic.
           bind (GetGravityID k) (\<lambda>gravityID.
           bind (OutgoingLogicCall_GetCheckpoint k logic gravityID) (\<lambda>checkpoint.
           bind (accAddress k (ConfirmLogic_Orchestrator msg)) (\<lambda>orchaddr.
           bind (confirmHandlerCommon k (ConfirmLogic_EthSigner msg) orchaddr (ConfirmLogic_Signature msg) checkpoint) (\<lambda>_.
           bind (GetLogicCallConfirm k invalidationId (ConfirmLogic_InvalidationNonce msg) orchaddr) (\<lambda>existing.
           bind (failIf (existing \<noteq> None) (Wrapped ErrDuplicate ''duplicate signature'')) (\<lambda>_.
             SetLogicCallConfirm k msg))))))))"

section \<open>Transfers to Ethereum\<close>

definition BasisPointDivisor :: uint64 where
  "BasisPointDivisor = 10000"

definition minChainFee :: "'x Keeper \<Rightarrow> int \<Rightarrow> int \<Rightarrow> ('x, int) gop" where
  "minChainFee k amount minFeeBasisPoints =
     bind (Dec_MulInt64 k (Dec_QuoInt64 (Dec_FromInt amount) (sint BasisPointDivisor)) minFeeBasisPoints) (\<lambda>d.
       return (Dec_TruncateInt d))"

text \<open>The zero \<open>Coin\<close> has no amount at all, so the second comparison decides whether a fee is collected.\<close>

definition collectChainFee :: "'x Keeper \<Rightarrow> Params option \<Rightarrow> bool \<Rightarrow> AccAddress \<Rightarrow> Coin \<Rightarrow> ('x, unit) gop" where
  "collectChainFee k params auctionable sender chainFee =
     bind (if auctionable then
             (case params of
                None \<Rightarrow> panic ''nil pointer dereference''
              | Some p \<Rightarrow>
                  bind (Dec_Mul k (ChainFeeAuctionPoolFraction p) (Dec_FromInt (Coin_Amount chainFee))) (\<lambda>share.
                  (let poolFee = Dec_TruncateInt share in
                  bind (Int_Sub k (Coin_Amount chainFee) poolFee) (\<lambda>stakerFee.
                  bind (NewCoin k (Coin_Denom chainFee) poolFee) (\<lambda>coin.
                  bind (sdk_NewCoins k [coin]) (\<lambda>coins.
                  bind (liftX (SendCoinsFromAccountToModule k sender AuctionPoolAccountName coins)) (\<lambda>_.
                    return stakerFee)))))))
           else return (Coin_Amount chainFee)) (\<lambda>stakerFee.
     bind (NewCoin k (Coin_Denom chainFee) stakerFee) (\<lambda>coin.
     bind (sdk_NewCoins k [coin]) (\<lambda>coins.
       liftX (DeductFees k sender coins))))"

definition checkAndDeductSendToEthFees :: "'x Keeper \<Rightarrow> AccAddress \<Rightarrow> Coin \<Rightarrow> Coin \<Rightarrow> ('x, unit) gop" where
  "checkAndDeductSendToEthFees k sender sendAmount chainFee =
     bind (attempt (GetParamsIfSet k)) (\<lambda>r.
     (let params = (case r of Inl _ \<Rightarrow> None | Inr p \<Rightarrow> Some p);
          minFeeBasisPoints = (case params of None \<Rightarrow> 0 | Some p \<Rightarrow> sint (MinChainFeeBasisPoints p)) in
     bind (minChainFee k (Coin_Amount sendAmount) minFeeBasisPoints) (\<lambda>minFee.
     bind (if minFee > 0 then
             bind (NewCoin k (Coin_Denom sendAmount) minFee) (\<lambda>minFeeCoin.
             bind (Coin_IsLT chainFee minFeeCoin) (\<lambda>low.
               failIf low (Wrapped (SdkErr ''ErrInsufficientFee'') ''chain fee provided is insufficient'')))
           else return ()) (\<lambda>_.
     bind (IsDenomAuctionable k (Coin_Denom chainFee)) (\<lambda>auctionable.
       if Coin_Amount chainFee > 0 then collectChainFee k params auctionable sender chainFee else return ())))))"

definition derefERC20 :: "AssetOrigin \<Rightarrow> ('x, EthAddress) gop" where
  "derefERC20 origin = (case ERC20 origin of None \<Rightarrow> panic ''nil pointer dereference'' | Some a \<Rightarrow> return a)"

definition SendToEth :: "'x Keeper \<Rightarrow> MsgSendToEth \<Rightarrow> ('x, unit) gop" where
  "SendToEth k msg =
     (let amount = STE_Amount msg; bridgeFee = BridgeFee msg; chainFee = ChainFee msg in
     bind (RequireBridgeActive k) (\<lambda>_.
     bind (check (Wrap (ValidateStrictDenom k (Coin_Denom amount)) ''invalid amount denom'')) (\<lambda>_.
     bind (check (Wrap (ValidateStrictDenom k (Coin_Denom bridgeFee)) ''invalid bridge fee denom'')) (\<lambda>_.
     bind (check (Wrap (ValidateStrictDenom k (Coin_Denom chainFee)) ''invalid chain fee denom'')) (\<lambda>_.
     bind (failIf (Coin_Denom amount \<noteq> Coin_Denom bridgeFee \<or> Coin_Denom amount \<noteq> Coin_Denom chainFee)
             (Wrapped ErrInvalid ''amount, bridge fee, and chain fee must all be the same denom'')) (\<lambda>_.
     bind (wrapErr ''failed to classify amount denom'' (ClassifyDenom k (Coin_Denom amount))) (\<lambda>amountOrigin.
     bind (requireWhitelisted k amountOrigin (Coin_Denom amount) ''token not whitelisted for SendToEth'') (\<lambda>_.
     bind (wrapErr ''invalid sender'' (lift (AccAddressFromBech32 k (STE_Sender msg)))) (\<lambda>sender.
     bind (wrapErr ''invalid eth dest'' (lift (NewEthAddress k (EthDest msg)))) (\<lambda>dest.
     bind (derefERC20 amountOrigin) (\<lambda>erc20.
     bind (InvalidSendToEthAddress k dest erc20) (\<lambda>invalid.
     bind (failIf invalid (Wrapped ErrInvalid ''destination address is invalid or blacklisted'')) (\<lambda>_.
     bind (wrapErr ''Could not deduct chainFee from account'' (checkAndDeductSendToEthFees k sender amount chainFee)) (\<lambda>_.
     bind (wrapErr ''Could not add to outgoing pool'' (AddToOutgoingPool k sender dest amount bridgeFee)) (\<lambda>_.
       return ())))))))))))))))"

definition CancelSendToEth :: "'x Keeper \<Rightarrow> MsgCancelSendToEth \<Rightarrow> ('x, unit) gop" where
  "CancelSendToEth k msg =
     bind (lift (AccAddressFromBech32 k (Cancel_Sender msg))) (\<lambda>sender.
       RemoveFromOutgoingPoolAndRefund k (TransactionId msg) sender)"

definition RequestBatch :: "'x Keeper \<Rightarrow> MsgRequestBatch \<Rightarrow> ('x, unit) gop" where
  "RequestBatch k msg =
     bind (RequireBridgeActive k) (\<lambda>_.
     bind (check (Wrap (ValidateStrictDenom k (RB_Denom msg)) ''invalid denom in request batch'')) (\<lambda>_.
     bind (wrapErr ''failed to classify denom in request batch'' (ClassifyDenom k (RB_Denom msg))) (\<lambda>batchOrigin.
     bind (requireWhitelisted k batchOrigin (RB_Denom msg) ''token not whitelisted for RequestBatch'') (\<lambda>_.
     bind (derefERC20 batchOrigin) (\<lambda>erc20.
     bind (wrapErr ''Could not build outgoing tx batch'' (BuildOutgoingTXBatch k erc20 OutgoingTxBatchSize)) (\<lambda>_.
       return ()))))))"

section \<open>Claims\<close>

definition checkOrchestratorValidatorInSet :: "'x Keeper \<Rightarrow> string \<Rightarrow> ('x, unit) gop" where
  "checkOrchestratorValidatorInSet k orchestrator =
     bind (accAddress k orchestrator) (\<lambda>orchaddr.
     bind (GetOrchestratorValidator k orchaddr) (\<lambda>found.
       case found of
         None \<Rightarrow> fail (Wrapped ErrUnknown ''validator'')
       | Some validator \<Rightarrow>
           bind (mapErr (\<lambda>_. Wrapped (SdkErr ''ErrInvalidAddress'') ''operator address'')
                   (lift (ValAddressFromBech32 k (Operator validator)))) (\<lambda>operator.
           bind (reads (\<lambda>ctx. StakingValidator k (others ctx) operator)) (\<lambda>val.
             failIf (case val of Inr (Some v) \<Rightarrow> \<not> IsBonded v | _ \<Rightarrow> True)
               (Wrapped (SdkErr ''ErrorInvalidSigner'') ''validator not in active set'')))))"

definition claimHandlerCommon :: "'x Keeper \<Rightarrow> EthereumClaim \<Rightarrow> EthereumClaim \<Rightarrow> ('x, unit) gop" where
  "claimHandlerCommon k msgAny msg =
     bind (RequireBridgeActive k) (\<lambda>_.
     bind (check (ValidateClaimFieldLengths k msg)) (\<lambda>_.
     bind (wrapErr ''create attestation'' (Attest k msg msgAny)) (\<lambda>_.
     bind (wrapErr ''unable to compute claim hash'' (lift (ClaimHash k msg))) (\<lambda>_. return ()))))"

definition requireContract :: "'x Keeper \<Rightarrow> string \<Rightarrow> string \<Rightarrow> string \<Rightarrow> ('x, unit) gop" where
  "requireContract k tokenContract classifyMsg whitelistMsg =
     bind (ethContract k tokenContract) (\<lambda>contract.
     bind (wrapErr classifyMsg (ClassifyERC20 k contract)) (\<lambda>contractOrigin.
       requireWhitelisted k contractOrigin (Denom contractOrigin) whitelistMsg))"

definition msg_SendToCosmosClaim :: "'x Keeper \<Rightarrow> MsgSendToCosmosClaim \<Rightarrow> ('x, unit) gop" where
  "msg_SendToCosmosClaim k msg =
     bind (RequireBridgeActive k) (\<lambda>_.
     bind (wrapErr ''Could not check orchstrator validator inset'' (checkOrchestratorValidatorInSet k (STC_Orchestrator msg))) (\<lambda>_.
     bind (requireContract k (STC_TokenContract msg) ''failed to classify ERC20 in SendToCosmosClaim''
             ''token not whitelisted for SendToCosmos'') (\<lambda>_.
       claimHandlerCommon k (SendToCosmosClaim msg) (SendToCosmosClaim msg))))"

definition additionalPatchChecks :: "'x Keeper \<Rightarrow> MsgBatchSendToEthClaim \<Rightarrow> ('x, unit) gop" where
  "additionalPatchChecks k msg =
     bind (orPanic ''Invalid TokenContract on MsgBatchSendToEthClaim'' (lift (NewEthAddress k (BSE_TokenContract msg)))) (\<lambda>contractAddress.
     bind (GetOutgoingTXBatch k contractAddress (BSE_BatchNonce msg)) (\<lambda>found.
       case found of
         None \<Rightarrow> return ()
       | Some b \<Rightarrow> panicIf (BatchTimeout b \<le> BSE_EthBlockHeight msg) ''batch submitted after it timed out''))"

definition msg_BatchSendToEthClaim :: "'x Keeper \<Rightarrow> MsgBatchSendToEthClaim \<Rightarrow> ('x, unit) gop" where
  "msg_BatchSendToEthClaim k msg =
     bind (RequireBridgeActive k) (\<lambda>_.
     bind (wrapErr ''Could not check orchestrator validator'' (checkOrchestratorValidatorInSet k (BSE_Orchestrator msg))) (\<lambda>_.
     bind (additionalPatchChecks k msg) (\<lambda>_.
     bind (requireContract k (BSE_TokenContract msg) ''failed to classify ERC20 in BatchSendToEthClaim''
             ''token not whitelisted for SendToEth'') (\<lambda>_.
       claimHandlerCommon k (BatchSendToEthClaim msg) (BatchSendToEthClaim msg)))))"

definition msg_ERC20DeployedClaim :: "'x Keeper \<Rightarrow> MsgERC20DeployedClaim \<Rightarrow> ('x, unit) gop" where
  "msg_ERC20DeployedClaim k msg =
     bind (RequireBridgeActive k) (\<lambda>_.
     bind (check (Wrap (ValidateStrictDenom k (ED_CosmosDenom msg)) ''invalid cosmos denom in ERC20 deployed claim'')) (\<lambda>_.
     bind (wrapErr ''Could not check orchestrator validator in set'' (checkOrchestratorValidatorInSet k (ED_Orchestrator msg))) (\<lambda>_.
     bind (requireContract k (ED_TokenContract msg) ''failed to classify ERC20 in ERC20DeployedClaim''
             ''token not whitelisted for DeployErc20'') (\<lambda>_.
       claimHandlerCommon k (ERC20DeployedClaim msg) (ERC20DeployedClaim msg)))))"

definition msg_LogicCallExecutedClaim :: "'x Keeper \<Rightarrow> MsgLogicCallExecutedClaim \<Rightarrow> ('x, unit) gop" where
  "msg_LogicCallExecutedClaim k msg =
     bind (RequireBridgeActive k) (\<lambda>_.
     bind (wrapErr ''Could not check orchestrator validator in set'' (checkOrchestratorValidatorInSet k (LCE_Orchestrator msg))) (\<lambda>_.
       claimHandlerCommon k (LogicCallExecutedClaim msg) (LogicCallExecutedClaim msg)))"

definition ValsetUpdateClaim :: "'x Keeper \<Rightarrow> MsgValsetUpdatedClaim \<Rightarrow> ('x, unit) gop" where
  "ValsetUpdateClaim k msg =
     bind (RequireBridgeActive k) (\<lambda>_.
     bind (wrapErr ''Could not check orchestrator validator in set'' (checkOrchestratorValidatorInSet k (VU_Orchestrator msg))) (\<lambda>_.
       claimHandlerCommon k (ValsetUpdatedClaim msg) (ValsetUpdatedClaim msg)))"

section \<open>Forwards and evidence\<close>

definition ExecuteIbcAutoForwards :: "'x Keeper \<Rightarrow> MsgExecuteIbcAutoForwards \<Rightarrow> ('x, unit) gop" where
  "ExecuteIbcAutoForwards k msg = ProcessPendingIbcAutoForwards k (ForwardsToClear msg)"

definition SubmitBadSignatureEvidence :: "'x Keeper \<Rightarrow> MsgSubmitBadSignatureEvidence \<Rightarrow> ('x, unit) gop" where
  "SubmitBadSignatureEvidence k msg = CheckBadSignatureEvidence k msg"

section \<open>Reading does not write\<close>

lemma keeps_checkDuplicateKeys [keeps_rules]: "keeps I (checkDuplicateKeys k e orch keys)"
  by (induction keys) (simp_all add: keeps_constructors keeps_fail)

lemma keeps_message_readers [keeps_rules]:
  "keeps I (confirmHandlerCommon k a orch sig cp)" "keeps I (accAddress k s)"
  "keeps I (requireWhitelisted k origin d m)" "keeps I (ethContract k s)" "keeps I (minChainFee k x b)" "keeps I (derefERC20 origin)"
  "keeps I (checkOrchestratorValidatorInSet k o')" "keeps I (requireContract k t m n)" "keeps I (additionalPatchChecks k batch)"
  "keeps I (requireAuthority k t)" "keeps I (RequireBridgeActive k)"
  unfolding confirmHandlerCommon_def accAddress_def requireWhitelisted_def ethContract_def minChainFee_def derefERC20_def
    checkOrchestratorValidatorInSet_def requireContract_def additionalPatchChecks_def requireAuthority_def Dec_MulInt64_def
    RequireBridgeActive_def
  by (intro keeps_rules)+

lemma keeps_confirm_readers [keeps_rules]:
  "keeps I (GetValsetConfirm k n a)" "keeps I (GetBatchConfirm k m t a)" "keeps I (GetLogicCallConfirm k i m a)" "keeps I (logicConfirmKey k i m a)"
  "keeps I (valsetConfirmKey k n a)" "keeps I (batchConfirmKey k t m a)" "keeps I (GetParamsIfSet k)"
  unfolding GetValsetConfirm_def GetBatchConfirm_def GetLogicCallConfirm_def logicConfirmKey_def valsetConfirmKey_def batchConfirmKey_def
    GetParamsIfSet_def
  by (intro keeps_rules)+

end
