(* ===== verification/GovWitnesses.thy ===== *)
theory GovWitnesses
  imports BlockWitnesses AuctionWitnesses MsgServer
begin

text \<open>The theorems about governance, applied to the concrete instance of \<open>DemoChain\<close>.\<close>

section \<open>Proposals\<close>

lemma HandleUnhaltBridgeProposal_correct_witness:
  "\<exists>c'. HandleUnhaltBridgeProposal demo \<lparr>TargetNonce = 1\<rparr> disputed = Ok () c' \<and> oracle_ok demo c'"
  using HandleUnhaltBridgeProposal_correct [OF bech32_laws_demo disputed_ok] by blast

text \<open>A community pool that can pay.\<close>

definition endowed :: "bank Keeper" where
  "endowed = demo\<lparr>FeePool_Get := (\<lambda>_. Inr [(''ugraviton'', 90 * Dec_one)]),
     DecCoins_SafeSub := (\<lambda>a b. ([(''ugraviton'', 20 * Dec_one)], False))\<rparr>"

lemma endowed_laws: "bank_laws endowed" "bank_error_laws endowed" "coin_laws endowed"
proof -
  have "moved endowed = moved demo"
    by (simp add: fun_eq_iff moved_def endowed_def)
  then show "bank_laws endowed" "bank_error_laws endowed" "coin_laws endowed"
    using bank_laws_demo bank_error_laws_demo coin_laws_demo
    by (simp_all add: bank_laws_def bank_error_laws_def coin_laws_def endowed_def)
qed

definition airdrop :: AirdropProposal where
  "airdrop = \<lparr>Airdrop_Denom = ''ugraviton'', Recipients = replicate 20 1, Amounts = [30]\<rparr>"

definition pool_ctx :: "bank ctx" where
  "pool_ctx = demo_ctx\<lparr>others := [((demo_module ''distribution'', ''ugraviton''), 90)]\<rparr>"

lemma demo_GetSupply [simp]:
  "GetSupply demo x d = \<lparr>Coin_Denom = d, Coin_Amount = sum_list (map snd (filter (\<lambda>e. snd (fst e) = d) (kv_asc x)))\<rparr>"
  by (simp add: demo_def)

lemma endowed_simps [simp]:
  "FeePool_Get endowed x = Inr [(''ugraviton'', 90 * Dec_one)]" "ValidateDenom endowed = demo_denom"
  "DecCoins_SafeSub endowed = (\<lambda>a b. ([(''ugraviton'', 20 * Dec_one)], False))" "IntFits endowed = IntFits demo"
  "DecCoins_AmountOf endowed = DecCoins_AmountOf demo" "FeePool_Set endowed = FeePool_Set demo" "Coin_IsValid endowed = Coin_IsValid demo"
  "NewCoins endowed = NewCoins demo" "DecFits endowed = DecFits demo" "GetSupply endowed = GetSupply demo"
  "SendCoinsFromModuleToAccount endowed = SendCoinsFromModuleToAccount demo"
  by (simp_all add: endowed_def)

lemma demo_pool [simp]:
  "DecCoins_AmountOf demo cs d = sum_list (map snd (filter (\<lambda>e. fst e = d) cs))" "FeePool_Set demo cs = return ()"
  "DecFits demo i \<longleftrightarrow> \<bar>i\<bar> < 2 ^ 316"
  by (simp_all add: demo_def)

lemma strict_denoms [simp]:
  "ValidateStrictDenom k ''ugraviton'' = None" "demo_denom ''ugraviton'' = None"
  "ValidateStrictDenom k ''uatom'' = None" "demo_denom ''uatom'' = None"
  by (simp_all add: ValidateStrictDenom_def demo_denom_def isASCII_def HasPrefix_def MaxDenomLength_def AttestationSeparator_def
      GravityDenomPrefix_def Gravity2DenomPrefix_def)

lemma airdrop_fields [simp]: "Airdrop_Denom airdrop = ''ugraviton''" "Recipients airdrop = replicate 20 1" "Amounts airdrop = [30]"
  by (simp_all add: airdrop_def)

lemma airdrop_chunks [simp]: "parseRecipients (Suc 0) (replicate 20 1) = [replicate 20 1]"
  by simp

lemma recipient_less [simp]: "replicate 20 (1 :: byte) \<noteq> 100 # xs" "100 # xs \<noteq> replicate 20 (1 :: byte)" "replicate 20 (1 :: byte) < 100 # xs"
proof -
  have "replicate 20 (1 :: byte) = 1 # replicate 19 1"
    by (simp add: numeral_eq_Suc)
  then show "replicate 20 (1 :: byte) \<noteq> 100 # xs" "100 # xs \<noteq> replicate 20 (1 :: byte)" "replicate 20 (1 :: byte) < 100 # xs"
    by simp_all
qed

lemma pool_ctx_bank [simp]: "others pool_ctx = [((demo_module ''distribution'', ''ugraviton''), 90)]"
  by (simp add: pool_ctx_def)

lemma airdrop_bank:
  "demo_move (Some (demo_module ''distribution'')) (Some (replicate 20 1)) [\<lparr>Coin_Denom = ''ugraviton'', Coin_Amount = 30\<rparr>]
     [((demo_module ''distribution'', ''ugraviton''), 90)] =
   Ok () [((replicate 20 1, ''ugraviton''), 30), ((demo_module ''distribution'', ''ugraviton''), 60)]"
  by (simp add: demo_move_def debit_def credit_def demo_module_def bytes_of_string_def demo_exec)

lemma airdrop_sent:
  "sendAirdrop endowed ''ugraviton'' (replicate 20 1, 30) 0 pool_ctx =
     Ok (30 * Dec_one) (pool_ctx\<lparr>others := [((replicate 20 1, ''ugraviton''), 30), ((demo_module ''distribution'', ''ugraviton''), 60)]\<rparr>)"
proof -
  have "\<bar>30 * Dec_one\<bar> < 2 ^ 316"
    by (simp add: Dec_one_def)
  then show ?thesis
    by (simp add: sendAirdrop_def Dec_Add_def Dec_FromInt_def Let_def airdrop_bank NewCoin_def sdk_NewCoins_def demo_valid_def bind_def liftX_def)
qed

lemma HandleAirdropProposal_pays_witness:
  "\<exists>u c'. HandleAirdropProposal endowed airdrop pool_ctx = Ok u c' \<and> balance endowed c' (replicate 20 1) ''ugraviton'' = 30"
proof -
  have "is_Ok (HandleAirdropProposal endowed airdrop pool_ctx)"
    by (simp add: HandleAirdropProposal_def Let_def bind_def wrapErr_def mapErr_def liftX_def Int_Add_def NewCoin_def demo_valid_def
        airdrop_sent Wrap_def Dec_FromInt_def Dec_one_def kv_eval)
  then obtain u c' where run: "HandleAirdropProposal endowed airdrop pool_ctx = Ok u c'"
    by (rule is_OkE)
  have "balance endowed c' (replicate 20 1) ''ugraviton'' =
      balance endowed pool_ctx (replicate 20 1) ''ugraviton'' + (airdrop_share airdrop (replicate 20 1) -
        (if replicate 20 1 = GetModuleAddress endowed ''distribution'' then airdrop_total airdrop else 0))"
    using HandleAirdropProposal_pays [OF endowed_laws run] by simp
  also have "\<dots> = 30"
    by (simp add: balance_def endowed_def pool_ctx_def airdrop_share_def demo_def demo_module_def bytes_of_string_def)
  finally show ?thesis
    using run by blast
qed

text \<open>A bank module that knows the metadata of one denom.\<close>

definition atom :: Metadata where
  "atom = \<lparr>Description = [], DenomUnits = [], Base = ''uatom'', Display = ''atom'', Meta_Name = ''Atom'', Meta_Symbol = ''ATOM'',
     Meta_URI = [], Meta_URIHash = []\<rparr>"

definition registry :: "bank Keeper" where
  "registry = demo\<lparr>GetDenomMetaData := (\<lambda>x d. if d = ''uatom'' \<and> kv_get x ([9], ''meta'') = Some 1 then Some atom else None),
     SetDenomMetaData := (\<lambda>m. if m = atom then modify (kv_set ([9], ''meta'') 1) else panic ''unknown metadata'')\<rparr>"

lemma atom_base [simp]: "Base atom = ''uatom''"
  by (simp add: atom_def)

lemma registry_laws: "metadata_laws registry"
  by (auto simp: metadata_laws_def registry_def split: if_splits)

lemma registry_simps [simp]:
  "GetSupply registry = GetSupply demo" "Metadata_Validate registry m = None" "SetDenomMetaData registry atom = modify (kv_set ([9], ''meta'') 1)"
  "GetDenomMetaData registry x d = (if d = ''uatom'' \<and> kv_get x ([9], ''meta'') = Some 1 then Some atom else None)"
  by (simp_all add: registry_def demo_def)

definition listing_ctx :: "bank ctx" where
  "listing_ctx = demo_ctx\<lparr>others := [(([2], ''uatom''), 50)]\<rparr>"

lemma bridgeable_token_proposals_witness:
  "\<exists>u c'. GravityProposalHandler registry (SetCosmosBridgeableTokens [atom]) listing_ctx = Ok u c' \<and>
     assertMetadataWhitelisted registry ''uatom'' c' = Ok atom c'"
proof -
  have "is_Ok (GravityProposalHandler registry (SetCosmosBridgeableTokens [atom]) listing_ctx)"
    by (simp add: GravityProposalHandler_def HandleSetCosmosBridgeableTokensProposal_def setBridgeableToken_def listing_ctx_def
        GetCosmosBridgeableToken_def SetCosmosBridgeableToken_def getCosmosOriginatedERC20ForDenom_def metadataEqual_def
        assertCosmosBridgeableTokensConsistent_def GetAllTokens_run Wrap_def HasPrefix_def GravityDenomPrefix_def demo_exec)
  then obtain u c' where run: "GravityProposalHandler registry (SetCosmosBridgeableTokens [atom]) listing_ctx = Ok u c'"
    by (rule is_OkE)
  have "allowlist_ok registry listing_ctx"
    by (simp add: allowlist_ok_def listing_ctx_def kv_eval)
  from bridgeable_token_proposals [OF registry_laws this run] run show ?thesis
    by auto
qed

section \<open>Parameters\<close>

lemma demo_params_valid: "Params_ValidateBasic demo demo_params = None"
  by (simp add: Params_ValidateBasic_def demo_params_def firstError_None validateGravityID_def strToFixByteArray_def
      validateBridgeContractAddress_def validateTargetBatchTimeout_def validateAverageBlockTime_def
      validateAverageEthereumBlockTime_def validateValsetRewardAmount_def validateMinChainFeeBasisPoints_def
      validateChainFeeAuctionPoolFraction_def ifError_def Wrap_def Dec_one_def)


lemma empty_bridge_address_accepted_witness:
  "\<exists>c'. UpdateParamsProposal demo (GetAuthority demo) [\<lparr>Param_Key = ''BridgeEthereumAddress'', Param_Value = []\<rparr>] demo_ctx = Ok () c' \<and>
     GetBridgeContractAddress demo c' = Panic ''failed to parse bridge ethereum address''"
  using empty_bridge_address_accepted [OF demo_ctx_fields(30) demo_params_valid] by blast

end
