(* ===== verification/Spec2Isabelle.thy ===== *)
theory Spec2Isabelle
  imports GovWitnesses
begin

text \<open>
  A verification development for the Gravity Bridge Cosmos module (\<open>module/x/gravity\<close>).
\<close>

end
